(* ===== verification/Go_Regexp.thy ===== *)
theory Go_Regexp
  imports Aleph_Prelude
begin

text \<open>
  The regular expressions of Go's package \<^verbatim>\<open>regexp\<close>, as far as the patterns of the
  repository use them: byte classes, concatenation, alternation, repetition, the empty
  assertions \<^verbatim>\<open>^\<close>, \<^verbatim>\<open>$\<close> (start and end of the text; \<open>LineB\<close> is \<^verbatim>\<open>^\<close> under \<^verbatim>\<open>(?m)\<close>, the start of a
  line) and the word boundary \<^verbatim>\<open>\b\<close>. The meaning is the relation \<open>re_matches\<close>, with the text before and after
  the match as context; \<open>MatchString\<close> is an executable matcher for it, and
  \<open>MatchString_iff\<close> says that they agree. The matcher lists its matches in the order of
  preference of the package (leftmost-first, repetitions greedy), so that \<open>FindAllString\<close> and
  \<open>ReplaceAllStringFunc\<close> can take the first. The flag \<^verbatim>\<open>(?i)\<close> is compiled into the classes.
\<close>

section \<open>Syntax\<close>

datatype re =
    Eps
  | Cls "char \<Rightarrow> bool"
  | Seq re re
  | Alt re re
  | Star re
  | Bol
  | LineB
  | Eol
  | WordB

definition word_boundary :: "string \<Rightarrow> string \<Rightarrow> bool" where
  "word_boundary pre post \<longleftrightarrow>
     ((pre \<noteq> [] \<and> is_word_char (hd pre)) \<noteq> (post \<noteq> [] \<and> is_word_char (hd post)))"

section \<open>Meaning\<close>

text \<open>
  \<open>re_matches r pre v post\<close>: \<open>r\<close> matches \<open>v\<close> where \<open>pre\<close> is the text before it, reversed,
  and \<open>post\<close> the text after it.
\<close>

inductive re_matches :: "re \<Rightarrow> string \<Rightarrow> string \<Rightarrow> string \<Rightarrow> bool" where
  eps: "re_matches Eps pre [] post"
| cls: "p c \<Longrightarrow> re_matches (Cls p) pre [c] post"
| seq: "re_matches r pre v (w @ post) \<Longrightarrow> re_matches q (rev v @ pre) w post \<Longrightarrow>
     re_matches (Seq r q) pre (v @ w) post"
| alt1: "re_matches r pre v post \<Longrightarrow> re_matches (Alt r q) pre v post"
| alt2: "re_matches q pre v post \<Longrightarrow> re_matches (Alt r q) pre v post"
| star0: "re_matches (Star r) pre [] post"
| star1: "re_matches r pre v (w @ post) \<Longrightarrow> v \<noteq> [] \<Longrightarrow> re_matches (Star r) (rev v @ pre) w post \<Longrightarrow>
     re_matches (Star r) pre (v @ w) post"
| bol: "re_matches Bol [] [] post"
| lineb: "pre = [] \<or> hd pre = NL \<Longrightarrow> re_matches LineB pre [] post"
| eol: "re_matches Eol pre [] []"
| wordb: "word_boundary pre post \<Longrightarrow> re_matches WordB pre [] post"

inductive_cases re_matchesE:
  "re_matches Eps pre v post"
  "re_matches (Cls p) pre v post"
  "re_matches (Seq r q) pre v post"
  "re_matches (Alt r q) pre v post"
  "re_matches Bol pre v post"
  "re_matches LineB pre v post"
  "re_matches Eol pre v post"
  "re_matches WordB pre v post"

section \<open>An executable matcher\<close>

type_synonym re_pos = "string \<times> string"

fun star_steps :: "(re_pos \<Rightarrow> re_pos list) \<Rightarrow> nat \<Rightarrow> re_pos \<Rightarrow> re_pos list" where
  "star_steps f 0 st = [st]"
| "star_steps f (Suc n) st =
     concat (map (star_steps f n) (filter (\<lambda>st'. length (snd st') < length (snd st)) (f st))) @ [st]"

primrec re_step :: "re \<Rightarrow> re_pos \<Rightarrow> re_pos list" where
  "re_step Eps st = [st]"
| "re_step (Cls p) st =
     (case snd st of [] \<Rightarrow> [] | c # s \<Rightarrow> if p c then [(c # fst st, s)] else [])"
| "re_step (Seq r q) st = concat (map (re_step q) (re_step r st))"
| "re_step (Alt r q) st = re_step r st @ re_step q st"
| "re_step (Star r) st = star_steps (re_step r) (length (snd st)) st"
| "re_step Bol st = (if fst st = [] then [st] else [])"
| "re_step LineB st = (if fst st = [] \<or> hd (fst st) = NL then [st] else [])"
| "re_step Eol st = (if snd st = [] then [st] else [])"
| "re_step WordB st = (if word_boundary (fst st) (snd st) then [st] else [])"

fun re_search :: "re \<Rightarrow> string \<Rightarrow> string \<Rightarrow> bool" where
  "re_search r pre [] \<longleftrightarrow> re_step r (pre, []) \<noteq> []"
| "re_search r pre (c # s) \<longleftrightarrow> re_step r (pre, c # s) \<noteq> [] \<or> re_search r (c # pre) s"

definition MatchString :: "re \<Rightarrow> string \<Rightarrow> bool" where
  "MatchString r s \<longleftrightarrow> re_search r [] s"

text \<open>
  Finding and replacing all matches, for patterns that match no empty text: \<open>k\<close> counts the bytes of the last match
  still to be passed over, \<open>pre\<close> is the text before, reversed.
\<close>

definition match_at :: "re \<Rightarrow> string \<Rightarrow> string \<Rightarrow> string option" where
  "match_at r pre s =
    (case re_step r (pre, s) of
       [] \<Rightarrow> None
     | st # _ \<Rightarrow> let m = take (length s - length (snd st)) s in if m = [] then None else Some m)"

fun find_all_from :: "re \<Rightarrow> nat \<Rightarrow> string \<Rightarrow> string \<Rightarrow> string list" where
  "find_all_from r k pre [] = []"
| "find_all_from r (Suc k) pre (c # s) = find_all_from r k (c # pre) s"
| "find_all_from r 0 pre (c # s) =
    (case match_at r pre (c # s) of
       None \<Rightarrow> find_all_from r 0 (c # pre) s
     | Some m \<Rightarrow> m # find_all_from r (length m - 1) (c # pre) s)"

definition FindAllString :: "re \<Rightarrow> string \<Rightarrow> string list" where
  "FindAllString r s = find_all_from r 0 [] s"

fun replace_all_from :: "re \<Rightarrow> (string \<Rightarrow> string) \<Rightarrow> nat \<Rightarrow> string \<Rightarrow> string \<Rightarrow> string" where
  "replace_all_from r f k pre [] = []"
| "replace_all_from r f (Suc k) pre (c # s) = replace_all_from r f k (c # pre) s"
| "replace_all_from r f 0 pre (c # s) =
    (case match_at r pre (c # s) of
       None \<Rightarrow> c # replace_all_from r f 0 (c # pre) s
     | Some m \<Rightarrow> f m @ replace_all_from r f (length m - 1) (c # pre) s)"

definition ReplaceAllStringFunc :: "re \<Rightarrow> string \<Rightarrow> (string \<Rightarrow> string) \<Rightarrow> string" where
  "ReplaceAllStringFunc r s f = replace_all_from r f 0 [] s"

text \<open>The start of the leftmost match.\<close>

fun find_index_from :: "re \<Rightarrow> string \<Rightarrow> string \<Rightarrow> nat option" where
  "find_index_from r pre [] = (if re_step r (pre, []) \<noteq> [] then Some 0 else None)"
| "find_index_from r pre (c # s) =
    (if re_step r (pre, c # s) \<noteq> [] then Some 0 else map_option Suc (find_index_from r (c # pre) s))"

definition FindStringIndex :: "re \<Rightarrow> string \<Rightarrow> nat option" where
  "FindStringIndex r s = find_index_from r [] s"

section \<open>Derived forms\<close>

definition Plus :: "re \<Rightarrow> re" where "Plus r = Seq r (Star r)"
definition Opt :: "re \<Rightarrow> re" where "Opt r = Alt r Eps"

fun Rep :: "nat \<Rightarrow> re \<Rightarrow> re" where
  "Rep 0 r = Eps"
| "Rep (Suc n) r = Seq r (Rep n r)"

fun UpTo :: "nat \<Rightarrow> re \<Rightarrow> re" where
  "UpTo 0 r = Eps"
| "UpTo (Suc n) r = Opt (Seq r (UpTo n r))"

fun Lit :: "string \<Rightarrow> re" where
  "Lit [] = Eps"
| "Lit (c # s) = Seq (Cls (\<lambda>d. d = c)) (Lit s)"

text \<open>A literal under \<^verbatim>\<open>(?i)\<close>.\<close>

fun LitI :: "string \<Rightarrow> re" where
  "LitI [] = Eps"
| "LitI (c # s) = Seq (Cls (\<lambda>d. lower_char d = lower_char c)) (LitI s)"

fun Alts :: "re list \<Rightarrow> re" where
  "Alts [] = Cls (\<lambda>_. False)"
| "Alts [r] = r"
| "Alts (r # q # rs) = Alt r (Alts (q # rs))"

fun Seqs :: "re list \<Rightarrow> re" where
  "Seqs [] = Eps"
| "Seqs [r] = r"
| "Seqs (r # q # rs) = Seq r (Seqs (q # rs))"

definition re_space :: "char \<Rightarrow> bool" where
  \<comment> \<open>the class \<^verbatim>\<open>\s\<close> of Go: tab, newline, form feed, carriage return, blank (no vertical tab)\<close>
  "re_space c \<longleftrightarrow> c = CHR '' '' \<or> c = TAB \<or> c = NL \<or> c = CHR 0x0C \<or> c = CR"

definition Sp :: re where "Sp = Cls re_space"
definition Wd :: re where "Wd = Cls is_word_char"
definition Dot :: re where "Dot = Cls (\<lambda>c. c \<noteq> NL)"

definition OneOf :: "string \<Rightarrow> re" where "OneOf cs = Cls (\<lambda>c. c \<in> set cs)"
definition NoneOf :: "string \<Rightarrow> re" where "NoneOf cs = Cls (\<lambda>c. c \<notin> set cs)"

section \<open>The matcher computes the relation\<close>

lemma star_steps_sound:
  assumes "\<And>st st'. st' \<in> set (f st) \<Longrightarrow>
      \<exists>v. snd st = v @ snd st' \<and> fst st' = rev v @ fst st \<and> re_matches r (fst st) v (snd st')"
    and "st' \<in> set (star_steps f n st)"
  shows "\<exists>v. snd st = v @ snd st' \<and> fst st' = rev v @ fst st \<and> re_matches (Star r) (fst st) v (snd st')"
  using assms(2)
proof (induction n arbitrary: st)
  case 0
  then show ?case by (auto intro: re_matches.star0)
next
  case (Suc n)
  show ?case
  proof (cases "st' = st")
    case True
    then show ?thesis by (auto intro: re_matches.star0)
  next
    case False
    with Suc.prems obtain st1 where st1: "st1 \<in> set (f st)" "length (snd st1) < length (snd st)"
      and rest: "st' \<in> set (star_steps f n st1)" by auto
    from assms(1) [OF st1(1)] obtain v where
      v: "snd st = v @ snd st1" "fst st1 = rev v @ fst st" "re_matches r (fst st) v (snd st1)"
      by blast
    from Suc.IH [OF rest] obtain w where
      w: "snd st1 = w @ snd st'" "fst st' = rev w @ fst st1" "re_matches (Star r) (fst st1) w (snd st')"
      by blast
    from v st1(2) have "v \<noteq> []" by auto
    with v w have "re_matches (Star r) (fst st) (v @ w) (snd st')"
      by (intro re_matches.star1) simp_all
    with v w show ?thesis by (intro exI [of _ "v @ w"]) simp
  qed
qed

lemma re_step_sound:
  "st' \<in> set (re_step r st) \<Longrightarrow>
     \<exists>v. snd st = v @ snd st' \<and> fst st' = rev v @ fst st \<and> re_matches r (fst st) v (snd st')"
proof (induction r arbitrary: st st')
  case (Seq r q)
  then obtain st1 where "st1 \<in> set (re_step r st)" "st' \<in> set (re_step q st1)" by auto
  with Seq.IH obtain v w where
    "snd st = v @ snd st1" "fst st1 = rev v @ fst st" "re_matches r (fst st) v (snd st1)"
    "snd st1 = w @ snd st'" "fst st' = rev w @ fst st1" "re_matches q (fst st1) w (snd st')"
    by meson
  then show ?case
    by (intro exI [of _ "v @ w"]) (simp add: re_matches.seq)
next
  case (Star r)
  then show ?case
    using star_steps_sound [where f = "re_step r" and r = r] by simp
next
  case (Alt r q)
  then consider "st' \<in> set (re_step r st)" | "st' \<in> set (re_step q st)" by auto
  then show ?case
    by cases (use Alt.IH re_matches.alt1 re_matches.alt2 in meson)+
qed (auto intro: re_matches.intros split: list.splits if_splits)

lemma star_steps_complete:
  assumes step: "\<And>pre v post. re_matches r pre v post \<Longrightarrow> (rev v @ pre, post) \<in> set (f (pre, v @ post))"
    and "re_matches (Star r) pre v post"
  shows "length v \<le> n \<Longrightarrow> (rev v @ pre, post) \<in> set (star_steps f n (pre, v @ post))"
  using assms(2)
proof (induction "Star r" pre v post arbitrary: n rule: re_matches.induct)
  case (star0 pre post)
  then show ?case by (cases n) simp_all
next
  case (star1 pre v w post)
  then obtain m where n: "n = Suc m" by (cases n) auto
  from star1.prems n star1.hyps(3) have "length w \<le> m" by (cases v) auto
  then have "(rev w @ rev v @ pre, post) \<in> set (star_steps f m (rev v @ pre, w @ post))"
    by (rule star1.hyps(5))
  moreover from step [OF star1.hyps(1)]
  have "(rev v @ pre, w @ post) \<in> set (f (pre, v @ w @ post))" by simp
  ultimately show ?case
    using star1.hyps(3) unfolding n by force
qed

lemma re_step_complete:
  "re_matches r pre v post \<Longrightarrow> (rev v @ pre, post) \<in> set (re_step r (pre, v @ post))"
proof (induction r arbitrary: pre v post)
  case (Seq r q)
  from Seq.prems show ?case
  proof (cases rule: re_matches.cases)
    case (seq v' w)
    with Seq.IH(1) [of pre v' "w @ post"] Seq.IH(2) [of "rev v' @ pre" w post] show ?thesis
      by force
  qed
next
  case (Star r)
  show ?case
    unfolding re_step.simps
    by (rule star_steps_complete [OF Star.IH Star.prems]) simp_all
qed (auto elim!: re_matchesE)

lemma re_step_iff:
  "re_step r (pre, s) \<noteq> [] \<longleftrightarrow> (\<exists>v post. s = v @ post \<and> re_matches r pre v post)"
proof
  assume "re_step r (pre, s) \<noteq> []"
  then obtain st where "st \<in> set (re_step r (pre, s))" by (cases "re_step r (pre, s)") auto
  from re_step_sound [OF this] show "\<exists>v post. s = v @ post \<and> re_matches r pre v post" by auto
next
  assume "\<exists>v post. s = v @ post \<and> re_matches r pre v post"
  then show "re_step r (pre, s) \<noteq> []" using re_step_complete by (metis empty_iff empty_set)
qed

lemma re_search_iff:
  "re_search r pre s \<longleftrightarrow> (\<exists>u v post. s = u @ v @ post \<and> re_matches r (rev u @ pre) v post)"
proof (induction s arbitrary: pre)
  case Nil
  then show ?case using re_step_iff [of r pre "[]"] by simp
next
  case (Cons c s)
  have "re_search r pre (c # s) \<longleftrightarrow>
      (\<exists>v post. c # s = v @ post \<and> re_matches r pre v post) \<or>
      (\<exists>u v post. s = u @ v @ post \<and> re_matches r (rev u @ c # pre) v post)"
    using re_step_iff [of r pre "c # s"] Cons.IH by simp
  also have "\<dots> \<longleftrightarrow> (\<exists>u v post. c # s = u @ v @ post \<and> re_matches r (rev u @ pre) v post)"
    (is "?l1 \<or> ?l2 \<longleftrightarrow> ?r")
  proof
    show "?l1 \<or> ?l2 \<Longrightarrow> ?r"
    proof (elim disjE exE conjE)
      fix v post assume "c # s = v @ post" "re_matches r pre v post"
      then show ?r by (intro exI [of _ "[]"] exI [of _ v] exI [of _ post]) simp
    next
      fix u v post assume "s = u @ v @ post" "re_matches r (rev u @ c # pre) v post"
      then show ?r by (intro exI [of _ "c # u"] exI [of _ v] exI [of _ post]) simp
    qed
    show "?r \<Longrightarrow> ?l1 \<or> ?l2"
    proof (elim exE conjE)
      fix u v post assume "c # s = u @ v @ post" "re_matches r (rev u @ pre) v post"
      then show "?l1 \<or> ?l2" by (cases u) auto
    qed
  qed
  finally show ?case .
qed

theorem MatchString_iff:
  "MatchString r s \<longleftrightarrow> (\<exists>u v post. s = u @ v @ post \<and> re_matches r (rev u) v post)"
  by (simp add: MatchString_def re_search_iff)

section \<open>Matches of the derived forms\<close>

named_theorems re_match_simps \<open>what each form of pattern matches\<close>

inductive_simps re_matches_Eps [re_match_simps]: "re_matches Eps pre v post"
inductive_simps re_matches_Cls [re_match_simps]: "re_matches (Cls p) pre v post"
inductive_simps re_matches_Seq: "re_matches (Seq r q) pre v post"
inductive_simps re_matches_Alt [re_match_simps]: "re_matches (Alt r q) pre v post"
inductive_simps re_matches_Bol [re_match_simps]: "re_matches Bol pre v post"
inductive_simps re_matches_LineB [re_match_simps]: "re_matches LineB pre v post"
inductive_simps re_matches_Eol [re_match_simps]: "re_matches Eol pre v post"
inductive_simps re_matches_WordB [re_match_simps]: "re_matches WordB pre v post"

lemma re_matches_Seq_iff [re_match_simps]:
  "re_matches (Seq r q) pre v post \<longleftrightarrow>
     (\<exists>v1 v2. v = v1 @ v2 \<and> re_matches r pre v1 (v2 @ post) \<and> re_matches q (rev v1 @ pre) v2 post)"
  by (auto simp: re_matches_Seq)

lemma re_matches_Seq_Cls:
  "re_matches (Seq (Cls p) q) pre v post \<longleftrightarrow>
     (\<exists>c w. v = c # w \<and> p c \<and> re_matches q (c # pre) w post)"
proof
  assume "\<exists>c w. v = c # w \<and> p c \<and> re_matches q (c # pre) w post"
  then obtain c w where "v = [c] @ w" "p c" "re_matches q (rev [c] @ pre) w post" by auto
  then show "re_matches (Seq (Cls p) q) pre v post"
    unfolding re_matches_Seq_iff re_matches_Cls by blast
qed (auto simp: re_matches_Seq_iff re_matches_Cls)

lemma re_matches_Opt [re_match_simps]:
  "re_matches (Opt r) pre v post \<longleftrightarrow> v = [] \<or> re_matches r pre v post"
  by (auto simp: Opt_def re_matches_Alt re_matches_Eps)

lemma re_matches_Star_Cls [re_match_simps]:
  "re_matches (Star (Cls p)) pre v post \<longleftrightarrow> list_all p v"
proof
  show "re_matches (Star (Cls p)) pre v post \<Longrightarrow> list_all p v"
    by (induction "Star (Cls p)" pre v post rule: re_matches.induct) (auto simp: re_matches_Cls)
  show "list_all p v \<Longrightarrow> re_matches (Star (Cls p)) pre v post"
  proof (induction v arbitrary: pre)
    case (Cons c v)
    then have "re_matches (Star (Cls p)) pre ([c] @ v) post"
      by (intro re_matches.star1) (auto intro: re_matches.cls)
    then show ?case by simp
  qed (simp add: re_matches.star0)
qed

lemma re_matches_Plus_Cls [re_match_simps]:
  "re_matches (Plus (Cls p)) pre v post \<longleftrightarrow> v \<noteq> [] \<and> list_all p v"
  by (cases v) (auto simp: Plus_def re_matches_Seq_Cls re_matches_Star_Cls)

lemma re_matches_UpTo_Cls [re_match_simps]:
  "re_matches (UpTo n (Cls p)) pre v post \<longleftrightarrow> length v \<le> n \<and> list_all p v"
proof (induction n arbitrary: pre v)
  case 0
  then show ?case by (auto simp: re_matches_Eps)
next
  case (Suc n)
  then show ?case
    by (cases v) (auto simp: re_matches_Opt re_matches_Seq_Cls)
qed

lemma re_matches_Rep_Cls [re_match_simps]:
  "re_matches (Rep n (Cls p)) pre v post \<longleftrightarrow> length v = n \<and> list_all p v"
proof (induction n arbitrary: pre v)
  case 0
  then show ?case by (auto simp: re_matches_Eps)
next
  case (Suc n)
  then show ?case
    by (cases v) (auto simp: re_matches_Seq_Cls)
qed

lemma re_matches_Lit [re_match_simps]: "re_matches (Lit s) pre v post \<longleftrightarrow> v = s"
  by (induction s arbitrary: pre v)
    (auto simp: re_matches_Eps re_matches_Seq_Cls)

lemma re_matches_LitI [re_match_simps]:
  "re_matches (LitI s) pre v post \<longleftrightarrow> ToLower v = ToLower s"
  by (induction s arbitrary: pre v)
    (auto simp: ToLower_def re_matches_Eps re_matches_Seq_Cls)

lemma re_matches_Alts [re_match_simps]:
  "re_matches (Alts rs) pre v post \<longleftrightarrow> (\<exists>r \<in> set rs. re_matches r pre v post)"
  by (induction rs rule: Alts.induct) (auto simp: re_matches_Alt re_matches_Cls)

lemma re_matches_Seqs_Cons:
  "re_matches (Seqs (r # rs)) pre v post \<longleftrightarrow>
     (\<exists>v1 v2. v = v1 @ v2 \<and> re_matches r pre v1 (v2 @ post) \<and> re_matches (Seqs rs) (rev v1 @ pre) v2 post)"
  by (cases rs) (auto simp: re_matches_Eps re_matches_Seq_iff)

lemma re_matches_Seqs_Nil [re_match_simps]: "re_matches (Seqs []) pre v post \<longleftrightarrow> v = []"
  by (auto simp: re_matches_Eps)

text \<open>A match of a pattern that is tied to both ends is a match of the whole text.\<close>

lemma MatchString_anchored:
  "MatchString (Seq Bol (Seq r Eol)) s \<longleftrightarrow> re_matches r [] s []"
  by (fastforce simp: MatchString_iff re_matches_Seq_iff re_matches_Bol re_matches_Eol)

end
