(* ===== verification/Sql_Lexer.thy ===== *)
theory Sql_Lexer
  imports Aleph_Prelude
begin

text \<open>
  The lexical structure of SQL, as a specification to judge generated statements by: quoted
  identifiers and string literals (a doubled quote stands for one quote), words and numbers,
  comments, and single symbols. \<open>lex\<close> reads a statement into tokens; \<open>lexes\<close> says that a
  fragment of a statement is read as a given list of tokens whatever separator follows it,
  and the rules of the collection \<open>lexing\<close> compose fragments. The locale \<open>sql_quoting\<close> is
  the contract of a quoting function: the reader of quoted text gets back exactly what was
  quoted.
\<close>

named_theorems lexing \<open>composition rules for fragments of SQL text\<close>

section \<open>Reading quoted text\<close>

text \<open>\<open>read_quoted q s\<close> reads up to the closing quote; \<^const>\<open>None\<close> if there is none.\<close>

fun read_quoted :: "char \<Rightarrow> string \<Rightarrow> (string \<times> string) option" where
  "read_quoted q [] = None"
| "read_quoted q (c # s) =
     (if c \<noteq> q then map_option (\<lambda>(w, r). (c # w, r)) (read_quoted q s)
      else (case s of
              [] \<Rightarrow> Some ([], [])
            | d # s' \<Rightarrow> if d = q then map_option (\<lambda>(w, r). (q # w, r)) (read_quoted q s')
                       else Some ([], s)))"

lemma read_quoted_length: "read_quoted q s = Some (w, r) \<Longrightarrow> length r < length s"
proof (induction q s arbitrary: w r rule: read_quoted.induct)
  case (2 q c s)
  then show ?case by (fastforce split: if_splits list.splits)
qed simp

section \<open>Tokens\<close>

datatype tok =
    TIdent string
  | TString string
  | TWord string
  | TSym char
  | TComment
  | TUnterminated

definition word_or_dot :: "char \<Rightarrow> bool" where
  "word_or_dot c \<longleftrightarrow> is_word_char c \<or> c = CHR ''.''"

fun skip_block :: "string \<Rightarrow> string" where
  "skip_block [] = []"
| "skip_block (c # s) = (if c = CHR ''*'' \<and> HasPrefix s ''/'' then tl s else skip_block s)"

lemma skip_block_length: "length (skip_block s) \<le> length s"
  by (induction s) auto

function lex :: "string \<Rightarrow> tok list" where
  "lex [] = []"
| "lex (c # s) =
     (if is_space c then lex s
      else if c = DQ then
        (case read_quoted DQ s of None \<Rightarrow> [TUnterminated] | Some (w, r) \<Rightarrow> TIdent w # lex r)
      else if c = SQ then
        (case read_quoted SQ s of None \<Rightarrow> [TUnterminated] | Some (w, r) \<Rightarrow> TString w # lex r)
      else if word_or_dot c then
        TWord (c # takeWhile word_or_dot s) # lex (dropWhile word_or_dot s)
      else if c = CHR ''-'' \<and> HasPrefix s ''-'' then
        TComment # lex (dropWhile (\<lambda>d. d \<noteq> NL) s)
      else if c = CHR ''/'' \<and> HasPrefix s ''*'' then
        TComment # lex (skip_block (tl s))
      else TSym c # lex s)"
  by pat_completeness auto
termination
proof (relation "measure length", goal_cases)
  case (7 c s)
  have "length (skip_block (tl s)) \<le> length s"
    using skip_block_length [of "tl s"] by simp
  then show ?case by (simp del: length_tl)
qed (auto simp: less_Suc_eq_le length_dropWhile_le dest: read_quoted_length)

declare lex.simps(2) [simp del]

lemma lex_space [simp]: "is_space c \<Longrightarrow> lex (c # s) = lex s"
  by (simp add: lex.simps)

lemma lex_quoted_ident:
  "read_quoted DQ s = Some (w, r) \<Longrightarrow> lex (DQ # s) = TIdent w # lex r"
  by (simp add: lex.simps(2) is_space_def code_def)

lemma lex_quoted_string:
  "read_quoted SQ s = Some (w, r) \<Longrightarrow> lex (SQ # s) = TString w # lex r"
  by (simp add: lex.simps(2) is_space_def code_def)

section \<open>Fragments\<close>

definition sep_char :: "char \<Rightarrow> bool" where
  "sep_char c \<longleftrightarrow> c \<in> set '' ,();'' \<or> c = NL"

definition at_sep :: "string \<Rightarrow> bool" where
  "at_sep s \<longleftrightarrow> s = [] \<or> sep_char (hd s)"

definition lexes :: "string \<Rightarrow> tok list \<Rightarrow> bool" where
  "lexes s ts \<longleftrightarrow> (\<forall>rest. at_sep rest \<longrightarrow> lex (s @ rest) = ts @ lex rest)"

definition lexes0 :: "string \<Rightarrow> tok list \<Rightarrow> bool" where
  "lexes0 s ts \<longleftrightarrow> (\<forall>rest. lex (s @ rest) = ts @ lex rest)"

lemma sep_char_facts:
  assumes "sep_char c"
  shows "\<not> word_or_dot c" "c \<noteq> DQ" "c \<noteq> SQ" "c \<noteq> CHR ''-''" "c \<noteq> CHR ''/''" "c \<noteq> CHR ''*''"
  using assms
  by (auto simp: sep_char_def word_or_dot_def is_word_char_def is_alpha_def is_lower_def is_upper_def
      is_digit_def code_def)

lemma at_sep_simps [simp]:
  "at_sep []" "at_sep (c # s) \<longleftrightarrow> sep_char c" "at_sep s \<Longrightarrow> s \<noteq> [] \<Longrightarrow> at_sep (s @ t)"
  by (auto simp: at_sep_def hd_append)

lemma sep_char_lits [simp]:
  "sep_char (CHR '' '')" "sep_char (CHR '','')" "sep_char (CHR ''('')" "sep_char (CHR '')'')"
  "sep_char (CHR '';'')" "sep_char NL"
  by (simp_all add: sep_char_def)

lemma lexes0_lexes [lexing]: "lexes0 s ts \<Longrightarrow> lexes s ts"
  by (simp add: lexes0_def lexes_def)

lemma lexes_lex: "lexes s ts \<Longrightarrow> lex s = ts"
  unfolding lexes_def by (metis append_Nil2 at_sep_simps(1) lex.simps(1))

lemma lexes0_Nil [lexing]: "lexes0 [] []"
  by (simp add: lexes0_def)

lemma lexes0_append [lexing]: "lexes0 s ts \<Longrightarrow> lexes0 t us \<Longrightarrow> lexes0 (s @ t) (ts @ us)"
  by (simp add: lexes0_def)

lemma lexes0_lexes_append [lexing]: "lexes0 s ts \<Longrightarrow> lexes t us \<Longrightarrow> lexes (s @ t) (ts @ us)"
  by (simp add: lexes0_def lexes_def)

lemma lexes_sep_append [lexing]:
  "lexes s ts \<Longrightarrow> lexes (c # t) us \<Longrightarrow> sep_char c \<Longrightarrow> lexes (s @ c # t) (ts @ us)"
  by (simp add: lexes_def)

lemma lexes_append_at_sep:
  "lexes s ts \<Longrightarrow> lexes t us \<Longrightarrow> at_sep t \<Longrightarrow> lexes (s @ t) (ts @ us)"
  by (cases t) (auto simp: lexes_def)

lemma lexes_lexes0_append:
  "lexes s ts \<Longrightarrow> lexes0 t us \<Longrightarrow> at_sep t \<Longrightarrow> t \<noteq> [] \<Longrightarrow> lexes0 (s @ t) (ts @ us)"
  by (simp add: lexes_def lexes0_def)

text \<open>The tokens of a list of fragments with a separator between them.\<close>

fun sep_by :: "tok list \<Rightarrow> tok list list \<Rightarrow> tok list" where
  "sep_by ss [] = []"
| "sep_by ss [ts] = ts"
| "sep_by ss (ts # us # tss) = ts @ ss @ sep_by ss (us # tss)"

lemma lexes_Join:
  assumes "list_all2 lexes xs tss" "lexes0 sep ss" "at_sep sep" "sep \<noteq> []"
  shows "lexes (Join xs sep) (sep_by ss tss)"
  using assms(1)
proof (induction xs tss rule: list_all2_induct)
  case Nil
  then show ?case by (simp add: lexes0_lexes lexes0_Nil)
next
  case (Cons x xs ts tss)
  show ?case
  proof (cases xs)
    case Nil
    with Cons show ?thesis by auto
  next
    case (Cons y ys)
    then obtain us uss where tss: "tss = us # uss" using \<open>list_all2 lexes xs tss\<close> by (auto simp: list_all2_Cons1)
    have "lexes0 (x @ sep) (ts @ ss)"
      using \<open>lexes x ts\<close> assms(2,3,4) by (rule lexes_lexes0_append)
    from lexes0_lexes_append [OF this \<open>lexes (Join xs sep) (sep_by ss tss)\<close>]
    show ?thesis by (simp add: Cons tss)
  qed
qed

lemma set_sep_by: "set (sep_by ss tss) \<subseteq> set ss \<union> \<Union> (set ` set tss)"
  by (induction ss tss rule: sep_by.induct) auto

section \<open>The contract of a quoting function\<close>

locale sql_quoting =
  fixes quot :: "string \<Rightarrow> string" and q :: char
  assumes quot_opens: "\<exists>body. quot s = q # body"
    and read_quot: "rest = [] \<or> hd rest \<noteq> q \<Longrightarrow> read_quoted q (tl (quot s) @ rest) = Some (s, rest)"
begin

lemma quot_inj: "quot s = quot t \<longleftrightarrow> s = t"
proof
  assume eq: "quot s = quot t"
  have "Some (s, []) = read_quoted q (tl (quot s) @ [])"
    by (rule read_quot [symmetric]) simp
  also have "\<dots> = Some (t, [])"
    unfolding eq by (rule read_quot) simp
  finally show "s = t" by simp
qed simp

text \<open>What follows the quoted text cannot change how it is read, and it cannot reach past its end.\<close>

lemma quot_delimits:
  "rest = [] \<or> hd rest \<noteq> q \<Longrightarrow> rest' = [] \<or> hd rest' \<noteq> q \<Longrightarrow>
     quot s @ rest = quot t @ rest' \<Longrightarrow> s = t \<and> rest = rest'"
proof -
  assume r: "rest = [] \<or> hd rest \<noteq> q" "rest' = [] \<or> hd rest' \<noteq> q"
    and eq: "quot s @ rest = quot t @ rest'"
  obtain b b' where "quot s = q # b" "quot t = q # b'" using quot_opens by meson
  with eq have "tl (quot s) @ rest = tl (quot t) @ rest'" by simp
  then have "Some (s, rest) = Some (t, rest')"
    unfolding read_quot [OF r(1), of s, symmetric] read_quot [OF r(2), of t, symmetric]
    by (rule arg_cong [where f = "read_quoted q"])
  then show ?thesis by simp
qed

lemma quot_lex_ident:
  "q = DQ \<Longrightarrow> rest = [] \<or> hd rest \<noteq> DQ \<Longrightarrow> lex (quot s @ rest) = TIdent s # lex rest"
proof -
  assume q: "q = DQ" "rest = [] \<or> hd rest \<noteq> DQ"
  obtain body where "quot s = q # body" using quot_opens by meson
  with read_quot [of rest s] q show ?thesis by (simp add: lex_quoted_ident)
qed

lemma quot_lex_string:
  "q = SQ \<Longrightarrow> rest = [] \<or> hd rest \<noteq> SQ \<Longrightarrow> lex (quot s @ rest) = TString s # lex rest"
proof -
  assume q: "q = SQ" "rest = [] \<or> hd rest \<noteq> SQ"
  obtain body where "quot s = q # body" using quot_opens by meson
  with read_quot [of rest s] q show ?thesis by (simp add: lex_quoted_string)
qed

lemma quot_lexes_ident: "q = DQ \<Longrightarrow> lexes (quot s) [TIdent s]"
  unfolding lexes_def by (metis at_sep_def quot_lex_ident sep_char_facts(2) append_Cons append_Nil)

lemma quot_lexes_string: "q = SQ \<Longrightarrow> lexes (quot s) [TString s]"
  unfolding lexes_def by (metis at_sep_def quot_lex_string sep_char_facts(3) append_Cons append_Nil)

end

text \<open>Doubling the quote inside and wrapping in quotes, the technique both quoting functions use.\<close>

lemma read_quoted_doubled:
  "rest = [] \<or> hd rest \<noteq> q \<Longrightarrow> read_quoted q (ReplaceAll s q [q, q] @ q # rest) = Some (s, rest)"
proof (induction s)
  case Nil
  then show ?case by (cases rest) auto
qed auto

end
