(* ===== verification/Safeident.thy ===== *)
theory Safeident
  imports Go_Regexp Sql_Lexer
begin

text \<open>
  Package \<^verbatim>\<open>internal/safeident\<close>: the checks an identifier or a file path passes before it is
  interpolated into SQL, and the two quoting functions. Both quoting functions are instances
  of the contract \<open>sql_quoting\<close>, so whatever they quote is read back by a SQL lexer as one
  token. Error messages carry the same arguments as the source formats into them.
\<close>

section \<open>Path cleaning, package filepath\<close>

text \<open>
  \<^verbatim>\<open>filepath.Clean\<close> on Unix: components are taken one by one, empty ones and \<^verbatim>\<open>.\<close> are
  dropped, \<^verbatim>\<open>..\<close> removes the component before it (kept at the start of a relative path, dropped
  at the root).
\<close>

fun clean_comps :: "bool \<Rightarrow> string list \<Rightarrow> string list \<Rightarrow> string list" where
  "clean_comps rooted out [] = rev out"
| "clean_comps rooted out (w # ws) =
     (if w = [] \<or> w = ''.'' then clean_comps rooted out ws
      else if w = ''..'' then
        (case out of
           [] \<Rightarrow> if rooted then clean_comps rooted [] ws else clean_comps rooted [w] ws
         | x # out' \<Rightarrow> if x = ''..'' then clean_comps rooted (w # out) ws
                      else clean_comps rooted out' ws)
      else clean_comps rooted (w # out) ws)"

definition Clean :: "string \<Rightarrow> string" where
  "Clean p =
     (if p = [] then ''.''
      else let rooted = (hd p = CHR ''/'');
               cs = clean_comps rooted [] (Split p (CHR ''/''))
           in if rooted then CHR ''/'' # Join cs ''/''
              else if cs = [] then ''.'' else Join cs ''/'')"

section \<open>Identifiers\<close>

definition identifierPattern :: re where
  "identifierPattern =
     Seq Bol (Seq (Seq (Cls (\<lambda>c. is_alpha c \<or> c = CHR ''_'')) (UpTo 63 Wd)) Eol)"

definition sqlKeywordBlacklist :: "string list" where
  "sqlKeywordBlacklist =
    [''SELECT'', ''INSERT'', ''UPDATE'', ''DELETE'',
     ''DROP'', ''CREATE'', ''ALTER'', ''TRUNCATE'',
     ''REPLACE'', ''RENAME'',
     ''FROM'', ''WHERE'', ''SET'', ''INTO'', ''VALUES'',
     ''GRANT'', ''REVOKE'',
     ''EXEC'', ''EXECUTE'', ''CALL'',
     ''TABLE'', ''VIEW'', ''INDEX'', ''DATABASE'',
     ''SCHEMA'', ''FUNCTION'', ''PROCEDURE'',
     ''TRIGGER'', ''SEQUENCE'',
     ''COPY'', ''ATTACH'', ''DETACH'',
     ''LOAD'', ''INSTALL'', ''UNINSTALL'',
     ''EXPORT'', ''IMPORT'',
     ''UNION'', ''INTERSECT'', ''EXCEPT'',
     ''PRAGMA'', ''SUMMARIZE'', ''DESCRIBE'',
     ''COMMIT'', ''ROLLBACK'', ''BEGIN'',
     ''TRUE'', ''FALSE'', ''NULL'',
     ''ORDER'', ''GROUP'', ''HAVING'', ''LIMIT'']"

datatype ident_error =
    EmptyIdent
  | IdentTooLong nat string
  | IdentInvalidChars string
  | IdentSpecialChars string
  | IdentKeyword string

definition has_sql_special :: "string \<Rightarrow> bool" where
  "has_sql_special s \<longleftrightarrow>
     Contains s '';'' \<or> Contains s ''--'' \<or> Contains s [SQ] \<or> Contains s [DQ] \<or>
     Contains s ''/*'' \<or> Contains s ''*/''"

definition ValidateIdentifier :: "string \<Rightarrow> ident_error + unit" where
  "ValidateIdentifier s =
     (if s = [] then Inl EmptyIdent
      else if length s > 64 then Inl (IdentTooLong (length s) s)
      else if \<not> MatchString identifierPattern s then Inl (IdentInvalidChars s)
      else if has_sql_special s then Inl (IdentSpecialChars s)
      else if ToUpper s \<in> set sqlKeywordBlacklist then Inl (IdentKeyword s)
      else Inr ())"

definition ValidateColumnName :: "string \<Rightarrow> ident_error + unit" where
  "ValidateColumnName s =
     (if s = [] then Inl EmptyIdent
      else if length s > 64 then Inl (IdentTooLong (length s) s)
      else if \<not> MatchString identifierPattern s then Inl (IdentInvalidChars s)
      else if has_sql_special s then Inl (IdentSpecialChars s)
      else Inr ())"

definition ValidateStrictIdentifier :: "string \<Rightarrow> ident_error + unit" where
  "ValidateStrictIdentifier s = ValidateIdentifier s"

section \<open>File paths\<close>

datatype path_error =
    EmptyPath
  | NotClean string
  | Traversal string
  | ForbiddenChar char string

definition forbidden_path_chars :: string where
  "forbidden_path_chars = '';|&$'' @ [BACKTICK] @ ''()<>'' @ [SQ, NL, CR]"

definition SanitizeFilePath :: "string \<Rightarrow> path_error + unit" where
  "SanitizeFilePath p =
     (if p = [] then Inl EmptyPath
      else if Clean p \<noteq> p then Inl (NotClean p)
      else if Contains p ''..'' then Inl (Traversal p)
      else case List.find (\<lambda>c. c \<in> set p) forbidden_path_chars of
             Some c \<Rightarrow> Inl (ForbiddenChar c p)
           | None \<Rightarrow> Inr ())"

section \<open>Quoting\<close>

definition QuoteIdentifier :: "string \<Rightarrow> string" where
  "QuoteIdentifier name = DQ # ReplaceAll name DQ [DQ, DQ] @ [DQ]"

definition QuoteStringLiteral :: "string \<Rightarrow> string" where
  "QuoteStringLiteral s = SQ # ReplaceAll s SQ [SQ, SQ] @ [SQ]"

interpretation qid: sql_quoting QuoteIdentifier DQ
  by unfold_locales (auto simp: QuoteIdentifier_def read_quoted_doubled)

interpretation qstr: sql_quoting QuoteStringLiteral SQ
  by unfold_locales (auto simp: QuoteStringLiteral_def read_quoted_doubled)

lemmas quote_lexing [lexing] =
  qid.quot_lexes_ident [OF refl] qstr.quot_lexes_string [OF refl]

section \<open>Facts on identifiers\<close>

definition plain_ident :: "string \<Rightarrow> bool" where
  "plain_ident s \<longleftrightarrow>
     s \<noteq> [] \<and> length s \<le> 64 \<and> \<not> is_digit (hd s) \<and> list_all is_word_char s"

lemma identifierPattern_iff: "MatchString identifierPattern s \<longleftrightarrow> plain_ident s"
proof (cases s)
  case Nil
  then show ?thesis
    by (simp add: identifierPattern_def MatchString_anchored re_matches_Seq_Cls plain_ident_def)
next
  case (Cons c w)
  have "is_alpha c \<or> c = CHR ''_'' \<longleftrightarrow> is_word_char c \<and> \<not> is_digit c"
    by (auto simp: is_word_char_def is_alpha_def is_lower_def is_upper_def is_digit_def code_def)
  with Cons show ?thesis
    by (auto simp: identifierPattern_def Wd_def MatchString_anchored re_matches_Seq_Cls
        re_matches_UpTo_Cls plain_ident_def)
qed

lemma word_chars_not_special:
  "list_all is_word_char s \<Longrightarrow> \<not> has_sql_special s"
proof -
  assume "list_all is_word_char s"
  then have "c \<in> set s \<Longrightarrow> is_word_char c" for c by (simp add: list_all_iff)
  then have "CHR '';'' \<notin> set s" "CHR ''-'' \<notin> set s" "SQ \<notin> set s" "DQ \<notin> set s" "CHR ''/'' \<notin> set s"
    by (force simp: is_word_char_def is_alpha_def is_lower_def is_upper_def is_digit_def code_def)+
  then show ?thesis
    unfolding has_sql_special_def by (auto dest!: Contains_set)
qed

lemma plain_ident_lexes: "plain_ident s \<Longrightarrow> lexes s [TWord s]"
proof (cases s)
  case (Cons c w)
  assume "plain_ident s"
  with Cons have cw: "is_word_char c" "list_all word_or_dot w"
    by (auto simp: plain_ident_def word_or_dot_def list_all_iff)
  have c: "\<not> is_space c" "c \<noteq> DQ" "c \<noteq> SQ" "word_or_dot c"
    using cw(1) by (auto simp: is_word_char_def is_alpha_def is_lower_def is_upper_def is_digit_def
        code_def is_space_def word_or_dot_def)
  show ?thesis
    unfolding lexes_def
  proof (intro allI impI)
    fix rest assume "at_sep rest"
    then have "takeWhile word_or_dot rest = []" "dropWhile word_or_dot rest = rest"
      using sep_char_facts(1) by (cases rest; simp)+
    with cw c show "lex (s @ rest) = [TWord s] @ lex rest"
      by (simp add: Cons lex.simps(2) takeWhile_append dropWhile_append list_all_iff)
  qed
qed (simp add: plain_ident_def)

lemmas ident_defs = ValidateIdentifier_def ValidateColumnName_def ValidateStrictIdentifier_def

lemma ValidateIdentifier_iff:
  "ValidateIdentifier s = Inr () \<longleftrightarrow> plain_ident s \<and> ToUpper s \<notin> set sqlKeywordBlacklist"
  using word_chars_not_special [of s]
  by (auto simp: ValidateIdentifier_def identifierPattern_iff plain_ident_def)

lemma ValidateColumnName_iff: "ValidateColumnName s = Inr () \<longleftrightarrow> plain_ident s"
  using word_chars_not_special [of s]
  by (auto simp: ValidateColumnName_def identifierPattern_iff plain_ident_def)

section \<open>Facts on cleaned paths\<close>

definition plain_comp :: "string \<Rightarrow> bool" where
  "plain_comp w \<longleftrightarrow> w \<noteq> [] \<and> w \<noteq> ''.'' \<and> w \<noteq> ''..'' \<and> CHR ''/'' \<notin> set w"

text \<open>The shape of a cleaned list of components.\<close>

definition clean_shape :: "bool \<Rightarrow> string list \<Rightarrow> bool" where
  "clean_shape rooted cs \<longleftrightarrow>
     (\<exists>k ws. cs = replicate k ''..'' @ ws \<and> list_all plain_comp ws \<and> (rooted \<longrightarrow> k = 0))"

lemma clean_shape_snoc:
  "clean_shape r (rev out) \<Longrightarrow> plain_comp w \<Longrightarrow> clean_shape r (rev (w # out))"
proof -
  assume "clean_shape r (rev out)" "plain_comp w"
  then obtain k ws where "rev out = replicate k ''..'' @ ws" "list_all plain_comp (ws @ [w])" "r \<longrightarrow> k = 0"
    by (auto simp: clean_shape_def)
  then show ?thesis
    unfolding clean_shape_def by (intro exI [of _ k] exI [of _ "ws @ [w]"]) simp
qed

lemma clean_shape_tl:
  "clean_shape r (rev (x # out)) \<Longrightarrow> clean_shape r (rev out)"
proof -
  assume "clean_shape r (rev (x # out))"
  then obtain k ws where kw: "rev out @ [x] = replicate k ''..'' @ ws" "list_all plain_comp ws" "r \<longrightarrow> k = 0"
    by (auto simp: clean_shape_def)
  show ?thesis
  proof (cases ws rule: rev_cases)
    case Nil
    with kw(1) have "rev out = take (length out) (replicate k ''..'')" by (metis append_Nil2 append_eq_conv_conj length_rev)
    with kw(3) have "rev out = replicate (min k (length out)) ''..'' @ [] \<and> (r \<longrightarrow> min k (length out) = 0)"
      by (simp add: min.commute)
    then show ?thesis unfolding clean_shape_def by (metis list.pred_inject(1))
  next
    case (snoc ys y)
    with kw show ?thesis unfolding clean_shape_def by auto
  qed
qed

lemma clean_shape_dotdot:
  assumes "clean_shape r (rev out)" "out \<noteq> [] \<longrightarrow> hd out = ''..''" "out = [] \<longrightarrow> \<not> r"
  shows "clean_shape r (rev (''..'' # out))"
proof -
  obtain k ws where kw: "rev out = replicate k ''..'' @ ws" "list_all plain_comp ws" "r \<longrightarrow> k = 0"
    using assms(1) by (auto simp: clean_shape_def)
  have "ws = []"
  proof (cases ws rule: rev_cases)
    case (snoc ys y)
    with kw(1) have "rev (rev out) = y # rev (replicate k ''..'' @ ys)" by simp
    then have "hd out = y" "out \<noteq> []" by auto
    with assms(2) kw(2) snoc show ?thesis by (simp add: plain_comp_def)
  qed
  with kw assms(3) show ?thesis
    unfolding clean_shape_def
    by (intro exI [of _ "Suc k"] exI [of _ "[]"]) (cases k; auto simp: replicate_append_same)
qed

lemma clean_comps_shape:
  "clean_shape r (rev out) \<Longrightarrow> list_all (\<lambda>w. CHR ''/'' \<notin> set w) ws \<Longrightarrow>
     clean_shape r (clean_comps r out ws)"
proof (induction r out ws rule: clean_comps.induct)
  case (2 r out w ws)
  then have sl: "CHR ''/'' \<notin> set w" "list_all (\<lambda>w. CHR ''/'' \<notin> set w) ws" by auto
  consider "w = [] \<or> w = ''.''" | "w = ''..''" "out = []" "r" | "w = ''..''" "out = []" "\<not> r"
    | x out' where "w = ''..''" "out = x # out'" "x = ''..''"
    | x out' where "w = ''..''" "out = x # out'" "x \<noteq> ''..''" | "plain_comp w"
    using sl(1) by (cases out) (auto simp: plain_comp_def)
  then show ?case
  proof cases
    case 3
    with 2 sl clean_shape_dotdot [OF "2.prems"(1)] show ?thesis by simp
  next
    case (4 x out')
    with 2 sl clean_shape_dotdot [OF "2.prems"(1)] show ?thesis by simp
  next
    case (5 x out')
    with 2 sl clean_shape_tl [of r x out'] show ?thesis by simp
  next
    case 6
    with 2 sl clean_shape_snoc [OF "2.prems"(1) 6] show ?thesis by (simp add: plain_comp_def)
  qed (use 2 sl in auto)
qed simp

lemma clean_comps_plain:
  "list_all plain_comp ws \<Longrightarrow> clean_comps r out ws = rev out @ ws"
  by (induction ws arbitrary: out) (auto simp: plain_comp_def)

lemma clean_comps_dots:
  "\<not> r \<Longrightarrow> clean_comps r (replicate j ''..'') (replicate k ''..'' @ ws) =
     clean_comps r (replicate (j + k) ''..'') ws"
proof (induction k arbitrary: j)
  case (Suc k)
  then have "clean_comps r (replicate (Suc j) ''..'') (replicate k ''..'' @ ws) =
      clean_comps r (replicate (Suc j + k) ''..'') ws" by blast
  with Suc.prems show ?case by (cases j) simp_all
qed simp

lemma clean_comps_id: "clean_shape r cs \<Longrightarrow> clean_comps r [] cs = cs"
  unfolding clean_shape_def
  using clean_comps_dots [of r 0] by (auto simp: clean_comps_plain)

lemma clean_shape_no_slash: "clean_shape r cs \<Longrightarrow> list_all (\<lambda>w. CHR ''/'' \<notin> set w \<and> w \<noteq> []) cs"
proof -
  assume "clean_shape r cs"
  then obtain k ws where cs: "cs = replicate k ''..'' @ ws" "list_all plain_comp ws"
    by (auto simp: clean_shape_def)
  from cs(2) have "list_all (\<lambda>w. CHR ''/'' \<notin> set w \<and> w \<noteq> []) ws"
    by (rule list.pred_mono_strong) (simp add: plain_comp_def)
  moreover have "list_all (\<lambda>w. CHR ''/'' \<notin> set w \<and> w \<noteq> []) (replicate k ''..'')"
    by (induction k) simp_all
  ultimately show ?thesis by (simp add: cs(1))
qed

lemma Clean_shape:
  "p \<noteq> [] \<Longrightarrow> \<exists>cs. clean_shape (hd p = CHR ''/'') cs \<and>
     Clean p = (if hd p = CHR ''/'' then CHR ''/'' # Join cs ''/'' else if cs = [] then ''.'' else Join cs ''/'')"
proof -
  assume "p \<noteq> []"
  have "clean_shape (hd p = CHR ''/'') (rev [])" by (simp add: clean_shape_def)
  then have "clean_shape (hd p = CHR ''/'') (clean_comps (hd p = CHR ''/'') [] (Split p (CHR ''/'')))"
    by (rule clean_comps_shape) (use Split_no_sep in \<open>auto simp: list_all_iff\<close>)
  with \<open>p \<noteq> []\<close> show ?thesis
    by (intro exI [of _ "clean_comps (hd p = CHR ''/'') [] (Split p (CHR ''/''))"])
      (simp only: Clean_def Let_def if_False simp_thms)
qed

lemma Clean_Join:
  assumes "clean_shape r cs" "r \<or> cs \<noteq> []"
  shows "Clean (if r then CHR ''/'' # Join cs ''/'' else Join cs ''/'') =
         (if r then CHR ''/'' # Join cs ''/'' else Join cs ''/'')"
proof -
  have ns: "list_all (\<lambda>w. CHR ''/'' \<notin> set w) cs" "list_all (\<lambda>w. w \<noteq> []) cs"
    using clean_shape_no_slash [OF assms(1)] by (simp_all add: list_all_iff)
  show ?thesis
  proof (cases cs)
    case Nil
    with assms show ?thesis by (simp add: Clean_def)
  next
    case (Cons w ws)
    then have sp: "Split (Join cs ''/'') (CHR ''/'') = cs" using ns(1) by (intro Split_Join) simp_all
    from ns Cons have "w \<noteq> []" "hd w \<noteq> CHR ''/''" by (auto simp: list_all_iff) (metis hd_in_set)
    then have "Join cs ''/'' \<noteq> [] \<and> hd (Join cs ''/'') \<noteq> CHR ''/''" using Cons by (cases ws) auto
    moreover have "cs \<noteq> []" "clean_comps r [] cs = cs"
      using Cons clean_comps_id [OF assms(1)] by simp_all
    ultimately show ?thesis
      using sp by (cases r) (simp_all add: Clean_def Let_def del: Join.simps)
  qed
qed

lemma Clean_idem: "Clean (Clean p) = Clean p"
proof (cases "p = []")
  case False
  then obtain cs where cs: "clean_shape (hd p = CHR ''/'') cs"
    "Clean p = (if hd p = CHR ''/'' then CHR ''/'' # Join cs ''/'' else if cs = [] then ''.'' else Join cs ''/'')"
    using Clean_shape by blast
  show ?thesis
  proof (cases "hd p = CHR ''/'' \<or> cs \<noteq> []")
    case True
    with Clean_Join [OF cs(1)] cs(2) show ?thesis by (auto split: if_splits)
  next
    case False
    with cs(2) show ?thesis by (simp add: Clean_def)
  qed
qed (simp add: Clean_def)

lemma Clean_nonempty: "Clean p \<noteq> []"
proof (cases "p = []")
  case False
  then obtain cs where cs: "clean_shape (hd p = CHR ''/'') cs"
    "Clean p = (if hd p = CHR ''/'' then CHR ''/'' # Join cs ''/'' else if cs = [] then ''.'' else Join cs ''/'')"
    using Clean_shape by blast
  from clean_shape_no_slash [OF cs(1)] have "cs \<noteq> [] \<Longrightarrow> Join cs ''/'' \<noteq> []"
    by (cases cs; cases "tl cs") auto
  with cs(2) show ?thesis by auto
qed (simp add: Clean_def)

lemma Join_sublist: "w \<in> set ws \<Longrightarrow> sublist w (Join ws sep)"
proof (induction ws)
  case (Cons x ws)
  show ?case
  proof (cases "ws = []")
    case False
    then have j: "Join (x # ws) sep = x @ sep @ Join ws sep" by (rule Join_Cons)
    from Cons show ?thesis
      unfolding j by (auto simp: sublist_append)
  qed (use Cons in simp)
qed simp

lemma Split_Contains: "w \<in> set (Split p sep) \<Longrightarrow> Contains p w"
  using Join_sublist [of w "Split p sep" "[sep]"] by (simp add: Join_Split Contains_sublist)

lemma clean_shape_comp: "clean_shape r cs \<Longrightarrow> w \<in> set cs \<Longrightarrow> w = ''..'' \<or> plain_comp w"
  by (auto simp: clean_shape_def list_all_iff split: if_splits)

lemma Clean_components:
  assumes "p \<noteq> []" "Clean p = p" "\<not> Contains p ''..''" "w \<in> set (Split p (CHR ''/''))" "w \<noteq> []"
  shows "plain_comp w \<or> p = ''.''"
proof -
  obtain cs where cs: "clean_shape (hd p = CHR ''/'') cs"
    "Clean p = (if hd p = CHR ''/'' then CHR ''/'' # Join cs ''/'' else if cs = [] then ''.'' else Join cs ''/'')"
    using Clean_shape [OF assms(1)] by blast
  have dots: "w \<noteq> ''..''"
    using Split_Contains [OF assms(4)] assms(3) by blast
  have ns: "list_all (\<lambda>w. CHR ''/'' \<notin> set w) cs"
    using clean_shape_no_slash [OF cs(1)] by (rule list.pred_mono_strong) simp
  consider "p = ''.''" | "cs = []" "p = ''/''" | "cs \<noteq> []" "p = CHR ''/'' # Join cs ''/''"
    | "cs \<noteq> []" "p = Join cs ''/''"
    using cs(2) assms(2) by (cases "hd p = CHR ''/''"; cases "cs = []") simp_all
  then show ?thesis
  proof cases
    case 2
    with assms(4,5) show ?thesis by simp
  next
    case 3
    then have "Split p (CHR ''/'') = [] # cs" using Split_Join [OF 3(1) ns] by simp
    with assms(4,5) clean_shape_comp [OF cs(1)] dots show ?thesis by auto
  next
    case 4
    then have "Split p (CHR ''/'') = cs" using Split_Join [OF 4(1) ns] by simp
    with assms(4) clean_shape_comp [OF cs(1)] dots show ?thesis by auto
  qed simp
qed

lemma SanitizeFilePath_iff:
  "SanitizeFilePath p = Inr () \<longleftrightarrow>
     p \<noteq> [] \<and> Clean p = p \<and> \<not> Contains p ''..'' \<and> set p \<inter> set forbidden_path_chars = {}"
proof -
  have "List.find (\<lambda>c. c \<in> set p) xs = None \<longleftrightarrow> set p \<inter> set xs = {}" for xs
    by (induction xs) auto
  from this [of forbidden_path_chars] show ?thesis
    by (cases "List.find (\<lambda>c. c \<in> set p) forbidden_path_chars") (simp_all add: SanitizeFilePath_def)
qed

section \<open>Properties\<close>

text \<open>The identifier check accepts exactly the strings its documentation describes: one to 64
  letters, digits and underscores, the first no digit, which are in no letter case a reserved
  SQL word. In particular the explicit search for SQL special characters never fires.\<close>

theorem ValidateIdentifier_accepts:
  "ValidateIdentifier s = Inr () \<longleftrightarrow>
     s \<noteq> [] \<and> length s \<le> 64 \<and> \<not> is_digit (hd s) \<and> list_all is_word_char s \<and>
     ToUpper s \<notin> set sqlKeywordBlacklist"
  by (auto simp: ValidateIdentifier_iff plain_ident_def)

text \<open>A validated column name is read by a SQL lexer as one word with that spelling, quoting it
  adds nothing but the two quotes, and the only validated column names that are not validated
  identifiers are the reserved words.\<close>

theorem ValidateColumnName_one_word:
  assumes "ValidateColumnName s = Inr ()"
  shows "lexes s [TWord s] \<and> QuoteIdentifier s = DQ # s @ [DQ] \<and>
         (ValidateIdentifier s = Inr () \<or> ValidateIdentifier s = Inl (IdentKeyword s))"
proof (intro conjI)
  have s: "plain_ident s" using assms by (simp add: ValidateColumnName_iff)
  then show "lexes s [TWord s]" by (rule plain_ident_lexes)
  have "DQ \<notin> set s"
    using word_chars_not_special [of s] s
    by (auto simp: plain_ident_def has_sql_special_def Contains_single)
  then show "QuoteIdentifier s = DQ # s @ [DQ]" by (simp add: QuoteIdentifier_def ReplaceAll_id)
  show "ValidateIdentifier s = Inr () \<or> ValidateIdentifier s = Inl (IdentKeyword s)"
    using s word_chars_not_special [of s]
    by (auto simp: ValidateIdentifier_def identifierPattern_iff) (auto simp: plain_ident_def)
qed

theorem ValidateColumnName_one_word_witness:
  "ValidateColumnName ''table'' = Inr () \<and> lexes ''table'' [TWord ''table'']"
proof -
  have "ValidateColumnName ''table'' = Inr ()" by code_simp
  with ValidateColumnName_one_word [of "''table''"] show ?thesis by blast
qed

text \<open>C2. Whatever string is quoted, the quoted text is one token of SQL that carries exactly that
  string, up to any following separator: no content closes its own quotes.\<close>

theorem quoting_is_one_token:
  "lexes (QuoteIdentifier s) [TIdent s] \<and> lexes (QuoteStringLiteral t) [TString t]"
  by (simp add: quote_lexing)

text \<open>C22. An accepted file path stays below its starting point and is inert inside a SQL literal:
  each of its non-empty components is a plain name (neither \<^verbatim>\<open>.\<close> nor \<^verbatim>\<open>..\<close>) or the path is the
  single dot, and quoting it as a literal does not change a byte of it.\<close>

theorem SanitizeFilePath_safe:
  assumes "SanitizeFilePath p = Inr ()"
  shows "(p = ''.'' \<or> (\<forall>w \<in> set (Split p (CHR ''/'')). w \<noteq> [] \<longrightarrow> w \<noteq> ''.'' \<and> w \<noteq> ''..'')) \<and>
         QuoteStringLiteral p = SQ # p @ [SQ] \<and> set p \<inter> set forbidden_path_chars = {}"
proof (intro conjI)
  note p = assms [unfolded SanitizeFilePath_iff]
  from p Clean_components [of p]
  show "p = ''.'' \<or> (\<forall>w \<in> set (Split p (CHR ''/'')). w \<noteq> [] \<longrightarrow> w \<noteq> ''.'' \<and> w \<noteq> ''..'')"
    unfolding plain_comp_def by blast
  show "set p \<inter> set forbidden_path_chars = {}" using p by blast
  then have "SQ \<notin> set p" by (auto simp: forbidden_path_chars_def)
  then show "QuoteStringLiteral p = SQ # p @ [SQ]" by (simp add: QuoteStringLiteral_def ReplaceAll_id)
qed

theorem SanitizeFilePath_safe_witness:
  "SanitizeFilePath ''data/in.csv'' = Inr () \<and> QuoteStringLiteral ''data/in.csv'' = SQ # ''data/in.csv'' @ [SQ]"
proof -
  have "SanitizeFilePath ''data/in.csv'' = Inr ()" by code_simp
  with SanitizeFilePath_safe [of "''data/in.csv''"] show ?thesis by blast
qed

text \<open>The demand that a path be clean refuses no file: cleaning is idempotent, so of every path
  the cleaned form passes unless it climbs with \<^verbatim>\<open>..\<close> or contains a forbidden byte.\<close>

theorem SanitizeFilePath_Clean:
  "SanitizeFilePath (Clean p) = Inr () \<longleftrightarrow>
     \<not> Contains (Clean p) ''..'' \<and> set (Clean p) \<inter> set forbidden_path_chars = {}"
  by (simp add: SanitizeFilePath_iff Clean_idem Clean_nonempty)

end
