(* ===== verification/Go_Strconv.thy ===== *)
theory Go_Strconv
  imports Sql_Lexer
begin

text \<open>
  \<^verbatim>\<open>strconv.ParseFloat(s, 64)\<close> as a recogniser: which strings it accepts without an error.
  The structure follows the standard library: the special values, then sign, optional
  hexadecimal prefix, mantissa with underscores, exponent, the rule for underscores, and
  the range of a 64-bit float (a value is out of range exactly when rounding to nearest even
  carries it to 2 to the power 1024). The last section bounds the shape of an accepted string
  for the code that interpolates numbers into SQL.
\<close>

definition is_hex_letter :: "char \<Rightarrow> bool" where
  "is_hex_letter c \<longleftrightarrow> (97 \<le> code (lower_char c) \<and> code (lower_char c) \<le> 102)"

definition hex_val :: "char \<Rightarrow> nat" where
  "hex_val c = (if is_digit c then digit_val c else code (lower_char c) - 87)"

definition special_float :: "string \<Rightarrow> bool" where
  "special_float s \<longleftrightarrow>
     ToLower s \<in> set [''inf'', ''+inf'', ''-inf'', ''infinity'', ''+infinity'', ''-infinity'', ''nan'']"

text \<open>
  The mantissa loop: \<open>(saw digits, mantissa, digits after the point, rest)\<close>.
\<close>

fun mantissa :: "bool \<Rightarrow> bool \<Rightarrow> bool \<Rightarrow> nat \<Rightarrow> nat \<Rightarrow> string \<Rightarrow> bool \<times> nat \<times> nat \<times> string" where
  "mantissa hex dot dig mant frac [] = (dig, mant, frac, [])"
| "mantissa hex dot dig mant frac (c # s) =
     (if c = CHR ''_'' then mantissa hex dot dig mant frac s
      else if c = CHR ''.'' then
        (if dot then (dig, mant, frac, c # s) else mantissa hex True dig mant frac s)
      else if is_digit c \<or> (hex \<and> is_hex_letter c) then
        mantissa hex dot True ((if hex then 16 else 10) * mant + hex_val c)
          (if dot then Suc frac else frac) s
      else (dig, mant, frac, c # s))"

text \<open>The digits of an exponent; the value stops growing at 10000, as in the library.\<close>

fun exponent_digits :: "nat \<Rightarrow> string \<Rightarrow> nat \<times> string" where
  "exponent_digits e [] = (e, [])"
| "exponent_digits e (c # s) =
     (if c = CHR ''_'' then exponent_digits e s
      else if is_digit c then exponent_digits (if e < 10000 then e * 10 + digit_val c else e) s
      else (e, c # s))"

definition strip_sign :: "string \<Rightarrow> string" where
  "strip_sign s = (case s of c # t \<Rightarrow> if c = CHR ''+'' \<or> c = CHR ''-'' then t else s | [] \<Rightarrow> [])"

definition exponent :: "string \<Rightarrow> (int \<times> string) option" where
  "exponent s =
     (let neg = HasPrefix s ''-''; t = strip_sign s
      in if t = [] \<or> \<not> is_digit (hd t) then None
         else let (e, r) = exponent_digits 0 t in Some (if neg then - int e else int e, r))"

fun underscores_from :: "char \<Rightarrow> bool \<Rightarrow> string \<Rightarrow> bool" where
  "underscores_from saw hex [] \<longleftrightarrow> saw \<noteq> CHR ''_''"
| "underscores_from saw hex (c # s) \<longleftrightarrow>
     (if is_digit c \<or> (hex \<and> is_hex_letter c) then underscores_from (CHR ''0'') hex s
      else if c = CHR ''_'' then saw = CHR ''0'' \<and> underscores_from (CHR ''_'') hex s
      else saw \<noteq> CHR ''_'' \<and> underscores_from (CHR ''!'') hex s)"

definition underscoreOK :: "string \<Rightarrow> bool" where
  "underscoreOK s =
     (case strip_sign s of
        c # d # t \<Rightarrow>
          if c = CHR ''0'' \<and> lower_char d \<in> set ''box''
          then underscores_from (CHR ''0'') (lower_char d = CHR ''x'') t
          else underscores_from (CHR ''^'') False (c # d # t)
      | t \<Rightarrow> underscores_from (CHR ''^'') False t)"

text \<open>\<open>mant * base ^ exp\<close> does not round beyond the largest finite 64-bit float.\<close>

definition in_float_range :: "nat \<Rightarrow> nat \<Rightarrow> int \<Rightarrow> bool" where
  "in_float_range mant base e \<longleftrightarrow>
     (if mant = 0 then True
      else if e \<ge> 0 then mant * base ^ nat e < 2 ^ 1024 - 2 ^ 970
      else mant < (2 ^ 1024 - 2 ^ 970) * base ^ nat (- e))"

definition has_hex_prefix :: "string \<Rightarrow> bool" where
  "has_hex_prefix s \<longleftrightarrow> length s > 2 \<and> s ! 0 = CHR ''0'' \<and> lower_char (s ! 1) = CHR ''x''"

definition ParseFloat_ok :: "string \<Rightarrow> bool" where
  "ParseFloat_ok s =
     (if special_float s then True
      else
        let t = strip_sign s; hex = has_hex_prefix t;
            (dig, mant, frac, r) = mantissa hex False False 0 0 (if hex then drop 2 t else t)
        in if \<not> dig then False
           else case r of
               [] \<Rightarrow> \<not> hex \<and> (CHR ''_'' \<in> set s \<longrightarrow> underscoreOK s) \<and> in_float_range mant 10 (- int frac)
             | c # r' \<Rightarrow>
                 if lower_char c \<noteq> (if hex then CHR ''p'' else CHR ''e'') then False
                 else case exponent r' of
                     None \<Rightarrow> False
                   | Some (e, rest) \<Rightarrow>
                       rest = [] \<and> (CHR ''_'' \<in> set s \<longrightarrow> underscoreOK s) \<and>
                       (if hex then in_float_range mant 2 (e - 4 * int frac)
                        else in_float_range mant 10 (e - int frac)))"

section \<open>The shape of an accepted number\<close>

definition sign_part :: "string \<Rightarrow> bool" where
  "sign_part s \<longleftrightarrow> s = [] \<or> s = ''+'' \<or> s = ''-''"

definition number_shape :: "string \<Rightarrow> bool" where
  "number_shape s \<longleftrightarrow>
     (\<exists>sg w sg' w'. s = sg @ w @ sg' @ w' \<and> sign_part sg \<and> sign_part sg' \<and> w \<noteq> [] \<and>
        list_all word_or_dot w \<and> list_all word_or_dot w' \<and> (w' = [] \<longrightarrow> sg' = []))"

lemma strip_sign_split: "\<exists>sg. s = sg @ strip_sign s \<and> sign_part sg"
  by (cases s) (auto simp: strip_sign_def sign_part_def)

lemma word_or_dot_facts:
  "is_digit c \<Longrightarrow> word_or_dot c" "is_hex_letter c \<Longrightarrow> word_or_dot c" "word_or_dot (CHR ''_'')"
  "word_or_dot (CHR ''.'')" "is_word_char c \<Longrightarrow> word_or_dot c"
  by (auto simp: word_or_dot_def is_word_char_def is_alpha_def is_hex_letter_def is_lower_def is_upper_def
      lower_char_code split: if_splits)

lemma mantissa_split:
  "mantissa hex dot dig mant frac s = (dig', mant', frac', r) \<Longrightarrow>
     \<exists>w. s = w @ r \<and> list_all word_or_dot w \<and> (dig' \<longrightarrow> dig \<or> w \<noteq> [])"
proof (induction hex dot dig mant frac s rule: mantissa.induct)
  case (2 hex dot dig mant frac c s)
  consider "c = CHR ''_''" | "c = CHR ''.''" "dot" | "c = CHR ''.''" "\<not> dot"
    | "c \<noteq> CHR ''_''" "c \<noteq> CHR ''.''" "is_digit c \<or> (hex \<and> is_hex_letter c)"
    | "c \<noteq> CHR ''_''" "c \<noteq> CHR ''.''" "\<not> (is_digit c \<or> (hex \<and> is_hex_letter c))" by blast
  then show ?case
  proof cases
    case 1
    with 2 obtain w where "s = w @ r" "list_all word_or_dot w" by auto
    with 1 show ?thesis by (intro exI [of _ "c # w"]) (simp add: word_or_dot_facts)
  next
    case 3
    with 2 obtain w where "s = w @ r" "list_all word_or_dot w" by auto
    with 3 show ?thesis by (intro exI [of _ "c # w"]) (simp add: word_or_dot_facts)
  next
    case 4
    with 2 obtain w where "s = w @ r" "list_all word_or_dot w" by auto
    with 4 show ?thesis by (intro exI [of _ "c # w"]) (auto simp: word_or_dot_facts)
  qed (use "2.prems" in auto)
qed simp

lemma exponent_digits_split:
  "exponent_digits e s = (e', r) \<Longrightarrow> \<exists>w. s = w @ r \<and> list_all word_or_dot w"
proof (induction e s rule: exponent_digits.induct)
  case (2 e c s)
  consider "c = CHR ''_'' \<or> is_digit c" | "c \<noteq> CHR ''_''" "\<not> is_digit c" by blast
  then show ?case
  proof cases
    case 1
    with 2 obtain w where "s = w @ r" "list_all word_or_dot w" by (auto split: if_splits)
    with 1 show ?thesis by (intro exI [of _ "c # w"]) (auto simp: word_or_dot_facts)
  qed (use "2.prems" in auto)
qed simp

lemma exponent_split:
  assumes "exponent s = Some (e, [])"
  shows "\<exists>sg w. s = sg @ w \<and> sign_part sg \<and> w \<noteq> [] \<and> list_all word_or_dot w"
proof -
  obtain sg where sg: "s = sg @ strip_sign s" "sign_part sg" using strip_sign_split by meson
  obtain e' r where ed: "exponent_digits 0 (strip_sign s) = (e', r)" by fastforce
  from assms have "strip_sign s \<noteq> []" by (auto simp: exponent_def Let_def split: if_splits)
  moreover from assms ed have "r = []" by (simp add: exponent_def Let_def split: if_splits)
  moreover obtain w where "strip_sign s = w @ r" "list_all word_or_dot w"
    using exponent_digits_split [OF ed] by blast
  ultimately show ?thesis using sg by (intro exI [of _ sg] exI [of _ w]) simp
qed

lemma number_shape_word:
  "sign_part sg \<Longrightarrow> w \<noteq> [] \<Longrightarrow> list_all word_or_dot w \<Longrightarrow> number_shape (sg @ w)"
  unfolding number_shape_def
  by (intro exI [of _ sg] exI [of _ w] exI [of _ "[]"]) (simp add: sign_part_def)

lemma ToLower_letters:
  "ToLower s = w \<Longrightarrow> list_all is_lower w \<Longrightarrow> list_all word_or_dot s"
proof (induction s arbitrary: w)
  case (Cons c s)
  then have c: "is_lower (lower_char c)" and "list_all word_or_dot s" by (auto simp: ToLower_def)
  moreover from c have "word_or_dot c"
    by (simp add: word_or_dot_def is_word_char_def is_alpha_def is_lower_def is_upper_def lower_char_code
        split: if_splits)
  ultimately show ?case by simp
qed simp

lemma special_float_shape:
  assumes "special_float s"
  shows "number_shape s"
proof -
  have letters: "number_shape s" if "ToLower s = w" "w \<noteq> []" "list_all is_lower w" for s w
    using that ToLower_letters [OF that(1,3)] number_shape_word [of "[]" s]
    by (auto simp: sign_part_def ToLower_def)
  have signed: "number_shape s"
    if sgw: "ToLower s = sg # w" "sg = CHR ''+'' \<or> sg = CHR ''-''" "w \<noteq> []" "list_all is_lower w" for s sg w
  proof -
    obtain c t where s: "s = c # t" "lower_char c = sg" "ToLower t = w"
      using sgw(1) by (auto simp: ToLower_def map_eq_Cons_conv)
    from s(2) sgw(2) have "code (lower_char c) = 43 \<or> code (lower_char c) = 45"
      by (auto simp: code_def)
    then have "code c = 43 \<or> code c = 45"
      by (auto simp: lower_char_code is_upper_def split: if_splits)
    then have "c = CHR ''+'' \<or> c = CHR ''-''" by (auto intro!: code_eqI simp: code_def)
    moreover have "t \<noteq> []" "list_all word_or_dot t"
      using s(3) sgw(3,4) ToLower_letters by (auto simp: ToLower_def)
    ultimately show ?thesis
      using number_shape_word [of "[c]" t] by (auto simp: s(1) sign_part_def)
  qed
  note low = is_lower_def code_def
  from assms consider "ToLower s = ''inf''" | "ToLower s = ''infinity''" | "ToLower s = ''nan''"
    | "ToLower s = ''+inf''" | "ToLower s = ''-inf''" | "ToLower s = ''+infinity''" | "ToLower s = ''-infinity''"
    by (auto simp: special_float_def)
  then show ?thesis
    by cases (rule letters signed, assumption, simp_all add: low)+
qed

lemma ParseFloat_ok_shape:
  assumes "ParseFloat_ok s"
  shows "number_shape s"
proof (cases "special_float s")
  case True
  then show ?thesis by (rule special_float_shape)
next
  case False
  define t where "t = strip_sign s"
  define hex where "hex = has_hex_prefix t"
  obtain sg where sg: "s = sg @ t" "sign_part sg" unfolding t_def using strip_sign_split by meson
  obtain dig mant frac r where man:
    "mantissa hex False False 0 0 (if hex then drop 2 t else t) = (dig, mant, frac, r)"
    using prod_cases4 by blast
  from assms False man have dig: "dig"
    by (simp add: ParseFloat_ok_def Let_def t_def [symmetric] hex_def [symmetric] split: if_splits)
  from mantissa_split [OF man] dig obtain w where
    w: "(if hex then drop 2 t else t) = w @ r" "list_all word_or_dot w" "w \<noteq> []" by auto
  define pre where "pre = (if hex then take 2 t else [])"
  have "list_all word_or_dot (take 2 t)" if hp: "has_hex_prefix t"
  proof -
    from hp obtain c d u where t: "t = c # d # u" by (auto simp: has_hex_prefix_def) (metis length_0_conv less_Suc_eq_0_disj neq_Nil_conv not_less_zero Suc_less_eq length_Cons numeral_2_eq_2)
    from hp t have "code (lower_char d) = 120" "c = CHR ''0''" by (auto simp: has_hex_prefix_def code_def)
    then show ?thesis
      by (auto simp: t word_or_dot_def is_word_char_def is_alpha_def is_lower_def is_upper_def is_digit_def
          lower_char_code code_def split: if_splits)
  qed
  then have pre: "t = (pre @ w) @ r" "list_all word_or_dot (pre @ w)"
    using w by (auto simp: pre_def hex_def [symmetric]) (metis append_take_drop_id)
  show ?thesis
  proof (cases r)
    case Nil
    with sg pre w number_shape_word [OF sg(2), of "pre @ w"] show ?thesis by simp
  next
    case (Cons c r')
    from assms False man dig Cons obtain e where
      c: "lower_char c = (if hex then CHR ''p'' else CHR ''e'')" and e: "exponent r' = Some (e, [])"
      by (simp add: ParseFloat_ok_def Let_def t_def [symmetric] hex_def [symmetric]
          split: if_splits option.splits prod.splits)
    from exponent_split [OF e] obtain sg' w' where
      r': "r' = sg' @ w'" "sign_part sg'" "w' \<noteq> []" "list_all word_or_dot w'" by blast
    have "code (lower_char c) = 112 \<or> code (lower_char c) = 101" using c by (auto simp: code_def split: if_splits)
    then have "word_or_dot c"
      by (auto simp: word_or_dot_def is_word_char_def is_alpha_def is_lower_def is_upper_def
          lower_char_code split: if_splits)
    with sg pre r' Cons show ?thesis
      unfolding number_shape_def
      by (intro exI [of _ sg] exI [of _ "(pre @ w) @ [c]"] exI [of _ sg'] exI [of _ w']) simp
  qed
qed

lemma Atoi_shape:
  assumes "Atoi s = Some i"
  shows "number_shape s"
proof -
  obtain sg where sg: "s = sg @ strip_sign s" "sign_part sg" using strip_sign_split by meson
  from assms have "strip_sign s \<noteq> []" "list_all is_digit (strip_sign s)"
    by (auto simp: Atoi_def strip_sign_def Let_def split: if_splits list.splits)
  then have "list_all word_or_dot (strip_sign s)" using word_or_dot_facts(1) by (simp add: list_all_iff)
  with number_shape_word [OF sg(2)] sg(1) \<open>strip_sign s \<noteq> []\<close> show ?thesis by metis
qed

section \<open>Numbers as SQL tokens\<close>

definition number_token :: "tok \<Rightarrow> bool" where
  "number_token t \<longleftrightarrow> (case t of TWord _ \<Rightarrow> True | TSym c \<Rightarrow> c = CHR ''+'' \<or> c = CHR ''-'' | _ \<Rightarrow> False)"

lemma lex_word:
  assumes "list_all word_or_dot w" "w \<noteq> []" "rest = [] \<or> \<not> word_or_dot (hd rest)"
  shows "lex (w @ rest) = TWord w # lex rest"
proof -
  obtain c v where w: "w = c # v" using assms(2) by (cases w) auto
  have c: "\<not> is_space c" "c \<noteq> DQ" "c \<noteq> SQ"
    using assms(1) by (auto simp: w word_or_dot_def is_word_char_def is_alpha_def is_lower_def is_upper_def
        is_digit_def code_def is_space_def)
  have "takeWhile word_or_dot rest = []" "dropWhile word_or_dot rest = rest"
    using assms(3) by (cases rest; simp)+
  with c assms(1) show ?thesis
    by (simp add: w lex.simps(2) takeWhile_append dropWhile_append list_all_iff)
qed

lemma lex_plus: "lex (CHR ''+'' # r) = TSym (CHR ''+'') # lex r"
  by (subst lex.simps(2)) (simp add: word_or_dot_def is_word_char_def is_alpha_def is_lower_def
      is_upper_def is_digit_def code_def is_space_def)

lemma lex_minus: "\<not> HasPrefix r ''-'' \<Longrightarrow> lex (CHR ''-'' # r) = TSym (CHR ''-'') # lex r"
  by (subst lex.simps(2)) (simp add: word_or_dot_def is_word_char_def is_alpha_def is_lower_def
      is_upper_def is_digit_def code_def is_space_def)

lemma lex_sign:
  "sign_part sg \<Longrightarrow> rest \<noteq> [] \<Longrightarrow> word_or_dot (hd rest) \<Longrightarrow> lex (sg @ rest) = map TSym sg @ lex rest"
proof -
  assume "sign_part sg" "rest \<noteq> []" "word_or_dot (hd rest)"
  moreover have "\<not> word_or_dot (CHR ''-'')"
    by (simp add: word_or_dot_def is_word_char_def is_alpha_def is_lower_def is_upper_def is_digit_def code_def)
  ultimately have "\<not> HasPrefix rest ''-''" by (cases rest) auto
  with \<open>sign_part sg\<close> show ?thesis
    unfolding sign_part_def by (elim disjE) (simp_all add: lex_plus lex_minus)
qed

lemma number_lexes:
  assumes "number_shape s"
  shows "lexes s (lex s) \<and> list_all number_token (lex s)"
proof -
  obtain sg w sg' w' where s: "s = sg @ w @ sg' @ w'" "sign_part sg" "sign_part sg'" "w \<noteq> []"
    "list_all word_or_dot w" "list_all word_or_dot w'" "w' = [] \<longrightarrow> sg' = []"
    using assms by (auto simp: number_shape_def)
  define ts where "ts = map TSym sg @
      (if sg' = [] then [TWord (w @ w')] else TWord w # map TSym sg' @ [TWord w'])"
  have "lex (s @ rest) = ts @ lex rest" if "at_sep rest" for rest
  proof -
    have rest: "rest = [] \<or> \<not> word_or_dot (hd rest)"
      using that sep_char_facts(1) by (cases rest) auto
    have hw: "word_or_dot (hd w)" "w' \<noteq> [] \<Longrightarrow> word_or_dot (hd w')"
      using s(4,5,6) by (auto simp: list_all_iff)
    have "lex (s @ rest) = map TSym sg @ lex (w @ sg' @ w' @ rest)"
      using lex_sign [OF s(2), of "w @ sg' @ w' @ rest"] s(1,4) hw(1) by simp
    also have "lex (w @ sg' @ w' @ rest) =
        (if sg' = [] then [TWord (w @ w')] else TWord w # map TSym sg' @ [TWord w']) @ lex rest"
    proof (cases "sg' = []")
      case True
      with lex_word [of "w @ w'" rest] s(4,5,6) rest show ?thesis by simp
    next
      case False
      with s(3,7) have sg': "w' \<noteq> []" "sg' = ''+'' \<or> sg' = ''-''" by (auto simp: sign_part_def)
      have "lex (w @ sg' @ w' @ rest) = TWord w # lex (sg' @ w' @ rest)"
        using sg'(2) by (intro lex_word [OF s(5,4)]) (auto simp: word_or_dot_def is_word_char_def is_alpha_def
            is_lower_def is_upper_def is_digit_def code_def)
      also have "lex (sg' @ w' @ rest) = map TSym sg' @ TWord w' # lex rest"
        using lex_sign [OF s(3), of "w' @ rest"] lex_word [OF s(6) sg'(1) rest] sg'(1) hw(2) by simp
      finally show ?thesis using False by simp
    qed
    finally show ?thesis by (simp add: ts_def)
  qed
  then have "lexes s ts" by (simp add: lexes_def)
  moreover have "list_all number_token ts"
    using s(2,3) by (auto simp: ts_def number_token_def sign_part_def)
  ultimately show ?thesis using lexes_lex by metis
qed

end
