(* ===== verification/Dsl_Compiler.thy ===== *)
theory Dsl_Compiler
  imports Safeident Go_Strconv
begin

text \<open>
  Package \<^verbatim>\<open>internal/dsl\<close>: the syntax tree, the input filter, and the compiler from ontology
  objects to DuckDB SQL. The participle parser is a parameter of \<open>Parse\<close>. The tokens of the
  statement an object means are given by \<open>object_tokens\<close>; the compiler's output is lexed to
  exactly these tokens, so nothing a program contains changes the structure of the statement.
\<close>

section \<open>Syntax tree\<close>

record PropMap =
  map_From :: string
  map_To :: string

record Property =
  prop_Name :: string
  prop_Type :: string
  prop_From :: string
  prop_Predict :: bool
  prop_Maps :: "PropMap list"

record Factor =
  factor_Name :: string
  factor_Type :: string
  factor_From :: string

record FilterDefinition =
  filter_Field :: string
  filter_Op :: string
  filter_Value :: string

record AggregateDefinition =
  agg_Function :: string
  agg_Field :: string
  agg_Alias :: string

record ObjectDefinition =
  obj_Name :: string
  obj_FromSource :: string
  obj_ID :: string
  obj_Properties :: "Property list"
  obj_Factors :: "Factor list"
  obj_Filters :: "FilterDefinition list"
  obj_Aggregates :: "AggregateDefinition list"

record ActionDefinition =
  action_Name :: string
  action_OnObject :: string
  action_Parameters :: "Property list"

record RelationDefinition =
  rel_Name :: string
  rel_From :: string
  rel_To :: string
  rel_LeftOn :: string
  rel_RightOn :: string

record DatasetDefinition =
  dataset_Name :: string
  dataset_Version :: string
  dataset_From :: string

record ToolParamDef =
  tpd_Name :: string
  tpd_Type :: string
  tpd_Required :: bool
  tpd_Description :: string

record HandlerDef =
  hd_Language :: string
  hd_EntryPoint :: string

record ParsedTool =
  pt_Name :: string
  pt_Description :: string
  pt_Inputs :: "ToolParamDef list"
  pt_Outputs :: "ToolParamDef list"
  pt_Handler :: "HandlerDef option"
  pt_Close :: string

text \<open>The five alternatives are pointers in the source; \<^const>\<open>None\<close> is \<^verbatim>\<open>nil\<close>.\<close>

record Statement =
  st_Object :: "ObjectDefinition option"
  st_Relation :: "RelationDefinition option"
  st_Dataset :: "DatasetDefinition option"
  st_Action :: "ActionDefinition option"
  st_Tool :: "ParsedTool option"

type_synonym Program = "Statement list"

section \<open>Parsing\<close>

datatype parse_failure =
    Positioned nat nat string
  | Unpositioned string

datatype parse_error =
    ParseErrorAt nat nat string
  | ParseError string

definition Parse :: "(string \<Rightarrow> parse_failure + Program) \<Rightarrow> string \<Rightarrow> parse_error + Program" where
  "Parse parser input =
     (case parser input of
        Inl (Positioned line column msg) \<Rightarrow> Inl (ParseErrorAt line column msg)
      | Inl (Unpositioned msg) \<Rightarrow> Inl (ParseError msg)
      | Inr prog \<Rightarrow> Inr prog)"

section \<open>The input filter\<close>

definition maxDSLInputSize :: nat where "maxDSLInputSize = 100000"

text \<open>Two words with white space between them, between word boundaries, in any letter case.\<close>

definition word_pair :: "string \<Rightarrow> string \<Rightarrow> re" where
  "word_pair a b = Seqs [WordB, LitI a, Plus Sp, LitI b, WordB]"

definition sqlInjectionPatterns :: "re list" where
  "sqlInjectionPatterns =
    [word_pair ''DROP'' ''TABLE'',
     word_pair ''DROP'' ''SCHEMA'',
     Seqs [WordB, LitI ''TRUNCATE'', WordB],
     word_pair ''CREATE'' ''TABLE'',
     word_pair ''ALTER'' ''TABLE'',
     word_pair ''INSERT'' ''INTO'',
     Seqs [WordB, LitI ''UPDATE'', Plus Sp, Plus Wd, Plus Sp, LitI ''SET'', WordB],
     word_pair ''DELETE'' ''FROM'',
     Seqs [WordB, LitI ''GRANT'', WordB],
     Seqs [WordB, LitI ''REVOKE'', WordB]]"

datatype dsl_input_error =
    InputTooLarge nat
  | InputNullBytes
  | InputForbiddenPattern re

definition ValidateDSLInput :: "string \<Rightarrow> dsl_input_error + unit" where
  "ValidateDSLInput input =
     (if length input > maxDSLInputSize then Inl (InputTooLarge (length input))
      else if CHR 0x00 \<in> set input then Inl InputNullBytes
      else case List.find (\<lambda>pat. MatchString pat input) sqlInjectionPatterns of
             Some pat \<Rightarrow> Inl (InputForbiddenPattern pat)
           | None \<Rightarrow> Inr ())"

section \<open>The compiler\<close>

record Compiler =
  c_Program :: Program
  c_DataRoot :: string
  c_UseViews :: bool

definition NewCompiler :: "Program \<Rightarrow> string \<Rightarrow> Compiler" where
  "NewCompiler p dataRoot = \<lparr>c_Program = p, c_DataRoot = dataRoot, c_UseViews = False\<rparr>"

definition SetUseViews :: "bool \<Rightarrow> Compiler \<Rightarrow> Compiler" where
  "SetUseViews useViews c = c\<lparr>c_UseViews := useViews\<rparr>"

datatype compile_error =
    ObjectNotFound string
  | InvalidRelationSource string path_error
  | InvalidFilterValue string
  | InvalidObjectSource string path_error

definition isNumeric :: "string \<Rightarrow> bool" where
  "isNumeric s \<longleftrightarrow> Atoi s \<noteq> None \<or> ParseFloat_ok s"

definition validFilterValue :: re where
  "validFilterValue =
     Seq Bol (Seq (Plus (Cls (\<lambda>c. is_alpha c \<or> is_digit c \<or> c \<in> set '' _-.%''))) Eol)"

definition opMap :: "string \<Rightarrow> string" where
  "opMap op =
     (case map_of [(''eq'', ''=''), (''neq'', ''<>''), (''gt'', ''>''), (''gte'', ''>=''), (''lt'', ''<''),
        (''lte'', ''<=''), (''like'', ''LIKE'')] op of None \<Rightarrow> [] | Some sql \<Rightarrow> sql)"

fun find_object :: "Program \<Rightarrow> string \<Rightarrow> ObjectDefinition option" where
  "find_object [] name = None"
| "find_object (st # sts) name =
     (case st_Object st of
        Some obj \<Rightarrow> if obj_Name obj = name then Some obj else find_object sts name
      | None \<Rightarrow> find_object sts name)"

definition qual_ref :: "string \<Rightarrow> string \<Rightarrow> string" where
  "qual_ref obj field = QuoteIdentifier obj @ ''.'' @ QuoteIdentifier field"

definition source_field :: "Property \<Rightarrow> string" where
  "source_field p = (if prop_From p = [] then prop_Name p else prop_From p)"

definition case_expr :: "string \<Rightarrow> Property \<Rightarrow> string" where
  "case_expr objName p =
     ''CASE '' @ qual_ref objName (source_field p) @
     concat (map (\<lambda>mp. '' WHEN '' @ [SQ] @ ReplaceAll (map_From mp) SQ [SQ, SQ] @ [SQ] @ '' THEN '' @
       [SQ] @ ReplaceAll (map_To mp) SQ [SQ, SQ] @ [SQ]) (prop_Maps p)) @ '' END''"

definition property_clauses :: "string \<Rightarrow> Factor list \<Rightarrow> Property \<Rightarrow> string list" where
  "property_clauses objName factors p =
     (let qiProp = QuoteIdentifier (prop_Name p);
          safeSource = qual_ref objName (source_field p)
      in (if prop_Predict p
          then [''0.0 AS '' @ qiProp @ ''_probability'', ''NULL AS '' @ qiProp @ ''_vector''] else []) @
         map (\<lambda>f. ''0.0 AS '' @ QuoteIdentifier (''_factor_'' @ factor_Name f)) factors @
         [(if prop_Maps p \<noteq> [] then case_expr objName p else safeSource) @ '' AS '' @ qiProp])"

definition aggregate_clause :: "string \<Rightarrow> AggregateDefinition \<Rightarrow> string" where
  "aggregate_clause objName agg =
     ToUpper (agg_Function agg) @ ''('' @ qual_ref objName (agg_Field agg) @ '') AS '' @
     QuoteIdentifier (agg_Alias agg)"

definition parquet_path :: "Compiler \<Rightarrow> string \<Rightarrow> string" where
  "parquet_path c src = c_DataRoot c @ ''/'' @ src @ ''/latest/*.parquet''"

definition table_source :: "Compiler \<Rightarrow> string \<Rightarrow> string \<Rightarrow> path_error + string" where
  "table_source c src name =
     (if c_UseViews c then Inr (QuoteIdentifier name)
      else case SanitizeFilePath (parquet_path c src) of
             Inl e \<Rightarrow> Inl e
           | Inr _ \<Rightarrow> Inr (''read_parquet('' @ QuoteStringLiteral (parquet_path c src) @ '') AS '' @
               QuoteIdentifier name))"

text \<open>The join clauses of one statement: none, or one if it is a relation from the object to a known one.\<close>

definition join_clause :: "Compiler \<Rightarrow> string \<Rightarrow> Statement \<Rightarrow> compile_error + string list" where
  "join_clause c objName st =
     (case st_Relation st of
        None \<Rightarrow> Inr []
      | Some r \<Rightarrow>
          if rel_From r \<noteq> objName then Inr []
          else case find_object (c_Program c) (rel_To r) of
                 None \<Rightarrow> Inr []
               | Some target \<Rightarrow>
                   (case table_source c (obj_FromSource target) (rel_To r) of
                      Inl e \<Rightarrow> Inl (InvalidRelationSource (rel_Name r) e)
                    | Inr src \<Rightarrow> Inr ['' LEFT JOIN '' @ src @ '' ON '' @ qual_ref objName (rel_LeftOn r) @
                        '' = '' @ qual_ref (rel_To r) (rel_RightOn r)]))"

definition where_clause :: "string \<Rightarrow> FilterDefinition \<Rightarrow> compile_error + string" where
  "where_clause objName f =
     (let v = filter_Value f; fieldop = qual_ref objName (filter_Field f) @ '' '' @ opMap (filter_Op f) @ '' ''
      in if isNumeric v then Inr (fieldop @ v)
         else if \<not> MatchString validFilterValue v then Inl (InvalidFilterValue v)
         else Inr (fieldop @ [SQ] @ ReplaceAll v SQ [SQ, SQ] @ [SQ]))"

definition group_by_clauses :: "string \<Rightarrow> ObjectDefinition \<Rightarrow> string list" where
  "group_by_clauses objName obj =
     (if obj_Aggregates obj = [] then []
      else map (\<lambda>p. qual_ref objName (prop_Name p))
             (filter (\<lambda>p. prop_Name p \<notin> set (map agg_Field (obj_Aggregates obj))) (obj_Properties obj)))"

definition CompileObject :: "Compiler \<Rightarrow> string \<Rightarrow> compile_error + string" where
  "CompileObject c objName =
     (case find_object (c_Program c) objName of
        None \<Rightarrow> Inl (ObjectNotFound objName)
      | Some obj \<Rightarrow>
          (case mapE (join_clause c objName) (c_Program c) of
             Inl e \<Rightarrow> Inl e
           | Inr joins \<Rightarrow>
              (case mapE (where_clause objName) (obj_Filters obj) of
                 Inl e \<Rightarrow> Inl e
               | Inr wheres \<Rightarrow>
                  (case table_source c (obj_FromSource obj) objName of
                     Inl e \<Rightarrow> Inl (InvalidObjectSource (obj_Name obj) e)
                   | Inr fromSource \<Rightarrow>
                      let selects = concat (map (property_clauses objName (obj_Factors obj)) (obj_Properties obj)) @
                                    map (aggregate_clause objName) (obj_Aggregates obj);
                          groups = group_by_clauses objName obj
                      in Inr (''SELECT '' @ Join selects '', '' @ '' FROM '' @ fromSource @
                           Join (concat joins) '' '' @
                           (if wheres = [] then [] else '' WHERE '' @ Join wheres '' AND '') @
                           (if groups = [] then [] else '' GROUP BY '' @ Join groups '', ''))))))"

definition ddl_statement :: "Compiler \<Rightarrow> ObjectDefinition \<Rightarrow> compile_error + string" where
  "ddl_statement c obj =
     (case SanitizeFilePath (obj_FromSource obj) of
        Inl e \<Rightarrow> Inl (InvalidObjectSource (obj_Name obj) e)
      | Inr _ \<Rightarrow>
          Inr (''CREATE OR REPLACE VIEW '' @ QuoteIdentifier (obj_Name obj) @ '' AS SELECT '' @
            Join (map (\<lambda>p. ''source.'' @ QuoteIdentifier (source_field p) @ '' AS '' @
              QuoteIdentifier (prop_Name p)) (obj_Properties obj)) '', '' @
            '' FROM read_parquet('' @ QuoteStringLiteral (parquet_path c (obj_FromSource obj)) @ '') AS source''))"

definition CompileDDL :: "Compiler \<Rightarrow> compile_error + string list" where
  "CompileDDL c = mapE (ddl_statement c) (List.map_filter st_Object (c_Program c))"

text \<open>
  The function-calling description of an action; the two nested Go maps are the record of
  their fixed keys, and \<open>tool_properties\<close> is the JSON object of the parameters.
\<close>

record ActionTool =
  tool_name :: string
  tool_description :: string
  tool_properties :: "string \<rightharpoonup> string"
  tool_required :: "string list"

definition action_tool :: "ActionDefinition \<Rightarrow> ActionTool" where
  "action_tool a =
     \<lparr>tool_name = action_Name a,
      tool_description = ''Execute action '' @ action_Name a @ '' on object '' @ action_OnObject a,
      tool_properties = foldl (\<lambda>ps p. ps(prop_Name p \<mapsto> ''string'')) Map.empty (action_Parameters a),
      tool_required = map prop_Name (action_Parameters a)\<rparr>"

definition CompileActions :: "Compiler \<Rightarrow> ActionTool list" where
  "CompileActions c = map action_tool (List.map_filter st_Action (c_Program c))"

section \<open>The statement an object means\<close>

definition ref_tokens :: "string \<Rightarrow> string \<Rightarrow> tok list" where
  "ref_tokens obj field = [TIdent obj, TWord ''.'', TIdent field]"

definition case_tokens :: "string \<Rightarrow> Property \<Rightarrow> tok list" where
  "case_tokens objName p =
     TWord ''CASE'' # ref_tokens objName (source_field p) @
     concat (map (\<lambda>mp. [TWord ''WHEN'', TString (map_From mp), TWord ''THEN'', TString (map_To mp)]) (prop_Maps p)) @
     [TWord ''END'']"

definition property_tokens :: "string \<Rightarrow> Factor list \<Rightarrow> Property \<Rightarrow> tok list list" where
  "property_tokens objName factors p =
     (if prop_Predict p
      then [[TWord ''0.0'', TWord ''AS'', TIdent (prop_Name p), TWord ''_probability''],
            [TWord ''NULL'', TWord ''AS'', TIdent (prop_Name p), TWord ''_vector'']] else []) @
     map (\<lambda>f. [TWord ''0.0'', TWord ''AS'', TIdent (''_factor_'' @ factor_Name f)]) factors @
     [(if prop_Maps p \<noteq> [] then case_tokens objName p else ref_tokens objName (source_field p)) @
      [TWord ''AS'', TIdent (prop_Name p)]]"

definition aggregate_tokens :: "string \<Rightarrow> AggregateDefinition \<Rightarrow> tok list" where
  "aggregate_tokens objName agg =
     [TWord (ToUpper (agg_Function agg)), TSym (CHR ''('')] @ ref_tokens objName (agg_Field agg) @
     [TSym (CHR '')''), TWord ''AS'', TIdent (agg_Alias agg)]"

definition source_tokens :: "Compiler \<Rightarrow> string \<Rightarrow> string \<Rightarrow> tok list" where
  "source_tokens c src name =
     (if c_UseViews c then [TIdent name]
      else [TWord ''read_parquet'', TSym (CHR ''(''), TString (parquet_path c src), TSym (CHR '')''),
            TWord ''AS'', TIdent name])"

definition join_tokens :: "Compiler \<Rightarrow> string \<Rightarrow> Statement \<Rightarrow> tok list list" where
  "join_tokens c objName st =
     (case st_Relation st of
        None \<Rightarrow> []
      | Some r \<Rightarrow>
          if rel_From r \<noteq> objName then []
          else case find_object (c_Program c) (rel_To r) of
                 None \<Rightarrow> []
               | Some target \<Rightarrow>
                   [[TWord ''LEFT'', TWord ''JOIN''] @ source_tokens c (obj_FromSource target) (rel_To r) @
                    [TWord ''ON''] @ ref_tokens objName (rel_LeftOn r) @ [TSym (CHR ''='')] @
                    ref_tokens (rel_To r) (rel_RightOn r)])"

definition value_tokens :: "string \<Rightarrow> tok list" where
  "value_tokens v = (if isNumeric v then lex v else [TString v])"

definition filter_tokens :: "string \<Rightarrow> FilterDefinition \<Rightarrow> tok list" where
  "filter_tokens objName f =
     ref_tokens objName (filter_Field f) @ lex (opMap (filter_Op f)) @ value_tokens (filter_Value f)"

definition object_tokens :: "Compiler \<Rightarrow> string \<Rightarrow> ObjectDefinition \<Rightarrow> tok list" where
  "object_tokens c objName obj =
     (let selects = concat (map (property_tokens objName (obj_Factors obj)) (obj_Properties obj)) @
                    map (aggregate_tokens objName) (obj_Aggregates obj);
          grouped = (if obj_Aggregates obj = [] then [] else
             filter (\<lambda>p. prop_Name p \<notin> set (map agg_Field (obj_Aggregates obj))) (obj_Properties obj))
      in [TWord ''SELECT''] @ sep_by [TSym (CHR '','')] selects @ [TWord ''FROM''] @
         source_tokens c (obj_FromSource obj) objName @
         concat (concat (map (join_tokens c objName) (c_Program c))) @
         (if obj_Filters obj = [] then []
          else TWord ''WHERE'' # sep_by [TWord ''AND''] (map (filter_tokens objName) (obj_Filters obj))) @
         (if grouped = [] then []
          else [TWord ''GROUP'', TWord ''BY''] @
               sep_by [TSym (CHR '','')] (map (\<lambda>p. ref_tokens objName (prop_Name p)) grouped)))"

section \<open>Lexing the fragments\<close>

lemmas lit_char_simps = word_or_dot_def is_word_char_def is_alpha_def is_lower_def is_upper_def
  is_digit_def code_def is_space_def

lemma lexes0_lits [lexing]:
  "lexes0 '' AS '' [TWord ''AS'']" "lexes0 ''SELECT '' [TWord ''SELECT'']" "lexes0 '' FROM '' [TWord ''FROM'']"
  "lexes0 ''0.0 AS '' [TWord ''0.0'', TWord ''AS'']" "lexes0 ''NULL AS '' [TWord ''NULL'', TWord ''AS'']"
  "lexes0 ''CASE '' [TWord ''CASE'']" "lexes0 '' WHEN '' [TWord ''WHEN'']" "lexes0 '' THEN '' [TWord ''THEN'']"
  "lexes0 ''('' [TSym (CHR ''('')]" "lexes0 '') AS '' [TSym (CHR '')''), TWord ''AS'']"
  "lexes0 ''read_parquet('' [TWord ''read_parquet'', TSym (CHR ''('')]"
  "lexes0 '' LEFT JOIN '' [TWord ''LEFT'', TWord ''JOIN'']" "lexes0 '' ON '' [TWord ''ON'']"
  "lexes0 '' = '' [TSym (CHR ''='')]" "lexes0 '' WHERE '' [TWord ''WHERE'']" "lexes0 '' AND '' [TWord ''AND'']"
  "lexes0 '' GROUP BY '' [TWord ''GROUP'', TWord ''BY'']" "lexes0 '', '' [TSym (CHR '','')]"
  "lexes0 '' '' []"
  by (simp_all add: lexes0_def lex.simps(2) lit_char_simps)

lemma lexes_END: "lexes '' END'' [TWord ''END'']"
  unfolding lexes_def
proof (intro allI impI)
  fix rest assume "at_sep rest"
  then have "rest = [] \<or> \<not> word_or_dot (hd rest)" using sep_char_facts(1) by (cases rest) auto
  from lex_word [OF _ _ this, of "''END''"] show "lex ('' END'' @ rest) = [TWord ''END''] @ lex rest"
    by (simp add: lit_char_simps)
qed

lemma lexes_cat:
  "lexes a ta \<Longrightarrow> lexes b tb \<Longrightarrow> at_sep b \<Longrightarrow> ts = ta @ tb \<Longrightarrow> lexes (a @ b) ts"
  by (simp add: lexes_append_at_sep)

lemma lexes0_cat: "lexes0 a ta \<Longrightarrow> lexes b tb \<Longrightarrow> ts = ta @ tb \<Longrightarrow> lexes (a @ b) ts"
  by (simp add: lexes0_lexes_append)

lemma lexes_ident: "lexes (QuoteIdentifier s) [TIdent s]" and
  lexes_string: "lexes (QuoteStringLiteral s) [TString s]"
  by (simp_all add: quote_lexing)

lemma lexes_ref: "lexes (qual_ref obj field) (ref_tokens obj field)"
  unfolding lexes_def
proof (intro allI impI)
  fix rest assume "at_sep rest"
  have hdq: "hd (QuoteIdentifier field @ rest) = DQ" by (simp add: QuoteIdentifier_def)
  have "lex (qual_ref obj field @ rest) = TIdent obj # lex (''.'' @ QuoteIdentifier field @ rest)"
    by (simp add: qual_ref_def qid.quot_lex_ident)
  also have "lex (''.'' @ QuoteIdentifier field @ rest) = TWord ''.'' # lex (QuoteIdentifier field @ rest)"
    by (rule lex_word) (simp_all add: hdq lit_char_simps)
  also have "lex (QuoteIdentifier field @ rest) = TIdent field # lex rest"
    using lexes_ident \<open>at_sep rest\<close> by (simp add: lexes_def)
  finally show "lex (qual_ref obj field @ rest) = ref_tokens obj field @ lex rest"
    by (simp add: ref_tokens_def)
qed

lemma lexes_ident_word:
  assumes "w \<noteq> []" "list_all word_or_dot w"
  shows "lexes (QuoteIdentifier s @ w) [TIdent s, TWord w]"
  unfolding lexes_def
proof (intro allI impI)
  fix rest assume "at_sep rest"
  then have rest: "rest = [] \<or> \<not> word_or_dot (hd rest)" using sep_char_facts(1) by (cases rest) auto
  have "hd w \<noteq> DQ" using assms by (cases w) (auto simp: lit_char_simps)
  with assms(1) have "lex (QuoteIdentifier s @ w @ rest) = TIdent s # lex (w @ rest)"
    by (intro qid.quot_lex_ident) (simp_all add: hd_append)
  with lex_word [OF assms(2,1) rest] show "lex ((QuoteIdentifier s @ w) @ rest) = [TIdent s, TWord w] @ lex rest"
    by simp
qed

lemma quoted_literal_eq: "[SQ] @ ReplaceAll s SQ [SQ, SQ] @ [SQ] @ t = QuoteStringLiteral s @ t"
  by (simp add: QuoteStringLiteral_def)

lemma lexes_map_arm:
  "lexes ('' WHEN '' @ QuoteStringLiteral a @ '' THEN '' @ QuoteStringLiteral b)
     [TWord ''WHEN'', TString a, TWord ''THEN'', TString b]"
  by (rule lexes0_cat [OF lexes0_lits(7)], rule lexes_cat [OF lexes_string],
      rule lexes0_cat [OF lexes0_lits(8) lexes_string]) simp_all

lemma at_sep_app: "at_sep s \<Longrightarrow> at_sep t \<Longrightarrow> at_sep (s @ t)"
  by (cases s) simp_all

lemma lexes_concat:
  "list_all2 lexes xs tss \<Longrightarrow> list_all at_sep xs \<Longrightarrow> lexes (concat xs) (concat tss) \<and> at_sep (concat xs)"
proof (induction xs tss rule: list_all2_induct)
  case Nil
  then show ?case by (simp add: lexes0_lexes lexes0_Nil)
next
  case (Cons x xs ts tss)
  then show ?case by (simp add: lexes_append_at_sep at_sep_app)
qed

lemma lexes_case: "lexes (case_expr objName p) (case_tokens objName p)"
proof -
  let ?arm = "\<lambda>mp. '' WHEN '' @ QuoteStringLiteral (map_From mp) @ '' THEN '' @ QuoteStringLiteral (map_To mp)"
  let ?tok = "\<lambda>mp. [TWord ''WHEN'', TString (map_From mp), TWord ''THEN'', TString (map_To mp)]"
  have arms: "lexes (concat (map ?arm (prop_Maps p))) (concat (map ?tok (prop_Maps p))) \<and>
      at_sep (concat (map ?arm (prop_Maps p)))"
    by (rule lexes_concat) (simp_all add: list_all2_map1 list_all2_map2 list_all2_same list_all_iff
        lexes_map_arm [simplified])
  have eq: "case_expr objName p =
      ''CASE '' @ qual_ref objName (source_field p) @ concat (map ?arm (prop_Maps p)) @ '' END''"
    by (simp add: case_expr_def QuoteStringLiteral_def)
  show ?thesis
    unfolding eq
  proof (rule lexes0_cat [OF lexes0_lits(6)], rule lexes_cat [OF lexes_ref])
    show "lexes (concat (map ?arm (prop_Maps p)) @ '' END'')
        (concat (map ?tok (prop_Maps p)) @ [TWord ''END''])"
      using arms by (intro lexes_cat [OF _ lexes_END]) simp_all
    show "at_sep (concat (map ?arm (prop_Maps p)) @ '' END'')" using arms by (simp add: at_sep_app)
  qed (simp_all add: case_tokens_def)
qed

lemma lexes_property:
  "list_all2 lexes (property_clauses objName factors p) (property_tokens objName factors p)"
proof -
  have as_clause: "lexes (x @ '' AS '' @ QuoteIdentifier a) (ts @ [TWord ''AS'', TIdent a])" if "lexes x ts" for x ts a
    by (rule lexes_cat [OF that lexes0_cat [OF lexes0_lits(1) lexes_ident refl]]) simp_all
  have zero: "lexes (''0.0 AS '' @ QuoteIdentifier a) [TWord ''0.0'', TWord ''AS'', TIdent a]" for a
    by (rule lexes0_cat [OF lexes0_lits(4) lexes_ident]) simp
  have prob: "lexes (''0.0 AS '' @ QuoteIdentifier a @ ''_probability'')
      [TWord ''0.0'', TWord ''AS'', TIdent a, TWord ''_probability'']" for a
    by (rule lexes0_cat [OF lexes0_lits(4) lexes_ident_word]) (simp_all add: lit_char_simps)
  have vec: "lexes (''NULL AS '' @ QuoteIdentifier a @ ''_vector'')
      [TWord ''NULL'', TWord ''AS'', TIdent a, TWord ''_vector'']" for a
    by (rule lexes0_cat [OF lexes0_lits(5) lexes_ident_word]) (simp_all add: lit_char_simps)
  show ?thesis
    unfolding property_clauses_def property_tokens_def Let_def
    by (intro list_all2_appendI)
      (auto simp: list_all2_map1 list_all2_map2 list_all2_same prob [simplified] vec [simplified] zero [simplified]
        as_clause [simplified] lexes_case lexes_ref)
qed

lemma upper_char_word: "is_word_char c \<Longrightarrow> word_or_dot (upper_char c)"
proof -
  assume c: "is_word_char c"
  show ?thesis
  proof (cases "is_lower c")
    case True
    then have "code (upper_char c) = code c - 32"
      using code_char_of [OF le_less_trans [OF diff_le_self code_less]] by (simp add: upper_char_def)
    moreover from True have "65 \<le> code c - 32 \<and> code c - 32 \<le> 90" unfolding is_lower_def by linarith
    ultimately show ?thesis by (simp add: word_or_dot_def is_word_char_def is_alpha_def is_upper_def)
  next
    case False
    with c show ?thesis by (simp add: upper_char_def word_or_dot_def)
  qed
qed

lemma lexes_aggregate:
  assumes "agg_Function agg \<noteq> []" "list_all is_word_char (agg_Function agg)"
  shows "lexes (aggregate_clause objName agg) (aggregate_tokens objName agg)"
proof -
  have w: "list_all word_or_dot (ToUpper (agg_Function agg))" "ToUpper (agg_Function agg) \<noteq> []"
    using assms upper_char_word by (auto simp: ToUpper_def list_all_iff)
  have "lexes (ToUpper (agg_Function agg)) [TWord (ToUpper (agg_Function agg))]"
    unfolding lexes_def
  proof (intro allI impI)
    fix rest assume "at_sep rest"
    then have "rest = [] \<or> \<not> word_or_dot (hd rest)" using sep_char_facts(1) by (cases rest) auto
    from lex_word [OF w this] show "lex (ToUpper (agg_Function agg) @ rest) = [TWord (ToUpper (agg_Function agg))] @ lex rest"
      by simp
  qed
  then show ?thesis
    unfolding aggregate_clause_def
    by (rule lexes_cat, rule_tac lexes0_cat [OF lexes0_lits(9)], rule_tac lexes_cat [OF lexes_ref],
        rule_tac lexes0_cat [OF lexes0_lits(10) lexes_ident]) (simp_all add: aggregate_tokens_def)
qed

lemma lexes_source:
  assumes "table_source c src name = Inr sql"
  shows "lexes sql (source_tokens c src name)"
proof (cases "c_UseViews c")
  case True
  with assms have "sql = QuoteIdentifier name" by (simp add: table_source_def)
  with True show ?thesis by (simp add: source_tokens_def lexes_ident)
next
  case False
  with assms have sql: "sql = ''read_parquet('' @ QuoteStringLiteral (parquet_path c src) @ '') AS '' @ QuoteIdentifier name"
    by (simp add: table_source_def split: sum.splits)
  show ?thesis
    unfolding sql
    by (rule lexes0_cat [OF lexes0_lits(11)], rule lexes_cat [OF lexes_string],
        rule lexes0_cat [OF lexes0_lits(10) lexes_ident]) (simp_all add: source_tokens_def False)
qed

lemma lexes_join:
  assumes "join_clause c objName st = Inr js"
  shows "list_all2 lexes js (join_tokens c objName st) \<and> list_all at_sep js"
proof (cases "\<exists>r target. st_Relation st = Some r \<and> rel_From r = objName \<and> find_object (c_Program c) (rel_To r) = Some target")
  case True
  then obtain r target where r: "st_Relation st = Some r" "rel_From r = objName"
    "find_object (c_Program c) (rel_To r) = Some target" by blast
  with assms obtain src where src: "table_source c (obj_FromSource target) (rel_To r) = Inr src"
    and js: "js = ['' LEFT JOIN '' @ src @ '' ON '' @ qual_ref objName (rel_LeftOn r) @ '' = '' @
      qual_ref (rel_To r) (rel_RightOn r)]"
    by (auto simp: join_clause_def split: sum.splits)
  have "lexes ('' LEFT JOIN '' @ src @ '' ON '' @ qual_ref objName (rel_LeftOn r) @ '' = '' @
      qual_ref (rel_To r) (rel_RightOn r))
    ([TWord ''LEFT'', TWord ''JOIN''] @ source_tokens c (obj_FromSource target) (rel_To r) @
      [TWord ''ON''] @ ref_tokens objName (rel_LeftOn r) @ [TSym (CHR ''='')] @ ref_tokens (rel_To r) (rel_RightOn r))"
    by (rule lexes0_cat [OF lexes0_lits(12)], rule lexes_cat [OF lexes_source [OF src]],
        rule lexes0_cat [OF lexes0_lits(13)], rule lexes_cat [OF lexes_ref],
        rule lexes0_cat [OF lexes0_lits(14) lexes_ref]) simp_all
  with r js show ?thesis by (simp add: join_tokens_def)
next
  case False
  with assms show ?thesis
    by (auto simp: join_clause_def join_tokens_def split: option.splits if_splits)
qed

lemma isNumeric_lexes:
  "isNumeric v \<Longrightarrow> lexes v (lex v) \<and> list_all number_token (lex v)"
  using Atoi_shape ParseFloat_ok_shape number_lexes by (auto simp: isNumeric_def)

lemma lexes_op: "lexes (opMap op @ '' '' @ v) (lex (opMap op) @ ts)" if v: "lexes v ts" for v
proof -
  have cases_op: "opMap op \<in> {[], ''='', ''<>'', ''>'', ''>='', ''<'', ''<='', ''LIKE''}"
    by (simp add: opMap_def)
  have "lexes0 (o' @ '' '') (lex o')" if "o' \<in> {[], ''='', ''<>'', ''>'', ''>='', ''<'', ''<='', ''LIKE''}" for o'
    using that by (auto simp: lexes0_def lex.simps(2) lit_char_simps)
  from lexes0_lexes_append [OF this [OF cases_op] v] show ?thesis by simp
qed

lemma lexes_where:
  assumes "where_clause objName f = Inr sql"
  shows "lexes sql (filter_tokens objName f)"
proof -
  define v where "v = (if isNumeric (filter_Value f) then filter_Value f else QuoteStringLiteral (filter_Value f))"
  have sql: "sql = qual_ref objName (filter_Field f) @ '' '' @ opMap (filter_Op f) @ '' '' @ v"
    using assms by (auto simp: where_clause_def Let_def v_def QuoteStringLiteral_def split: if_splits)
  have "lexes v (value_tokens (filter_Value f))"
    using isNumeric_lexes by (simp add: v_def value_tokens_def lexes_string)
  from lexes0_cat [OF lexes0_lits(19) lexes_op [OF this] refl]
  have "lexes ('' '' @ opMap (filter_Op f) @ '' '' @ v)
      (lex (opMap (filter_Op f)) @ value_tokens (filter_Value f))" by simp
  from lexes_cat [OF lexes_ref this] show ?thesis
    unfolding sql by (simp add: filter_tokens_def)
qed

lemma list_all2_concat_map:
  "(\<And>x. x \<in> set xs \<Longrightarrow> list_all2 P (f x) (g x)) \<Longrightarrow> list_all2 P (concat (map f xs)) (concat (map g xs))"
  by (induction xs) (auto intro: list_all2_appendI)

text \<open>What the grammar guarantees of a parsed object: the aggregate functions are the five keywords.\<close>

definition grammar_object :: "ObjectDefinition \<Rightarrow> bool" where
  "grammar_object obj \<longleftrightarrow>
     list_all (\<lambda>a. agg_Function a \<in> set [''count'', ''sum'', ''avg'', ''min'', ''max'']) (obj_Aggregates obj)"

lemma grammar_aggregate:
  "grammar_object obj \<Longrightarrow> a \<in> set (obj_Aggregates obj) \<Longrightarrow>
     agg_Function a \<noteq> [] \<and> list_all is_word_char (agg_Function a)"
proof -
  assume "grammar_object obj" "a \<in> set (obj_Aggregates obj)"
  then have "agg_Function a \<in> set [''count'', ''sum'', ''avg'', ''min'', ''max'']"
    by (simp only: grammar_object_def list_all_iff)
  then show ?thesis by (auto simp: lit_char_simps)
qed

lemma lexes_selects:
  assumes "grammar_object obj"
  shows "lexes (Join (concat (map (property_clauses objName (obj_Factors obj)) (obj_Properties obj)) @
            map (aggregate_clause objName) (obj_Aggregates obj)) '', '')
          (sep_by [TSym (CHR '','')] (concat (map (property_tokens objName (obj_Factors obj)) (obj_Properties obj)) @
            map (aggregate_tokens objName) (obj_Aggregates obj)))"
proof (rule lexes_Join [OF list_all2_appendI lexes0_lits(18)])
  show "list_all2 lexes (concat (map (property_clauses objName (obj_Factors obj)) (obj_Properties obj)))
      (concat (map (property_tokens objName (obj_Factors obj)) (obj_Properties obj)))"
    by (rule list_all2_concat_map) (rule lexes_property)
  show "list_all2 lexes (map (aggregate_clause objName) (obj_Aggregates obj))
      (map (aggregate_tokens objName) (obj_Aggregates obj))"
    using grammar_aggregate [OF assms] by (simp add: list_all2_map1 list_all2_map2 list_all2_same lexes_aggregate)
qed simp_all

lemma lexes_groups:
  "lexes (Join (map (\<lambda>p. qual_ref objName (prop_Name p)) ps) '', '')
     (sep_by [TSym (CHR '','')] (map (\<lambda>p. ref_tokens objName (prop_Name p)) ps))"
  by (rule lexes_Join [OF _ lexes0_lits(18)]) (simp_all add: list_all2_map1 list_all2_map2 list_all2_same lexes_ref)

lemma lexes_wheres:
  assumes "mapE (where_clause objName) fs = Inr wheres"
  shows "lexes (Join wheres '' AND '') (sep_by [TWord ''AND''] (map (filter_tokens objName) fs))"
proof (rule lexes_Join [OF _ lexes0_lits(16)])
  have "list_all2 (\<lambda>f w. where_clause objName f = Inr w) fs wheres" using assms by (simp add: mapE_Inr)
  then show "list_all2 lexes wheres (map (filter_tokens objName) fs)"
    by (induction rule: list_all2_induct) (simp_all add: lexes_where)
qed simp_all

lemma lexes_joins:
  assumes "mapE (join_clause c objName) sts = Inr joins"
  shows "lexes (Join (concat joins) '' '') (concat (concat (map (join_tokens c objName) sts))) \<and>
    at_sep (Join (concat joins) '' '')"
proof -
  have "list_all2 (\<lambda>st js. join_clause c objName st = Inr js) sts joins" using assms by (simp add: mapE_Inr)
  then have js: "list_all2 lexes (concat joins) (concat (map (join_tokens c objName) sts)) \<and> list_all at_sep (concat joins)"
    by (induction rule: list_all2_induct) (auto dest!: lexes_join intro: list_all2_appendI)
  moreover have "sep_by [] tss = concat tss" for tss
    by (induction "[] :: tok list" tss rule: sep_by.induct) auto
  moreover have "at_sep (Join xs '' '')" if "list_all at_sep xs" for xs
    using that by (cases xs; cases "tl xs") (auto intro!: at_sep_app)
  ultimately show ?thesis
    using lexes_Join [OF conjunct1 [OF js] lexes0_lits(19)] by simp
qed

lemma CompileObject_lex:
  assumes "CompileObject c objName = Inr sql"
    and "\<And>obj. find_object (c_Program c) objName = Some obj \<Longrightarrow> grammar_object obj"
  shows "\<exists>obj. find_object (c_Program c) objName = Some obj \<and> lex sql = object_tokens c objName obj"
proof -
  from assms(1) obtain obj joins wheres fromSource where
    obj: "find_object (c_Program c) objName = Some obj"
    and joins: "mapE (join_clause c objName) (c_Program c) = Inr joins"
    and wheres: "mapE (where_clause objName) (obj_Filters obj) = Inr wheres"
    and src: "table_source c (obj_FromSource obj) objName = Inr fromSource"
    by (auto simp: CompileObject_def split: option.splits sum.splits)
  define ps where "ps = (if obj_Aggregates obj = [] then [] else
     filter (\<lambda>p. prop_Name p \<notin> set (map agg_Field (obj_Aggregates obj))) (obj_Properties obj))"
  have groups: "group_by_clauses objName obj = map (\<lambda>p. qual_ref objName (prop_Name p)) ps"
    by (simp add: group_by_clauses_def ps_def)
  define gr where "gr = (if ps = [] then [] else '' GROUP BY '' @ Join (map (\<lambda>p. qual_ref objName (prop_Name p)) ps) '', '')"
  define wh where "wh = (if wheres = [] then [] else '' WHERE '' @ Join wheres '' AND '')"
  define gt where "gt = (if ps = [] then [] else [TWord ''GROUP'', TWord ''BY''] @
     sep_by [TSym (CHR '','')] (map (\<lambda>p. ref_tokens objName (prop_Name p)) ps))"
  define wt where "wt = (if obj_Filters obj = [] then []
     else TWord ''WHERE'' # sep_by [TWord ''AND''] (map (filter_tokens objName) (obj_Filters obj)))"
  have gr: "lexes gr gt" "at_sep gr"
    using lexes0_cat [OF lexes0_lits(17) lexes_groups [of objName ps] refl]
    by (simp_all add: gr_def gt_def lexes0_lexes lexes0_Nil)
  have wemp: "wheres = [] \<longleftrightarrow> obj_Filters obj = []"
    using wheres by (auto simp: mapE_Inr)
  have wh: "lexes wh wt" "at_sep wh"
    using lexes0_cat [OF lexes0_lits(15) lexes_wheres [OF wheres] refl]
    by (simp_all add: wh_def wt_def wemp lexes0_lexes lexes0_Nil)
  note jn = lexes_joins [OF joins]
  let ?sel = "Join (concat (map (property_clauses objName (obj_Factors obj)) (obj_Properties obj)) @
      map (aggregate_clause objName) (obj_Aggregates obj)) '', ''"
  have sql: "sql = ''SELECT '' @ ?sel @ '' FROM '' @ fromSource @ Join (concat joins) '' '' @ wh @ gr"
    using assms(1) by (simp add: CompileObject_def obj joins wheres src groups Let_def wh_def gr_def)
  have "lexes sql (object_tokens c objName obj)"
    unfolding sql
    by (rule lexes0_cat [OF lexes0_lits(2)], rule lexes_cat [OF lexes_selects [OF assms(2) [OF obj]]],
        rule lexes0_cat [OF lexes0_lits(3)], rule lexes_cat [OF lexes_source [OF src]],
        rule lexes_cat [OF conjunct1 [OF jn]], rule lexes_cat [OF wh(1) gr])
      (simp_all add: jn wh gr at_sep_app object_tokens_def Let_def ps_def [symmetric] gt_def wt_def)
  with obj lexes_lex show ?thesis by blast
qed

section \<open>Nothing escapes its token\<close>

text \<open>A token that starts a comment, ends the statement, or is an unclosed quote.\<close>

definition breaks_out :: "tok \<Rightarrow> bool" where
  "breaks_out t \<longleftrightarrow> t = TComment \<or> t = TUnterminated \<or> t = TSym (CHR '';'')"

lemma breaks_out_lits [simp]: "\<not> breaks_out (TWord w)" "\<not> breaks_out (TIdent w)" "\<not> breaks_out (TString w)"
  "\<not> breaks_out (TSym (CHR '',''))" "\<not> breaks_out (TSym (CHR ''(''))" "\<not> breaks_out (TSym (CHR '')''))"
  "\<not> breaks_out (TSym (CHR ''=''))"
  by (simp_all add: breaks_out_def)

lemma number_token_inert: "list_all number_token ts \<Longrightarrow> t \<in> set ts \<Longrightarrow> \<not> breaks_out t"
proof -
  assume "list_all number_token ts" "t \<in> set ts"
  then have "number_token t" by (simp add: list_all_iff)
  then show ?thesis by (cases t) (auto simp: number_token_def breaks_out_def)
qed

lemma op_inert: "t \<in> set (lex (opMap op)) \<Longrightarrow> \<not> breaks_out t"
proof -
  have "opMap op \<in> {[], ''='', ''<>'', ''>'', ''>='', ''<'', ''<='', ''LIKE''}" by (simp add: opMap_def)
  moreover have "o' \<in> {[], ''='', ''<>'', ''>'', ''>='', ''<'', ''<='', ''LIKE''} \<Longrightarrow> t \<in> set (lex o') \<Longrightarrow> \<not> breaks_out t" for o'
    by (auto simp: lex.simps(2) lit_char_simps breaks_out_def)
  ultimately show "t \<in> set (lex (opMap op)) \<Longrightarrow> \<not> breaks_out t" by blast
qed

lemma filter_inert: "t \<in> set (filter_tokens objName f) \<Longrightarrow> \<not> breaks_out t"
proof -
  have "t \<in> set (value_tokens v) \<Longrightarrow> \<not> breaks_out t" for v
    using isNumeric_lexes number_token_inert by (auto simp: value_tokens_def breaks_out_def split: if_splits)
  then show "t \<in> set (filter_tokens objName f) \<Longrightarrow> \<not> breaks_out t"
    using op_inert by (auto simp: filter_tokens_def ref_tokens_def)
qed

lemma property_inert: "ts \<in> set (property_tokens objName factors p) \<Longrightarrow> t \<in> set ts \<Longrightarrow> \<not> breaks_out t"
  by (auto simp: property_tokens_def case_tokens_def ref_tokens_def breaks_out_def split: if_splits)

lemma aggregate_inert: "t \<in> set (aggregate_tokens objName a) \<Longrightarrow> \<not> breaks_out t"
  by (auto simp: aggregate_tokens_def ref_tokens_def breaks_out_def)

lemma source_inert: "t \<in> set (source_tokens c src name) \<Longrightarrow> \<not> breaks_out t"
  by (auto simp: source_tokens_def breaks_out_def split: if_splits)

lemma join_inert: "ts \<in> set (join_tokens c objName st) \<Longrightarrow> t \<in> set ts \<Longrightarrow> \<not> breaks_out t"
proof -
  assume ts: "ts \<in> set (join_tokens c objName st)" "t \<in> set ts"
  then obtain r where r: "st_Relation st = Some r" by (cases "st_Relation st") (auto simp: join_tokens_def)
  with ts obtain target where "find_object (c_Program c) (rel_To r) = Some target"
    by (cases "find_object (c_Program c) (rel_To r)") (auto simp: join_tokens_def split: if_splits)
  with ts r show ?thesis by (auto simp: join_tokens_def ref_tokens_def dest: source_inert split: if_splits)
qed

lemma sep_by_inert:
  "(\<And>ts t. ts \<in> set tss \<Longrightarrow> t \<in> set ts \<Longrightarrow> \<not> breaks_out t) \<Longrightarrow> (\<And>t. t \<in> set ss \<Longrightarrow> \<not> breaks_out t) \<Longrightarrow>
     t \<in> set (sep_by ss tss) \<Longrightarrow> \<not> breaks_out t"
  using set_sep_by [of ss tss] by fastforce

lemma object_tokens_inert: "t \<in> set (object_tokens c objName obj) \<Longrightarrow> \<not> breaks_out t"
proof -
  let ?selects = "concat (map (property_tokens objName (obj_Factors obj)) (obj_Properties obj)) @
      map (aggregate_tokens objName) (obj_Aggregates obj)"
  have sel: "t \<in> set (sep_by [TSym (CHR '','')] ?selects) \<Longrightarrow> \<not> breaks_out t"
    using property_inert aggregate_inert by (elim sep_by_inert [rotated 2]) auto
  have wh: "t \<in> set (sep_by [TWord ''AND''] (map (filter_tokens objName) fs)) \<Longrightarrow> \<not> breaks_out t" for fs
    using filter_inert by (elim sep_by_inert [rotated 2]) auto
  have gr: "t \<in> set (sep_by [TSym (CHR '','')] (map (\<lambda>p. ref_tokens objName (prop_Name p)) ps)) \<Longrightarrow> \<not> breaks_out t"
    for ps :: "Property list"
    by (elim sep_by_inert [rotated 2]) (auto simp: ref_tokens_def)
  have jn: "t \<in> set (concat (concat (map (join_tokens c objName) sts))) \<Longrightarrow> \<not> breaks_out t" for sts
    using join_inert by fastforce
  assume "t \<in> set (object_tokens c objName obj)"
  then show ?thesis
    unfolding object_tokens_def Let_def set_append Un_iff
    using sel wh gr jn source_inert by (auto split: if_splits simp del: set_concat)
qed

section \<open>View definitions\<close>

definition ddl_tokens :: "Compiler \<Rightarrow> ObjectDefinition \<Rightarrow> tok list" where
  "ddl_tokens c obj =
     [TWord ''CREATE'', TWord ''OR'', TWord ''REPLACE'', TWord ''VIEW'', TIdent (obj_Name obj),
      TWord ''AS'', TWord ''SELECT''] @
     sep_by [TSym (CHR '','')] (map (\<lambda>p. [TWord ''source.'', TIdent (source_field p), TWord ''AS'', TIdent (prop_Name p)])
       (obj_Properties obj)) @
     [TWord ''FROM'', TWord ''read_parquet'', TSym (CHR ''(''), TString (parquet_path c (obj_FromSource obj)),
      TSym (CHR '')''), TWord ''AS'', TWord ''source'']"

lemma lexes0_ddl_lits:
  "lexes0 ''CREATE OR REPLACE VIEW '' [TWord ''CREATE'', TWord ''OR'', TWord ''REPLACE'', TWord ''VIEW'']"
  "lexes0 '' AS SELECT '' [TWord ''AS'', TWord ''SELECT'']"
  "lexes0 '' FROM read_parquet('' [TWord ''FROM'', TWord ''read_parquet'', TSym (CHR ''('')]"
  by (simp_all add: lexes0_def lex.simps(2) lit_char_simps)

lemma lexes_as_source: "lexes '') AS source'' [TSym (CHR '')''), TWord ''AS'', TWord ''source'']"
  unfolding lexes_def
proof (intro allI impI)
  fix rest assume "at_sep rest"
  then have "rest = [] \<or> \<not> word_or_dot (hd rest)" using sep_char_facts(1) by (cases rest) auto
  from lex_word [OF _ _ this, of "''source''"]
  have "lex (''source'' @ rest) = TWord ''source'' # lex rest" by (simp add: lit_char_simps)
  with lexes0_lits(10) show "lex ('') AS source'' @ rest) = [TSym (CHR '')''), TWord ''AS'', TWord ''source''] @ lex rest"
    by (simp add: lexes0_def)
qed

lemma lexes_source_column:
  "lexes (''source.'' @ QuoteIdentifier a @ '' AS '' @ QuoteIdentifier b)
     [TWord ''source.'', TIdent a, TWord ''AS'', TIdent b]"
  unfolding lexes_def
proof (intro allI impI)
  fix rest assume "at_sep rest"
  have "lex (''source.'' @ QuoteIdentifier a @ '' AS '' @ QuoteIdentifier b @ rest) =
      TWord ''source.'' # lex (QuoteIdentifier a @ '' AS '' @ QuoteIdentifier b @ rest)"
    by (rule lex_word) (simp_all add: QuoteIdentifier_def lit_char_simps)
  moreover have "lexes (QuoteIdentifier a @ '' AS '' @ QuoteIdentifier b) [TIdent a, TWord ''AS'', TIdent b]"
    by (rule lexes_cat [OF lexes_ident lexes0_cat [OF lexes0_lits(1) lexes_ident refl]]) simp_all
  ultimately show "lex ((''source.'' @ QuoteIdentifier a @ '' AS '' @ QuoteIdentifier b) @ rest) =
      [TWord ''source.'', TIdent a, TWord ''AS'', TIdent b] @ lex rest"
    using \<open>at_sep rest\<close> by (simp add: lexes_def)
qed

lemma lexes_ddl:
  assumes "ddl_statement c obj = Inr ddl"
  shows "lexes ddl (ddl_tokens c obj)"
proof -
  let ?cols = "map (\<lambda>p. ''source.'' @ QuoteIdentifier (source_field p) @ '' AS '' @ QuoteIdentifier (prop_Name p))
      (obj_Properties obj)"
  have cols: "lexes (Join ?cols '', '') (sep_by [TSym (CHR '','')]
      (map (\<lambda>p. [TWord ''source.'', TIdent (source_field p), TWord ''AS'', TIdent (prop_Name p)]) (obj_Properties obj)))"
    by (rule lexes_Join [OF _ lexes0_lits(18)])
      (simp_all add: list_all2_map1 list_all2_map2 list_all2_same lexes_source_column [simplified])
  have ddl: "ddl = ''CREATE OR REPLACE VIEW '' @ QuoteIdentifier (obj_Name obj) @ '' AS SELECT '' @ Join ?cols '', '' @
      '' FROM read_parquet('' @ QuoteStringLiteral (parquet_path c (obj_FromSource obj)) @ '') AS source''"
    using assms by (simp add: ddl_statement_def split: sum.splits)
  show ?thesis
    unfolding ddl
    by (rule lexes0_cat [OF lexes0_ddl_lits(1)], rule lexes_cat [OF lexes_ident],
        rule lexes0_cat [OF lexes0_ddl_lits(2)], rule lexes_cat [OF cols],
        rule lexes0_cat [OF lexes0_ddl_lits(3)], rule lexes_cat [OF lexes_string lexes_as_source])
      (simp_all add: ddl_tokens_def)
qed

lemma ddl_tokens_inert: "t \<in> set (ddl_tokens c obj) \<Longrightarrow> \<not> breaks_out t"
proof -
  have "t \<in> set (sep_by [TSym (CHR '','')] (map (\<lambda>p. [TWord ''source.'', TIdent (source_field p), TWord ''AS'', TIdent (prop_Name p)]) ps)) \<Longrightarrow>
      \<not> breaks_out t" for ps :: "Property list"
    by (elim sep_by_inert [rotated 2]) auto
  then show "t \<in> set (ddl_tokens c obj) \<Longrightarrow> \<not> breaks_out t" by (auto simp: ddl_tokens_def)
qed

section \<open>When compilation fails\<close>

definition source_ok :: "Compiler \<Rightarrow> string \<Rightarrow> bool" where
  "source_ok c src \<longleftrightarrow> c_UseViews c \<or> SanitizeFilePath (parquet_path c src) = Inr ()"

lemma table_source_ok: "(\<exists>s. table_source c src name = Inr s) \<longleftrightarrow> source_ok c src"
  by (cases "SanitizeFilePath (parquet_path c src)") (auto simp: table_source_def source_ok_def)

lemma mapE_ok: "(\<exists>ys. mapE f xs = Inr ys) \<longleftrightarrow> (\<forall>x \<in> set xs. \<exists>y. f x = Inr y)"
proof (induction xs)
  case (Cons x xs)
  then show ?case by (cases "f x"; cases "mapE f xs") auto
qed simp

definition allowed_value :: "string \<Rightarrow> bool" where
  "allowed_value v \<longleftrightarrow> v \<noteq> [] \<and> list_all (\<lambda>c. is_alpha c \<or> is_digit c \<or> c \<in> set '' _-.%'') v"

lemma where_clause_ok:
  "(\<exists>s. where_clause objName f = Inr s) \<longleftrightarrow> isNumeric (filter_Value f) \<or> allowed_value (filter_Value f)"
  by (simp add: where_clause_def Let_def validFilterValue_def MatchString_anchored re_matches_Plus_Cls allowed_value_def)

lemma join_clause_ok:
  "(\<exists>js. join_clause c objName st = Inr js) \<longleftrightarrow>
     (\<forall>r target. st_Relation st = Some r \<longrightarrow> rel_From r = objName \<longrightarrow>
        find_object (c_Program c) (rel_To r) = Some target \<longrightarrow> source_ok c (obj_FromSource target))"
proof (cases "st_Relation st")
  case (Some r)
  show ?thesis
  proof (cases "find_object (c_Program c) (rel_To r)")
    case None
    with Some show ?thesis by (simp add: join_clause_def)
  next
    case (Some target)
    with \<open>st_Relation st = Some r\<close> table_source_ok [of c "obj_FromSource target" "rel_To r"] show ?thesis
      by (cases "table_source c (obj_FromSource target) (rel_To r)") (auto simp: join_clause_def)
  qed
qed (simp add: join_clause_def)

section \<open>Facts on the input filter\<close>

lemma ValidateDSLInput_no_match:
  "ValidateDSLInput s = Inr () \<Longrightarrow> pat \<in> set sqlInjectionPatterns \<Longrightarrow> \<not> MatchString pat s"
proof -
  assume ok: "ValidateDSLInput s = Inr ()" and pat: "pat \<in> set sqlInjectionPatterns"
  from ok have "List.find (\<lambda>pat. MatchString pat s) sqlInjectionPatterns = None"
    by (cases "List.find (\<lambda>pat. MatchString pat s) sqlInjectionPatterns")
      (simp_all add: ValidateDSLInput_def split: if_splits)
  with pat show ?thesis by (simp add: find_None_iff)
qed

text \<open>A word stands alone: no letter, digit or underscore directly before or after it.\<close>

definition alone :: "string \<Rightarrow> string \<Rightarrow> bool" where
  "alone u w \<longleftrightarrow> (u = [] \<or> \<not> is_word_char (last u)) \<and> (w = [] \<or> \<not> is_word_char (hd w))"

lemma last_word: "list_all is_word_char v \<Longrightarrow> v \<noteq> [] \<Longrightarrow> is_word_char (last v)"
  by (simp add: list_all_iff)

lemma MatchString_word_pair:
  assumes "alone u w" "ToLower a' = ToLower a" "ToLower b' = ToLower b" "sp \<noteq> []" "list_all re_space sp"
    and "list_all is_word_char a'" "list_all is_word_char b'" "a' \<noteq> []" "b' \<noteq> []"
  shows "MatchString (word_pair a b) (u @ a' @ sp @ b' @ w)"
proof -
  have b1: "word_boundary (rev u) (a' @ sp @ b' @ w)"
    using assms(1,6,8) by (cases a'; cases u rule: rev_cases) (auto simp: word_boundary_def alone_def)
  have "hd (rev b' @ rev sp @ rev a' @ rev u) = last b'"
    using assms(9) by (simp add: hd_append hd_rev)
  then have b2: "word_boundary (rev b' @ rev sp @ rev a' @ rev u) w"
    using assms(1,9) last_word [OF assms(7,9)] by (auto simp: word_boundary_def alone_def)
  have "re_matches (word_pair a b) (rev u) ([] @ a' @ sp @ b' @ []) w"
    unfolding word_pair_def Seqs.simps
    by (intro re_matches.seq)
      (simp_all add: re_match_simps Sp_def assms(2-5) b1 b2)
  then show ?thesis unfolding MatchString_iff by (intro exI [of _ u] exI [of _ "a' @ sp @ b'"] exI [of _ w]) simp
qed

lemma MatchString_word:
  assumes "alone u w" "ToLower a' = ToLower a" "list_all is_word_char a'" "a' \<noteq> []"
  shows "MatchString (Seqs [WordB, LitI a, WordB]) (u @ a' @ w)"
proof -
  have b1: "word_boundary (rev u) (a' @ w)"
    using assms(1,3,4) by (cases a'; cases u rule: rev_cases) (auto simp: word_boundary_def alone_def)
  have "hd (rev a' @ rev u) = last a'" using assms(4) by (simp add: hd_append hd_rev)
  then have b2: "word_boundary (rev a' @ rev u) w"
    using assms(1,4) last_word [OF assms(3,4)] by (auto simp: word_boundary_def alone_def)
  have "re_matches (Seqs [WordB, LitI a, WordB]) (rev u) ([] @ a' @ []) w"
    unfolding Seqs.simps
    by (intro re_matches.seq) (simp_all add: re_match_simps assms(2) b1 b2)
  then show ?thesis unfolding MatchString_iff by (intro exI [of _ u] exI [of _ a'] exI [of _ w]) simp
qed

lemma ToLower_word_chars: "ToLower s = w \<Longrightarrow> list_all is_lower w \<Longrightarrow> list_all is_word_char s"
proof (induction s arbitrary: w)
  case (Cons c s)
  then have "is_lower (lower_char c)" and "list_all is_word_char s" by (auto simp: ToLower_def)
  moreover from this have "is_word_char c"
    by (simp add: is_word_char_def is_alpha_def is_lower_def is_upper_def lower_char_code split: if_splits)
  ultimately show ?case by simp
qed simp

lemma forbidden_pair_match:
  assumes "alone u w" "sp \<noteq> []" "list_all re_space sp"
    and "(ToLower a, ToLower b) \<in> {(''drop'', ''table''), (''drop'', ''schema''), (''create'', ''table''),
          (''alter'', ''table''), (''insert'', ''into''), (''delete'', ''from'')}"
  shows "\<exists>pat \<in> set sqlInjectionPatterns. MatchString pat (u @ a @ sp @ b @ w)"
proof -
  have lit: "ToLower ''DROP'' = ''drop''" "ToLower ''TABLE'' = ''table''" "ToLower ''SCHEMA'' = ''schema''"
    "ToLower ''CREATE'' = ''create''" "ToLower ''ALTER'' = ''alter''" "ToLower ''INSERT'' = ''insert''"
    "ToLower ''INTO'' = ''into''" "ToLower ''DELETE'' = ''delete''" "ToLower ''FROM'' = ''from''"
    by code_simp+
  have m: "MatchString (word_pair x y) (u @ a @ sp @ b @ w)"
    if "ToLower a = ToLower x" "ToLower b = ToLower y" "list_all is_lower (ToLower x)" "list_all is_lower (ToLower y)"
      "ToLower x \<noteq> []" "ToLower y \<noteq> []" for x y
    using that assms(2,3) ToLower_word_chars
    by (intro MatchString_word_pair [OF assms(1)]) (auto simp: ToLower_def)
  note low = is_lower_def code_def
  from assms(4) consider "ToLower a = ''drop''" "ToLower b = ''table''" | "ToLower a = ''drop''" "ToLower b = ''schema''"
    | "ToLower a = ''create''" "ToLower b = ''table''" | "ToLower a = ''alter''" "ToLower b = ''table''"
    | "ToLower a = ''insert''" "ToLower b = ''into''" | "ToLower a = ''delete''" "ToLower b = ''from''" by auto
  then show ?thesis
  proof cases
    case 1
    with m [of "''DROP''" "''TABLE''"] show ?thesis by (simp add: sqlInjectionPatterns_def lit low)
  next
    case 2
    with m [of "''DROP''" "''SCHEMA''"] show ?thesis by (simp add: sqlInjectionPatterns_def lit low)
  next
    case 3
    with m [of "''CREATE''" "''TABLE''"] show ?thesis by (simp add: sqlInjectionPatterns_def lit low)
  next
    case 4
    with m [of "''ALTER''" "''TABLE''"] show ?thesis by (simp add: sqlInjectionPatterns_def lit low)
  next
    case 5
    with m [of "''INSERT''" "''INTO''"] show ?thesis by (simp add: sqlInjectionPatterns_def lit low)
  next
    case 6
    with m [of "''DELETE''" "''FROM''"] show ?thesis by (simp add: sqlInjectionPatterns_def lit low)
  qed
qed

section \<open>Properties\<close>

text \<open>C1. The compiler implements its specification: whenever an object compiles, a SQL lexer reads the
  generated text as exactly the tokens of the intended statement, and none of them ends the
  statement, opens a comment or is an unclosed quote. So no name, map text or filter value of a
  program can change the structure of the query.\<close>

theorem CompileObject_statement:
  assumes "CompileObject c objName = Inr sql"
    and "find_object (c_Program c) objName = Some obj" and "grammar_object obj"
  shows "lex sql = object_tokens c objName obj \<and> \<not> list_ex breaks_out (lex sql)"
proof -
  from CompileObject_lex [OF assms(1)] assms(2,3) have "lex sql = object_tokens c objName obj" by auto
  with object_tokens_inert show ?thesis by (auto simp: list_ex_iff)
qed

definition sample_object :: ObjectDefinition where
  "sample_object =
     \<lparr>obj_Name = ''Sale'', obj_FromSource = ''sales'', obj_ID = ''id'',
      obj_Properties = [\<lparr>prop_Name = ''x'' @ [DQ] @ ''; DROP'', prop_Type = ''text'', prop_From = ''region'',
        prop_Predict = False, prop_Maps = [\<lparr>map_From = ''it'' @ [SQ] @ ''s'', map_To = ''--''\<rparr>]\<rparr>],
      obj_Factors = [], obj_Filters = [\<lparr>filter_Field = ''year'', filter_Op = ''gte'', filter_Value = ''2020''\<rparr>],
      obj_Aggregates = [\<lparr>agg_Function = ''sum'', agg_Field = ''amount'', agg_Alias = ''total''\<rparr>]\<rparr>"

definition sample_compiler :: Compiler where
  "sample_compiler = NewCompiler
     [\<lparr>st_Object = Some sample_object, st_Relation = None, st_Dataset = None, st_Action = None, st_Tool = None\<rparr>] ''/data''"

theorem CompileObject_statement_witness:
  "\<exists>sql. CompileObject sample_compiler ''Sale'' = Inr sql \<and>
     lex sql = object_tokens sample_compiler ''Sale'' sample_object \<and> \<not> list_ex breaks_out (lex sql)"
proof -
  have "isl (CompileObject sample_compiler ''Sale'') = False" by code_simp
  then obtain sql where sql: "CompileObject sample_compiler ''Sale'' = Inr sql"
    by (cases "CompileObject sample_compiler ''Sale''") simp_all
  have obj: "find_object (c_Program sample_compiler) ''Sale'' = Some sample_object"
    by (simp add: sample_compiler_def NewCompiler_def) (simp add: sample_object_def)
  have "grammar_object sample_object" by code_simp
  with CompileObject_statement [OF sql obj] sql show ?thesis by blast
qed

text \<open>C23. Compilation fails only for the documented reasons: the object is unknown, a data source path
  (its own, or that of an object it joins) is refused, or a filter value is neither a number nor
  made of the allowed characters. In every other case it returns a statement.\<close>

theorem CompileObject_succeeds_iff:
  "(\<exists>sql. CompileObject c objName = Inr sql) \<longleftrightarrow>
     (\<exists>obj. find_object (c_Program c) objName = Some obj \<and> source_ok c (obj_FromSource obj) \<and>
        (\<forall>f \<in> set (obj_Filters obj). isNumeric (filter_Value f) \<or> allowed_value (filter_Value f)) \<and>
        (\<forall>st \<in> set (c_Program c). \<forall>r target. st_Relation st = Some r \<longrightarrow> rel_From r = objName \<longrightarrow>
           find_object (c_Program c) (rel_To r) = Some target \<longrightarrow> source_ok c (obj_FromSource target)))"
proof (cases "find_object (c_Program c) objName")
  case (Some obj)
  have "(\<exists>sql. CompileObject c objName = Inr sql) \<longleftrightarrow>
      (\<exists>js. mapE (join_clause c objName) (c_Program c) = Inr js) \<and>
      (\<exists>ws. mapE (where_clause objName) (obj_Filters obj) = Inr ws) \<and>
      (\<exists>s. table_source c (obj_FromSource obj) objName = Inr s)"
    by (cases "mapE (join_clause c objName) (c_Program c)"; cases "mapE (where_clause objName) (obj_Filters obj)";
        cases "table_source c (obj_FromSource obj) objName") (simp_all add: CompileObject_def Some Let_def)
  then show ?thesis
    unfolding mapE_ok table_source_ok where_clause_ok join_clause_ok using Some by auto
qed (simp add: CompileObject_def)

theorem CompileObject_succeeds_iff_witness:
  "\<exists>sql. CompileObject sample_compiler ''Sale'' = Inr sql"
proof -
  have obj: "find_object (c_Program sample_compiler) ''Sale'' = Some sample_object"
    by (simp add: sample_compiler_def NewCompiler_def) (simp add: sample_object_def)
  have src: "source_ok sample_compiler (obj_FromSource sample_object)" by code_simp
  have fil: "list_all (\<lambda>f. isNumeric (filter_Value f)) (obj_Filters sample_object)" by code_simp
  have rel: "list_all (\<lambda>st. st_Relation st = None) (c_Program sample_compiler)" by code_simp
  show ?thesis
    unfolding CompileObject_succeeds_iff using obj src fil rel by (auto simp: list_all_iff)
qed

text \<open>C27. Each view definition the compiler generates is read by a SQL lexer as exactly the intended
  statement, one per object of the program and in its order, whatever names the program uses.\<close>

theorem CompileDDL_statements:
  assumes "CompileDDL c = Inr ddls"
  shows "map lex ddls = map (ddl_tokens c) (List.map_filter st_Object (c_Program c)) \<and>
         \<not> list_ex (\<lambda>ddl. list_ex breaks_out (lex ddl)) ddls"
proof -
  have "list_all2 (\<lambda>obj ddl. ddl_statement c obj = Inr ddl) (List.map_filter st_Object (c_Program c)) ddls"
    using assms by (simp add: CompileDDL_def mapE_Inr)
  then have "list_all2 (\<lambda>obj ddl. lex ddl = ddl_tokens c obj) (List.map_filter st_Object (c_Program c)) ddls"
    by (rule list_all2_mono) (simp add: lexes_lex lexes_ddl)
  then show ?thesis
    by (induction rule: list_all2_induct) (auto simp: list_ex_iff dest: ddl_tokens_inert)
qed

theorem CompileDDL_statements_witness:
  "\<exists>ddl. CompileDDL sample_compiler = Inr [ddl] \<and> lex ddl = ddl_tokens sample_compiler sample_object"
proof -
  have "isl (CompileDDL sample_compiler) = False" by code_simp
  then obtain ddls where d: "CompileDDL sample_compiler = Inr ddls"
    by (cases "CompileDDL sample_compiler") simp_all
  have "List.map_filter st_Object (c_Program sample_compiler) = [sample_object]"
    by (simp add: sample_compiler_def NewCompiler_def List.map_filter_simps)
  with CompileDDL_statements [OF d] d show ?thesis by auto
qed

text \<open>With aggregates, the columns of the GROUP BY clause are the selected source columns exactly when
  no grouped property is renamed: for a renamed property the clause refers to its new name as a
  column of the source table, which is not the column that is selected.\<close>

theorem group_by_is_selected_iff_not_renamed:
  assumes "obj_Aggregates obj \<noteq> []"
  shows "group_by_clauses objName obj =
           map (\<lambda>p. qual_ref objName (source_field p))
             (filter (\<lambda>p. prop_Name p \<notin> set (map agg_Field (obj_Aggregates obj))) (obj_Properties obj)) \<longleftrightarrow>
         list_all (\<lambda>p. prop_From p = [] \<or> prop_From p = prop_Name p)
             (filter (\<lambda>p. prop_Name p \<notin> set (map agg_Field (obj_Aggregates obj))) (obj_Properties obj))"
proof -
  have "qual_ref objName a = qual_ref objName b \<longleftrightarrow> a = b" for a b
    by (simp add: qual_ref_def qid.quot_inj)
  with assms show ?thesis
    by (auto simp: group_by_clauses_def source_field_def list_all_iff split: if_splits)
qed

theorem group_by_is_selected_iff_not_renamed_witness:
  "group_by_clauses ''Sale'' sample_object \<noteq>
     map (\<lambda>p. qual_ref ''Sale'' (source_field p))
       (filter (\<lambda>p. prop_Name p \<notin> set (map agg_Field (obj_Aggregates sample_object))) (obj_Properties sample_object))"
proof -
  have "obj_Aggregates sample_object \<noteq> []" by code_simp
  moreover have "\<not> list_all (\<lambda>p. prop_From p = [] \<or> prop_From p = prop_Name p)
     (filter (\<lambda>p. prop_Name p \<notin> set (map agg_Field (obj_Aggregates sample_object))) (obj_Properties sample_object))"
    by code_simp
  ultimately show ?thesis using group_by_is_selected_iff_not_renamed by blast
qed

text \<open>C24. Accepted DSL input holds no null byte and at most 100000 bytes, and it contains none of the two-word statements DROP TABLE, DROP SCHEMA,
  CREATE TABLE, ALTER TABLE, INSERT INTO, DELETE FROM, in any letter case and with any white space between the
  words, where they stand alone.\<close>

theorem ValidateDSLInput_blocks:
  assumes "ValidateDSLInput input = Inr ()"
  shows "CHR 0x00 \<notin> set input \<and> length input \<le> 100000 \<and>
    (\<forall>u a sp b w. input = u @ a @ sp @ b @ w \<longrightarrow> alone u w \<longrightarrow> sp \<noteq> [] \<longrightarrow> list_all re_space sp \<longrightarrow>
       (ToLower a, ToLower b) \<notin> {(''drop'', ''table''), (''drop'', ''schema''), (''create'', ''table''),
          (''alter'', ''table''), (''insert'', ''into''), (''delete'', ''from'')})"
proof (intro conjI allI impI)
  fix u a sp b w
  assume input: "input = u @ a @ sp @ b @ w" and "alone u w" "sp \<noteq> []" "list_all re_space sp"
  then show "(ToLower a, ToLower b) \<notin> {(''drop'', ''table''), (''drop'', ''schema''), (''create'', ''table''),
          (''alter'', ''table''), (''insert'', ''into''), (''delete'', ''from'')}"
    using forbidden_pair_match [of u w sp] ValidateDSLInput_no_match [OF assms [unfolded input]] by blast
next
  show "CHR 0x00 \<notin> set input" using assms by (auto simp: ValidateDSLInput_def split: if_splits)
  show "length input \<le> 100000" using assms by (auto simp: ValidateDSLInput_def maxDSLInputSize_def split: if_splits)
qed

theorem ValidateDSLInput_blocks_witness:
  "ValidateDSLInput ''drop tables'' = Inr () \<and> CHR 0x00 \<notin> set ''drop tables'' \<and> (ToLower ''drop'', ToLower ''tables'') \<noteq> (''drop'', ''table'')"
proof -
  have "list_all (\<lambda>pat. \<not> MatchString pat ''drop tables'') sqlInjectionPatterns" by code_simp
  then have "List.find (\<lambda>pat. MatchString pat ''drop tables'') sqlInjectionPatterns = None"
    by (simp add: find_None_iff list_all_iff)
  then have ok: "ValidateDSLInput ''drop tables'' = Inr ()"
    by (simp add: ValidateDSLInput_def maxDSLInputSize_def)
  have sp: "alone [] []" "list_all re_space '' ''" by code_simp+
  have "''drop tables'' = [] @ ''drop'' @ '' '' @ ''tables'' @ []" by simp
  with ValidateDSLInput_blocks [OF ok] sp have "(ToLower ''drop'', ToLower ''tables'') \<noteq> (''drop'', ''table'')" by blast
  with ValidateDSLInput_blocks [OF ok] ok show ?thesis by blast
qed

text \<open>Every action of the program becomes one function description, in order, whose required
  parameters are the action's parameters in order and whose schema has exactly these names.\<close>

theorem CompileActions_parameters:
  "map tool_name (CompileActions c) = map action_Name (List.map_filter st_Action (c_Program c)) \<and>
   list_all2 (\<lambda>a t. tool_required t = map prop_Name (action_Parameters a) \<and>
      dom (tool_properties t) = set (tool_required t))
     (List.map_filter st_Action (c_Program c)) (CompileActions c)"
proof -
  have "dom (foldl (\<lambda>ps p. ps(prop_Name p \<mapsto> ''string'')) m ps) = dom m \<union> set (map prop_Name ps)"
    for ps :: "Property list" and m
    by (induction ps arbitrary: m) auto
  then show ?thesis
    by (simp add: CompileActions_def action_tool_def list_all2_map2 list_all2_same comp_def)
qed

end
