(* ===== verification/Decision.thy ===== *)
theory Decision
  imports Complex_Main Dsl_Compiler "HOL-Library.Multiset"
begin

text \<open>
  Package \<^verbatim>\<open>internal/decision\<close>: the plan, act, observe, reflect, admit cycle. The engine is a
  record; what it calls through Go interfaces (the language model, the tool executor, the tool
  repository, the component registry, the link predictor) is an argument of the definitions
  that call it. Confidence and trust are 64-bit floats in the source and exact real numbers
  here. The counter of cycles that the engine reports to telemetry is the list \<open>e_cycles\<close>.
\<close>

section \<open>Data\<close>

text \<open>A Go \<^verbatim>\<open>any\<close> as the code builds it: the shapes of JSON.\<close>

datatype any =
    AStr string
  | ANum real
  | ABool bool
  | AList "any list"
  | AObj "(string \<times> any) list"

record Intent =
  PrimaryGoal :: string
  NeededTools :: "string list"
  TargetObjects :: "string list"
  Confidence :: real

datatype ReplanType = ReplanNone | ReplanPartial | ReplanFull

record PlannedStep =
  ToolName :: string
  Arguments :: "(string \<times> any) list"
  ExpectedOutcome :: string
  RequiresConfirmation :: bool
  Depends :: "string list"
  Rationale :: string
  Fallback :: string

record PlanResult =
  pr_Intent :: Intent
  pr_Steps :: "PlannedStep list"
  pr_CanProceed :: bool
  pr_Reason :: string
  pr_CorrectionSteps :: "PlannedStep list"
  pr_ReplanType :: ReplanType

record ActResult =
  ar_Step :: PlannedStep
  ar_Output :: string
  ar_Error :: string
  ar_DurationMs :: int

record Observation =
  obs_Step :: PlannedStep
  obs_ActResult :: ActResult
  obs_Success :: bool
  obs_TrustDelta :: real
  obs_Issues :: "string list"

record ToolDef =
  td_Name :: string
  td_Description :: string
  td_Code :: string

record PropertyDef =
  pd_Type :: string
  pd_Description :: string
  pd_Default :: "any option"

record ParameterDef =
  pm_Type :: string
  pm_Properties :: "(string \<times> PropertyDef) list"
  pm_Required :: "string list"

record FunctionDef =
  fn_Name :: string
  fn_Description :: string
  fn_Parameters :: "ParameterDef option"

record ToolDefinition =
  tdf_Type :: string
  tdf_Function :: FunctionDef

record ComponentMetadata =
  cm_ID :: string
  cm_Name :: string
  cm_Category :: string
  cm_Status :: string

record Agent =
  agent_Model :: string
  agent_ApiKey :: string
  agent_BaseUrl :: string

record ToolCall =
  tc_Name :: string
  tc_Arguments :: "(string \<times> any) list"

record CompletionRequest =
  req_Model :: string
  req_Messages :: "any list"
  req_Tools :: "any list"
  req_SystemPrompt :: string
  req_ApiKey :: string
  req_BaseURL :: string

text \<open>
  The interfaces the engine calls: a provider completes a request or fails, a repository lists
  the registered tools, a registry looks a component up (the result may be \<^verbatim>\<open>nil\<close> without an
  error), an executor runs a tool and says whether it needs confirmation.
\<close>

type_synonym Provider = "CompletionRequest \<Rightarrow> string + ToolCall list"
type_synonym ToolRepository = "string + ToolDef list"
type_synonym PluginRegistry = "string \<Rightarrow> string + ComponentMetadata option"
type_synonym ToolExecutor = "string \<Rightarrow> (string \<times> any) list \<Rightarrow> string \<Rightarrow> string \<Rightarrow> string \<times> bool \<times> string option"

record toolExecutionHistory =
  successes :: int
  failures :: int

definition total :: "toolExecutionHistory \<Rightarrow> int" where
  "total h = successes h + failures h"

section \<open>The workspace graph, package gnn\<close>

record WorkflowNode =
  wn_ID :: string
  wn_Type :: string
  wn_InitialEmbedding :: "real list"

record Edge =
  ed_Source :: string
  ed_Target :: string
  ed_Weight :: real

record Graph =
  g_Nodes :: "(string \<times> WorkflowNode) list"
  g_Edges :: "Edge list"

definition NewGraph :: Graph where
  "NewGraph = \<lparr>g_Nodes = [], g_Edges = []\<rparr>"

definition AddNode :: "WorkflowNode \<Rightarrow> Graph \<Rightarrow> Graph" where
  "AddNode n g = g\<lparr>g_Nodes := (wn_ID n, n) # filter (\<lambda>(k, _). k \<noteq> wn_ID n) (g_Nodes g)\<rparr>"

definition AddEdge :: "Edge \<Rightarrow> Graph \<Rightarrow> Graph" where
  "AddEdge e g = g\<lparr>g_Edges := g_Edges g @ [if ed_Weight e = 0 then e\<lparr>ed_Weight := 1\<rparr> else e]\<rparr>"

definition NumNodes :: "Graph \<Rightarrow> nat" where "NumNodes g = length (g_Nodes g)"
definition NumEdges :: "Graph \<Rightarrow> nat" where "NumEdges g = length (g_Edges g)"

text \<open>The link predictor is an interface; \<open>'lp\<close> is the state behind it.\<close>

record 'lp LinkPredictor =
  lp_PredictLinks :: "'lp \<Rightarrow> Graph \<Rightarrow> string \<Rightarrow> string + real list"
  lp_TrainFromGraph :: "'lp \<Rightarrow> Graph \<Rightarrow> int \<Rightarrow> 'lp \<times> string option"
  lp_IsTrained :: "'lp \<Rightarrow> bool"

definition ConfidenceFromPredictions :: "real list \<Rightarrow> real" where
  "ConfidenceFromPredictions scores =
     (if scores = [] then 0.5
      else let maxScore = foldl (\<lambda>mx s. if s > mx then s else mx) 0 scores
           in 1 / (1 + exp (- maxScore)))"

section \<open>The engine\<close>

record 'lp Engine =
  e_provider :: "Provider option"
  e_providerBaseURL :: string
  e_metaRepo :: "ToolRepository option"
  e_registry :: "PluginRegistry option"
  e_maxAttempts :: int
  e_linkPredictor :: "'lp option"
  e_graph :: "Graph option"
  e_confirmationThreshold :: real
  e_truncationThreshold :: int
  e_toolHistory :: "string \<rightharpoonup> toolExecutionHistory"
  e_cycles :: "(string \<times> string) list"

record 'lp EngineConfig =
  cfg_Provider :: "Provider option"
  cfg_ProviderBaseURL :: string
  cfg_MetaRepo :: "ToolRepository option"
  cfg_Registry :: "PluginRegistry option"
  cfg_MaxAttempts :: int
  cfg_LinkPredictor :: "'lp option"
  cfg_Graph :: "Graph option"
  cfg_ConfirmationThreshold :: real
  cfg_TruncationThreshold :: int

definition NewEngine :: "'lp EngineConfig \<Rightarrow> 'lp Engine" where
  "NewEngine cfg =
     \<lparr>e_provider = cfg_Provider cfg,
      e_providerBaseURL = cfg_ProviderBaseURL cfg,
      e_metaRepo = cfg_MetaRepo cfg,
      e_registry = cfg_Registry cfg,
      e_maxAttempts = (if cfg_MaxAttempts cfg \<le> 0 then 5 else cfg_MaxAttempts cfg),
      e_linkPredictor = cfg_LinkPredictor cfg,
      e_graph = cfg_Graph cfg,
      e_confirmationThreshold =
        (let t = (if cfg_ConfirmationThreshold cfg < 0 then 0 else cfg_ConfirmationThreshold cfg)
         in if t > 1 then 1 else t),
      e_truncationThreshold = (if cfg_TruncationThreshold cfg \<le> 0 then 1900 else cfg_TruncationThreshold cfg),
      e_toolHistory = Map.empty,
      e_cycles = []\<rparr>"

definition RecordPAORACycle :: "string \<Rightarrow> string \<Rightarrow> 'lp Engine \<Rightarrow> 'lp Engine" where
  "RecordPAORACycle phase outcome e = e\<lparr>e_cycles := e_cycles e @ [(phase, outcome)]\<rparr>"

subsection \<open>Tools known to the engine\<close>

definition builtin_tools :: "string list" where
  "builtin_tools = [''search_data'', ''analyze_sentiment'', ''get_trust_score'']"

definition validateToolName :: "PluginRegistry option \<Rightarrow> string \<Rightarrow> bool" where
  "validateToolName registry name =
     (if name \<in> set builtin_tools then True
      else case registry of
             None \<Rightarrow> False
           | Some reg \<Rightarrow> (case reg name of Inr (Some cm) \<Rightarrow> True | _ \<Rightarrow> False))"

definition isKnownTool :: "'lp Engine \<Rightarrow> string \<Rightarrow> bool" where
  "isKnownTool e name = (if name \<in> set builtin_tools then True else validateToolName (e_registry e) name)"

definition registered_tools :: "'lp Engine \<Rightarrow> ToolDef list" where
  "registered_tools e = (case e_metaRepo e of Some (Inr tools) \<Rightarrow> tools | _ \<Rightarrow> [])"

definition inferToolsFromMessage :: "'lp Engine \<Rightarrow> string \<Rightarrow> string list" where
  "inferToolsFromMessage e msg =
     (let lower = ToLower msg
      in (if containsAny lower [''search'', ''find'', ''query'', ''show'', ''data'', ''object'']
          then [''search_data''] else []) @
         (if containsAny lower [''sentiment'', ''feeling'', ''opinion''] then [''analyze_sentiment''] else []) @
         (if containsAny lower [''trust'', ''score'', ''brier'', ''prediction''] then [''get_trust_score''] else []) @
         map td_Name (filter (\<lambda>t. Contains lower (ToLower (td_Name t))) (registered_tools e)))"

definition buildToolDefinitions :: "'lp Engine \<Rightarrow> ToolDefinition list" where
  "buildToolDefinitions e =
    [\<lparr>tdf_Type = ''function'', tdf_Function = \<lparr>fn_Name = ''search_data'',
        fn_Description = ''Search records from a specific business object defined in the ontology.'',
        fn_Parameters = Some \<lparr>pm_Type = ''object'',
          pm_Properties = [(''object_name'', \<lparr>pd_Type = ''string'', pd_Description = [], pd_Default = None\<rparr>),
            (''limit'', \<lparr>pd_Type = ''integer'', pd_Description = [], pd_Default = Some (ANum 10)\<rparr>)],
          pm_Required = [''object_name'']\<rparr>\<rparr>\<rparr>,
     \<lparr>tdf_Type = ''function'', tdf_Function = \<lparr>fn_Name = ''analyze_sentiment'',
        fn_Description = ''Analyze the sentiment of text data. Returns a score from -1.0 (negative) to 1.0 (positive) and a label (positive/negative/neutral).'',
        fn_Parameters = Some \<lparr>pm_Type = ''object'',
          pm_Properties = [(''text'', \<lparr>pd_Type = ''string'', pd_Description = ''The text to analyze'', pd_Default = None\<rparr>)],
          pm_Required = [''text'']\<rparr>\<rparr>\<rparr>,
     \<lparr>tdf_Type = ''function'', tdf_Function = \<lparr>fn_Name = ''get_trust_score'',
        fn_Description = ''Get the trust score for a prediction entity. Returns the Brier score (0.0 = perfect, 1.0 = worst) and trust level.'',
        fn_Parameters = Some \<lparr>pm_Type = ''object'',
          pm_Properties = [(''entity_id'', \<lparr>pd_Type = ''string'', pd_Description = ''The entity ID to check trust for'', pd_Default = None\<rparr>)],
          pm_Required = [''entity_id'']\<rparr>\<rparr>\<rparr>] @
     map (\<lambda>t. \<lparr>tdf_Type = ''function'',
               tdf_Function = \<lparr>fn_Name = td_Name t, fn_Description = td_Description t, fn_Parameters = None\<rparr>\<rparr>)
       (registered_tools e)"

definition property_map :: "PropertyDef \<Rightarrow> any" where
  "property_map v =
     AObj ([(''type'', AStr (pd_Type v))] @
       (if pd_Description v \<noteq> [] then [(''description'', AStr (pd_Description v))] else []) @
       (case pd_Default v of None \<Rightarrow> [] | Some d \<Rightarrow> [(''default'', d)]))"

definition function_map :: "ToolDefinition \<Rightarrow> any" where
  "function_map d =
     AObj [(''type'', AStr ''function''),
       (''function'', AObj ([(''name'', AStr (fn_Name (tdf_Function d))),
            (''description'', AStr (fn_Description (tdf_Function d)))] @
          (case fn_Parameters (tdf_Function d) of
             None \<Rightarrow> []
           | Some pm \<Rightarrow>
               [(''parameters'', AObj [(''type'', AStr ''object''),
                   (''properties'', AObj (map (\<lambda>(k, v). (k, property_map v)) (pm_Properties pm))),
                   (''required'', AList (map AStr (pm_Required pm)))])])))]"

definition BuildToolsMap :: "'lp Engine \<Rightarrow> any list" where
  "BuildToolsMap e = map function_map (buildToolDefinitions e)"

subsection \<open>Object references in a message\<close>

fun dedup_seen :: "string list \<Rightarrow> string list \<Rightarrow> string list" where
  "dedup_seen seen [] = []"
| "dedup_seen seen (w # ws) = (if w \<in> set seen then dedup_seen seen ws else w # dedup_seen (w # seen) ws)"

definition extractObjectReferences :: "string \<Rightarrow> string list" where
  "extractObjectReferences msg =
     dedup_seen [] (filter (\<lambda>w. w \<noteq> [] \<and> is_upper (hd w))
       (map (\<lambda>w. TrimRight w (''.,;:!?()[]{}'' @ [SQ, DQ])) (Fields msg)))"

definition object_names :: "Program \<Rightarrow> string list" where
  "object_names prog = map obj_Name (List.map_filter st_Object prog)"

definition mentions :: "string \<Rightarrow> string \<Rightarrow> bool" where
  "mentions lowerMsg name = MatchString (Seqs [WordB, LitI name, WordB]) lowerMsg"

definition extractObjectReferencesWithOntology ::
    "(string \<Rightarrow> parse_failure + Program) \<Rightarrow> string \<Rightarrow> string \<Rightarrow> string list" where
  "extractObjectReferencesWithOntology parser msg ontContent =
     (if ontContent = [] then extractObjectReferences msg
      else case Parse parser ontContent of
             Inl _ \<Rightarrow> extractObjectReferences msg
           | Inr prog \<Rightarrow> dedup_seen [] (filter (mentions (ToLower msg)) (object_names prog)))"

subsection \<open>Plan\<close>

definition gnn_scores :: "'lp LinkPredictor \<Rightarrow> 'lp \<Rightarrow> Graph \<Rightarrow> string list \<Rightarrow> real list" where
  "gnn_scores ops lp g tools =
     map ConfidenceFromPredictions
       (List.map_filter (\<lambda>t. case lp_PredictLinks ops lp g t of Inl _ \<Rightarrow> None | Inr s \<Rightarrow> Some s) tools)"

definition blended_confidence :: "'lp LinkPredictor \<Rightarrow> 'lp Engine \<Rightarrow> string list \<Rightarrow> real" where
  "blended_confidence ops e neededTools =
     (case (e_linkPredictor e, e_graph e) of
        (Some lp, Some g) \<Rightarrow>
          if lp_IsTrained ops lp \<and> neededTools \<noteq> [] then
            (let sc = gnn_scores ops lp g neededTools
             in if sc \<noteq> [] then 0.7 * 0.8 + 0.3 * (sum_list sc / real (length sc)) else 0.8)
          else 0.8
      | _ \<Rightarrow> 0.8)"

definition planned :: "string \<Rightarrow> (string \<times> any) list \<Rightarrow> PlannedStep" where
  "planned tool args =
     \<lparr>ToolName = tool, Arguments = args, ExpectedOutcome = [], RequiresConfirmation = False,
      Depends = [], Rationale = [], Fallback = []\<rparr>"

definition Plan :: "(string \<Rightarrow> parse_failure + Program) \<Rightarrow> 'lp LinkPredictor \<Rightarrow> string \<Rightarrow> string \<Rightarrow>
    'lp Engine \<Rightarrow> PlanResult \<times> 'lp Engine" where
  "Plan parser ops msg ontContent e =
     (case e_provider e of
        None \<Rightarrow>
          (\<lparr>pr_Intent = \<lparr>PrimaryGoal = msg, NeededTools = inferToolsFromMessage e msg,
               TargetObjects = extractObjectReferencesWithOntology parser msg ontContent, Confidence = 0.5\<rparr>,
             pr_Steps = [planned ''query_dispatch'' [(''query'', AStr msg)]],
             pr_CanProceed = True,
             pr_Reason = ''degraded mode: heuristic planning (no LLM provider)'',
             pr_CorrectionSteps = [], pr_ReplanType = ReplanNone\<rparr>, e)
      | Some _ \<Rightarrow>
          (let neededTools = inferToolsFromMessage e msg
           in (\<lparr>pr_Intent = \<lparr>PrimaryGoal = msg, NeededTools = neededTools,
                  TargetObjects = extractObjectReferencesWithOntology parser msg ontContent,
                  Confidence = blended_confidence ops e neededTools\<rparr>,
                pr_Steps = map (\<lambda>t. (planned t [])
                    \<lparr>ExpectedOutcome := ''execute '' @ t @ '' to fulfill user request'',
                     RequiresConfirmation := \<not> isKnownTool e t\<rparr>) neededTools,
                pr_CanProceed = True, pr_Reason = ''plan ready'',
                pr_CorrectionSteps = [], pr_ReplanType = ReplanNone\<rparr>,
               RecordPAORACycle ''plan'' ''success'' e)))"

definition plan_request :: "'lp Engine \<Rightarrow> string \<Rightarrow> Agent option \<Rightarrow> CompletionRequest" where
  "plan_request e msg agent =
     (let model = (case agent of None \<Rightarrow> [] | Some a \<Rightarrow> agent_Model a);
          apiKey = (case agent of None \<Rightarrow> [] | Some a \<Rightarrow> agent_ApiKey a);
          baseURL = (case agent of None \<Rightarrow> [] | Some a \<Rightarrow> agent_BaseUrl a)
      in \<lparr>req_Model = (if model = [] then ''llama3'' else model),
          req_Messages = [AObj [(''role'', AStr ''user''), (''content'', AStr msg)]],
          req_Tools = BuildToolsMap e,
          req_SystemPrompt = ''You are a planning agent. Analyze the user'' @ [SQ] @
             ''s request and determine which tools to call.'',
          req_ApiKey = apiKey,
          req_BaseURL = (if baseURL = [] then
             (if e_providerBaseURL e \<noteq> [] then e_providerBaseURL e else ''http://localhost:11434'') else baseURL)\<rparr>)"

definition PlanWithProvider :: "(string \<Rightarrow> parse_failure + Program) \<Rightarrow> 'lp LinkPredictor \<Rightarrow> string \<Rightarrow> string \<Rightarrow>
    Agent option \<Rightarrow> Provider option \<Rightarrow> 'lp Engine \<Rightarrow> PlanResult \<times> 'lp Engine" where
  "PlanWithProvider parser ops msg ontContent agent provider e =
     (case provider of
        None \<Rightarrow> Plan parser ops msg ontContent e
      | Some prov \<Rightarrow>
          (case prov (plan_request e msg agent) of
             Inl _ \<Rightarrow> Plan parser ops msg ontContent e
           | Inr calls \<Rightarrow>
               (\<lparr>pr_Intent = \<lparr>PrimaryGoal = msg, NeededTools = [],
                   TargetObjects = extractObjectReferencesWithOntology parser msg ontContent, Confidence = 0.7\<rparr>,
                 pr_Steps = map (\<lambda>tc. planned (tc_Name tc) (tc_Arguments tc)) calls,
                 pr_CanProceed = True, pr_Reason = ''planned via LLM'',
                 pr_CorrectionSteps = [], pr_ReplanType = ReplanNone\<rparr>, e)))"

subsection \<open>Act and observe\<close>

definition history_of :: "'lp Engine \<Rightarrow> string \<Rightarrow> toolExecutionHistory" where
  "history_of e tool = (case e_toolHistory e tool of None \<Rightarrow> \<lparr>successes = 0, failures = 0\<rparr> | Some h \<Rightarrow> h)"

definition Act :: "ToolExecutor \<Rightarrow> int \<Rightarrow> PlannedStep \<Rightarrow> string \<Rightarrow> 'lp Engine \<Rightarrow> ActResult \<times> 'lp Engine" where
  "Act exec durationMs step projectID e =
     (let (output, requiresConfirmation, err) = exec (ToolName step) (Arguments step) projectID [];
          hist = history_of e (ToolName step);
          hist' = (if err \<noteq> None then hist\<lparr>failures := failures hist + 1\<rparr> else hist\<lparr>successes := successes hist + 1\<rparr>);
          step' = (if requiresConfirmation then step\<lparr>RequiresConfirmation := True\<rparr> else step)
      in (\<lparr>ar_Step = step', ar_Output = (if err \<noteq> None then [] else output),
           ar_Error = (case err of None \<Rightarrow> [] | Some msg \<Rightarrow> msg), ar_DurationMs = durationMs\<rparr>,
          RecordPAORACycle ''act'' (if err \<noteq> None then ''error'' else ''success'')
            (e\<lparr>e_toolHistory := (e_toolHistory e)(ToolName step \<mapsto> hist')\<rparr>)))"

definition trust_delta :: "'lp Engine \<Rightarrow> PlannedStep \<Rightarrow> ActResult \<Rightarrow> real" where
  "trust_delta e step result =
     (case e_toolHistory e (ToolName step) of
        Some hist \<Rightarrow>
          if total hist > 0 then of_int (successes hist) / of_int (total hist) - 0.5
          else if ar_Error result = [] then 0.05 else - 0.1
      | None \<Rightarrow> if ar_Error result = [] then 0.05 else - 0.1)"

definition truncation_issue :: "nat \<Rightarrow> int \<Rightarrow> string" where
  "truncation_issue len threshold =
     ''output was truncated due to context limits ('' @ Itoa (int len) @ '' > '' @ Itoa threshold @ '')''"

definition Observe :: "PlannedStep \<Rightarrow> ActResult \<Rightarrow> 'lp Engine \<Rightarrow> Observation \<times> 'lp Engine" where
  "Observe step result e =
     (let threshold = (if e_truncationThreshold e \<le> 0 then 1900 else e_truncationThreshold e);
          issues = (if ar_Error result \<noteq> [] then [ar_Error result] else []) @
                   (if ar_Output result = [] \<and> ar_Error result = [] then [''tool returned empty output''] else []) @
                   (if int (length (ar_Output result)) > threshold
                    then [truncation_issue (length (ar_Output result)) threshold] else []);
          obs = \<lparr>obs_Step = step, obs_ActResult = result, obs_Success = (ar_Error result = []),
                 obs_TrustDelta = trust_delta e step result, obs_Issues = issues\<rparr>
      in (obs, RecordPAORACycle ''observe'' (if obs_Success obs then ''success'' else ''error'') e))"

definition DefaultObserver_Observe :: "int \<Rightarrow> PlannedStep \<Rightarrow> ActResult \<Rightarrow> Observation" where
  "DefaultObserver_Observe truncationThreshold step result =
     \<lparr>obs_Step = step, obs_ActResult = result, obs_Success = (ar_Error result = []),
      obs_TrustDelta = (if ar_Error result \<noteq> [] then - 0.1 else 0),
      obs_Issues = (if ar_Error result \<noteq> [] then [ar_Error result] else []) @
        (if ar_Output result = [] \<and> ar_Error result = [] then [''tool returned empty output''] else []) @
        (if int (length (ar_Output result)) > truncationThreshold
         then [truncation_issue (length (ar_Output result)) truncationThreshold] else [])\<rparr>"

definition NewDefaultObserverWithThreshold :: "int \<Rightarrow> int" where
  "NewDefaultObserverWithThreshold threshold = (if threshold \<le> 0 then 1900 else threshold)"

subsection \<open>Reflect\<close>

datatype GapType = GapExpected | GapUnexpected | GapCritical

record ObservationAnalysis =
  oa_GapType :: GapType
  oa_Details :: string
  oa_Impact :: string
  oa_Confidence :: real
  oa_StepTool :: string

definition isBlockingFailure :: "string \<Rightarrow> bool" where
  "isBlockingFailure issueText =
     containsAny (ToLower issueText)
       [''not found'', ''unauthorized'', ''permission denied'', ''forbidden'', ''invalid'', ''does not exist'']"

definition classifyObservation :: "Observation \<Rightarrow> ObservationAnalysis" where
  "classifyObservation obs =
     (let toolName = (if ToolName (obs_Step obs) = [] then ''unknown'' else ToolName (obs_Step obs));
          issueText = Join (obs_Issues obs) ''; ''
      in if obs_Success obs then
           (if obs_Issues obs \<noteq> [] then
              \<lparr>oa_GapType = GapUnexpected,
               oa_Details = ''tool '' @ toolName @ '' succeeded but has issues: '' @ issueText,
               oa_Impact = ''soft issues may degrade downstream quality'', oa_Confidence = 0.8, oa_StepTool = toolName\<rparr>
            else
              \<lparr>oa_GapType = GapExpected, oa_Details = ''tool '' @ toolName @ '' completed successfully'',
               oa_Impact = ''no impact; plan proceeds as expected'', oa_Confidence = 0.95, oa_StepTool = toolName\<rparr>)
         else if isBlockingFailure issueText \<or> length (obs_Issues obs) > 2 \<or> obs_TrustDelta obs < - 0.3 then
           \<lparr>oa_GapType = GapCritical, oa_Details = ''tool '' @ toolName @ '' failed critically: '' @ issueText,
            oa_Impact = ''blocks further progress; requires intervention or replanning'',
            oa_Confidence = 0.85, oa_StepTool = toolName\<rparr>
         else
           \<lparr>oa_GapType = GapUnexpected, oa_Details = ''tool '' @ toolName @ '' failed but may be recoverable: '' @ issueText,
            oa_Impact = ''partial progress possible; consider retrying with modified approach'',
            oa_Confidence = 0.7, oa_StepTool = toolName\<rparr>)"

definition buildReflectionSummary :: "nat \<Rightarrow> nat \<Rightarrow> nat \<Rightarrow> string list \<Rightarrow> string" where
  "buildReflectionSummary expectedCount unexpectedCount criticalCount succeededTools =
     (let parts =
        (if expectedCount > 0 then [Itoa (int expectedCount) @ '' steps completed as expected''] else []) @
        (if succeededTools \<noteq> [] \<and> length succeededTools \<le> 5
         then [''successful tools: '' @ Join succeededTools '', ''] else []) @
        (if unexpectedCount > 0 then [Itoa (int unexpectedCount) @ '' recoverable issues detected''] else []) @
        (if criticalCount > 0 then [Itoa (int criticalCount) @ '' critical failures''] else [])
      in if parts = [] then ''reflection complete: no actionable observations''
         else ''reflection: '' @ Join parts ''; '')"

definition correction_step :: "Observation \<Rightarrow> PlannedStep" where
  "correction_step obs =
     (let step = obs_Step obs; issues = Join (obs_Issues obs) ''; ''
      in if Fallback step \<noteq> [] then
           (planned (Fallback step) [(''original_tool'', AStr (ToolName step)), (''error'', AStr issues)])
             \<lparr>Rationale := ''fallback for '' @ ToolName step @ '' after failure: '' @ issues\<rparr>
         else
           (planned ''query_dispatch'' [(''query'', AStr (''diagnose failure of '' @ ToolName step @ '': '' @ issues))])
             \<lparr>Rationale := ''diagnostic fallback for failed tool '' @ ToolName step\<rparr>)"

definition buildCorrectionSteps :: "Observation list \<Rightarrow> PlannedStep list" where
  "buildCorrectionSteps observations = map correction_step (filter (\<lambda>obs. \<not> obs_Success obs) observations)"

definition count_gap :: "GapType \<Rightarrow> ObservationAnalysis list \<Rightarrow> nat" where
  "count_gap g analyses = length (filter (\<lambda>a. oa_GapType a = g) analyses)"

definition DefaultReflector_Reflect :: "PlanResult option \<Rightarrow> Observation list \<Rightarrow> string + PlanResult" where
  "DefaultReflector_Reflect p observations =
     (case p of
        None \<Rightarrow> Inl ''plan is nil''
      | Some plan \<Rightarrow>
          if \<not> pr_CanProceed plan then Inr plan
          else if observations = [] then Inr plan
          else
            (let analyses = map classifyObservation observations;
                 criticalCount = count_gap GapCritical analyses;
                 unexpectedCount = count_gap GapUnexpected analyses;
                 expectedCount = count_gap GapExpected analyses;
                 succeededTools = map (\<lambda>obs. oa_StepTool (classifyObservation obs))
                   (filter (\<lambda>obs. oa_GapType (classifyObservation obs) = GapExpected \<and> obs_Success obs) observations);
                 summary = buildReflectionSummary expectedCount unexpectedCount criticalCount succeededTools
             in if criticalCount > 0 then
                  Inr \<lparr>pr_Intent = pr_Intent plan, pr_Steps = pr_Steps plan, pr_CanProceed = False,
                       pr_Reason = ''critical failure detected: '' @
                         oa_Details (last (filter (\<lambda>a. oa_GapType a = GapCritical) analyses)) @ ''; '' @ summary,
                       pr_CorrectionSteps = buildCorrectionSteps observations, pr_ReplanType = ReplanFull\<rparr>
                else if unexpectedCount > 0 then
                  Inr \<lparr>pr_Intent = pr_Intent plan, pr_Steps = pr_Steps plan, pr_CanProceed = True,
                       pr_Reason = ''completed with '' @ Itoa (int unexpectedCount) @ '' recoverable issue(s); '' @ summary,
                       pr_CorrectionSteps = buildCorrectionSteps observations, pr_ReplanType = ReplanPartial\<rparr>
                else
                  Inr \<lparr>pr_Intent = pr_Intent plan, pr_Steps = pr_Steps plan, pr_CanProceed = True,
                       pr_Reason = summary, pr_CorrectionSteps = [], pr_ReplanType = ReplanNone\<rparr>))"

text \<open>The engine's phase calls the configured reflector; the default one is above.\<close>

definition Engine_Reflect :: "(PlanResult option \<Rightarrow> Observation list \<Rightarrow> string + PlanResult) \<Rightarrow>
    PlanResult option \<Rightarrow> Observation list \<Rightarrow> 'lp Engine \<Rightarrow> (string \<times> PlanResult option + PlanResult) \<times> 'lp Engine" where
  "Engine_Reflect reflector plan observations e =
     (case reflector plan observations of
        Inl err \<Rightarrow> (Inl (''reflection failed: '' @ err, plan), RecordPAORACycle ''reflect'' ''error'' e)
      | Inr result \<Rightarrow>
          (Inr result, RecordPAORACycle ''reflect'' (if pr_CanProceed result then ''success'' else ''error'') e))"

subsection \<open>Admit\<close>

definition Admit :: "ActResult list \<Rightarrow> int \<Rightarrow> 'lp Engine \<Rightarrow> bool \<times> 'lp Engine" where
  "Admit results maxAttempts e =
     (let limit = (if maxAttempts \<le> 0 then e_maxAttempts e else maxAttempts)
      in if int (length results) \<ge> limit then (True, RecordPAORACycle ''admit'' ''max_attempts'' e)
         else if results \<noteq> [] \<and> ar_Error (last results) \<noteq> [] then (True, RecordPAORACycle ''admit'' ''error'' e)
         else (False, RecordPAORACycle ''admit'' ''continue'' e))"

definition DefaultAdmitter_Admit :: "ActResult list \<Rightarrow> int \<Rightarrow> bool" where
  "DefaultAdmitter_Admit results maxAttempts =
     (if results = [] then False
      else if maxAttempts > 0 \<and> int (length results) \<ge> maxAttempts then True
      else ar_Error (last results) \<noteq> [])"

datatype train_error = EmptyGraph | TrainFailed string

definition TrainLinkModel :: "'lp LinkPredictor \<Rightarrow> Graph option \<Rightarrow> int \<Rightarrow> 'lp Engine \<Rightarrow> (train_error + unit) \<times> 'lp Engine" where
  "TrainLinkModel ops graph epochs e =
     (case e_linkPredictor e of
        None \<Rightarrow> (Inr (), e)
      | Some lp \<Rightarrow>
          (case graph of
             None \<Rightarrow> (Inl EmptyGraph, e)
           | Some g \<Rightarrow>
               if NumNodes g = 0 then (Inl EmptyGraph, e)
               else (let (lp', err) = lp_TrainFromGraph ops lp g epochs
                     in (case err of None \<Rightarrow> Inr () | Some msg \<Rightarrow> Inl (TrainFailed msg),
                         e\<lparr>e_linkPredictor := Some lp'\<rparr>))))"

subsection \<open>Ordering and skipping of steps\<close>

fun name_index :: "PlannedStep list \<Rightarrow> nat \<Rightarrow> (string \<rightharpoonup> nat) \<Rightarrow> (string \<rightharpoonup> nat)" where
  "name_index [] i m = m"
| "name_index (s # ss) i m = name_index ss (Suc i) (m(ToolName s \<mapsto> i))"

text \<open>The steps a step depends on, as positions in the plan; unknown names are ignored.\<close>

definition dep_indices :: "PlannedStep list \<Rightarrow> nat list list" where
  "dep_indices steps = map (\<lambda>s. List.map_filter (name_index steps 0 Map.empty) (Depends s)) steps"

text \<open>
  The recursive function \<^verbatim>\<open>visit\<close>, on a list of positions: a state is \<open>0\<close> (unvisited), \<open>1\<close>
  (being visited) or \<open>2\<close> (done); a position that is not unvisited is left alone, which is also how
  a cycle ends. The calls for the elements of a list and the loop over all steps are the same
  function.
\<close>

definition unvisited :: "nat list \<Rightarrow> nat" where
  "unvisited state = length (filter (\<lambda>x. x = 0) state)"

function visit :: "nat list list \<Rightarrow> nat list \<Rightarrow> nat list \<times> nat list \<Rightarrow> nat list \<times> nat list" where
  "visit deps [] st = st"
| "visit deps (i # is) (state, out) =
     (if i \<ge> length state \<or> state ! i \<noteq> 0 then visit deps is (state, out)
      else let (state', out') = visit deps (deps ! i) (state[i := 1], out)
           in visit deps is (state'[i := 2], out' @ [i]))"
  by pat_completeness auto

lemma unvisited_update: "v \<noteq> 0 \<Longrightarrow> unvisited (state[i := v]) \<le> unvisited state"
proof (induction state arbitrary: i)
  case (Cons x state)
  then show ?case by (cases i) (auto simp: unvisited_def le_SucI)
qed (simp add: unvisited_def)

lemma unvisited_mark: "i < length state \<Longrightarrow> state ! i = 0 \<Longrightarrow> unvisited (state[i := 1]) < unvisited state"
proof (induction state arbitrary: i)
  case (Cons x state)
  then show ?case by (cases i) (auto simp: unvisited_def)
qed simp

lemma visit_dom_unvisited:
  "visit_dom (deps, is, st) \<Longrightarrow> unvisited (fst (visit deps is st)) \<le> unvisited (fst st)"
proof (induction deps "is" st rule: visit.pinduct)
  case (1 deps st)
  then show ?case by (simp add: visit.psimps)
next
  case (2 deps i "is" state out)
  show ?case
  proof (cases "i \<ge> length state \<or> state ! i \<noteq> 0")
    case True
    with 2 show ?thesis by (simp add: visit.psimps)
  next
    case False
    obtain state' out' where v: "visit deps (deps ! i) (state[i := 1], out) = (state', out')" by fastforce
    have "unvisited state' \<le> unvisited (state[i := 1])" using "2.IH"(2) False v by simp
    moreover have "unvisited (state[i := 1]) \<le> unvisited state" by (rule unvisited_update) simp
    moreover have "unvisited (state'[i := 2]) \<le> unvisited state'" by (rule unvisited_update) simp
    moreover have "unvisited (fst (visit deps is (state'[i := 2], out' @ [i]))) \<le> unvisited (state'[i := 2])"
      using "2.IH"(3) False v by simp
    ultimately show ?thesis using False v "2.hyps" by (simp add: visit.psimps)
  qed
qed

termination visit
proof (relation "measures [\<lambda>(deps, is, st). unvisited (fst st), \<lambda>(deps, is, st). length is]", goal_cases)
  case (3 deps i "is" state out)
  then show ?case using unvisited_mark [of i state] by simp
next
  case (4 deps i "is" state out p state' out')
  then have "unvisited state' \<le> unvisited (state[i := 1])"
    using visit_dom_unvisited [of deps "deps ! i" "(state[i := 1], out)"] by (metis fst_conv)
  moreover have "unvisited (state[i := 1]) < unvisited state" using 4 by (intro unvisited_mark) simp_all
  moreover have "unvisited (state'[i := 2]) \<le> unvisited state'" by (rule unvisited_update) simp
  ultimately show ?case by simp
qed simp_all

definition SortStepsByDependencies :: "PlannedStep list \<Rightarrow> PlannedStep list" where
  "SortStepsByDependencies steps =
     (if length steps \<le> 1 then steps
      else map (\<lambda>i. steps ! i)
             (snd (visit (dep_indices steps) [0..<length steps] (replicate (length steps) 0, []))))"

definition FailedStepNames :: "ActResult list \<Rightarrow> string set" where
  "FailedStepNames results = (\<lambda>r. ToolName (ar_Step r)) ` set (filter (\<lambda>r. ar_Error r \<noteq> []) results)"

definition ShouldSkipStep :: "PlannedStep \<Rightarrow> string set \<Rightarrow> bool" where
  "ShouldSkipStep step failedDeps = list_ex (\<lambda>dep. dep \<in> failedDeps) (Depends step)"

definition ShouldAutoSkip :: "'lp Engine \<Rightarrow> PlannedStep \<Rightarrow> bool" where
  "ShouldAutoSkip e step \<longleftrightarrow> RequiresConfirmation step \<and> e_confirmationThreshold e > 0"

end
