(* ===== verification/Decision_Facts.thy ===== *)
theory Decision_Facts
  imports Decision
begin

text \<open>
  Properties of the decision cycle: the ordering of steps by their dependencies, the trust and
  confidence values, reflection and the end of the loop.
\<close>

section \<open>Facts on the ordering of steps\<close>

definition newly :: "nat list \<Rightarrow> nat list \<Rightarrow> nat set" where
  "newly state state' = {i. i < length state \<and> state ! i = 0 \<and> state' ! i \<noteq> 0}"

definition visit_post :: "nat list \<Rightarrow> nat list \<Rightarrow> nat list \<Rightarrow> nat list \<Rightarrow> nat list \<Rightarrow> bool" where
  "visit_post is state out state' out' \<longleftrightarrow>
     length state' = length state \<and>
     (\<forall>k < length state. state ! k \<noteq> 0 \<longrightarrow> state' ! k = state ! k) \<and>
     (\<forall>k < length state. state ! k = 0 \<longrightarrow> state' ! k = 0 \<or> state' ! k = 2) \<and>
     (\<forall>k \<in> set is. k < length state \<longrightarrow> state' ! k \<noteq> 0) \<and>
     (\<exists>new. out' = out @ new \<and> distinct new \<and> set new = newly state state')"

lemma visit_post_step:
  assumes "i < length state" "state ! i = 0"
    and inner: "visit_post ds (state[i := 1]) out st1 out1"
    and outer: "visit_post is (st1[i := 2]) (out1 @ [i]) st2 out2"
  shows "visit_post (i # is) state out st2 out2"
proof -
  obtain n1 where n1: "out1 = out @ n1" "distinct n1" "set n1 = newly (state[i := 1]) st1"
    using inner unfolding visit_post_def by blast
  obtain n2 where n2: "out2 = (out1 @ [i]) @ n2" "distinct n2" "set n2 = newly (st1[i := 2]) st2"
    using outer unfolding visit_post_def by blast
  have len: "length st1 = length state" "length st2 = length state"
    using inner outer unfolding visit_post_def length_list_update by simp_all
  note post = inner [unfolded visit_post_def] outer [unfolded visit_post_def]
  have s1: "state ! k \<noteq> 0 \<longrightarrow> st1 ! k = state ! k" "state ! k = 0 \<longrightarrow> st1 ! k = 0 \<or> st1 ! k = 2"
    if "k < length state" "k \<noteq> i" for k
    using post(1) [THEN conjunct2, THEN conjunct1, rule_format, of k]
      post(1) [THEN conjunct2, THEN conjunct2, THEN conjunct1, rule_format, of k] that by auto
  have s2: "st1 ! k \<noteq> 0 \<longrightarrow> st2 ! k = st1 ! k" "st1 ! k = 0 \<longrightarrow> st2 ! k = 0 \<or> st2 ! k = 2"
    if "k < length state" "k \<noteq> i" for k
    using post(2) [THEN conjunct2, THEN conjunct1, rule_format, of k]
      post(2) [THEN conjunct2, THEN conjunct2, THEN conjunct1, rule_format, of k] that len by auto
  have s2i: "st2 ! i = 2"
    using post(2) [THEN conjunct2, THEN conjunct1, rule_format, of i] assms(1) len by simp
  have new1: "set n1 = {k. k < length state \<and> k \<noteq> i \<and> state ! k = 0 \<and> st1 ! k \<noteq> 0}"
    unfolding n1(3) newly_def using assms(1) by (auto simp: nth_list_update split: if_split_asm)
  have new2: "set n2 = {k. k < length state \<and> k \<noteq> i \<and> st1 ! k = 0 \<and> st2 ! k \<noteq> 0}"
    unfolding n2(3) newly_def using len assms(1) by (auto simp: nth_list_update)
  have pt: "(state ! k = 0 \<and> st2 ! k \<noteq> 0 \<longleftrightarrow> state ! k = 0 \<and> st1 ! k \<noteq> 0 \<or> st1 ! k = 0 \<and> st2 ! k \<noteq> 0) \<and>
      (state ! k \<noteq> 0 \<longrightarrow> st2 ! k = state ! k) \<and> (state ! k = 0 \<longrightarrow> st2 ! k = 0 \<or> st2 ! k = 2)"
    if "k < length state" "k \<noteq> i" for k
    using s1 [OF that] s2 [OF that] by auto
  have "set (n1 @ [i] @ n2) = newly state st2"
  proof (rule set_eqI)
    fix k
    show "k \<in> set (n1 @ [i] @ n2) \<longleftrightarrow> k \<in> newly state st2"
      using pt [of k] assms(1,2) s2i by (cases "k = i") (auto simp: new1 new2 newly_def)
  qed
  moreover have "distinct (n1 @ [i] @ n2)" 
    using n1(2) n2(2) by (simp add: new1 new2) auto
  moreover have "out2 = out @ n1 @ [i] @ n2" using n1(1) n2(1) by simp
  moreover have "\<forall>k < length state. state ! k \<noteq> 0 \<longrightarrow> st2 ! k = state ! k"
    using pt assms(2) by metis
  moreover have "\<forall>k < length state. state ! k = 0 \<longrightarrow> st2 ! k = 0 \<or> st2 ! k = 2"
    using pt s2i by metis
  moreover have "\<forall>k \<in> set (i # is). k < length state \<longrightarrow> st2 ! k \<noteq> 0"
    using post(2) s2i len by (metis length_list_update set_ConsD zero_neq_numeral)
  ultimately show ?thesis unfolding visit_post_def using len by blast
qed

lemma visit_post: "visit deps is (state, out) = (state', out') \<Longrightarrow> visit_post is state out state' out'"
proof (induction deps "is" "(state, out)" arbitrary: state out state' out' rule: visit.induct)
  case (1 deps)
  then show ?case by (auto simp: visit_post_def newly_def)
next
  case (2 deps i "is" state out)
  show ?case
  proof (cases "i \<ge> length state \<or> state ! i \<noteq> 0")
    case True
    with 2 have "visit_post is state out state' out'" by simp
    with True show ?thesis by (auto simp: visit_post_def)
  next
    case False
    obtain st1 out1 where v: "visit deps (deps ! i) (state[i := 1], out) = (st1, out1)" by fastforce
    have "visit_post (deps ! i) (state[i := 1]) out st1 out1" using "2.hyps"(2) False v by blast
    moreover have "visit_post is (st1[i := 2]) (out1 @ [i]) state' out'"
      using "2.hyps"(3) False v "2.prems" by simp
    ultimately show ?thesis using visit_post_step False by (meson not_less)
  qed
qed

lemma visit_all_permutation:
  assumes "visit deps [0..<n] (replicate n 0, []) = (state', out)"
  shows "distinct out \<and> set out = {0..<n}"
proof -
  have "visit_post [0..<n] (replicate n 0) [] state' out" using visit_post [OF assms] .
  then obtain new where new: "out = [] @ new" "distinct new" "set new = newly (replicate n 0) state'"
    and all: "\<forall>k \<in> set [0..<n]. k < length (replicate n (0 :: nat)) \<longrightarrow> state' ! k \<noteq> 0"
    unfolding visit_post_def by blast
  have "newly (replicate n 0) state' = {0..<n}" using all by (simp add: newly_def) fastforce
  with new show ?thesis by simp
qed

lemma map_nth_mset: "distinct is \<Longrightarrow> set is = {0..<length xs} \<Longrightarrow> mset (map ((!) xs) is) = mset xs"
proof -
  assume "distinct is" "set is = {0..<length xs}"
  then have "mset is = mset [0..<length xs]" by (metis set_eq_iff_mset_eq_distinct distinct_upt set_upt)
  then have "mset (map ((!) xs) is) = mset (map ((!) xs) [0..<length xs])" by (metis mset_map)
  then show ?thesis by (simp add: map_nth)
qed

text \<open>Every element comes after the ones it depends on.\<close>

definition topo :: "nat list list \<Rightarrow> nat list \<Rightarrow> bool" where
  "topo deps out \<longleftrightarrow> (\<forall>k < length out. set (deps ! (out ! k)) \<subseteq> set (take k out))"

lemma topo_snoc: "topo deps out \<Longrightarrow> set (deps ! i) \<subseteq> set out \<Longrightarrow> topo deps (out @ [i])"
  by (auto simp: topo_def nth_append less_Suc_eq)

definition dep_rel :: "nat list list \<Rightarrow> (nat \<times> nat) set" where
  "dep_rel deps = {(i, j). i < length deps \<and> j \<in> set (deps ! i)}"

text \<open>
  The invariant of the traversal: positions in range, the output holds exactly the finished
  ones, and every position being visited depends, directly or not, on what is visited next.
\<close>

definition visit_inv :: "nat list list \<Rightarrow> nat list \<Rightarrow> nat list \<Rightarrow> nat list \<Rightarrow> bool" where
  "visit_inv deps is state out \<longleftrightarrow>
     length state = length deps \<and> set is \<subseteq> {0..<length deps} \<and>
     set out = {k. k < length state \<and> state ! k = 2} \<and> topo deps out \<and>
     (\<forall>k < length state. state ! k = 1 \<longrightarrow> (\<forall>i \<in> set is. (k, i) \<in> (dep_rel deps)\<^sup>+)) \<and>
     (\<forall>k < length state. state ! k \<le> 2)"

lemma visit_post_out:
  assumes "visit_post is state out state' out'" "set out = {k. k < length state \<and> state ! k = 2}"
  shows "set out' = {k. k < length state' \<and> state' ! k = 2}"
proof -
  obtain new where new: "out' = out @ new" "set new = newly state state'"
    using assms(1) unfolding visit_post_def by blast
  note p = assms(1) [unfolded visit_post_def]
  have "k \<in> set out' \<longleftrightarrow> k < length state' \<and> state' ! k = 2" for k
  proof (cases "k < length state")
    case True
    then show ?thesis
      using p [THEN conjunct2, THEN conjunct1, rule_format, OF True]
        p [THEN conjunct2, THEN conjunct2, THEN conjunct1, rule_format, OF True] p [THEN conjunct1]
      by (cases "state ! k = 0") (auto simp: new assms(2) newly_def)
  next
    case False
    then show ?thesis using p [THEN conjunct1] by (auto simp: new assms(2) newly_def)
  qed
  then show ?thesis by blast
qed

lemma visit_inv_inner:
  assumes inv: "visit_inv deps (i # is) state out" and i: "i < length state" "state ! i = 0"
    and range: "\<forall>j < length deps. set (deps ! j) \<subseteq> {0..<length deps}"
  shows "visit_inv deps (deps ! i) (state[i := 1]) out"
proof -
  note inv' = inv [unfolded visit_inv_def]
  have len: "length state = length deps" using inv' by blast
  have edge: "(i, j) \<in> dep_rel deps" if "j \<in> set (deps ! i)" for j
    using that i(1) len by (simp add: dep_rel_def)
  have out: "set out = {k. k < length (state[i := 1]) \<and> state[i := 1] ! k = 2}"
    using inv' i(2) by (auto simp: nth_list_update)
  have reach: "(k, j) \<in> (dep_rel deps)\<^sup>+"
    if k: "k < length (state[i := 1])" "state[i := 1] ! k = 1" and j: "j \<in> set (deps ! i)" for k j
  proof (cases "k = i")
    case True
    then show ?thesis using edge [OF j] by blast
  next
    case False
    with k have "(k, i) \<in> (dep_rel deps)\<^sup>+" using inv' by simp
    then show ?thesis using edge [OF j] by (rule trancl_into_trancl)
  qed
  have le2: "\<forall>k < length (state[i := 1]). state[i := 1] ! k \<le> 2"
    using inv' by (simp add: nth_list_update)
  show ?thesis
    unfolding visit_inv_def using out reach le2 inv' range i(1) len by simp
qed

lemma visit_post_le2:
  assumes "visit_post is state out state' out'" "\<forall>k < length state. state ! k \<le> 2"
  shows "\<forall>k < length state'. state' ! k \<le> 2"
proof (intro allI impI)
  fix k assume k: "k < length state'"
  note p = assms(1) [unfolded visit_post_def]
  have k': "k < length state" using p k by simp
  show "state' ! k \<le> 2"
    using p [THEN conjunct2, THEN conjunct1, rule_format, OF k']
      p [THEN conjunct2, THEN conjunct2, THEN conjunct1, rule_format, OF k'] assms(2) k'
    by (cases "state ! k = 0") auto
qed

lemma visit_inv_outer:
  assumes inv: "visit_inv deps (i # is) state out" and i: "i < length state" "state ! i = 0"
    and post: "visit_post (deps ! i) (state[i := 1]) out st1 out1"
    and topo1: "topo deps out1" and acyc: "acyclic (dep_rel deps)"
    and range: "\<forall>j < length deps. set (deps ! j) \<subseteq> {0..<length deps}"
  shows "visit_inv deps is (st1[i := 2]) (out1 @ [i])"
proof -
  note inv' = inv [unfolded visit_inv_def]
  have len: "length state = length deps" using inv' by blast
  note inner = visit_inv_inner [OF inv i range, unfolded visit_inv_def]
  note p = post [unfolded visit_post_def]
  have len1: "length st1 = length state" using p by simp
  have le2: "\<forall>k < length st1. st1 ! k \<le> 2" using visit_post_le2 [OF post] inner by blast
  have out1: "set out1 = {k. k < length st1 \<and> st1 ! k = 2}" using visit_post_out [OF post] inner by blast
  have kept: "st1 ! k = 1 \<Longrightarrow> k < length state \<Longrightarrow> k = i \<or> state ! k = 1" for k
    using p [THEN conjunct2, THEN conjunct1, rule_format, of k]
      p [THEN conjunct2, THEN conjunct2, THEN conjunct1, rule_format, of k]
    by (cases "k = i"; cases "state ! k = 0") auto
  have deps_done: "set (deps ! i) \<subseteq> set out1"
  proof
    fix j assume j: "j \<in> set (deps ! i)"
    then have jr: "j < length state" using range [rule_format, of i] i(1) len by auto
    have edge: "(i, j) \<in> dep_rel deps" using j i(1) len by (simp add: dep_rel_def)
    have "st1 ! j \<noteq> 0" using p j jr by simp
    moreover have "st1 ! j \<noteq> 1"
    proof
      assume "st1 ! j = 1"
      with kept jr consider "j = i" | "state ! j = 1" by blast
      then have "(j, j) \<in> (dep_rel deps)\<^sup>+"
      proof cases
        case 1
        with edge show ?thesis by blast
      next
        case 2
        with inv' jr have "(j, i) \<in> (dep_rel deps)\<^sup>+" by simp
        then show ?thesis using edge by (rule trancl_into_trancl)
      qed
      with acyc show False by (simp add: acyclic_def)
    qed
    ultimately have "st1 ! j = 2" using le2 jr len1 by (metis One_nat_def Suc_1 le_SucE le_zero_eq)
    with out1 jr len1 show "j \<in> set out1" by simp
  qed
  have "set (out1 @ [i]) = {k. k < length (st1[i := 2]) \<and> st1[i := 2] ! k = 2}"
    using i(1) len1 by (auto simp: out1 nth_list_update)
  moreover have "\<forall>k < length (st1[i := 2]). st1[i := 2] ! k = 1 \<longrightarrow> (\<forall>j \<in> set is. (k, j) \<in> (dep_rel deps)\<^sup>+)"
  proof (intro allI impI ballI)
    fix k j assume k: "k < length (st1[i := 2])" "st1[i := 2] ! k = 1" and j: "j \<in> set is"
    then have "k \<noteq> i" by auto
    with k have "st1 ! k = 1" "k < length state" using len1 by simp_all
    with kept \<open>k \<noteq> i\<close> have "state ! k = 1" by blast
    with \<open>k < length state\<close> j inv' show "(k, j) \<in> (dep_rel deps)\<^sup>+" by simp
  qed
  moreover have "\<forall>k < length (st1[i := 2]). st1[i := 2] ! k \<le> 2"
  proof (intro allI impI)
    fix k assume "k < length (st1[i := 2])"
    with le2 show "st1[i := 2] ! k \<le> 2" by (cases "k = i") simp_all
  qed
  ultimately show ?thesis
    unfolding visit_inv_def using inv' len len1 topo_snoc [OF topo1 deps_done] by simp
qed

lemma visit_inv_tl: "visit_inv deps (i # is) state out \<Longrightarrow> visit_inv deps is state out"
  unfolding visit_inv_def list.set by blast

lemma visit_topo:
  assumes "acyclic (dep_rel deps)" "\<forall>j < length deps. set (deps ! j) \<subseteq> {0..<length deps}"
  shows "visit deps is (state, out) = (state', out') \<Longrightarrow> visit_inv deps is state out \<Longrightarrow> topo deps out'"
  using assms
proof (induction deps "is" "(state, out)" arbitrary: state out state' out' rule: visit.induct)
  case (1 deps)
  from "1.prems"(1) have "out' = out" by simp
  with "1.prems"(2) show ?case unfolding visit_inv_def by blast
next
  case (2 deps i "is" state out)
  show ?case
  proof (cases "i \<ge> length state \<or> state ! i \<noteq> 0")
    case True
    have "visit_inv deps is state out" using "2.prems"(2) by (rule visit_inv_tl)
    moreover have "visit deps is (state, out) = (state', out')" using "2.prems"(1) True by simp
    ultimately show ?thesis using "2.hyps"(1) [OF True] "2.prems"(3,4) by blast
  next
    case False
    obtain st1 out1 where v: "visit deps (deps ! i) (state[i := 1], out) = (st1, out1)" by fastforce
    from False have i: "i < length state" "state ! i = 0" by simp_all
    have "topo deps out1"
      by (rule "2.hyps"(2) [OF False v visit_inv_inner [OF "2.prems"(2) i "2.prems"(4)] "2.prems"(3,4)])
    then have inv2: "visit_inv deps is (st1[i := 2]) (out1 @ [i])"
      by (rule visit_inv_outer [OF "2.prems"(2) i visit_post [OF v] _ "2.prems"(3,4)])
    have v2: "visit deps is (st1[i := 2], out1 @ [i]) = (state', out')"
      using "2.prems"(1) False v by simp
    show ?thesis
      by (rule "2.hyps"(3) [OF False refl v [symmetric] v2 inv2 "2.prems"(3,4)])
  qed
qed

lemma name_index_SomeD:
  "name_index ss i m n = Some j \<Longrightarrow>
     (i \<le> j \<and> j < i + length ss \<and> ToolName (ss ! (j - i)) = n) \<or> m n = Some j"
proof (induction ss arbitrary: i m)
  case (Cons s ss)
  have "(Suc i \<le> j \<and> j < Suc i + length ss \<and> ToolName (ss ! (j - Suc i)) = n) \<or> (m(ToolName s \<mapsto> i)) n = Some j"
    using Cons.prems unfolding name_index.simps by (rule Cons.IH)
  then show ?case
  proof
    assume "Suc i \<le> j \<and> j < Suc i + length ss \<and> ToolName (ss ! (j - Suc i)) = n"
    then show ?thesis by (simp add: nth_Cons' Suc_diff_le)
  qed (auto split: if_splits)
qed simp

lemma name_index_defined:
  "s \<in> set ss \<Longrightarrow> \<exists>j. name_index ss i m (ToolName s) = Some j"
proof (induction ss arbitrary: i m)
  case (Cons x ss)
  have keep: "m n \<noteq> None \<Longrightarrow> name_index ss i m n \<noteq> None" for i m n
    by (induction ss arbitrary: i m) auto
  show ?case
  proof (cases "s \<in> set ss")
    case True
    with Cons.IH show ?thesis by simp
  next
    case False
    with Cons.prems keep [of "m(ToolName s \<mapsto> i)" "ToolName s" "Suc i"] show ?thesis by simp
  qed
qed simp

lemma name_index_lookup:
  "name_index steps 0 Map.empty n = Some j \<Longrightarrow> j < length steps \<and> ToolName (steps ! j) = n"
  using name_index_SomeD [of steps 0 Map.empty n j] by simp

lemma dep_indices_nth:
  "i < length steps \<Longrightarrow>
     set (dep_indices steps ! i) = {j. \<exists>d \<in> set (Depends (steps ! i)). name_index steps 0 Map.empty d = Some j}"
  by (force simp: dep_indices_def List.map_filter_def)

lemma length_dep_indices [simp]: "length (dep_indices steps) = length steps"
  by (simp add: dep_indices_def)

lemma dep_indices_range: "\<forall>j < length (dep_indices steps). set (dep_indices steps ! j) \<subseteq> {0..<length (dep_indices steps)}"
  using name_index_lookup by (auto simp: dep_indices_nth)

text \<open>The order in which the traversal emits the positions of a plan.\<close>

definition sort_order :: "PlannedStep list \<Rightarrow> nat list" where
  "sort_order steps = snd (visit (dep_indices steps) [0..<length steps] (replicate (length steps) 0, []))"

lemma sort_order_perm: "distinct (sort_order steps) \<and> set (sort_order steps) = {0..<length steps}"
  unfolding sort_order_def by (metis visit_all_permutation prod.collapse)

lemma Sort_sort_order:
  "length steps > 1 \<Longrightarrow> SortStepsByDependencies steps = map ((!) steps) (sort_order steps)"
  by (simp add: SortStepsByDependencies_def sort_order_def)

lemma sort_order_topo:
  assumes "acyclic (dep_rel (dep_indices steps))"
  shows "topo (dep_indices steps) (sort_order steps)"
proof -
  let ?n = "length steps"
  obtain st out where v: "visit (dep_indices steps) [0..<?n] (replicate ?n 0, []) = (st, out)" by fastforce
  have "visit_inv (dep_indices steps) [0..<?n] (replicate ?n 0) []"
    by (auto simp: visit_inv_def topo_def)
  from visit_topo [OF assms dep_indices_range v this] v show ?thesis by (simp add: sort_order_def)
qed

lemma visit_in_order:
  assumes "\<forall>i < length deps. set (deps ! i) \<subseteq> {0..<i}"
  shows "k \<le> length deps \<Longrightarrow>
    visit deps [k..<length deps] (replicate k 2 @ replicate (length deps - k) 0, [0..<k]) =
      (replicate (length deps) 2, [0..<length deps])"
proof (induction "length deps - k" arbitrary: k)
  case 0
  then show ?case by simp
next
  case (Suc d)
  then have k: "k < length deps" by simp
  have skip: "visit deps is (state, out) = (state, out)" if "\<forall>j \<in> set is. state ! j \<noteq> 0" for "is" state out
    using that by (induction "is") auto
  let ?st = "replicate k (2 :: nat) @ replicate (length deps - k) 0"
  have "\<forall>j \<in> set (deps ! k). ?st[k := 1] ! j \<noteq> 0"
    using assms [rule_format, of k] k by (auto simp: nth_list_update nth_append)
  from skip [OF this] have inner: "visit deps (deps ! k) (?st[k := 1], [0..<k]) = (?st[k := 1], [0..<k])" .
  have st': "?st[k := 1, k := 2] = replicate (Suc k) 2 @ replicate (length deps - Suc k) 0"
  proof -
    obtain m where "length deps - k = Suc m" "length deps - Suc k = m" using k by (metis Suc_diff_Suc)
    then show ?thesis by (simp add: list_update_append replicate_app_Cons_same)
  qed
  have "[k..<length deps] = k # [Suc k..<length deps]" using k by (simp add: upt_conv_Cons)
  moreover have "?st ! k = 0" using k by (simp add: nth_append)
  ultimately have "visit deps [k..<length deps] (?st, [0..<k]) =
      visit deps [Suc k..<length deps] (?st[k := 1, k := 2], [0..<k] @ [k])"
    using k inner by simp
  also have "\<dots> = visit deps [Suc k..<length deps] (replicate (Suc k) 2 @ replicate (length deps - Suc k) 0, [0..<Suc k])"
    unfolding st' by simp
  finally show ?case using Suc.hyps(1) [of "Suc k"] Suc.hyps(2) k by simp
qed

lemma sort_order_stable:
  assumes "\<forall>i < length steps. set (dep_indices steps ! i) \<subseteq> {0..<i}"
  shows "sort_order steps = [0..<length steps]"
  using visit_in_order [of "dep_indices steps" 0] assms by (simp add: sort_order_def)

lemma sort_dep_before:
  assumes acyc: "acyclic (dep_rel (dep_indices steps))" and len: "length steps > 1"
    and k: "k < length steps" and d: "d \<in> set (Depends (SortStepsByDependencies steps ! k))"
    and known: "name_index steps 0 Map.empty d = Some j"
  shows "\<exists>l < k. ToolName (SortStepsByDependencies steps ! l) = d"
proof -
  let ?o = "sort_order steps"
  have lo: "length ?o = length steps"
    using sort_order_perm [of steps] by (metis card_atLeastLessThan diff_zero distinct_card)
  have ok: "?o ! k < length steps"
    using sort_order_perm [of steps] k lo by (metis atLeastLessThan_iff nth_mem)
  have "SortStepsByDependencies steps ! k = steps ! (?o ! k)" using len k lo by (simp add: Sort_sort_order)
  with d known have "j \<in> set (dep_indices steps ! (?o ! k))" using dep_indices_nth [OF ok] by auto
  moreover have "set (dep_indices steps ! (?o ! k)) \<subseteq> set (take k ?o)"
    using sort_order_topo [OF acyc] k lo unfolding topo_def by metis
  ultimately have "j \<in> set (take k ?o)" by blast
  then obtain l where l: "l < k" "?o ! l = j" using k lo by (auto simp: in_set_conv_nth)
  with len k lo have "SortStepsByDependencies steps ! l = steps ! j" by (simp add: Sort_sort_order)
  with name_index_lookup [OF known] l show ?thesis by auto
qed

section \<open>Facts on trust, confidence and reflection\<close>

lemma ConfidenceFromPredictions_bounds: "1 / 2 \<le> ConfidenceFromPredictions scores \<and> ConfidenceFromPredictions scores < 1"
proof (cases "scores = []")
  case False
  define mx where "mx = foldl (\<lambda>mx s. if s > mx then s else mx) 0 scores"
  have "a \<le> foldl (\<lambda>mx s. if s > mx then s else mx) a scores" for a :: real
    by (induction scores arbitrary: a) (auto intro: order_trans less_imp_le)
  then have "0 \<le> mx" by (simp add: mx_def)
  then have "exp (- mx) \<le> 1" "0 < exp (- mx)" by simp_all
  moreover have "ConfidenceFromPredictions scores = 1 / (1 + exp (- mx))"
    using False by (simp add: ConfidenceFromPredictions_def mx_def Let_def)
  moreover have "1 / 2 \<le> 1 / (1 + x) \<and> 1 / (1 + x) < 1" if "x \<le> 1" "0 < x" for x :: real
    using that by (simp add: field_simps)
  ultimately show ?thesis by metis
qed (simp add: ConfidenceFromPredictions_def)

lemma average_bounds:
  fixes xs :: "real list"
  assumes "xs \<noteq> []" "\<And>x. x \<in> set xs \<Longrightarrow> a \<le> x \<and> x < b"
  shows "a \<le> sum_list xs / real (length xs) \<and> sum_list xs / real (length xs) < b"
proof -
  have "a * real (length xs) \<le> sum_list xs \<and> sum_list xs < b * real (length xs)"
    using assms
  proof (induction xs)
    case (Cons x xs)
    then show ?case by (cases "xs = []") (auto simp: algebra_simps intro: add_mono add_strict_mono)
  qed simp
  with assms(1) show ?thesis by (simp add: field_simps)
qed

lemma blended_confidence_bounds: "0.71 \<le> blended_confidence ops e tools \<and> blended_confidence ops e tools < 0.86"
proof -
  have avg: "1 / 2 \<le> sum_list sc / real (length sc) \<and> sum_list sc / real (length sc) < 1"
    if "sc \<noteq> []" "sc = gnn_scores ops lp g tools" for sc lp g
    by (rule average_bounds) (use that ConfidenceFromPredictions_bounds in \<open>auto simp: gnn_scores_def\<close>)
  show ?thesis
  proof (cases "\<exists>lp g. e_linkPredictor e = Some lp \<and> e_graph e = Some g")
    case True
    then obtain lp g where lg: "e_linkPredictor e = Some lp" "e_graph e = Some g" by blast
    let ?sc = "gnn_scores ops lp g tools"
    consider "lp_IsTrained ops lp" "tools \<noteq> []" "?sc \<noteq> []" | "blended_confidence ops e tools = 0.8"
      using lg
      by (cases "lp_IsTrained ops lp \<and> tools \<noteq> [] \<and> ?sc \<noteq> []") (auto simp: blended_confidence_def Let_def)
    then show ?thesis
    proof cases
      case 1
      then have "blended_confidence ops e tools = 0.7 * 0.8 + 0.3 * (sum_list ?sc / real (length ?sc))"
        using lg by (simp add: blended_confidence_def Let_def)
      moreover have "0.71 \<le> 0.7 * 0.8 + 0.3 * x \<and> 0.7 * 0.8 + 0.3 * x < 0.86" if "1 / 2 \<le> x \<and> x < 1" for x :: real
        using that by simp
      ultimately show ?thesis using avg [OF 1(3) refl] by metis
    qed simp
  next
    case False
    then show ?thesis
      by (cases "e_linkPredictor e"; cases "e_graph e") (simp_all add: blended_confidence_def)
  qed
qed

text \<open>A sequence of executions, each with the executor's answer and the time it took.\<close>

fun acts :: "(ToolExecutor \<times> int \<times> PlannedStep) list \<Rightarrow> string \<Rightarrow> 'lp Engine \<Rightarrow> 'lp Engine" where
  "acts [] projectID e = e"
| "acts ((exec, ms, step) # as) projectID e = acts as projectID (snd (Act exec ms step projectID e))"

definition failed_act :: "string \<Rightarrow> ToolExecutor \<times> int \<times> PlannedStep \<Rightarrow> bool" where
  "failed_act projectID a =
     (case a of (exec, ms, step) \<Rightarrow> snd (snd (exec (ToolName step) (Arguments step) projectID [])) \<noteq> None)"

definition acts_of :: "string \<Rightarrow> (ToolExecutor \<times> int \<times> PlannedStep) list \<Rightarrow> (ToolExecutor \<times> int \<times> PlannedStep) list" where
  "acts_of tool as = filter (\<lambda>(exec, ms, step). ToolName step = tool) as"

lemma Act_history:
  "history_of (snd (Act exec ms step projectID e)) tool =
     (if tool = ToolName step then
        (let h = history_of e tool in
         if failed_act projectID (exec, ms, step) then h\<lparr>failures := failures h + 1\<rparr> else h\<lparr>successes := successes h + 1\<rparr>)
      else history_of e tool)"
  by (auto simp: Act_def history_of_def RecordPAORACycle_def failed_act_def Let_def split: prod.splits)

lemma acts_history:
  "successes (history_of (acts as projectID e) tool) =
     successes (history_of e tool) + int (length (filter (\<lambda>a. \<not> failed_act projectID a) (acts_of tool as))) \<and>
   failures (history_of (acts as projectID e) tool) =
     failures (history_of e tool) + int (length (filter (failed_act projectID) (acts_of tool as)))"
proof (induction as projectID e rule: acts.induct)
  case (2 exec ms step as projectID e)
  then show ?case by (auto simp: Act_history acts_of_def Let_def)
qed (simp add: acts_of_def)

lemma acts_recorded:
  "e_toolHistory (acts as projectID e) tool = None \<longleftrightarrow> e_toolHistory e tool = None \<and> acts_of tool as = []"
proof (induction as projectID e rule: acts.induct)
  case (2 exec ms step as projectID e)
  then show ?case
    by (auto simp: Act_def RecordPAORACycle_def acts_of_def Let_def split: prod.splits)
qed (simp add: acts_of_def)

lemma count_gap_pos: "count_gap g (map classifyObservation obs) > 0 \<longleftrightarrow> (\<exists>x \<in> set obs. oa_GapType (classifyObservation x) = g)"
  by (auto simp: count_gap_def filter_empty_conv)

lemma classify_critical:
  "oa_GapType (classifyObservation x) = GapCritical \<longleftrightarrow>
     \<not> obs_Success x \<and> (isBlockingFailure (Join (obs_Issues x) ''; '') \<or> length (obs_Issues x) > 2 \<or> obs_TrustDelta x < - 0.3)"
  by (simp add: classifyObservation_def Let_def)

lemma classify_expected:
  "oa_GapType (classifyObservation x) = GapExpected \<longleftrightarrow> obs_Success x \<and> obs_Issues x = []"
  by (simp add: classifyObservation_def Let_def)

lemma dedup_seen_set: "set (dedup_seen seen ws) = set ws - set seen \<and> distinct (dedup_seen seen ws)"
  by (induction seen ws rule: dedup_seen.induct) auto

section \<open>Properties\<close>

text \<open>Ordering a plan neither loses nor duplicates a step, whatever the dependencies are (cycles and
  unknown or repeated tool names included).\<close>

theorem SortStepsByDependencies_permutation:
  "mset (SortStepsByDependencies steps) = mset steps"
proof (cases "length steps > 1")
  case True
  then show ?thesis
    using map_nth_mset sort_order_perm by (metis Sort_sort_order)
qed (simp add: SortStepsByDependencies_def)

text \<open>C11. When the dependencies have no cycle, every step of the ordered plan comes after a step with the
  name of each dependency the plan contains.\<close>

theorem SortStepsByDependencies_dependencies_first:
  assumes "acyclic (dep_rel (dep_indices steps))"
    and "k < length steps" and "d \<in> set (Depends (SortStepsByDependencies steps ! k))"
    and "d \<in> ToolName ` set steps"
  shows "\<exists>l < k. ToolName (SortStepsByDependencies steps ! l) = d"
proof -
  obtain j where j: "name_index steps 0 Map.empty d = Some j"
    using assms(4) name_index_defined by fastforce
  show ?thesis
  proof (cases "length steps > 1")
    case True
    then show ?thesis using sort_dep_before [OF assms(1) _ assms(2,3) j] by blast
  next
    case False
    with assms(2) have one: "length steps = 1" "k = 0" by auto
    with assms(3) have "d \<in> set (Depends (steps ! 0))" by (simp add: SortStepsByDependencies_def)
    moreover have "j = 0" using name_index_lookup [OF j] one by simp
    ultimately have "0 \<in> set (dep_indices steps ! 0)" using j one by (auto simp: dep_indices_nth)
    then have "(0, 0) \<in> dep_rel (dep_indices steps)" using one by (simp add: dep_rel_def)
    with assms(1) show ?thesis unfolding acyclic_def by blast
  qed
qed

definition sample_steps :: "PlannedStep list" where
  "sample_steps = [(planned ''report'' [])\<lparr>Depends := [''fetch'']\<rparr>, planned ''fetch'' []]"

theorem SortStepsByDependencies_dependencies_first_witness:
  "acyclic (dep_rel (dep_indices sample_steps)) \<and> Depends (SortStepsByDependencies sample_steps ! 1) = [''fetch''] \<and>
   (\<exists>l < 1. ToolName (SortStepsByDependencies sample_steps ! l) = ''fetch'')"
proof -
  have di: "dep_indices sample_steps = [[1], []]" by code_simp
  have "dep_rel (dep_indices sample_steps) \<subseteq> less_than"
    by (auto simp: di dep_rel_def less_Suc_eq nth_Cons split: nat.splits)
  then have acyc: "acyclic (dep_rel (dep_indices sample_steps))"
    using wf_less_than wf_acyclic acyclic_subset by metis
  have deps: "Depends (SortStepsByDependencies sample_steps ! 1) = [''fetch'']" by code_simp
  have "''fetch'' \<in> ToolName ` set sample_steps" by (simp add: sample_steps_def planned_def)
  with SortStepsByDependencies_dependencies_first [OF acyc, of 1 "''fetch''"] acyc deps show ?thesis
    by (simp add: sample_steps_def)
qed

text \<open>A plan whose steps depend only on earlier steps is left exactly as it is.\<close>

theorem SortStepsByDependencies_stable:
  assumes "\<forall>i < length steps. set (dep_indices steps ! i) \<subseteq> {0..<i}"
  shows "SortStepsByDependencies steps = steps"
  using sort_order_stable [OF assms] by (simp add: SortStepsByDependencies_def sort_order_def map_nth)

theorem SortStepsByDependencies_stable_witness:
  "SortStepsByDependencies (rev sample_steps) = rev sample_steps"
proof (rule SortStepsByDependencies_stable)
  have "dep_indices (rev sample_steps) = [[], [0]]" by code_simp
  then show "\<forall>i < length (rev sample_steps). set (dep_indices (rev sample_steps) ! i) \<subseteq> {0..<i}"
    by (simp add: sample_steps_def less_Suc_eq nth_Cons split: nat.splits)
qed

text \<open>After any sequence of executions on a new engine, the trust change reported for a tool that was
  executed is its share of successful executions minus one half, so it lies between -1/2 and 1/2.\<close>

theorem Observe_trust_is_success_rate:
  fixes cfg :: "'lp EngineConfig" and as :: "(ToolExecutor \<times> int \<times> PlannedStep) list"
    and step :: PlannedStep and projectID :: string
  assumes "acts_of (ToolName step) as \<noteq> []"
  defines "e \<equiv> acts as projectID (NewEngine cfg)"
    and "good \<equiv> length (filter (\<lambda>a. \<not> failed_act projectID a) (acts_of (ToolName step) as))"
    and "n \<equiv> length (acts_of (ToolName step) as)"
  shows "obs_TrustDelta (fst (Observe step result e)) = real good / real n - 1 / 2 \<and>
         \<bar>obs_TrustDelta (fst (Observe step result e))\<bar> \<le> 1 / 2"
proof -
  let ?bad = "length (filter (failed_act projectID) (acts_of (ToolName step) as))"
  have n: "n = good + ?bad" unfolding n_def good_def using sum_length_filter_compl [of "failed_act projectID"] by (metis add.commute)
  have pos: "n > 0" using assms(1) by (simp add: n_def)
  obtain h where h: "e_toolHistory e (ToolName step) = Some h"
    using acts_recorded [of as projectID "NewEngine cfg" "ToolName step"] assms(1) by (auto simp: e_def)
  have "history_of e (ToolName step) = h" using h by (simp add: history_of_def)
  then have hs: "successes h = int good" "failures h = int ?bad"
    using acts_history [of as projectID "NewEngine cfg" "ToolName step"]
    by (auto simp: e_def good_def history_of_def NewEngine_def)
  have "obs_TrustDelta (fst (Observe step result e)) = trust_delta e step result"
    by (simp add: Observe_def Let_def)
  also have "\<dots> = real good / real n - 1 / 2"
  proof -
    have "total h = int n" using hs n by (simp add: total_def)
    with h hs(1) pos show ?thesis by (simp add: trust_delta_def)
  qed
  finally have eq: "obs_TrustDelta (fst (Observe step result e)) = real good / real n - 1 / 2" .
  have "good \<le> n" using n by simp
  then have "real good / real n \<le> 1" "0 \<le> real good / real n" using pos by (simp_all add: divide_le_eq)
  then show ?thesis unfolding eq abs_le_iff by linarith
qed

definition echo_executor :: ToolExecutor where
  "echo_executor tool args projectID agentID = (if tool = ''fetch'' then (''ok'', False, None) else ([], False, Some ''failed''))"

definition sample_config :: "unit EngineConfig" where
  "sample_config = \<lparr>cfg_Provider = None, cfg_ProviderBaseURL = [], cfg_MetaRepo = None, cfg_Registry = None,
     cfg_MaxAttempts = 3, cfg_LinkPredictor = None, cfg_Graph = None, cfg_ConfirmationThreshold = 0, cfg_TruncationThreshold = 0\<rparr>"

definition sample_result :: ActResult where
  "sample_result = \<lparr>ar_Step = planned ''fetch'' [], ar_Output = ''ok'', ar_Error = [], ar_DurationMs = 1\<rparr>"

theorem Observe_trust_is_success_rate_witness:
  "obs_TrustDelta (fst (Observe (planned ''fetch'' []) sample_result
     (acts [(echo_executor, 1, planned ''fetch'' [])] ''p'' (NewEngine sample_config)))) = 1 / 2"
  using Observe_trust_is_success_rate [of "planned ''fetch'' []" "[(echo_executor, 1, planned ''fetch'' [])]" sample_result "''p''" sample_config]
  by (simp add: acts_of_def planned_def failed_act_def echo_executor_def)

text \<open>The confidence of every plan lies in the documented range: at least one half and below one.\<close>

theorem Plan_confidence_bounds:
  "1 / 2 \<le> Confidence (pr_Intent (fst (PlanWithProvider parser ops msg ont agent provider e))) \<and>
   Confidence (pr_Intent (fst (PlanWithProvider parser ops msg ont agent provider e))) < 1"
proof -
  have plan: "1 / 2 \<le> Confidence (pr_Intent (fst (Plan parser ops msg ont e))) \<and>
      Confidence (pr_Intent (fst (Plan parser ops msg ont e))) < 1"
    using blended_confidence_bounds [of ops e "inferToolsFromMessage e msg"]
    by (cases "e_provider e") (simp_all add: Plan_def Let_def)
  show ?thesis
  proof (cases provider)
    case None
    with plan show ?thesis by (simp add: PlanWithProvider_def)
  next
    case (Some prov)
    with plan show ?thesis by (cases "prov (plan_request e msg agent)") (simp_all add: PlanWithProvider_def)
  qed
qed

text \<open>Reflection on a plan that can proceed stops it exactly when some failed observation is critical (a
  blocking message, more than two issues, or a trust change below -0.3); it keeps the steps and
  the intent, proposes one correction per failed observation when anything went wrong, and asks for
  no replanning exactly when every observation succeeded without issues.\<close>

theorem Reflect_verdict:
  assumes "pr_CanProceed plan" and "observations \<noteq> []"
  shows "\<exists>r. DefaultReflector_Reflect (Some plan) observations = Inr r \<and>
     (pr_CanProceed r \<longleftrightarrow>
        (\<forall>x \<in> set observations. obs_Success x \<or>
           (\<not> isBlockingFailure (Join (obs_Issues x) ''; '') \<and> length (obs_Issues x) \<le> 2 \<and> obs_TrustDelta x \<ge> - 0.3))) \<and>
     (pr_ReplanType r = ReplanFull \<longleftrightarrow> \<not> pr_CanProceed r) \<and>
     (pr_ReplanType r = ReplanNone \<longleftrightarrow> (\<forall>x \<in> set observations. obs_Success x \<and> obs_Issues x = [])) \<and>
     pr_Steps r = pr_Steps plan \<and> pr_Intent r = pr_Intent plan \<and>
     length (pr_CorrectionSteps r) = length (filter (\<lambda>x. \<not> obs_Success x) observations)"
proof -
  let ?a = "map classifyObservation observations"
  define ok where "ok \<longleftrightarrow> (\<forall>x \<in> set observations. obs_Success x \<or>
      (\<not> isBlockingFailure (Join (obs_Issues x) ''; '') \<and> length (obs_Issues x) \<le> 2 \<and> obs_TrustDelta x \<ge> - 0.3))"
  have crit: "count_gap GapCritical ?a > 0 \<longleftrightarrow> \<not> ok"
    unfolding count_gap_pos classify_critical ok_def by force
  have allexp: "count_gap GapCritical ?a = 0 \<and> count_gap GapUnexpected ?a = 0 \<longleftrightarrow>
      (\<forall>x \<in> set observations. obs_Success x \<and> obs_Issues x = [])"
  proof -
    have zero: "count_gap g ?a = 0 \<longleftrightarrow> (\<forall>x \<in> set observations. oa_GapType (classifyObservation x) \<noteq> g)" for g
      using count_gap_pos [of g observations] by auto
    have "g \<noteq> GapCritical \<and> g \<noteq> GapUnexpected \<longleftrightarrow> g = GapExpected" for g by (cases g) simp_all
    then show ?thesis unfolding zero ball_conj_distrib [symmetric] classify_expected [symmetric] by presburger
  qed
  have none: "filter (\<lambda>x. \<not> obs_Success x) observations = []"
    if "count_gap GapCritical ?a = 0" "count_gap GapUnexpected ?a = 0"
    using allexp that by (simp add: filter_empty_conv)
  consider "count_gap GapCritical ?a > 0" | "count_gap GapCritical ?a = 0" "count_gap GapUnexpected ?a > 0"
    | "count_gap GapCritical ?a = 0" "count_gap GapUnexpected ?a = 0" by blast
  then have "\<exists>r. DefaultReflector_Reflect (Some plan) observations = Inr r \<and> (pr_CanProceed r \<longleftrightarrow> ok) \<and>
     (pr_ReplanType r = ReplanFull \<longleftrightarrow> \<not> pr_CanProceed r) \<and>
     (pr_ReplanType r = ReplanNone \<longleftrightarrow> (\<forall>x \<in> set observations. obs_Success x \<and> obs_Issues x = [])) \<and>
     pr_Steps r = pr_Steps plan \<and> pr_Intent r = pr_Intent plan \<and>
     length (pr_CorrectionSteps r) = length (filter (\<lambda>x. \<not> obs_Success x) observations)"
  proof cases
    case 1
    moreover from 1 allexp have "\<not> (\<forall>x \<in> set observations. obs_Success x \<and> obs_Issues x = [])" by linarith
    ultimately show ?thesis
      using assms crit by (simp add: DefaultReflector_Reflect_def Let_def buildCorrectionSteps_def)
  next
    case 2
    moreover from 2 allexp have "\<not> (\<forall>x \<in> set observations. obs_Success x \<and> obs_Issues x = [])" by linarith
    ultimately show ?thesis
      using assms crit by (simp add: DefaultReflector_Reflect_def Let_def buildCorrectionSteps_def)
  next
    case 3
    with none allexp have "\<forall>x \<in> set observations. obs_Success x \<and> obs_Issues x = []" "filter (\<lambda>x. \<not> obs_Success x) observations = []" by blast+
    with 3 assms crit show ?thesis by (simp add: DefaultReflector_Reflect_def Let_def)
  qed
  then show ?thesis unfolding ok_def .
qed

definition sample_plan :: PlanResult where
  "sample_plan = \<lparr>pr_Intent = \<lparr>PrimaryGoal = ''g'', NeededTools = [], TargetObjects = [], Confidence = 0.5\<rparr>,
     pr_Steps = sample_steps, pr_CanProceed = True, pr_Reason = [], pr_CorrectionSteps = [], pr_ReplanType = ReplanNone\<rparr>"

definition sample_observation :: Observation where
  "sample_observation = \<lparr>obs_Step = planned ''fetch'' [], obs_ActResult = sample_result, obs_Success = False,
     obs_TrustDelta = 0, obs_Issues = [''timeout'']\<rparr>"

theorem Reflect_verdict_witness:
  "\<exists>r. DefaultReflector_Reflect (Some sample_plan) [sample_observation] = Inr r \<and> pr_CanProceed r \<and>
     length (pr_CorrectionSteps r) = 1"
proof -
  have "pr_CanProceed sample_plan" by (simp add: sample_plan_def)
  moreover have "\<not> isBlockingFailure ''timeout''" by code_simp
  ultimately show ?thesis
    using Reflect_verdict [of sample_plan "[sample_observation]"] by (auto simp: sample_observation_def)
qed

text \<open>The engine's admission rule agrees with the default admitter as soon as there is a result and the
  caller gives a positive limit, and it always stops once as many results as allowed are in.\<close>

theorem Admit_agrees:
  "(results \<noteq> [] \<and> maxAttempts > 0 \<longrightarrow> fst (Admit results maxAttempts e) = DefaultAdmitter_Admit results maxAttempts) \<and>
   (int (length results) \<ge> (if maxAttempts \<le> 0 then e_maxAttempts e else maxAttempts) \<longrightarrow> fst (Admit results maxAttempts e))"
  by (simp add: Admit_def DefaultAdmitter_Admit_def Let_def)

theorem Admit_agrees_witness:
  "fst (Admit [sample_result] 1 (NewEngine sample_config)) = DefaultAdmitter_Admit [sample_result] 1 \<and>
   fst (Admit [sample_result] 1 (NewEngine sample_config))"
proof -
  have "[sample_result] \<noteq> [] \<and> (1::int) > 0"
    "int (length [sample_result]) \<ge> (if (1::int) \<le> 0 then e_maxAttempts (NewEngine sample_config) else 1)" by simp_all
  then show ?thesis using Admit_agrees [of "[sample_result]" 1 "NewEngine sample_config"] by blast
qed

text \<open>With a parsable ontology, the target objects of a plan are without repetition, are declared in the
  ontology, and each stands in the message as a whole word in some letter case.\<close>

theorem target_objects_are_mentioned:
  assumes "ontContent \<noteq> []" and "Parse parser ontContent = Inr prog"
    and "name \<in> set (extractObjectReferencesWithOntology parser msg ontContent)"
  shows "distinct (extractObjectReferencesWithOntology parser msg ontContent) \<and>
     (\<exists>st \<in> set prog. \<exists>obj. st_Object st = Some obj \<and> obj_Name obj = name) \<and>
     (\<exists>u v w. ToLower msg = u @ v @ w \<and> ToLower v = ToLower name \<and>
        word_boundary (rev u) (v @ w) \<and> word_boundary (rev v @ rev u) w)"
proof -
  have refs: "extractObjectReferencesWithOntology parser msg ontContent =
      dedup_seen [] (filter (mentions (ToLower msg)) (object_names prog))"
    using assms(1,2) by (simp add: extractObjectReferencesWithOntology_def)
  with assms(3) have "name \<in> set (object_names prog)" "mentions (ToLower msg) name"
    by (simp_all add: dedup_seen_set)
  moreover from this(1) have "\<exists>st \<in> set prog. \<exists>obj. st_Object st = Some obj \<and> obj_Name obj = name"
    by (force simp: object_names_def List.map_filter_def)
  moreover have "\<exists>u v w. ToLower msg = u @ v @ w \<and> ToLower v = ToLower name \<and>
      word_boundary (rev u) (v @ w) \<and> word_boundary (rev v @ rev u) w"
    if m: "mentions (ToLower msg) name"
  proof -
    obtain u v w where uvw: "ToLower msg = u @ v @ w" "re_matches (Seqs [WordB, LitI name, WordB]) (rev u) v w"
      using m by (auto simp: mentions_def MatchString_iff)
    from uvw(2) have "ToLower v = ToLower name" "word_boundary (rev u) (v @ w)" "word_boundary (rev v @ rev u) w"
      by (auto simp: re_match_simps)
    with uvw(1) show ?thesis by blast
  qed
  ultimately show ?thesis by (simp add: refs dedup_seen_set)
qed

theorem target_objects_are_mentioned_witness:
  "extractObjectReferencesWithOntology (\<lambda>_. Inr (c_Program sample_compiler)) ''show every SALE now'' ''o'' = [''Sale''] \<and>
   (\<exists>u v w. ToLower ''show every SALE now'' = u @ v @ w \<and> ToLower v = ToLower ''Sale'')"
proof -
  have p: "Parse (\<lambda>_. Inr (c_Program sample_compiler)) ''o'' = Inr (c_Program sample_compiler)"
    by (simp add: Parse_def)
  have refs: "extractObjectReferencesWithOntology (\<lambda>_. Inr (c_Program sample_compiler)) ''show every SALE now'' ''o'' = [''Sale'']"
    by code_simp
  then show ?thesis using target_objects_are_mentioned [OF _ p, of "''Sale''" "''show every SALE now''"] by auto
qed

end
