(* ===== verification/Breakers.thy ===== *)
theory Breakers
  imports Aleph_Prelude
begin

text \<open>
  The three circuit breakers of the repository: \<^verbatim>\<open>middleware.CircuitBreaker\<close>, the NLP client
  \<^verbatim>\<open>handler.CircuitBreakerClient\<close> and the breaker inside \<^verbatim>\<open>llm.retryProvider\<close>. What they have
  in common (a success closes, a failure counts, enough failures open) is the locale
  \<open>failure_counting\<close>, interpreted on each of them. Locks are released while the protected call
  runs, so admission and recording are separate atomic steps; the reachable states are those of
  every interleaving of such steps.
\<close>

section \<open>The common contract\<close>

locale failure_counting =
  fixes ok :: "'s \<Rightarrow> 's" and bad :: "nanos \<Rightarrow> 's \<Rightarrow> 's"
    and opened :: "'s \<Rightarrow> bool" and failures_seen :: "'s \<Rightarrow> int" and limit :: "'s \<Rightarrow> int"
    and invar :: "'s \<Rightarrow> bool"
  assumes ok_closes: "invar s \<Longrightarrow> \<not> opened (ok s) \<and> failures_seen (ok s) = 0"
    and ok_invar: "invar s \<Longrightarrow> invar (ok s)"
    and bad_counts: "invar s \<Longrightarrow> failures_seen (bad now s) = failures_seen s + 1"
    and bad_opens: "invar s \<Longrightarrow> failures_seen s + 1 \<ge> limit s \<Longrightarrow> opened (bad now s)"
    and bad_invar: "invar s \<Longrightarrow> failures_seen s + 1 \<le> limit s \<Longrightarrow> invar (bad now s)"
    and limit_const: "limit (bad now s) = limit s" "limit (ok s) = limit s"
begin

text \<open>A run of failures at the times \<open>ts\<close> is \<open>fold bad ts\<close>.\<close>

lemma bads_limit: "limit (fold bad ts s) = limit s"
  by (induction ts arbitrary: s) (simp_all add: limit_const)

lemma bads_count:
  "invar s \<Longrightarrow> failures_seen s + int (length ts) \<le> limit s \<Longrightarrow>
     invar (fold bad ts s) \<and> failures_seen (fold bad ts s) = failures_seen s + int (length ts)"
proof (induction ts rule: rev_induct)
  case (snoc now ts)
  then have "invar (fold bad ts s)" "failures_seen (fold bad ts s) = failures_seen s + int (length ts)" by simp_all
  with snoc.prems show ?case by (simp add: bad_counts bad_invar bads_limit)
qed simp

text \<open>From a fresh count, as many consecutive failures as the limit open the breaker.\<close>

lemma limit_failures_open:
  assumes "invar s" "failures_seen s = 0" "ts \<noteq> []" "int (length ts) = limit s"
  shows "opened (fold bad ts s)"
proof -
  obtain us now where ts: "ts = us @ [now]" using assms(3) by (cases ts rule: rev_cases) auto
  have "invar (fold bad us s)" "failures_seen (fold bad us s) = int (length us)"
    using bads_count [of s us] assms ts by simp_all
  then show ?thesis using assms(4) ts by (simp add: bad_opens bads_limit)
qed

lemma ok_then_limit_failures_open:
  "invar s \<Longrightarrow> ts \<noteq> [] \<Longrightarrow> int (length ts) = limit s \<Longrightarrow> opened (fold bad ts (ok s))"
  using limit_failures_open [of "ok s" ts] ok_closes ok_invar limit_const by simp

end

section \<open>Package middleware\<close>

datatype State = StateClosed | StateOpen | StateHalfOpen

record CircuitBreaker =
  cb_state :: State
  cb_failureCount :: int
  cb_lastFailureTime :: nanos
  cb_threshold :: int
  cb_cooldown :: nanos

definition NewCircuitBreaker :: "int \<Rightarrow> nanos \<Rightarrow> CircuitBreaker" where
  "NewCircuitBreaker threshold cooldown =
     \<lparr>cb_state = StateClosed, cb_failureCount = 0, cb_lastFailureTime = 0,
      cb_threshold = (if threshold \<le> 0 then 5 else threshold),
      cb_cooldown = (if cooldown \<le> 0 then 30 * second else cooldown)\<rparr>"

text \<open>The first locked section of \<^verbatim>\<open>Execute\<close>: \<^const>\<open>None\<close> is \<^verbatim>\<open>ErrCircuitOpen\<close>.\<close>

definition Execute_admit :: "nanos \<Rightarrow> CircuitBreaker \<Rightarrow> CircuitBreaker option" where
  "Execute_admit now cb =
     (if cb_state cb = StateOpen then
        (if now - cb_lastFailureTime cb > cb_cooldown cb then Some (cb\<lparr>cb_state := StateHalfOpen\<rparr>) else None)
      else Some cb)"

text \<open>The second locked section, after the protected function returned.\<close>

definition Execute_failed :: "nanos \<Rightarrow> CircuitBreaker \<Rightarrow> CircuitBreaker" where
  "Execute_failed now cb =
     (let cb' = cb\<lparr>cb_failureCount := cb_failureCount cb + 1, cb_lastFailureTime := now\<rparr>
      in if cb_failureCount cb' \<ge> cb_threshold cb' then cb'\<lparr>cb_state := StateOpen\<rparr> else cb')"

definition Execute_succeeded :: "CircuitBreaker \<Rightarrow> CircuitBreaker" where
  "Execute_succeeded cb = cb\<lparr>cb_failureCount := 0, cb_state := StateClosed\<rparr>"

datatype 'e exec_error = ErrCircuitOpen | FnError 'e

text \<open>A call with nothing in between: \<open>fn\<close> is the outcome of the protected function, \<open>now'\<close> the time it ends.\<close>

definition Execute :: "nanos \<Rightarrow> nanos \<Rightarrow> 'e option \<Rightarrow> CircuitBreaker \<Rightarrow> 'e exec_error option \<times> CircuitBreaker" where
  "Execute now now' fn cb =
     (case Execute_admit now cb of
        None \<Rightarrow> (Some ErrCircuitOpen, cb)
      | Some cb1 \<Rightarrow>
          (case fn of
             Some err \<Rightarrow> (Some (FnError err), Execute_failed now' cb1)
           | None \<Rightarrow> (None, Execute_succeeded cb1)))"

definition Reset :: "CircuitBreaker \<Rightarrow> CircuitBreaker" where
  "Reset cb = cb\<lparr>cb_state := StateClosed, cb_failureCount := 0\<rparr>"

text \<open>The interceptor runs a unary handler inside \<^verbatim>\<open>Execute\<close>; a rejected call has no response.\<close>

definition WrapUnary_breaker ::
    "nanos \<Rightarrow> nanos \<Rightarrow> ('req \<Rightarrow> 'resp option \<times> 'e option) \<Rightarrow> 'req \<Rightarrow> CircuitBreaker \<Rightarrow>
       ('resp option \<times> 'e exec_error option) \<times> CircuitBreaker" where
  "WrapUnary_breaker now now' nxt req cb =
     (let (err, cb') = Execute now now' (snd (nxt req)) cb
      in ((if err = Some ErrCircuitOpen then None else fst (nxt req), err), cb'))"

text \<open>Every interleaving of the locked sections of any number of concurrent calls, and of \<^verbatim>\<open>Reset\<close>.\<close>

inductive cb_step :: "CircuitBreaker \<Rightarrow> CircuitBreaker \<Rightarrow> bool" where
  admit: "Execute_admit now cb = Some cb' \<Longrightarrow> cb_step cb cb'"
| failed: "cb_step cb (Execute_failed now cb)"
| succeeded: "cb_step cb (Execute_succeeded cb)"
| reset: "cb_step cb (Reset cb)"

inductive cb_reachable :: "CircuitBreaker \<Rightarrow> bool" where
  new: "cb_reachable (NewCircuitBreaker threshold cooldown)"
| step: "cb_reachable cb \<Longrightarrow> cb_step cb cb' \<Longrightarrow> cb_reachable cb'"

inductive_cases cb_stepE: "cb_step cb cb'"

definition cb_inv :: "CircuitBreaker \<Rightarrow> bool" where
  "cb_inv cb \<longleftrightarrow>
     cb_threshold cb > 0 \<and> cb_cooldown cb > 0 \<and> cb_failureCount cb \<ge> 0 \<and>
     (cb_state cb = StateClosed \<longleftrightarrow> cb_failureCount cb < cb_threshold cb)"

lemma cb_inv_new: "cb_inv (NewCircuitBreaker threshold cooldown)"
  by (simp add: cb_inv_def NewCircuitBreaker_def second_def)

lemma cb_inv_admit: "cb_inv cb \<Longrightarrow> Execute_admit now cb = Some cb' \<Longrightarrow> cb_inv cb'"
  by (auto simp: cb_inv_def Execute_admit_def split: if_splits)

lemma cb_inv_failed: "cb_inv cb \<Longrightarrow> cb_inv (Execute_failed now cb)"
  by (auto simp: cb_inv_def Execute_failed_def Let_def)

lemma cb_inv_succeeded: "cb_inv cb \<Longrightarrow> cb_inv (Execute_succeeded cb)"
  by (simp add: cb_inv_def Execute_succeeded_def)

lemma cb_inv_reset: "cb_inv cb \<Longrightarrow> cb_inv (Reset cb)"
  by (simp add: cb_inv_def Reset_def)

lemmas cb_inv_intros = cb_inv_new cb_inv_admit cb_inv_failed cb_inv_succeeded cb_inv_reset

lemma cb_inv_step: "cb_step cb cb' \<Longrightarrow> cb_inv cb \<Longrightarrow> cb_inv cb'"
  by (erule cb_stepE) (auto intro: cb_inv_intros)

lemma cb_inv_reachable: "cb_reachable cb \<Longrightarrow> cb_inv cb"
  by (induction rule: cb_reachable.induct) (auto intro: cb_inv_new cb_inv_step)

interpretation mw: failure_counting Execute_succeeded Execute_failed "\<lambda>cb. cb_state cb = StateOpen"
    cb_failureCount cb_threshold "\<lambda>cb. cb_threshold cb > 0"
  by unfold_locales (auto simp: Execute_succeeded_def Execute_failed_def Let_def)

section \<open>The NLP client of package handler\<close>

datatype cbState = cbClosed | cbHalfOpen | cbOpen

record CircuitBreakerClient =
  cl_state :: cbState
  cl_failureCnt :: int
  cl_lastFail :: int

definition NewCircuitBreakerClient :: CircuitBreakerClient where
  "NewCircuitBreakerClient = \<lparr>cl_state = cbClosed, cl_failureCnt = 0, cl_lastFail = 0\<rparr>"

text \<open>The counter is an \<^verbatim>\<open>int32\<close> and wraps around; \<^verbatim>\<open>lastFail\<close> is in whole seconds.\<close>

definition wrap32 :: "int \<Rightarrow> int" where
  "wrap32 i = (i + 2 ^ 31) mod 2 ^ 32 - 2 ^ 31"

definition unix_seconds :: "nanos \<Rightarrow> int" where
  "unix_seconds now = now div second"

definition currentState :: "nanos \<Rightarrow> CircuitBreakerClient \<Rightarrow> cbState \<times> CircuitBreakerClient" where
  "currentState now c =
     (if cl_state c = cbOpen \<and> now - cl_lastFail c * second \<ge> 30 * second
      then (cbHalfOpen, c\<lparr>cl_state := cbHalfOpen\<rparr>)
      else (cl_state c, c))"

definition client_recordFailure :: "nanos \<Rightarrow> CircuitBreakerClient \<Rightarrow> CircuitBreakerClient" where
  "client_recordFailure now c =
     (let cnt = wrap32 (cl_failureCnt c + 1);
          c' = c\<lparr>cl_lastFail := unix_seconds now, cl_failureCnt := cnt\<rparr>
      in if cnt \<ge> 3 then c'\<lparr>cl_state := cbOpen\<rparr> else c')"

definition client_recordSuccess :: "CircuitBreakerClient \<Rightarrow> CircuitBreakerClient" where
  "client_recordSuccess c = c\<lparr>cl_state := cbClosed, cl_failureCnt := 0\<rparr>"

definition MarkHealthy :: "CircuitBreakerClient \<Rightarrow> CircuitBreakerClient" where
  "MarkHealthy c = c\<lparr>cl_state := cbClosed, cl_failureCnt := 0\<rparr>"

definition MarkUnhealthy :: "nanos \<Rightarrow> CircuitBreakerClient \<Rightarrow> CircuitBreakerClient" where
  "MarkUnhealthy now c = c\<lparr>cl_lastFail := unix_seconds now, cl_state := cbOpen\<rparr>"

datatype 'e nlp_error = Degraded | NlpError 'e

text \<open>
  A call of the wrapped client (\<open>None\<close> if there is none): \<open>call\<close> is the answer of the sidecar. The
  methods \<^verbatim>\<open>AnalyzeSentiment\<close> and \<^verbatim>\<open>RecordFeedback\<close> are the same code.
\<close>

definition AnalyzeSentiment ::
    "nanos \<Rightarrow> ('e + 'r) option \<Rightarrow> CircuitBreakerClient \<Rightarrow> ('e nlp_error + 'r) \<times> CircuitBreakerClient" where
  "AnalyzeSentiment now call c =
     (let (state, c1) = currentState now c
      in if state = cbOpen then (Inl Degraded, client_recordFailure now c1)
         else case call of
                None \<Rightarrow> (Inl Degraded, client_recordFailure now c1)
              | Some (Inl err) \<Rightarrow> (Inl (NlpError err), client_recordFailure now c1)
              | Some (Inr resp) \<Rightarrow> (Inr resp, client_recordSuccess c1))"

definition RecordFeedback ::
    "nanos \<Rightarrow> ('e + 'r) option \<Rightarrow> CircuitBreakerClient \<Rightarrow> ('e nlp_error + 'r) \<times> CircuitBreakerClient" where
  "RecordFeedback now call c =
     (let (state, c1) = currentState now c
      in if state = cbOpen then (Inl Degraded, client_recordFailure now c1)
         else case call of
                None \<Rightarrow> (Inl Degraded, client_recordFailure now c1)
              | Some (Inl err) \<Rightarrow> (Inl (NlpError err), client_recordFailure now c1)
              | Some (Inr resp) \<Rightarrow> (Inr resp, client_recordSuccess c1))"

text \<open>A stream that opens is returned without recording the success.\<close>

definition StreamPredictions ::
    "nanos \<Rightarrow> ('e + 'r) option \<Rightarrow> CircuitBreakerClient \<Rightarrow> ('e nlp_error + 'r) \<times> CircuitBreakerClient" where
  "StreamPredictions now call c =
     (let (state, c1) = currentState now c
      in if state = cbOpen then (Inl Degraded, client_recordFailure now c1)
         else case call of
                None \<Rightarrow> (Inl Degraded, client_recordFailure now c1)
              | Some (Inl err) \<Rightarrow> (Inl (NlpError err), client_recordFailure now c1)
              | Some (Inr stream) \<Rightarrow> (Inr stream, c1))"

lemma wrap32_id: "- (2 ^ 31) \<le> i \<Longrightarrow> i < 2 ^ 31 \<Longrightarrow> wrap32 i = i"
  by (simp add: wrap32_def)

interpretation nlpc: failure_counting client_recordSuccess client_recordFailure "\<lambda>c. cl_state c = cbOpen"
    cl_failureCnt "\<lambda>_. 3" "\<lambda>c. 0 \<le> cl_failureCnt c \<and> cl_failureCnt c \<le> 3"
  by unfold_locales (auto simp: client_recordSuccess_def client_recordFailure_def Let_def wrap32_id)

lemma second_pos [simp]: "second > 0"
  by (simp add: second_def)

text \<open>A sequence of calls at given times with given answers.\<close>

fun nlp_calls :: "(nanos \<times> ('e + 'r) option) list \<Rightarrow> CircuitBreakerClient \<Rightarrow> ('e nlp_error + 'r) list \<times> CircuitBreakerClient" where
  "nlp_calls [] c = ([], c)"
| "nlp_calls ((now, call) # cs) c =
     (let (r, c1) = AnalyzeSentiment now call c; (rs, c2) = nlp_calls cs c1 in (r # rs, c2))"

text \<open>Each call comes less than 29 seconds after the one before it, the first after time \<open>t\<close>.\<close>

fun steady :: "nanos \<Rightarrow> (nanos \<times> 'a) list \<Rightarrow> bool" where
  "steady t [] \<longleftrightarrow> True"
| "steady t ((now, call) # cs) \<longleftrightarrow> t \<le> now \<and> now < t + 29 * second \<and> steady now cs"

lemma open_rejects:
  assumes "cl_state c = cbOpen" "t div second \<le> cl_lastFail c" "t \<le> now" "now < t + 29 * second"
  shows "\<exists>c'. AnalyzeSentiment now call c = (Inl Degraded, c') \<and> cl_state c' = cbOpen \<and> cl_lastFail c' = now div second"
proof -
  have "t = second * (t div second) + t mod second" "t mod second < second"
    using pos_mod_bound [OF second_pos, of t] by simp_all
  then have "t < second * (t div second) + second" by linarith
  also have "second * (t div second) \<le> second * cl_lastFail c"
    using assms(2) by (intro mult_left_mono) (simp_all add: second_def)
  finally have "t < second * cl_lastFail c + second" by simp
  then have "now - cl_lastFail c * second < 30 * second" using assms(4) by (simp add: algebra_simps)
  then have "currentState now c = (cbOpen, c)" using assms(1) by (simp add: currentState_def)
  then show ?thesis
    using assms(1) by (simp add: AnalyzeSentiment_def client_recordFailure_def Let_def unix_seconds_def)
qed

lemma steady_stays_open:
  "steady t cs \<Longrightarrow> cl_state c = cbOpen \<Longrightarrow> t div second \<le> cl_lastFail c \<Longrightarrow>
     list_all (\<lambda>r. r = Inl Degraded) (fst (nlp_calls cs c)) \<and> cl_state (snd (nlp_calls cs c)) = cbOpen"
proof (induction cs arbitrary: t c)
  case (Cons nc cs)
  obtain now call where nc: "nc = (now, call)" by fastforce
  from Cons.prems nc open_rejects [of c t now call] obtain c' where
    c': "AnalyzeSentiment now call c = (Inl Degraded, c')" "cl_state c' = cbOpen" "cl_lastFail c' = now div second"
    by auto
  with Cons.IH [of now c'] Cons.prems nc show ?case by (auto split: prod.splits)
qed simp

section \<open>The breaker and cache of llm.retryProvider\<close>

datatype llmState = stateClosed | stateHalfOpen | stateOpen

record 'r cacheEntry =
  ce_resp :: 'r
  ce_expiresAt :: nanos

record 'r retryProvider =
  rp_maxRetries :: nat
  rp_cache :: "string \<rightharpoonup> 'r cacheEntry"
  rp_ttl :: nanos
  rp_cbState :: llmState
  rp_cbFailureCnt :: int
  rp_cbThreshold :: int
  rp_cbHalfOpenCnt :: int
  rp_cbLastOpen :: nanos
  rp_cbTimeout :: nanos

definition NewRetryProvider :: "nat \<Rightarrow> nanos \<Rightarrow> 'r retryProvider" where
  "NewRetryProvider maxRetries ttl =
     \<lparr>rp_maxRetries = maxRetries, rp_cache = Map.empty, rp_ttl = ttl, rp_cbState = stateClosed,
      rp_cbFailureCnt = 0, rp_cbThreshold = 5, rp_cbHalfOpenCnt = 0, rp_cbLastOpen = 0, rp_cbTimeout = 30 * second\<rparr>"

datatype 'e llm_error = FastFailing | ProbeInProgress | ContextError | RetriesExhausted nat 'e

definition allowRequest :: "nanos \<Rightarrow> 'r retryProvider \<Rightarrow> 'e llm_error option \<times> 'r retryProvider" where
  "allowRequest now r =
     (case rp_cbState r of
        stateClosed \<Rightarrow> (None, r)
      | stateOpen \<Rightarrow>
          if now - rp_cbLastOpen r > rp_cbTimeout r
          then (None, r\<lparr>rp_cbState := stateHalfOpen, rp_cbHalfOpenCnt := 1\<rparr>)
          else (Some FastFailing, r)
      | stateHalfOpen \<Rightarrow>
          if rp_cbHalfOpenCnt r + 1 > 1 then (Some ProbeInProgress, r)
          else (None, r\<lparr>rp_cbHalfOpenCnt := rp_cbHalfOpenCnt r + 1\<rparr>))"

definition llm_recordSuccess :: "'r retryProvider \<Rightarrow> 'r retryProvider" where
  "llm_recordSuccess r = r\<lparr>rp_cbFailureCnt := 0, rp_cbState := stateClosed, rp_cbHalfOpenCnt := 0\<rparr>"

definition tripOpen :: "nanos \<Rightarrow> 'r retryProvider \<Rightarrow> 'r retryProvider" where
  "tripOpen now r = r\<lparr>rp_cbState := stateOpen, rp_cbHalfOpenCnt := 0, rp_cbLastOpen := now\<rparr>"

definition llm_recordFailure :: "nanos \<Rightarrow> 'r retryProvider \<Rightarrow> 'r retryProvider" where
  "llm_recordFailure now r =
     (let cnt = rp_cbFailureCnt r + 1; r' = r\<lparr>rp_cbFailureCnt := cnt\<rparr>
      in if rp_cbState r' = stateHalfOpen then tripOpen now r'
         else if rp_cbState r' = stateClosed \<and> cnt \<ge> rp_cbThreshold r' then tripOpen now r'
         else r')"

text \<open>
  Messages are pairs of the \<^verbatim>\<open>role\<close> and \<^verbatim>\<open>content\<close> entries, absent when they are missing or not strings.
  The text below is what is hashed; \<open>hash\<close> stands for SHA-256 in hexadecimal.
\<close>

definition message_key :: "string option \<times> string option \<Rightarrow> string" where
  "message_key mc =
     (case fst mc of None \<Rightarrow> [] | Some role \<Rightarrow> ''|'' @ role) @
     (case snd mc of None \<Rightarrow> [] | Some content \<Rightarrow> '':'' @ take 500 content)"

record LlmRequest =
  lr_Model :: string
  lr_Messages :: "(string option \<times> string option) list"
  lr_Tools :: "string list"
  lr_SystemPrompt :: string
  lr_ApiKey :: string
  lr_BaseURL :: string

definition cacheKey :: "(string \<Rightarrow> string) \<Rightarrow> LlmRequest \<Rightarrow> string" where
  "cacheKey hash req = hash (lr_Model req @ ''|'' @ lr_SystemPrompt req @ concat (map message_key (lr_Messages req)))"

text \<open>
  What a call meets outside: the answer of each attempt, whether the context is cancelled while
  waiting before it or found done after it, and the times of admission, of the cache lookup and
  of each attempt.
\<close>

record ('e, 'r) llm_env =
  env_now :: nanos
  env_answer :: "nat \<Rightarrow> 'e + 'r"
  env_cancelled_wait :: "nat \<Rightarrow> bool"
  env_ctx_done :: "nat \<Rightarrow> bool"
  env_time :: "nat \<Rightarrow> nanos"

text \<open>The attempts from number \<open>attempt\<close> on; \<open>k\<close> are left after this one.\<close>

fun complete_loop ::
    "('e, 'r) llm_env \<Rightarrow> string \<Rightarrow> nat \<Rightarrow> nat \<Rightarrow> 'r retryProvider \<Rightarrow> ('e llm_error + 'r) \<times> 'r retryProvider" where
  "complete_loop env key attempt k r =
     (if attempt > 0 \<and> env_cancelled_wait env attempt then (Inl ContextError, r)
      else case env_answer env attempt of
             Inr resp \<Rightarrow>
               (let r' = llm_recordSuccess r
                in (Inr resp,
                    if rp_ttl r' > 0
                    then r'\<lparr>rp_cache := (rp_cache r')(key \<mapsto> \<lparr>ce_resp = resp, ce_expiresAt = env_time env attempt + rp_ttl r'\<rparr>)\<rparr>
                    else r'))
           | Inl err \<Rightarrow>
               (let r' = llm_recordFailure (env_time env attempt) r
                in if env_ctx_done env attempt then (Inl ContextError, r')
                   else case k of
                          0 \<Rightarrow> (Inl (RetriesExhausted (rp_maxRetries r') err), r')
                        | Suc k' \<Rightarrow> complete_loop env key (Suc attempt) k' r'))"

declare complete_loop.simps [simp del]

definition Complete ::
    "(string \<Rightarrow> string) \<Rightarrow> ('e, 'r) llm_env \<Rightarrow> LlmRequest \<Rightarrow> 'r retryProvider \<Rightarrow> ('e llm_error + 'r) \<times> 'r retryProvider" where
  "Complete hash env req r =
     (let (err, r1) = allowRequest (env_now env) r
      in case err of
           Some e \<Rightarrow> (Inl e, r1)
         | None \<Rightarrow>
             (let key = cacheKey hash req
              in case (if rp_ttl r1 > 0 then rp_cache r1 key else None) of
                   Some entry \<Rightarrow>
                     if env_now env < ce_expiresAt entry then (Inr (ce_resp entry), r1)
                     else complete_loop env key 0 (rp_maxRetries r1) r1
                 | None \<Rightarrow> complete_loop env key 0 (rp_maxRetries r1) r1))"

text \<open>\<open>jitter\<close> is the random number drawn below \<open>base\<close>.\<close>

definition jitterBackoff :: "int \<Rightarrow> int \<Rightarrow> nanos" where
  "jitterBackoff attempt jitter =
     (let base = attempt * attempt * 100 * millisecond
      in base - base div 2 + jitter div 2)"

interpretation llmp: failure_counting llm_recordSuccess llm_recordFailure "\<lambda>r. rp_cbState r = stateOpen"
    rp_cbFailureCnt rp_cbThreshold "\<lambda>r. rp_cbThreshold r > 0"
proof (unfold_locales, goal_cases)
  case (4 s now)
  then show ?case
    by (cases "rp_cbState s") (simp_all add: llm_recordFailure_def tripOpen_def Let_def)
qed (auto simp: llm_recordSuccess_def llm_recordFailure_def tripOpen_def Let_def)

section \<open>Properties\<close>

text \<open>C12. Under every interleaving of concurrent calls and resets, the breaker is closed exactly while fewer
  failures than the threshold were counted since the last success, and threshold and cooldown stay
  positive. In particular a half-open breaker reopens at the first failure.\<close>

theorem breaker_closed_iff_below_threshold:
  assumes "cb_reachable cb"
  shows "(cb_state cb = StateClosed \<longleftrightarrow> cb_failureCount cb < cb_threshold cb) \<and>
         cb_threshold cb > 0 \<and> cb_cooldown cb > 0 \<and>
         (cb_state cb = StateHalfOpen \<longrightarrow> cb_state (Execute_failed now cb) = StateOpen)"
  using cb_inv_reachable [OF assms] by (auto simp: cb_inv_def Execute_failed_def Let_def)

theorem breaker_closed_iff_below_threshold_witness:
  "cb_reachable (Execute_failed 7 (NewCircuitBreaker 1 0)) \<and> cb_state (Execute_failed 7 (NewCircuitBreaker 1 0)) \<noteq> StateClosed"
proof -
  have r: "cb_reachable (Execute_failed 7 (NewCircuitBreaker 1 0))"
    by (rule cb_reachable.step [OF cb_reachable.new cb_step.failed])
  moreover have "\<not> cb_failureCount (Execute_failed 7 (NewCircuitBreaker 1 0)) < cb_threshold (Execute_failed 7 (NewCircuitBreaker 1 0))"
    by (simp add: Execute_failed_def NewCircuitBreaker_def)
  ultimately show ?thesis using breaker_closed_iff_below_threshold [OF r] by blast
qed

text \<open>Each of the three breakers opens after as many consecutive failures as its limit (the configured
  threshold, three, and the threshold of the provider) counted from the last success.\<close>

theorem breakers_open_at_limit:
  "(cb_threshold cb > 0 \<and> int (length ts) = cb_threshold cb \<longrightarrow>
      cb_state (fold Execute_failed ts (Execute_succeeded cb)) = StateOpen) \<and>
   (length us = 3 \<longrightarrow> cl_state (fold client_recordFailure us (client_recordSuccess c)) = cbOpen) \<and>
   (rp_cbThreshold r > 0 \<and> int (length vs) = rp_cbThreshold r \<longrightarrow>
      rp_cbState (fold llm_recordFailure vs (llm_recordSuccess r)) = stateOpen)"
proof (intro conjI impI)
  assume "cb_threshold cb > 0 \<and> int (length ts) = cb_threshold cb"
  then show "cb_state (fold Execute_failed ts (Execute_succeeded cb)) = StateOpen"
    using mw.ok_then_limit_failures_open [of cb ts] by fastforce
next
  assume "length us = 3"
  moreover have "0 \<le> cl_failureCnt (client_recordSuccess c) \<and> cl_failureCnt (client_recordSuccess c) \<le> 3"
    by (simp add: client_recordSuccess_def)
  ultimately show "cl_state (fold client_recordFailure us (client_recordSuccess c)) = cbOpen"
    using nlpc.limit_failures_open [of "client_recordSuccess c" us] by (fastforce simp: client_recordSuccess_def)
next
  assume "rp_cbThreshold r > 0 \<and> int (length vs) = rp_cbThreshold r"
  then show "rp_cbState (fold llm_recordFailure vs (llm_recordSuccess r)) = stateOpen"
    using llmp.ok_then_limit_failures_open [of r vs] by fastforce
qed

theorem breakers_open_at_limit_witness:
  "cb_state (fold Execute_failed [1, 2] (Execute_succeeded (NewCircuitBreaker 2 0))) = StateOpen \<and>
   cl_state (fold client_recordFailure [1, 2, 3] (client_recordSuccess NewCircuitBreakerClient)) = cbOpen \<and>
   rp_cbState (fold llm_recordFailure [1, 2, 3, 4, 5] (llm_recordSuccess (NewRetryProvider 0 0 :: unit retryProvider))) = stateOpen"
proof -
  have "cb_threshold (NewCircuitBreaker 2 0) > 0 \<and> int (length [1, 2::nanos]) = cb_threshold (NewCircuitBreaker 2 0)"
    "length [1, 2, 3 :: nanos] = 3"
    "rp_cbThreshold (NewRetryProvider 0 0 :: unit retryProvider) > 0 \<and>
       int (length [1, 2, 3, 4, 5 :: nanos]) = rp_cbThreshold (NewRetryProvider 0 0 :: unit retryProvider)"
    by (simp_all add: NewCircuitBreaker_def NewRetryProvider_def)
  then show ?thesis using breakers_open_at_limit by blast
qed

text \<open>The breaker of the NLP client never recovers under steady traffic: a rejected call refreshes the time
  of the last failure, so as long as calls keep coming less than 29 seconds apart, every one of
  them is rejected, whatever the sidecar would answer.\<close>

theorem nlp_breaker_starved_by_traffic:
  assumes "cl_state c = cbOpen" and "cl_lastFail c = unix_seconds t" and "steady t calls"
  shows "list_all (\<lambda>r. r = Inl Degraded) (fst (nlp_calls calls c)) \<and> cl_state (snd (nlp_calls calls c)) = cbOpen"
  using steady_stays_open [OF assms(3,1)] assms(2) by (simp add: unix_seconds_def)

theorem nlp_breaker_starved_by_traffic_witness:
  "fst (nlp_calls [(20 * second, Some (Inr ())), (40 * second, Some (Inr ()))] (MarkUnhealthy 0 NewCircuitBreakerClient)) =
     [Inl Degraded :: unit nlp_error + unit, Inl Degraded]"
proof -
  have "list_all (\<lambda>r. r = Inl Degraded)
      (fst (nlp_calls [(20 * second, Some (Inr ())), (40 * second, Some (Inr ()))] (MarkUnhealthy 0 NewCircuitBreakerClient)) :: (unit nlp_error + unit) list)"
    by (rule conjunct1 [OF nlp_breaker_starved_by_traffic [of _ 0]])
      (simp_all add: MarkUnhealthy_def NewCircuitBreakerClient_def second_def)
  then show ?thesis by (auto split: prod.splits)
qed

text \<open>A probe that the cache answers leaves the provider unusable: once an open breaker admits a request
  after its timeout and the answer comes from the cache, no later request is ever admitted, at any
  time and whatever the model would answer.\<close>

theorem cached_probe_blocks_forever:
  assumes "rp_cbState r = stateOpen" and "env_now env - rp_cbLastOpen r > rp_cbTimeout r"
    and "rp_ttl r > 0" and "rp_cache r (cacheKey hash req) = Some entry" and "env_now env < ce_expiresAt entry"
  shows "\<exists>r'. Complete hash env req r = (Inr (ce_resp entry), r') \<and>
     (\<forall>env' req'. Complete hash env' req' r' = (Inl ProbeInProgress, r'))"
proof -
  let ?r = "r\<lparr>rp_cbState := stateHalfOpen, rp_cbHalfOpenCnt := 1\<rparr>"
  have "Complete hash env req r = (Inr (ce_resp entry), ?r)"
    using assms by (simp add: Complete_def allowRequest_def)
  moreover have "Complete hash env' req' ?r = (Inl ProbeInProgress, ?r)" for env' req'
    by (simp add: Complete_def allowRequest_def)
  ultimately show ?thesis by blast
qed

definition sample_request :: LlmRequest where
  "sample_request = \<lparr>lr_Model = ''llama3'', lr_Messages = [(Some ''user'', Some ''hello'')], lr_Tools = [],
     lr_SystemPrompt = [], lr_ApiKey = [], lr_BaseURL = []\<rparr>"

definition sample_env :: "(unit, unit) llm_env" where
  "sample_env = \<lparr>env_now = 40 * second, env_answer = (\<lambda>_. Inr ()), env_cancelled_wait = (\<lambda>_. False),
     env_ctx_done = (\<lambda>_. False), env_time = (\<lambda>_. 40 * second)\<rparr>"

definition sample_provider :: "unit retryProvider" where
  "sample_provider = (tripOpen 0 (NewRetryProvider 0 (60 * second)))
     \<lparr>rp_cache := [cacheKey id sample_request \<mapsto> \<lparr>ce_resp = (), ce_expiresAt = 50 * second\<rparr>]\<rparr>"

theorem cached_probe_blocks_forever_witness:
  "\<exists>r'. Complete id sample_env sample_request sample_provider = (Inr (), r') \<and>
     (\<forall>env' req'. Complete id env' req' r' = (Inl ProbeInProgress :: unit llm_error + unit, r'))"
  using cached_probe_blocks_forever [of sample_provider sample_env id sample_request "\<lparr>ce_resp = (), ce_expiresAt = 50 * second\<rparr>"]
  by (simp add: sample_provider_def sample_env_def tripOpen_def NewRetryProvider_def second_def)

text \<open>A successful answer is kept and reused until it expires, for every request with the same key. The
  key does not depend on the tools, the credentials or the base address of a request, nor on what
  follows the first 500 bytes of a message: such requests get the other one's answer.\<close>

theorem cached_answer_reused:
  assumes "rp_cbState r = stateClosed" and "rp_ttl r > 0" and "rp_cache r (cacheKey hash req) = None"
    and "env_answer env 0 = Inr resp" and "env_now env' < env_time env 0 + rp_ttl r"
  shows "\<exists>r'. Complete hash env req r = (Inr resp, r') \<and> Complete hash env' req r' = (Inr resp, r') \<and>
     Complete hash env' (req\<lparr>lr_Tools := tools, lr_ApiKey := apiKey, lr_BaseURL := url,
        lr_Messages := map (\<lambda>(role, content). (role, map_option (take 500) content)) (lr_Messages req)\<rparr>) r' = (Inr resp, r')"
proof -
  let ?e = "\<lparr>ce_resp = resp, ce_expiresAt = env_time env 0 + rp_ttl r\<rparr>"
  let ?r = "(llm_recordSuccess r)\<lparr>rp_cache := (rp_cache r)(cacheKey hash req \<mapsto> ?e)\<rparr>"
  let ?q = "req\<lparr>lr_Tools := tools, lr_ApiKey := apiKey, lr_BaseURL := url,
        lr_Messages := map (\<lambda>(role, content). (role, map_option (take 500) content)) (lr_Messages req)\<rparr>"
  have "message_key (role, map_option (take 500) content) = message_key (role, content)" for role content
    by (cases content) (simp_all add: message_key_def)
  then have key: "cacheKey hash ?q = cacheKey hash req"
    by (simp add: cacheKey_def comp_def case_prod_unfold)
  have "Complete hash env req r = (Inr resp, ?r)"
    using assms by (simp add: Complete_def allowRequest_def complete_loop.simps [of _ _ 0] llm_recordSuccess_def Let_def)
  moreover have "Complete hash env' q ?r = (Inr resp, ?r)" if "cacheKey hash q = cacheKey hash req" for q
    using assms(2,5) that by (simp add: Complete_def allowRequest_def llm_recordSuccess_def)
  ultimately show ?thesis using key by blast
qed

theorem cached_answer_reused_witness:
  "\<exists>r'. Complete id sample_env sample_request (NewRetryProvider 0 (60 * second)) = (Inr (), r') \<and>
     Complete id sample_env sample_request r' = (Inr (), r')"
proof -
  let ?r = "NewRetryProvider 0 (60 * second) :: unit retryProvider"
  have "rp_cbState ?r = stateClosed" "rp_ttl ?r > 0" "rp_cache ?r (cacheKey id sample_request) = None"
    "env_answer sample_env 0 = Inr ()" "env_now sample_env < env_time sample_env 0 + rp_ttl ?r"
    by (simp_all add: NewRetryProvider_def sample_env_def second_def)
  from cached_answer_reused [OF this] show ?thesis by blast
qed

end
