(* ===== verification/Go_Net.thy ===== *)
theory Go_Net
  imports Aleph_Prelude
begin

text \<open>
  The part of Go's packages \<^verbatim>\<open>net\<close>, \<^verbatim>\<open>net/netip\<close> and \<^verbatim>\<open>net/http\<close> that the rate
  limiter, the SSRF validator and the authentication middleware rely on: header lookup,
  splitting of \<^verbatim>\<open>host:port\<close>, parsing of IP addresses in both families and of CIDR
  prefixes, and membership of an address in a network. An address is a list of byte values,
  four for IPv4 and sixteen for IPv6 (a v4 address in a sixteen byte slice is the v4-mapped
  one, as \<^verbatim>\<open>ParseIP\<close> returns it). The lemmas turn membership in a network into ranges of
  the leading bytes.
\<close>

section \<open>Headers\<close>

type_synonym header = "(string, string list) gomap"

definition Header_Values :: "header \<Rightarrow> string \<Rightarrow> string list" where
  "Header_Values h k = (case h k of None \<Rightarrow> [] | Some vs \<Rightarrow> vs)"

definition Header_Get :: "header \<Rightarrow> string \<Rightarrow> string" where
  "Header_Get h k = (case Header_Values h k of [] \<Rightarrow> [] | v # _ \<Rightarrow> v)"

section \<open>Positions of a byte, host and port\<close>

fun IndexByte :: "string \<Rightarrow> char \<Rightarrow> nat option" where
  "IndexByte [] c = None"
| "IndexByte (x # xs) c = (if x = c then Some 0 else map_option Suc (IndexByte xs c))"

definition LastIndexByte :: "string \<Rightarrow> char \<Rightarrow> nat option" where
  "LastIndexByte s c = map_option (\<lambda>i. length s - 1 - i) (IndexByte (rev s) c)"

text \<open>\<^verbatim>\<open>net.SplitHostPort\<close>; every error is \<open>None\<close>, the code under study never inspects it.\<close>

definition SplitHostPort :: "string \<Rightarrow> (string \<times> string) option" where
  "SplitHostPort hp =
    (case LastIndexByte hp (CHR '':'') of
       None \<Rightarrow> None
     | Some i \<Rightarrow>
         if hd hp = CHR ''['' then
           (case IndexByte hp (CHR '']'') of
              None \<Rightarrow> None
            | Some e \<Rightarrow>
                if e + 1 \<noteq> i then None
                else if CHR ''['' \<in> set (drop 1 hp) then None
                else if CHR '']'' \<in> set (drop (e + 1) hp) then None
                else Some (drop 1 (take e hp), drop (i + 1) hp))
         else if CHR '':'' \<in> set (take i hp) then None
         else if CHR ''['' \<in> set hp \<or> CHR '']'' \<in> set hp then None
         else Some (take i hp, drop (i + 1) hp))"

section \<open>IP addresses\<close>

type_synonym IP = "nat list"

definition octet :: "string \<Rightarrow> nat option" where
  "octet p =
    (if p \<noteq> [] \<and> list_all is_digit p \<and> (length p > 1 \<longrightarrow> hd p \<noteq> CHR ''0'') \<and> read_nat p \<le> 255
     then Some (read_nat p) else None)"

definition parseIPv4Fields :: "string \<Rightarrow> IP option" where
  "parseIPv4Fields s =
    (case those (map octet (Split s (CHR ''.''))) of
       None \<Rightarrow> None
     | Some f \<Rightarrow> if length f = 4 then Some f else None)"

definition is_hex :: "char \<Rightarrow> bool" where
  "is_hex c \<longleftrightarrow> is_digit c \<or> 97 \<le> code c \<and> code c \<le> 102 \<or> 65 \<le> code c \<and> code c \<le> 70"

definition hex_val :: "char \<Rightarrow> nat" where
  "hex_val c = (if is_digit c then code c - 48 else if 97 \<le> code c then code c - 87 else code c - 55)"

definition read_hex :: "string \<Rightarrow> nat" where
  "read_hex s = foldl (\<lambda>acc c. 16 * acc + hex_val c) 0 s"

text \<open>
  The loop of \<^verbatim>\<open>netip.parseIPv6\<close>: groups of hexadecimal digits, an optional ellipsis whose
  position is remembered, an optional IPv4 tail. The first argument is the number of groups
  still free (eight at the start), which bounds the loop as in the source.
\<close>

fun parseIPv6_loop :: "nat \<Rightarrow> string \<Rightarrow> IP \<Rightarrow> nat option \<Rightarrow> (string \<times> IP \<times> nat option) option" where
  "parseIPv6_loop 0 s ip e = Some (s, ip, e)"
| "parseIPv6_loop (Suc n) s ip e =
    (let h = takeWhile is_hex s; r = dropWhile is_hex s in
     if h = [] \<or> length h > 4 then None
     else if r \<noteq> [] \<and> hd r = CHR ''.'' then
       (if e = None \<and> length ip \<noteq> 12 then None
        else if length ip + 4 > 16 then None
        else map_option (\<lambda>f. ([], ip @ f, e)) (parseIPv4Fields s))
     else
       (let ip' = ip @ [read_hex h div 256, read_hex h mod 256] in
        case r of
          [] \<Rightarrow> Some ([], ip', e)
        | c # r' \<Rightarrow>
            if c \<noteq> CHR '':'' \<or> r' = [] then None
            else if hd r' = CHR '':'' then
              (if e \<noteq> None then None
               else if tl r' = [] then Some ([], ip', Some (length ip'))
               else parseIPv6_loop n (tl r') ip' (Some (length ip')))
            else parseIPv6_loop n r' ip' e))"

definition parseIPv6 :: "string \<Rightarrow> IP option" where
  "parseIPv6 s =
    (let (t, e) = (if HasPrefix s ''::'' then (drop 2 s, Some 0) else (s, None)) in
     if e = Some 0 \<and> t = [] then Some (replicate 16 0)
     else case parseIPv6_loop 8 t [] e of
            None \<Rightarrow> None
          | Some (rest, ip, e') \<Rightarrow>
              if rest \<noteq> [] then None
              else if length ip < 16 then
                map_option (\<lambda>k. take k ip @ replicate (16 - length ip) 0 @ drop k ip) e'
              else if e' \<noteq> None then None
              else Some ip)"

text \<open>
  \<^verbatim>\<open>netip.ParseAddr\<close> without a zone: the first of the bytes \<open>.\<close>, \<open>:\<close> and \<open>%\<close> decides the family.
  \<^verbatim>\<open>net.ParseIP\<close> refuses an address with a zone, so a \<open>%\<close> anywhere gives \<open>None\<close> here.
\<close>

definition ParseAddr :: "string \<Rightarrow> IP option" where
  "ParseAddr s =
    (if CHR ''%'' \<in> set s then None
     else case filter (\<lambda>c. c = CHR ''.'' \<or> c = CHR '':'') s of
            [] \<Rightarrow> None
          | c # _ \<Rightarrow> if c = CHR ''.'' then parseIPv4Fields s else parseIPv6 s)"

definition v4_mapped :: "IP \<Rightarrow> IP" where
  "v4_mapped ip = (if length ip = 4 then replicate 10 0 @ [255, 255] @ ip else ip)"

definition ParseIP :: "string \<Rightarrow> IP option" where
  "ParseIP s = map_option v4_mapped (ParseAddr s)"

definition To4 :: "IP \<Rightarrow> IP option" where
  "To4 ip =
    (if length ip = 4 then Some ip
     else if length ip = 16 \<and> take 12 ip = replicate 10 0 @ [255, 255] then Some (drop 12 ip)
     else None)"

section \<open>Networks\<close>

record IPNet =
  net_ip :: IP
  net_ones :: nat
  net_bits :: nat

text \<open>The bytes of an address under the mask of \<open>n\<close> leading ones.\<close>

fun mask_ip :: "nat \<Rightarrow> IP \<Rightarrow> IP" where
  "mask_ip n [] = []"
| "mask_ip n (x # xs) = (if 8 \<le> n then x else if n = 0 then 0 else x div 2 ^ (8 - n) * 2 ^ (8 - n)) # mask_ip (n - 8) xs"

definition ParseCIDR :: "string \<Rightarrow> IPNet option" where
  "ParseCIDR s =
    (case IndexByte s (CHR ''/'') of
       None \<Rightarrow> None
     | Some i \<Rightarrow>
         (case ParseAddr (take i s) of
            None \<Rightarrow> None
          | Some ip \<Rightarrow>
              (let mask = drop (i + 1) s in
               if mask = [] \<or> \<not> list_all is_digit mask \<or> read_nat mask > 8 * length ip then None
               else Some \<lparr>net_ip = mask_ip (read_nat mask) ip, net_ones = read_nat mask,
                          net_bits = 8 * length ip\<rparr>)))"

text \<open>\<^verbatim>\<open>networkNumberAndMask\<close>: a v4-mapped network with a sixteen byte mask uses the mask's last four bytes.\<close>

definition networkNumberAndMask :: "IPNet \<Rightarrow> (IP \<times> nat) option" where
  "networkNumberAndMask n =
    (let ip = (case To4 (net_ip n) of Some x \<Rightarrow> x | None \<Rightarrow> net_ip n) in
     if length ip = 4 then Some (ip, if net_bits n = 32 then net_ones n else net_ones n - 96)
     else if length ip = 16 \<and> net_bits n = 128 then Some (ip, net_ones n)
     else None)"

definition IPNet_Contains :: "IPNet \<Rightarrow> IP \<Rightarrow> bool" where
  "IPNet_Contains n ip =
    (case networkNumberAndMask n of
       None \<Rightarrow> False
     | Some (nn, ones) \<Rightarrow>
         (let x = (case To4 ip of Some y \<Rightarrow> y | None \<Rightarrow> ip) in
          length x = length nn \<and> mask_ip ones nn = mask_ip ones x))"

section \<open>Evaluation\<close>

text \<open>Rules that let the simplifier run the parsers on literals: the loop unrolls on a numeral bound.\<close>

named_theorems net_eval \<open>rules that evaluate address parsing on literals\<close>

lemmas parseIPv6_loop_numeral [net_eval] =
  parseIPv6_loop.simps(2) [of "pred_numeral k" for k, folded numeral_eq_Suc]

lemma replicate_numeral [net_eval]: "replicate (numeral k) x = x # replicate (pred_numeral k) x"
  by (simp add: numeral_eq_Suc)

lemma take_drop_numeral [net_eval]:
  "take (numeral k) (x # xs) = x # take (pred_numeral k) xs"
  "drop (numeral k) (x # xs) = drop (pred_numeral k) xs"
  by (simp_all add: numeral_eq_Suc)

lemmas net_defs [net_eval] =
  ParseAddr_def parseIPv4Fields_def octet_def is_digit_def code_def read_nat_def digit_val_def
  parseIPv6_def is_hex_def hex_val_def read_hex_def Let_def

lemma mask_ip_0 [simp]: "mask_ip 0 xs = replicate (length xs) 0"
  by (induction xs) auto

end
