(* ===== verification/Rate_Limit.thy ===== *)
theory Rate_Limit
  imports Go_Net Complex_Main
begin

text \<open>
  The rate limiters of \<^verbatim>\<open>internal/middleware/ratelimit.go\<close>.

  The sliding window store behind the authentication endpoints is an interface of the
  source (\<^verbatim>\<open>RateLimitStore\<close>): \<open>AuthRateLimiter\<close> is modelled over any \<open>Allow\<close>, the locale
  \<open>rate_limit_store\<close> states what the limiter relies on, and the in-memory store is its
  interpretation. The token bucket limiter of \<^verbatim>\<open>golang.org/x/time/rate\<close> is a parameter of the
  general HTTP limiter. Every locked section is one atomic step, and the time of a step is
  an argument.
\<close>

section \<open>Requests and responses\<close>

record Request =
  req_Method :: string
  req_Path :: string
  req_RemoteAddr :: string
  req_Header :: header

record Response =
  resp_status :: nat
  resp_header :: "(string \<times> string) list"
  resp_body :: string

section \<open>The address of the client\<close>

definition trustedProxyCIDRs :: "string list" where
  "trustedProxyCIDRs =
    [''127.0.0.0/8'', ''10.0.0.0/8'', ''172.16.0.0/12'', ''192.168.0.0/16'', ''::1/128'']"

fun isTrustedProxy_loop :: "string list \<Rightarrow> string \<Rightarrow> bool" where
  "isTrustedProxy_loop [] ip = False"
| "isTrustedProxy_loop (cidr # cidrs) ip =
    (case ParseCIDR cidr of
       None \<Rightarrow> isTrustedProxy_loop cidrs ip
     | Some network \<Rightarrow>
         (case ParseIP ip of
            Some parsed \<Rightarrow> IPNet_Contains network parsed \<or> isTrustedProxy_loop cidrs ip
          | None \<Rightarrow> isTrustedProxy_loop cidrs ip))"

definition isTrustedProxy :: "string \<Rightarrow> bool" where
  "isTrustedProxy ip = isTrustedProxy_loop trustedProxyCIDRs ip"

text \<open>The scan of \<^verbatim>\<open>X-Forwarded-For\<close> from the right; the argument is the reversed list of entries.\<close>

fun rightmost_untrusted :: "string list \<Rightarrow> string option" where
  "rightmost_untrusted [] = None"
| "rightmost_untrusted (x # xs) =
    (let ip = TrimSpace x in
     if ip \<noteq> [] \<and> \<not> isTrustedProxy ip then Some ip else rightmost_untrusted xs)"

definition forwarded_for :: "header \<Rightarrow> string option" where
  "forwarded_for h =
    (let xff = Header_Get h ''X-Forwarded-For'' in
     if xff \<noteq> [] then rightmost_untrusted (rev (Split xff (CHR '',''))) else None)"

definition extractClientIP :: "Request \<Rightarrow> string" where
  "extractClientIP r =
    (let host = (case SplitHostPort (req_RemoteAddr r) of Some (h, _) \<Rightarrow> h | None \<Rightarrow> []);
         remoteIP = (if host = [] then req_RemoteAddr r else host) in
     if \<not> isTrustedProxy remoteIP then remoteIP
     else case forwarded_for (req_Header r) of
            Some ip \<Rightarrow> ip
          | None \<Rightarrow>
              (let xri = Header_Get (req_Header r) ''X-Real-IP'' in
               if xri \<noteq> [] then TrimSpace xri else remoteIP))"

definition extractClientIPFromHeaders :: "header \<Rightarrow> string" where
  "extractClientIPFromHeaders h =
    (case forwarded_for h of
       Some ip \<Rightarrow> ip
     | None \<Rightarrow>
         (let xri = Header_Get h ''X-Real-IP''; addr = Header_Get h ''X-Remote-Addr'' in
          if xri \<noteq> [] then TrimSpace xri
          else if addr \<noteq> [] then
            (case SplitHostPort addr of
               Some (ip, _) \<Rightarrow> if ip \<noteq> [] then ip else TrimSpace addr
             | None \<Rightarrow> TrimSpace addr)
          else ''unknown''))"

section \<open>The limiter of all HTTP requests\<close>

record RateLimitConfig =
  ChatLimit :: real
  HealthLimit :: real
  DefaultLimit :: real
  ChatBurst :: int
  HealthBurst :: int
  DefaultBurst :: int

definition DefaultRateLimitConfig :: RateLimitConfig where
  "DefaultRateLimitConfig =
    \<lparr>ChatLimit = 10 / 60, HealthLimit = 100 / 60, DefaultLimit = 500 / 60,
     ChatBurst = 5, HealthBurst = 20, DefaultBurst = 50\<rparr>"

record 'l multiKeyLimiter =
  ipLimits :: "(string, 'l) gomap"
  keyLimits :: "(string, 'l) gomap"
  lastSeen :: "(string, nanos) gomap"
  rl_config :: RateLimitConfig

definition newMultiKeyLimiter :: "RateLimitConfig \<Rightarrow> 'l multiKeyLimiter" where
  "newMultiKeyLimiter config =
    \<lparr>ipLimits = Map.empty, keyLimits = Map.empty, lastSeen = Map.empty, rl_config = config\<rparr>"

text \<open>One tick of the clean-up goroutine: every key idle for more than ten minutes leaves all three maps.\<close>

definition limiter_cleanup :: "nanos \<Rightarrow> 'l multiKeyLimiter \<Rightarrow> 'l multiKeyLimiter" where
  "limiter_cleanup now rl =
    (let idle = (\<lambda>k. case lastSeen rl k of Some seen \<Rightarrow> now - seen > 10 * minute | None \<Rightarrow> False) in
     rl\<lparr>ipLimits := (\<lambda>k. if idle k then None else ipLimits rl k),
        keyLimits := (\<lambda>k. if idle k then None else keyLimits rl k),
        lastSeen := (\<lambda>k. if idle k then None else lastSeen rl k)\<rparr>)"

text \<open>
  \<^verbatim>\<open>getLimiter\<close> on either map; the source returns a pointer into the map, so the caller's
  \<^verbatim>\<open>Allow\<close> updates the stored limiter, which \<open>take_token\<close> writes back.
\<close>

definition getLimiter ::
  "(real \<Rightarrow> int \<Rightarrow> 'l) \<Rightarrow> (string, 'l) gomap \<Rightarrow> string \<Rightarrow> real \<Rightarrow> int \<Rightarrow> 'l" where
  "getLimiter NewLimiter store key limit burst =
    (case store key of Some l \<Rightarrow> l | None \<Rightarrow> NewLimiter limit burst)"

definition take_ip_token ::
  "(real \<Rightarrow> int \<Rightarrow> 'l) \<Rightarrow> (nanos \<Rightarrow> 'l \<Rightarrow> bool \<times> 'l) \<Rightarrow> nanos \<Rightarrow> string \<Rightarrow> real \<Rightarrow> int
    \<Rightarrow> 'l multiKeyLimiter \<Rightarrow> bool \<times> 'l multiKeyLimiter" where
  "take_ip_token NewLimiter LAllow now key limit burst rl =
    (let (ok, l') = LAllow now (getLimiter NewLimiter (ipLimits rl) key limit burst) in
     (ok, rl\<lparr>ipLimits := (ipLimits rl)(key \<mapsto> l'), lastSeen := (lastSeen rl)(key \<mapsto> now)\<rparr>))"

definition take_key_token ::
  "(real \<Rightarrow> int \<Rightarrow> 'l) \<Rightarrow> (nanos \<Rightarrow> 'l \<Rightarrow> bool \<times> 'l) \<Rightarrow> nanos \<Rightarrow> string \<Rightarrow> real \<Rightarrow> int
    \<Rightarrow> 'l multiKeyLimiter \<Rightarrow> bool \<times> 'l multiKeyLimiter" where
  "take_key_token NewLimiter LAllow now key limit burst rl =
    (let (ok, l') = LAllow now (getLimiter NewLimiter (keyLimits rl) key limit burst) in
     (ok, rl\<lparr>keyLimits := (keyLimits rl)(key \<mapsto> l'), lastSeen := (lastSeen rl)(key \<mapsto> now)\<rparr>))"

text \<open>The source's own substring search, by a scan over the start positions.\<close>

definition contains_scan :: "string \<Rightarrow> string \<Rightarrow> bool" where
  "contains_scan s substr =
    list_ex (\<lambda>i. take (length substr) (drop i s) = substr)
      [0..<(if length substr \<le> length s then Suc (length s - length substr) else 0)]"

definition limitForPath :: "RateLimitConfig \<Rightarrow> string \<Rightarrow> real \<times> int \<times> string" where
  "limitForPath c path =
    (if contains_scan path ''/Chat'' \<or> contains_scan path ''/chat'' then (ChatLimit c, ChatBurst c, ''chat'')
     else if contains_scan path ''/healthz'' \<or> contains_scan path ''/readyz'' \<or> contains_scan path ''/livez''
       then (HealthLimit c, HealthBurst c, ''health'')
     else (DefaultLimit c, DefaultBurst c, ''default''))"

definition ExtractAPIKey :: "header \<Rightarrow> string" where
  "ExtractAPIKey h =
    (let key = Header_Get h ''X-Aleph-Api-Key''; auth = Header_Get h ''Authorization'' in
     if key \<noteq> [] then key
     else if auth \<noteq> [] then TrimPrefix auth ''Bearer ''
     else [])"

text \<open>\<^verbatim>\<open>%.0f\<close>: the nearest integer, ties to even.\<close>

definition sprintf_f0 :: "real \<Rightarrow> string" where
  "sprintf_f0 x =
    (let f = \<lfloor>x\<rfloor>; d = x - of_int f in
     Itoa (if d < 1 / 2 then f else if d > 1 / 2 then f + 1 else if even f then f else f + 1))"

definition writeRateLimitResponse :: "real \<Rightarrow> Response" where
  "writeRateLimitResponse limit =
    \<lparr>resp_status = 429,
     resp_header = [(''Content-Type'', ''application/json''),
                    (''X-RateLimit-Limit'', sprintf_f0 (limit * 60)),
                    (''Retry-After'', ''60'')],
     resp_body = ''{\"error\":\"rate limit exceeded\",\"code\":\"rate_limited\"}''\<rparr>"

text \<open>\<open>Inl\<close> is the response written by the middleware, \<open>Inr\<close> hands the request to the next handler.\<close>

definition RateLimitMiddleware ::
  "(real \<Rightarrow> int \<Rightarrow> 'l) \<Rightarrow> (nanos \<Rightarrow> 'l \<Rightarrow> bool \<times> 'l) \<Rightarrow> nanos \<Rightarrow> Request
    \<Rightarrow> 'l multiKeyLimiter \<Rightarrow> (Response + Request) \<times> 'l multiKeyLimiter" where
  "RateLimitMiddleware NewLimiter LAllow now r rl =
    (let ip = extractClientIP r;
         (limit, burst, category) = limitForPath (rl_config rl) (req_Path r);
         ipKey = ''ip:'' @ ip @ '':'' @ category;
         (ok, rl1) = take_ip_token NewLimiter LAllow now ipKey limit burst rl in
     if \<not> ok then (Inl (writeRateLimitResponse limit), rl1)
     else
       (let apiKey = ExtractAPIKey (req_Header r) in
        if apiKey \<noteq> [] then
          (let keyPrefix = (if length apiKey > 16 then take 16 apiKey else apiKey);
               keyKey = ''ak:'' @ keyPrefix @ '':'' @ category;
               (ok2, rl2) = take_key_token NewLimiter LAllow now keyKey limit (burst * 2) rl1 in
           if \<not> ok2 then (Inl (writeRateLimitResponse limit), rl2) else (Inr r, rl2))
        else (Inr r, rl1)))"

section \<open>The sliding window store\<close>

record memoryRateLimitStore =
  windows :: "(string, nanos list) gomap"

definition NewMemoryRateLimitStore :: memoryRateLimitStore where
  "NewMemoryRateLimitStore = \<lparr>windows = Map.empty\<rparr>"

definition memory_cleanup :: "nanos \<Rightarrow> memoryRateLimitStore \<Rightarrow> memoryRateLimitStore" where
  "memory_cleanup now s =
    s\<lparr>windows := (\<lambda>key. case windows s key of
        None \<Rightarrow> None
      | Some ts \<Rightarrow>
          (let valid = filter (\<lambda>t. now - t < 2 * minute) ts in
           if valid = [] then None else Some valid))\<rparr>"

text \<open>
  The two run-time panics of \<^verbatim>\<open>Allow\<close> are explicit: making a slice with a negative capacity
  and indexing the oldest timestamp of an empty window.
\<close>

datatype go_panic = MakesliceCapOutOfRange | IndexOutOfRange

definition memory_Allow ::
  "nanos \<Rightarrow> string \<Rightarrow> int \<Rightarrow> nanos \<Rightarrow> memoryRateLimitStore
    \<Rightarrow> (go_panic + bool \<times> nanos) \<times> memoryRateLimitStore" where
  "memory_Allow now key limit window s =
    (if windows s key = None \<and> limit < 0 then (Inl MakesliceCapOutOfRange, s)
     else
       (let cutoff = now - window;
            entry = (case windows s key of Some ts \<Rightarrow> ts | None \<Rightarrow> []);
            valid = filter (\<lambda>t. cutoff < t) entry;
            s' = s\<lparr>windows := (windows s)(key \<mapsto> valid)\<rparr> in
        if int (length valid) \<ge> limit then
          (case valid of
             [] \<Rightarrow> (Inl IndexOutOfRange, s')
           | oldest # _ \<Rightarrow> (Inr (False, max 0 (window - (now - oldest))), s'))
        else (Inr (True, 0), s\<lparr>windows := (windows s)(key \<mapsto> valid @ [now])\<rparr>)))"

section \<open>The limiter of the authentication endpoints\<close>

record AuthRateLimitConfig =
  SessionCreateLimit :: int
  SessionCreateWindow :: nanos
  ApiKeyCreateLimit :: int
  ApiKeyCreateWindow :: nanos
  ApiKeyRevokeLimit :: int
  ApiKeyRevokeWindow :: nanos
  ApiKeyListLimit :: int
  ApiKeyListWindow :: nanos

definition DefaultAuthRateLimitConfig :: AuthRateLimitConfig where
  "DefaultAuthRateLimitConfig =
    \<lparr>SessionCreateLimit = 5, SessionCreateWindow = minute,
     ApiKeyCreateLimit = 10, ApiKeyCreateWindow = minute,
     ApiKeyRevokeLimit = 10, ApiKeyRevokeWindow = minute,
     ApiKeyListLimit = 30, ApiKeyListWindow = minute\<rparr>"

text \<open>The \<^verbatim>\<open>switch\<close> of \<^verbatim>\<open>checkLimit\<close>: limit and window of an endpoint, \<open>None\<close> for an endpoint without one.\<close>

definition endpoint_limit :: "AuthRateLimitConfig \<Rightarrow> string \<Rightarrow> (int \<times> nanos) option" where
  "endpoint_limit c endpoint =
    (if endpoint = ''session_create'' then Some (SessionCreateLimit c, SessionCreateWindow c)
     else if endpoint = ''apikey_create'' then Some (ApiKeyCreateLimit c, ApiKeyCreateWindow c)
     else if endpoint = ''apikey_revoke'' then Some (ApiKeyRevokeLimit c, ApiKeyRevokeWindow c)
     else if endpoint = ''apikey_list'' then Some (ApiKeyListLimit c, ApiKeyListWindow c)
     else None)"

type_synonym 's allow_fun = "nanos \<Rightarrow> string \<Rightarrow> int \<Rightarrow> nanos \<Rightarrow> 's \<Rightarrow> (go_panic + bool \<times> nanos) \<times> 's"

definition checkLimit ::
  "'s allow_fun \<Rightarrow> AuthRateLimitConfig \<Rightarrow> nanos \<Rightarrow> string \<Rightarrow> string \<Rightarrow> 's
    \<Rightarrow> (go_panic + bool \<times> nanos) \<times> 's" where
  "checkLimit Allow c now ip endpoint s =
    (case endpoint_limit c endpoint of
       None \<Rightarrow> (Inr (True, 0), s)
     | Some (limit, window) \<Rightarrow> Allow now (ip @ '':'' @ endpoint) limit window s)"

definition retry_seconds :: "nanos \<Rightarrow> int" where
  "retry_seconds retryAfter = max 1 (retryAfter div second)"

definition writeAuthRateLimitResponse :: "nanos \<Rightarrow> Response" where
  "writeAuthRateLimitResponse retryAfter =
    \<lparr>resp_status = 429,
     resp_header = [(''Content-Type'', ''application/json''),
                    (''Retry-After'', Itoa (retry_seconds retryAfter)),
                    (''X-RateLimit-Remaining'', ''0'')],
     resp_body = ''{\"error\":\"rate_limit_exceeded\",\"retry_after\":'' @ Itoa (retry_seconds retryAfter) @ ''}''\<rparr>"

definition CheckHTTP ::
  "'s allow_fun \<Rightarrow> AuthRateLimitConfig \<Rightarrow> nanos \<Rightarrow> string \<Rightarrow> Request \<Rightarrow> 's
    \<Rightarrow> (go_panic + bool \<times> nanos) \<times> 's" where
  "CheckHTTP Allow c now endpoint r s = checkLimit Allow c now (extractClientIP r) endpoint s"

definition AuthMiddleware_limit ::
  "'s allow_fun \<Rightarrow> AuthRateLimitConfig \<Rightarrow> nanos \<Rightarrow> string \<Rightarrow> Request \<Rightarrow> 's
    \<Rightarrow> (go_panic + (Response + Request)) \<times> 's" where
  "AuthMiddleware_limit Allow c now endpoint r s =
    (case CheckHTTP Allow c now endpoint r s of
       (Inl p, s') \<Rightarrow> (Inl p, s')
     | (Inr (allowed, retryAfter), s') \<Rightarrow>
         (Inr (if allowed then Inr r else Inl (writeAuthRateLimitResponse retryAfter)), s'))"

definition AuthRateLimitProcedureMap :: "(string, string) gomap" where
  "AuthRateLimitProcedureMap = map_of
    [(''/aleph.v1.AuthService/CreateApiKey'', ''apikey_create''),
     (''/aleph.v1.AuthService/DeleteApiKey'', ''apikey_revoke''),
     (''/aleph.v1.AuthService/RevokeApiKey'', ''apikey_revoke''),
     (''/aleph.v1.AuthService/ListApiKeys'', ''apikey_list'')]"

text \<open>The interceptor's rejection is \<^verbatim>\<open>CodeResourceExhausted\<close> with the message, \<open>Inr ()\<close> calls the next handler.\<close>

definition RateLimitInterceptor ::
  "'s allow_fun \<Rightarrow> AuthRateLimitConfig \<Rightarrow> nanos \<Rightarrow> string \<Rightarrow> header \<Rightarrow> 's
    \<Rightarrow> (go_panic + (string + unit)) \<times> 's" where
  "RateLimitInterceptor Allow c now procedure h s =
    (case AuthRateLimitProcedureMap procedure of
       None \<Rightarrow> (Inr (Inr ()), s)
     | Some endpoint \<Rightarrow>
         (case checkLimit Allow c now (extractClientIPFromHeaders h) endpoint s of
            (Inl p, s') \<Rightarrow> (Inl p, s')
          | (Inr (allowed, retryAfter), s') \<Rightarrow>
              (Inr (if allowed then Inr ()
                    else Inl (''rate limit exceeded: retry after '' @ Itoa (retry_seconds retryAfter) @ ''s'')),
               s')))"

end
