(* ===== verification/Rate_Limit_Facts.thy ===== *)
theory Rate_Limit_Facts
  imports Rate_Limit
begin

text \<open>
  Correctness of the rate limiters: the contract of a sliding window store as the locale
  \<open>rate_limit_store\<close>, the bound on admitted requests proved from it for the limiter of the
  authentication endpoints, the in-memory store as its interpretation, and what decides the
  address a request is counted under.
\<close>

section \<open>Runs of the limiter\<close>

text \<open>
  A run interleaves requests with ticks of the store's clean-up goroutine; the log keeps the
  admitted requests with their times.
\<close>

datatype limit_event = Ask nanos string string | Sweep nanos

fun event_time :: "limit_event \<Rightarrow> nanos" where
  "event_time (Ask now _ _) = now"
| "event_time (Sweep now) = now"

type_synonym admitted = "(nanos \<times> string \<times> string) list"

fun limiter_step ::
  "'s allow_fun \<Rightarrow> (nanos \<Rightarrow> 's \<Rightarrow> 's) \<Rightarrow> AuthRateLimitConfig \<Rightarrow> admitted \<times> 's \<Rightarrow> limit_event \<Rightarrow> admitted \<times> 's" where
  "limiter_step Allow sweep c (adm, s) (Ask now ip endpoint) =
    (case checkLimit Allow c now ip endpoint s of
       (Inr (True, _), s') \<Rightarrow> (adm @ [(now, ip, endpoint)], s')
     | (_, s') \<Rightarrow> (adm, s'))"
| "limiter_step Allow sweep c (adm, s) (Sweep now) = (adm, sweep now s)"

definition limiter_run ::
  "'s allow_fun \<Rightarrow> (nanos \<Rightarrow> 's \<Rightarrow> 's) \<Rightarrow> AuthRateLimitConfig \<Rightarrow> 's \<Rightarrow> limit_event list \<Rightarrow> admitted \<times> 's" where
  "limiter_run Allow sweep c s evs = foldl (limiter_step Allow sweep c) ([], s) evs"

definition admitted_times :: "admitted \<Rightarrow> string \<Rightarrow> string \<Rightarrow> nanos list" where
  "admitted_times adm ip endpoint = map fst (filter (\<lambda>(_, i, e). i = ip \<and> e = endpoint) adm)"

lemma admitted_times_simps [simp]:
  "admitted_times [] ip e = []"
  "admitted_times (adm @ [(t, i, e')]) ip e =
    admitted_times adm ip e @ (if i = ip \<and> e' = e then [t] else [])"
  by (auto simp: admitted_times_def)

lemma limiter_run_snoc [simp]:
  "limiter_run Allow sweep c s [] = ([], s)"
  "limiter_run Allow sweep c s (evs @ [e]) = limiter_step Allow sweep c (limiter_run Allow sweep c s evs) e"
  by (auto simp: limiter_run_def)

lemma length_filter_mono:
  "(\<And>x. x \<in> set xs \<Longrightarrow> P x \<Longrightarrow> Q x) \<Longrightarrow> length (filter P xs) \<le> length (filter Q xs)"
  by (induction xs) auto

text \<open>The keys of different clients or endpoints never coincide, since no limited endpoint contains a colon.\<close>

lemma limited_no_colon:
  assumes "endpoint_limit c e \<noteq> None"
  shows "CHR '':'' \<notin> set e"
  using assms by (auto simp: endpoint_limit_def split: if_splits)

lemma append_sep_inj:
  assumes "x \<notin> set v" "x \<notin> set v'" "u @ x # v = u' @ x # v'"
  shows "u = u' \<and> v = v'"
proof -
  have tw: "takeWhile (\<lambda>y. y \<noteq> x) (rev (a @ x # b)) = rev b" if "x \<notin> set b" for a b
    using that takeWhile_append2 [of "rev b" "\<lambda>y. y \<noteq> x" "x # rev a"] by auto
  from tw [OF assms(1), of u] tw [OF assms(2), of u'] have "v = v'" using assms(3) by (metis rev_rev_ident)
  with assms(3) show ?thesis by simp
qed

lemma limit_key_inj:
  assumes "endpoint_limit c e \<noteq> None" "endpoint_limit c e' \<noteq> None"
    and "ip @ '':'' @ e = ip' @ '':'' @ e'"
  shows "ip = ip' \<and> e = e'"
  using append_sep_inj [OF limited_no_colon [OF assms(1)] limited_no_colon [OF assms(2)]] assms(3) by simp

section \<open>The contract of a store\<close>

text \<open>
  \<open>recent s k t\<close> are the admissions of key \<open>k\<close> after time \<open>t\<close> that the store still knows.
  The store decides by their number inside the window, records an admission, leaves other
  keys alone, and its clean-up keeps everything younger than \<open>retention\<close>.
\<close>

locale rate_limit_store =
  fixes Allow :: "nanos \<Rightarrow> string \<Rightarrow> int \<Rightarrow> nanos \<Rightarrow> 's \<Rightarrow> (go_panic + bool \<times> nanos) \<times> 's"
    and sweep :: "nanos \<Rightarrow> 's \<Rightarrow> 's"
    and fresh :: 's
    and recent :: "'s \<Rightarrow> string \<Rightarrow> nanos \<Rightarrow> nanos list"
    and retention :: nanos
  assumes recent_fresh: "recent fresh k t = []"
    and recent_later: "t \<le> t' \<Longrightarrow> recent s k t' = filter (\<lambda>x. t' < x) (recent s k t)"
    and allow_decides: "0 < limit \<Longrightarrow>
      \<exists>r s'. Allow now k limit w s = (Inr (int (length (recent s k (now - w))) < limit, r), s')"
    and allow_records: "0 < limit \<Longrightarrow> 0 < w \<Longrightarrow> Allow now k limit w s = (Inr (ok, r), s') \<Longrightarrow>
      recent s' k (now - w) = recent s k (now - w) @ (if ok then [now] else [])"
    and allow_others: "Allow now k limit w s = (res, s') \<Longrightarrow> k' \<noteq> k \<Longrightarrow> recent s' k' t = recent s k' t"
    and sweep_keeps: "now - retention \<le> t \<Longrightarrow> recent (sweep now s) k t = recent s k t"
begin

definition in_sync :: "nanos \<Rightarrow> string \<Rightarrow> string \<Rightarrow> nanos \<Rightarrow> admitted \<times> 's \<Rightarrow> bool" where
  "in_sync w ip e now st \<longleftrightarrow>
    recent (snd st) (ip @ '':'' @ e) (now - w) =
      filter (\<lambda>x. now - w < x) (admitted_times (fst st) ip e)"

lemma in_sync_later:
  assumes "in_sync w ip e now st" "now \<le> now'"
  shows "in_sync w ip e now' st"
  using assms recent_later [of "now - w" "now' - w" "snd st" "ip @ '':'' @ e"]
  by (auto simp: in_sync_def intro!: filter_cong)

lemma in_sync_step:
  assumes sync: "in_sync w ip e (event_time ev) st"
    and lim: "endpoint_limit c e = Some (limit, w)" "0 < limit" "0 < w" "w \<le> retention"
  shows "in_sync w ip e (event_time ev) (limiter_step Allow sweep c st ev)"
proof (cases ev)
  case (Sweep now)
  obtain adm s where st: "st = (adm, s)" by fastforce
  have "recent (sweep now s) (ip @ '':'' @ e) (now - w) = recent s (ip @ '':'' @ e) (now - w)"
    using lim(4) by (intro sweep_keeps) simp
  then show ?thesis using sync by (simp add: Sweep st in_sync_def)
next
  case (Ask now ip' e')
  obtain adm s where st: "st = (adm, s)" by fastforce
  note sync' = sync [unfolded Ask st in_sync_def, simplified]
  show ?thesis
  proof (cases "ip' = ip \<and> e' = e")
    case True
    obtain r s' where al: "Allow now (ip @ '':'' @ e) limit w s
        = (Inr (int (length (recent s (ip @ '':'' @ e) (now - w))) < limit, r), s')"
      using allow_decides [OF lim(2)] by blast
    show ?thesis
      using allow_records [OF lim(2,3) al] sync' lim(3) True al
      by (cases "int (length (recent s (ip @ '':'' @ e) (now - w))) < limit")
        (auto simp: in_sync_def Ask st checkLimit_def lim(1))
  next
    case other: False
    obtain res s' where cl: "checkLimit Allow c now ip' e' s = (res, s')" by fastforce
    have keep: "recent s' (ip @ '':'' @ e) t = recent s (ip @ '':'' @ e) t" for t
    proof (cases "endpoint_limit c e'")
      case None
      then show ?thesis using cl by (simp add: checkLimit_def)
    next
      case (Some lw)
      then obtain l' w' where lw: "endpoint_limit c e' = Some (l', w')" by (cases lw) auto
      have "ip @ '':'' @ e \<noteq> ip' @ '':'' @ e'"
        using limit_key_inj [of c e e' ip ip'] lim(1) lw other by auto
      then show ?thesis using cl allow_others [of now "ip' @ '':'' @ e'" l' w' s res s'] by (simp add: checkLimit_def lw)
    qed
    show ?thesis
      using sync' keep other cl
      by (auto simp: in_sync_def Ask st split: sum.splits bool.splits prod.splits)
  qed
qed

text \<open>
  Whatever the clients do, at most \<open>limit\<close> requests of one address for one endpoint are
  admitted in any half-open interval of the window's length.
\<close>

lemma admitted_bound:
  assumes "sorted (map event_time evs)"
    and lim: "endpoint_limit c e = Some (limit, w)" "0 < limit" "0 < w" "w \<le> retention"
    and st: "limiter_run Allow sweep c fresh evs = st"
  shows "(\<forall>now. (\<forall>ev \<in> set evs. event_time ev \<le> now) \<longrightarrow> in_sync w ip e now st)
    \<and> (\<forall>t \<in> set (admitted_times (fst st) ip e). \<exists>ev \<in> set evs. t = event_time ev)
    \<and> (\<forall>x. int (length (filter (\<lambda>t. x < t \<and> t \<le> x + w) (admitted_times (fst st) ip e))) \<le> limit)"
  using assms(1) st
proof (induction evs arbitrary: st rule: rev_induct)
  case Nil
  then show ?case using lim(2) by (auto simp: in_sync_def recent_fresh)
next
  case (snoc ev evs)
  let ?st = "limiter_run Allow sweep c fresh evs" and ?now = "event_time ev"
  have sorted: "sorted (map event_time evs)" and le: "\<forall>ev' \<in> set evs. event_time ev' \<le> ?now"
    using snoc.prems(1) by (auto simp: sorted_append)
  note IH = snoc.IH [OF sorted refl]
  have sync0: "in_sync w ip e ?now ?st" using IH le by blast
  have sync: "in_sync w ip e ?now st"
    using in_sync_step [OF sync0 lim] snoc.prems(2) by simp
  obtain adm s where ST: "?st = (adm, s)" by fastforce
  have grow: "admitted_times (fst st) ip e = admitted_times adm ip e \<or>
      admitted_times (fst st) ip e = admitted_times adm ip e @ [?now] \<and>
      int (length (recent s (ip @ '':'' @ e) (?now - w))) < limit"
  proof (cases ev)
    case (Ask now ip' e')
    show ?thesis
      using snoc.prems(2) allow_decides [OF lim(2), of now "ip @ '':'' @ e" w s] lim(1)
      by (auto simp: ST Ask checkLimit_def split: sum.splits bool.splits prod.splits if_splits)
  qed (use snoc.prems(2) ST in auto)
  have older: "\<forall>t \<in> set (admitted_times adm ip e). t \<le> ?now" using IH ST le by auto
  have bound: "int (length (filter (\<lambda>t. x < t \<and> t \<le> x + w) (admitted_times (fst st) ip e))) \<le> limit" for x
  proof (cases "x < ?now \<and> ?now \<le> x + w \<and> admitted_times (fst st) ip e = admitted_times adm ip e @ [?now]
      \<and> int (length (recent s (ip @ '':'' @ e) (?now - w))) < limit")
    case True
    have "length (filter (\<lambda>t. x < t \<and> t \<le> x + w) (admitted_times adm ip e))
        \<le> length (filter (\<lambda>t. ?now - w < t) (admitted_times adm ip e))"
      using True by (intro length_filter_mono) auto
    also have "\<dots> = length (recent s (ip @ '':'' @ e) (?now - w))"
      using sync0 by (simp add: in_sync_def ST)
    finally show ?thesis using True by auto
  next
    case False
    then show ?thesis using grow IH ST by auto
  qed
  show ?case
  proof (intro conjI allI impI)
    fix now assume "\<forall>ev' \<in> set (evs @ [ev]). event_time ev' \<le> now"
    then show "in_sync w ip e now st" using in_sync_later [OF sync] by simp
  next
    show "\<forall>t \<in> set (admitted_times (fst st) ip e). \<exists>ev' \<in> set (evs @ [ev]). t = event_time ev'"
      using grow IH ST by auto
  qed (rule bound)
qed

end

section \<open>The in-memory store\<close>

definition memory_recent :: "memoryRateLimitStore \<Rightarrow> string \<Rightarrow> nanos \<Rightarrow> nanos list" where
  "memory_recent s k t = filter (\<lambda>x. t < x) (case windows s k of Some ts \<Rightarrow> ts | None \<Rightarrow> [])"

interpretation mem: rate_limit_store memory_Allow memory_cleanup NewMemoryRateLimitStore memory_recent "2 * minute"
proof (unfold_locales, goal_cases)
  case (1 k t)
  show ?case by (simp add: memory_recent_def NewMemoryRateLimitStore_def)
next
  case (2 t t' s k)
  then show ?case by (auto simp: memory_recent_def intro!: filter_cong)
next
  case (3 limit now k w s)
  then show ?case
    by (cases "memory_recent s k (now - w)") (auto simp: memory_Allow_def memory_recent_def Let_def)
next
  case (4 limit w now k s ok r s')
  then show ?case
    by (auto simp: memory_Allow_def memory_recent_def Let_def split: if_splits option.splits list.splits)
next
  case (5 now k limit w s res s' k' t)
  then show ?case
    by (auto simp: memory_Allow_def memory_recent_def Let_def split: if_splits list.splits)
next
  case (6 now t s k)
  have "filter (\<lambda>x. t < x) (filter (\<lambda>x. now - x < 2 * minute) ts) = filter (\<lambda>x. t < x) ts" for ts
    using 6 by (auto intro!: filter_cong)
  moreover have "filter (\<lambda>x. t < x) ts = []" if "filter (\<lambda>x. now - x < 2 * minute) ts = []" for ts
    using that 6 by (auto simp: filter_empty_conv)
  ultimately show ?case
    by (auto simp: memory_recent_def memory_cleanup_def Let_def split: option.splits)
qed

text \<open>C3. Sliding window of the authentication endpoints. Over any sequence of requests and clean-up
  ticks at non-decreasing times, the limiter with the in-memory store admits at most the
  configured number of requests of one address to one endpoint in any interval of the window's
  length, for windows up to the two minutes the clean-up keeps.\<close>

theorem auth_limit_enforced:
  assumes "sorted (map event_time evs)"
    and "endpoint_limit c e = Some (limit, w)" "0 < limit" "0 < w" "w \<le> 2 * minute"
  shows "int (length (filter (\<lambda>t. x < t \<and> t \<le> x + w)
    (admitted_times (fst (limiter_run memory_Allow memory_cleanup c NewMemoryRateLimitStore evs)) ip e))) \<le> limit"
  using mem.admitted_bound [OF assms refl] by blast

theorem auth_limit_enforced_witness:
  "int (length (filter (\<lambda>t. 0 < t \<and> t \<le> 0 + minute)
    (admitted_times (fst (limiter_run memory_Allow memory_cleanup DefaultAuthRateLimitConfig NewMemoryRateLimitStore
      [Ask 1 ''a'' ''session_create'', Ask 2 ''a'' ''session_create'', Ask 2 ''b'' ''session_create'',
       Sweep 3, Ask 4 ''a'' ''session_create'', Ask 5 ''a'' ''session_create'', Ask 6 ''a'' ''session_create'',
       Ask 7 ''a'' ''session_create'']))
      ''a'' ''session_create''))) \<le> 5"
  by (rule auth_limit_enforced) (simp_all add: endpoint_limit_def DefaultAuthRateLimitConfig_def minute_def second_def)

section \<open>Waiting the announced time is enough\<close>











definition session_asks :: "limit_event list" where
  "session_asks = map (\<lambda>t. Ask t ''a'' ''session_create'') [1, 2, 3, 4, 5]"

definition session_store :: memoryRateLimitStore where
  "session_store = snd (limiter_run memory_Allow memory_cleanup DefaultAuthRateLimitConfig NewMemoryRateLimitStore session_asks)"

lemma session_limit: "endpoint_limit DefaultAuthRateLimitConfig ''session_create'' = Some (5, minute)"
  by (simp add: endpoint_limit_def DefaultAuthRateLimitConfig_def)

lemma session_rejected:
  assumes "5 \<le> now" "now < minute"
  shows "checkLimit memory_Allow DefaultAuthRateLimitConfig now ''a'' ''session_create'' session_store =
    (Inr (False, minute - now + 1), session_store)"
  using assms
  by (simp add: session_store_def session_asks_def limiter_run_def checkLimit_def session_limit memory_Allow_def NewMemoryRateLimitStore_def Let_def
      minute_def second_def)


text \<open>The announced time alone is not enough: a client that is told one second when 1.9 seconds are left is rejected again after that second.\<close>

theorem retry_after_too_short:
  "case checkLimit memory_Allow DefaultAuthRateLimitConfig (minute + 1 - 1900000000) ''a'' ''session_create'' session_store of
     (Inr (False, retry), s') \<Rightarrow> retry_seconds retry = 1 \<and>
       (case checkLimit memory_Allow DefaultAuthRateLimitConfig (minute + 1 - 1900000000 + second) ''a'' ''session_create'' s' of
          (Inr (allowed, _), _) \<Rightarrow> \<not> allowed | _ \<Rightarrow> False)
   | _ \<Rightarrow> False"
  using session_rejected [of "minute + 1 - 1900000000"] session_rejected [of "minute + 1 - 1900000000 + second"]
  by (simp add: minute_def second_def retry_seconds_def)

section \<open>Which address is counted\<close>

text \<open>One request to the interceptor after the other.\<close>

fun interceptor_run ::
  "'s allow_fun \<Rightarrow> AuthRateLimitConfig \<Rightarrow> (nanos \<times> string \<times> header) list \<Rightarrow> 's \<Rightarrow> (go_panic + (string + unit)) list" where
  "interceptor_run Allow c [] s = []"
| "interceptor_run Allow c ((now, p, h) # rs) s =
    (case RateLimitInterceptor Allow c now p h s of (res, s') \<Rightarrow> res # interceptor_run Allow c rs s')"

definition forwarded_header :: "string \<Rightarrow> header" where
  "forwarded_header ip = [''X-Forwarded-For'' \<mapsto> [ip]]"

text \<open>A header value that is one address the proxy list does not trust.\<close>

definition lone_untrusted :: "string \<Rightarrow> bool" where
  "lone_untrusted ip \<longleftrightarrow> ip \<noteq> [] \<and> CHR '','' \<notin> set ip \<and> TrimSpace ip = ip \<and> \<not> isTrustedProxy ip"

lemma forwarded_lone:
  assumes "lone_untrusted ip"
  shows "extractClientIPFromHeaders (forwarded_header ip) = ip"
  using assms by (auto simp: forwarded_header_def extractClientIPFromHeaders_def forwarded_for_def Header_Get_def Header_Values_def
      lone_untrusted_def Split_id Let_def)

lemma interceptor_fresh_addresses:
  assumes "distinct ips" "\<forall>ip \<in> set ips. lone_untrusted ip"
    and "AuthRateLimitProcedureMap p = Some e" "endpoint_limit c e = Some (limit, w)" "0 < limit"
    and "\<forall>ip \<in> set ips. windows s (ip @ '':'' @ e) = None"
  shows "interceptor_run memory_Allow c (map (\<lambda>ip. (now, p, forwarded_header ip)) ips) s
    = replicate (length ips) (Inr (Inr ()))"
  using assms(1,2,6)
proof (induction ips arbitrary: s)
  case (Cons ip ips)
  define s' where "s' = s\<lparr>windows := (windows s)(ip @ '':'' @ e \<mapsto> [now])\<rparr>"
  have "RateLimitInterceptor memory_Allow c now p (forwarded_header ip) s = (Inr (Inr ()), s')"
    using Cons.prems assms(3-5)
    by (simp add: RateLimitInterceptor_def checkLimit_def forwarded_lone memory_Allow_def s'_def)
  moreover have "\<forall>ip' \<in> set ips. windows s' (ip' @ '':'' @ e) = None"
    using Cons.prems by (auto simp: s'_def)
  ultimately show ?case using Cons by simp
qed simp

text \<open>C29. The interceptor's limit can be sidestepped. The interceptor counts a call under the address in
  \<^verbatim>\<open>X-Forwarded-For\<close> whoever sent the header, so a caller that writes a new address into every
  call has all of them admitted, however many there are and whatever the limit.\<close>

theorem interceptor_limit_sidestepped:
  assumes "distinct ips" "\<forall>ip \<in> set ips. lone_untrusted ip"
    and "AuthRateLimitProcedureMap p = Some e" "endpoint_limit c e = Some (limit, w)" "0 < limit"
  shows "interceptor_run memory_Allow c (map (\<lambda>ip. (now, p, forwarded_header ip)) ips)
    NewMemoryRateLimitStore = replicate (length ips) (Inr (Inr ()))"
  by (rule interceptor_fresh_addresses [OF assms]) (simp add: NewMemoryRateLimitStore_def)

theorem interceptor_limit_sidestepped_witness:
  "interceptor_run memory_Allow DefaultAuthRateLimitConfig
     (map (\<lambda>ip. (0, ''/aleph.v1.AuthService/CreateApiKey'', forwarded_header ip))
       [''a'', ''b'', ''c'', ''d'', ''e'', ''f'', ''g'', ''h'', ''i'', ''j'', ''k'', ''l''])
     NewMemoryRateLimitStore = replicate 12 (Inr (Inr ()))"
proof -
  let ?ips = "[''a'', ''b'', ''c'', ''d'', ''e'', ''f'', ''g'', ''h'', ''i'', ''j'', ''k'', ''l'']"
  have "\<not> isTrustedProxy [c]" if "c \<noteq> CHR ''.''" "c \<noteq> CHR '':''" for c
  proof -
    have "ParseIP [c] = None" using that by (auto simp: ParseIP_def ParseAddr_def)
    moreover have "\<not> isTrustedProxy_loop cs [c]" if "ParseIP [c] = None" for cs
      using that by (induction cs) (auto split: option.splits)
    ultimately show ?thesis by (simp add: isTrustedProxy_def)
  qed
  then have letter: "lone_untrusted [c]" if "is_lower c" for c
  proof -
    have "c \<noteq> CHR ''.''" "c \<noteq> CHR '':''" "c \<noteq> CHR '',''" "\<not> is_space c"
      using that by (auto simp: is_lower_def is_space_def code_def)
    then show ?thesis
      using \<open>\<And>c. c \<noteq> CHR ''.'' \<Longrightarrow> c \<noteq> CHR '':'' \<Longrightarrow> \<not> isTrustedProxy [c]\<close>
      by (simp add: lone_untrusted_def TrimSpace_def TrimLeftFunc_def TrimRightFunc_def)
  qed
  have lone: "\<forall>ip \<in> set ?ips. lone_untrusted ip"
    by (simp add: letter is_lower_def code_def)
  have "interceptor_run memory_Allow DefaultAuthRateLimitConfig
     (map (\<lambda>ip. (0, ''/aleph.v1.AuthService/CreateApiKey'', forwarded_header ip))
       ?ips)
     NewMemoryRateLimitStore
     = replicate (length ?ips) (Inr (Inr ()))"
    by (rule interceptor_limit_sidestepped [OF _ lone, of _ "''apikey_create''" _ 10 minute])
      (simp_all add: AuthRateLimitProcedureMap_def endpoint_limit_def DefaultAuthRateLimitConfig_def)
  moreover have "length ?ips = 12" by simp
  ultimately show ?thesis by (simp only:)
qed

end
