(* ===== verification/Go_Url.thy ===== *)
theory Go_Url
  imports Go_Net
begin

text \<open>
  \<^verbatim>\<open>net/url\<close>, as far as the SSRF validator reads a parsed URL: its scheme and its host, and
  every way in which \<^verbatim>\<open>url.Parse\<close> refuses a string. The errors are not told apart, since the
  callers only wrap them.
\<close>

record URL =
  Scheme :: string
  Opaque :: string
  Host :: string

definition has_ctl :: "string \<Rightarrow> bool" where
  "has_ctl s \<longleftrightarrow> list_ex (\<lambda>c. code c < 32 \<or> code c = 127) s"

text \<open>\<^verbatim>\<open>getScheme\<close>: \<open>None\<close> is the error, an empty scheme leaves the string alone.\<close>

fun getScheme_loop :: "string \<Rightarrow> string \<Rightarrow> string \<Rightarrow> (string \<times> string) option" where
  "getScheme_loop raw seen [] = Some ([], raw)"
| "getScheme_loop raw seen (c # s) =
    (if is_alpha c then getScheme_loop raw (seen @ [c]) s
     else if is_digit c \<or> c = CHR ''+'' \<or> c = CHR ''-'' \<or> c = CHR ''.'' then
       (if seen = [] then Some ([], raw) else getScheme_loop raw (seen @ [c]) s)
     else if c = CHR '':'' then (if seen = [] then None else Some (seen, s))
     else Some ([], raw))"

definition getScheme :: "string \<Rightarrow> (string \<times> string) option" where
  "getScheme raw = getScheme_loop raw [] raw"

text \<open>Percent escapes: \<open>ok\<close> judges an escape by its two digits, \<open>plain\<close> every other byte.\<close>

fun unescape_with :: "(char \<Rightarrow> char \<Rightarrow> bool) \<Rightarrow> (char \<Rightarrow> bool) \<Rightarrow> string \<Rightarrow> string option" where
  "unescape_with ok plain [] = Some []"
| "unescape_with ok plain (c # s) =
    (if c = CHR ''%'' then
       (case s of
          a # b # s' \<Rightarrow>
            if is_hex a \<and> is_hex b \<and> ok a b
            then map_option (Cons (char_of (16 * hex_val a + hex_val b))) (unescape_with ok plain s')
            else None
        | _ \<Rightarrow> None)
     else if plain c then map_option (Cons c) (unescape_with ok plain s)
     else None)"

definition unescape_any :: "string \<Rightarrow> string option" where
  "unescape_any = unescape_with (\<lambda>_ _. True) (\<lambda>_. True)"

definition host_byte :: "char \<Rightarrow> bool" where
  "host_byte c \<longleftrightarrow> code c \<ge> 128 \<or> is_alpha c \<or> is_digit c \<or>
    c \<in> set (''!$&()*+,;=:[]<>-_.~'' @ [DQ, SQ])"

definition unescape_host :: "string \<Rightarrow> string option" where
  "unescape_host = unescape_with (\<lambda>a b. hex_val a \<ge> 8 \<or> a = CHR ''2'' \<and> b = CHR ''5'') host_byte"

definition unescape_zone :: "string \<Rightarrow> string option" where
  "unescape_zone = unescape_with
    (\<lambda>a b. a = CHR ''2'' \<and> b = CHR ''5'' \<or> 16 * hex_val a + hex_val b = 32 \<or>
           16 * hex_val a + hex_val b < 128 \<and> host_byte (char_of (16 * hex_val a + hex_val b)))
    host_byte"

definition validOptionalPort :: "string \<Rightarrow> bool" where
  "validOptionalPort p \<longleftrightarrow> p = [] \<or> hd p = CHR '':'' \<and> list_all is_digit (tl p)"

text \<open>The part before the first occurrence of a byte, and the part from it on.\<close>

definition cut_at :: "char \<Rightarrow> string \<Rightarrow> string \<times> string" where
  "cut_at c s = (takeWhile (\<lambda>x. x \<noteq> c) s, dropWhile (\<lambda>x. x \<noteq> c) s)"

text \<open>An address between brackets must be an IPv6 address, possibly with a non-empty zone.\<close>

definition ipv6_literal :: "string \<Rightarrow> bool" where
  "ipv6_literal s \<longleftrightarrow>
    (let (a, z) = cut_at (CHR ''%'') s in
     length z \<noteq> 1 \<and> (case ParseAddr a of Some ip \<Rightarrow> length ip = 16 | None \<Rightarrow> False))"

text \<open>
  \<^verbatim>\<open>parseHost\<close> of Go 1.26, the version the module requires: a bracketed host is an IPv6 literal, and
  outside brackets the first colon starts the port.
\<close>

definition parseHost :: "string \<Rightarrow> string option" where
  "parseHost host =
    (case LastIndexByte host (CHR ''['') of
       Some 0 \<Rightarrow>
         (case LastIndexByte host (CHR '']'') of
            None \<Rightarrow> None
          | Some i \<Rightarrow>
              if \<not> validOptionalPort (drop (i + 1) host) then None
              else
                (let hostname = drop 1 (take i host);
                     name = (case Index hostname ''%25'' of
                               Some z \<Rightarrow>
                                 (case (unescape_host (take z hostname), unescape_zone (drop z hostname)) of
                                    (Some h1, Some h2) \<Rightarrow> Some (h1 @ h2)
                                  | _ \<Rightarrow> None)
                             | None \<Rightarrow> unescape_host hostname) in
                 case name of
                   None \<Rightarrow> None
                 | Some n \<Rightarrow>
                     if ipv6_literal n then Some (''['' @ n @ '']'' @ drop (i + 1) host) else None))
     | Some _ \<Rightarrow> None
     | None \<Rightarrow>
         (case IndexByte host (CHR '':'') of
            Some i \<Rightarrow> if validOptionalPort (drop i host) then unescape_host host else None
          | None \<Rightarrow> unescape_host host))"

definition validUserinfo :: "string \<Rightarrow> bool" where
  "validUserinfo s \<longleftrightarrow>
    list_all (\<lambda>c. is_alpha c \<or> is_digit c \<or> c \<in> set (''-._:~!$&()*+,;=%@'' @ [SQ])) s"

definition parseAuthority :: "string \<Rightarrow> string option" where
  "parseAuthority authority =
    (case LastIndexByte authority (CHR ''@'') of
       None \<Rightarrow> parseHost authority
     | Some i \<Rightarrow>
         (case parseHost (drop (i + 1) authority) of
            None \<Rightarrow> None
          | Some h \<Rightarrow>
              if validUserinfo (take i authority) \<and> unescape_any (take i authority) \<noteq> None
              then Some h else None))"

definition url_Parse :: "string \<Rightarrow> URL option" where
  "url_Parse rawURL =
    (let (u, frag) = cut_at (CHR ''#'') rawURL in
     if has_ctl u then None
     else if unescape_any (tl frag) = None then None
     else if u = ''*'' then Some \<lparr>Scheme = [], Opaque = [], Host = []\<rparr>
     else case getScheme u of
       None \<Rightarrow> None
     | Some (sch, rest0) \<Rightarrow>
         (let scheme = ToLower sch; rest = fst (cut_at (CHR ''?'') rest0) in
          if \<not> HasPrefix rest ''/'' \<and> scheme \<noteq> [] then Some \<lparr>Scheme = scheme, Opaque = rest, Host = []\<rparr>
          else if \<not> HasPrefix rest ''/'' \<and> CHR '':'' \<in> set (fst (cut_at (CHR ''/'') rest)) then None
          else if (scheme \<noteq> [] \<or> \<not> HasPrefix rest ''///'') \<and> HasPrefix rest ''//'' then
            (let (authority, path) = cut_at (CHR ''/'') (drop 2 rest) in
             case parseAuthority authority of
               None \<Rightarrow> None
             | Some h \<Rightarrow>
                 if unescape_any path = None then None else Some \<lparr>Scheme = scheme, Opaque = [], Host = h\<rparr>)
          else if unescape_any rest = None then None
          else Some \<lparr>Scheme = scheme, Opaque = [], Host = []\<rparr>))"

definition Hostname :: "URL \<Rightarrow> string" where
  "Hostname u =
    (let host = (case LastIndexByte (Host u) (CHR '':'') of
                   Some i \<Rightarrow> if validOptionalPort (drop i (Host u)) then take i (Host u) else Host u
                 | None \<Rightarrow> Host u) in
     if HasPrefix host ''['' \<and> HasSuffix host '']'' then butlast (tl host) else host)"

end
