(* ===== verification/Ssrf.thy ===== *)
theory Ssrf
  imports Go_Url
begin

text \<open>
  The protection against server-side request forgery, \<^verbatim>\<open>internal/ssrf/validator.go\<close>. Name
  resolution is a parameter, a function from the number of the query and the name to the
  answer, so that two queries for one name may be answered differently. The memoised table
  of private networks is the state \<open>nets_state\<close>, threaded through every check.
\<close>

datatype ssrf_error =
    InvalidURL
  | DisallowedScheme string
  | EmptyHostname
  | InvalidPort string
  | LocalhostNotPermitted
  | InternalNameNotPermitted
  | SuspiciousHostname string
  | CannotResolve string
  | CheckFailed string
  | PrivateIP IP
  | TooManyRedirects

type_synonym resolver = "nat \<Rightarrow> string \<Rightarrow> IP list option"

section \<open>Private networks\<close>

definition cidrStrs :: "string list" where
  "cidrStrs =
    [''10.0.0.0/8'', ''172.16.0.0/12'', ''192.168.0.0/16'', ''100.64.0.0/10'', ''169.254.0.0/16'',
     ''127.0.0.0/8'', ''0.0.0.0/8'', ''::1/128'', ''fc00::/7'', ''fe80::/10'']"

record nets_state =
  initDone :: bool
  initErr :: "ssrf_error option"
  privateNets :: "IPNet list"

definition nets_unset :: nets_state where
  "nets_unset = \<lparr>initDone = False, initErr = None, privateNets = []\<rparr>"

definition validateCIDR :: "string \<Rightarrow> ssrf_error option" where
  "validateCIDR s = (if ParseCIDR s = None then Some (CheckFailed s) else None)"

fun init_loop :: "string list \<Rightarrow> nets_state \<Rightarrow> ssrf_error option \<times> nets_state" where
  "init_loop [] st = (None, st\<lparr>initDone := True\<rparr>)"
| "init_loop (s # ss) st =
    (case validateCIDR s of
       Some err \<Rightarrow> (Some err, st\<lparr>initErr := Some err, initDone := True\<rparr>)
     | None \<Rightarrow> init_loop ss (st\<lparr>privateNets := privateNets st @ [the (ParseCIDR s)]\<rparr>))"

definition initPrivateNets :: "nets_state \<Rightarrow> ssrf_error option \<times> nets_state" where
  "initPrivateNets st = (if initDone st then (initErr st, st) else init_loop cidrStrs st)"

definition isPrivateIP :: "IP \<Rightarrow> nets_state \<Rightarrow> (ssrf_error + bool) \<times> nets_state" where
  "isPrivateIP ip st =
    (case initPrivateNets st of
       (Some err, st') \<Rightarrow> (Inl err, st')
     | (None, st') \<Rightarrow> (Inr (list_ex (\<lambda>n. IPNet_Contains n ip) (privateNets st')), st'))"

text \<open>The loop over the resolved addresses, shared by \<^verbatim>\<open>validateHost\<close> and \<^verbatim>\<open>dialContext\<close>; \<open>None\<close> means none is private.\<close>

fun check_ips :: "IP list \<Rightarrow> nets_state \<Rightarrow> ssrf_error option \<times> nets_state" where
  "check_ips [] st = (None, st)"
| "check_ips (ip # ips) st =
    (case isPrivateIP ip st of
       (Inl err, st') \<Rightarrow> (Some err, st')
     | (Inr private, st') \<Rightarrow> if private then (Some (PrivateIP ip), st') else check_ips ips st')"

section \<open>Disguised addresses\<close>

definition looksLikeNonDecimalPart :: "string \<Rightarrow> bool" where
  "looksLikeNonDecimalPart part =
    (if part = [] then False
     else if hd part = CHR ''0'' \<and> length part > 1 \<and> part ! 1 \<noteq> CHR ''x'' \<and> part ! 1 \<noteq> CHR ''X'' then True
     else length part > 2 \<and> (take 2 part = ''0x'' \<or> take 2 part = ''0X''))"

definition isBypassHost :: "string \<Rightarrow> bool" where
  "isBypassHost host =
    (if host = [] then False
     else
       (let parts = Split host (CHR ''.'') in
        if length parts = 4 then list_ex looksLikeNonDecimalPart parts
        else if length parts = 1 then Atoi host \<noteq> None \<and> (length host > 3 \<or> host = ''0'')
        else if length parts \<ge> 2 \<and> length parts \<le> 3 then list_all (\<lambda>p. Atoi p \<noteq> None) parts
        else False))"

section \<open>Validation\<close>

definition validateHost :: "(string \<Rightarrow> IP list option) \<Rightarrow> string \<Rightarrow> nets_state \<Rightarrow> ssrf_error option \<times> nets_state" where
  "validateHost LookupIP host st =
    (let lowerHost = ToLower host in
     if lowerHost = ''localhost'' \<or> lowerHost = ''127.0.0.1'' \<or> lowerHost = ''::1'' then
       (Some LocalhostNotPermitted, st)
     else if HasSuffix lowerHost ''.local'' \<or> HasSuffix lowerHost ''.internal'' then
       (Some InternalNameNotPermitted, st)
     else if isBypassHost host then (Some (SuspiciousHostname host), st)
     else case LookupIP host of
            None \<Rightarrow> (Some (CannotResolve host), st)
          | Some ips \<Rightarrow> check_ips ips st)"

definition ValidateURL :: "(string \<Rightarrow> IP list option) \<Rightarrow> string \<Rightarrow> nets_state \<Rightarrow> ssrf_error option \<times> nets_state" where
  "ValidateURL LookupIP rawURL st =
    (case url_Parse rawURL of
       None \<Rightarrow> (Some InvalidURL, st)
     | Some u \<Rightarrow>
         if Scheme u \<noteq> ''http'' \<and> Scheme u \<noteq> ''https'' then (Some (DisallowedScheme (Scheme u)), st)
         else if Hostname u = [] then (Some EmptyHostname, st)
         else validateHost LookupIP (Hostname u) st)"

definition ValidateHostname ::
  "(string \<Rightarrow> IP list option) \<Rightarrow> string \<Rightarrow> string \<Rightarrow> nets_state \<Rightarrow> ssrf_error option \<times> nets_state" where
  "ValidateHostname LookupIP host port st =
    (if host = [] then (Some EmptyHostname, st)
     else if port \<noteq> [] \<and> (case Atoi port of None \<Rightarrow> True | Some p \<Rightarrow> p < 1 \<or> p > 65535) then
       (Some (InvalidPort port), st)
     else validateHost LookupIP host st)"

text \<open>The redirect policy of \<^verbatim>\<open>NewClient\<close>: \<open>via\<close> is the number of requests made so far.\<close>

definition CheckRedirect ::
  "(string \<Rightarrow> IP list option) \<Rightarrow> string option \<Rightarrow> nat \<Rightarrow> nets_state \<Rightarrow> ssrf_error option \<times> nets_state" where
  "CheckRedirect LookupIP url via st =
    (if via \<ge> 10 then (Some TooManyRedirects, st)
     else case url of Some u \<Rightarrow> ValidateURL LookupIP u st | None \<Rightarrow> (None, st))"

section \<open>Dialling\<close>

text \<open>
  \<^verbatim>\<open>net.Dialer.DialContext\<close> resolves the host of the address itself and connects to one of
  the answers, which is all the protection depends on: \<open>Dial\<close> gives the candidates.
\<close>

definition Dial :: "resolver \<Rightarrow> nat \<Rightarrow> string \<Rightarrow> IP list option" where
  "Dial resolve q addr =
    (case SplitHostPort addr of None \<Rightarrow> None | Some (host, _) \<Rightarrow> resolve q host)"

definition dialContext :: "resolver \<Rightarrow> nat \<Rightarrow> string \<Rightarrow> nets_state \<Rightarrow> (ssrf_error + IP list) \<times> nets_state" where
  "dialContext resolve q addr st =
    (let host = (case SplitHostPort addr of Some (h, _) \<Rightarrow> h | None \<Rightarrow> addr) in
     if isBypassHost host then (Inl (SuspiciousHostname host), st)
     else case resolve q host of
            None \<Rightarrow> (Inl (CannotResolve host), st)
          | Some ips \<Rightarrow>
              (case check_ips ips st of
                 (Some err, st') \<Rightarrow> (Inl err, st')
               | (None, st') \<Rightarrow>
                   (case Dial resolve (q + 1) addr of
                      None \<Rightarrow> (Inl (CannotResolve host), st')
                    | Some targets \<Rightarrow> (Inr targets, st'))))"

section \<open>The table of private networks\<close>

definition private_nets :: "IPNet list" where
  "private_nets =
    [\<lparr>net_ip = [10, 0, 0, 0], net_ones = 8, net_bits = 32\<rparr>,
     \<lparr>net_ip = [172, 16, 0, 0], net_ones = 12, net_bits = 32\<rparr>,
     \<lparr>net_ip = [192, 168, 0, 0], net_ones = 16, net_bits = 32\<rparr>,
     \<lparr>net_ip = [100, 64, 0, 0], net_ones = 10, net_bits = 32\<rparr>,
     \<lparr>net_ip = [169, 254, 0, 0], net_ones = 16, net_bits = 32\<rparr>,
     \<lparr>net_ip = [127, 0, 0, 0], net_ones = 8, net_bits = 32\<rparr>,
     \<lparr>net_ip = [0, 0, 0, 0], net_ones = 8, net_bits = 32\<rparr>,
     \<lparr>net_ip = [0, 0, 0, 0, 0, 0, 0, 0, 0, 0, 0, 0, 0, 0, 0, 1], net_ones = 128, net_bits = 128\<rparr>,
     \<lparr>net_ip = [252, 0, 0, 0, 0, 0, 0, 0, 0, 0, 0, 0, 0, 0, 0, 0], net_ones = 7, net_bits = 128\<rparr>,
     \<lparr>net_ip = [254, 128, 0, 0, 0, 0, 0, 0, 0, 0, 0, 0, 0, 0, 0, 0], net_ones = 10, net_bits = 128\<rparr>]"

lemma map_ParseCIDR_v4:
  "map ParseCIDR (take 7 cidrStrs) = map Some (take 7 private_nets)"
  by (simp add: cidrStrs_def private_nets_def ParseCIDR_def net_eval)

lemma map_ParseCIDR_v6:
  "map ParseCIDR (drop 7 cidrStrs) = map Some (drop 7 private_nets)"
  by (simp add: cidrStrs_def private_nets_def ParseCIDR_def net_eval)

lemma map_ParseCIDR: "map ParseCIDR cidrStrs = map Some private_nets"
  using arg_cong2 [OF map_ParseCIDR_v4 map_ParseCIDR_v6, of "(@)"]
  by (simp flip: map_append)

lemma init_loop_ok:
  assumes "map ParseCIDR ss = map Some ns"
  shows "init_loop ss st = (None, st\<lparr>privateNets := privateNets st @ ns, initDone := True\<rparr>)"
  using assms
proof (induction ss arbitrary: ns st)
  case (Cons s ss)
  then obtain n ns' where "ns = n # ns'" "ParseCIDR s = Some n" "map ParseCIDR ss = map Some ns'" by (cases ns) auto
  then show ?case using Cons.IH [of ns'] by (simp add: validateCIDR_def)
qed simp

text \<open>Before the first check the table is unset, after it the table is complete; no other state occurs.\<close>

definition nets_ready :: "nets_state \<Rightarrow> bool" where
  "nets_ready st \<longleftrightarrow> st = nets_unset \<or> initDone st \<and> initErr st = None \<and> privateNets st = private_nets"

lemma nets_ready_unset [simp]: "nets_ready nets_unset"
  by (simp add: nets_ready_def)

lemma initPrivateNets_ready:
  assumes "nets_ready st"
  obtains st' where "initPrivateNets st = (None, st')" "nets_ready st'" "privateNets st' = private_nets"
proof (cases "initDone st")
  case True
  then show ?thesis using that [of st] assms by (auto simp: nets_ready_def initPrivateNets_def nets_unset_def)
next
  case False
  then have st: "st = nets_unset" using assms by (auto simp: nets_ready_def)
  then have "initPrivateNets st = (None, \<lparr>initDone = True, initErr = None, privateNets = private_nets\<rparr>)"
    using False init_loop_ok [OF map_ParseCIDR, of st] by (simp add: initPrivateNets_def nets_unset_def)
  then show ?thesis using that by (simp add: nets_ready_def)
qed

section \<open>What the checks guarantee\<close>

text \<open>
  The ten ranges of the table, by the leading bytes of an address: 0/8, 10/8, 127/8, 172.16/12, 192.168/16, 100.64/10, 169.254/16, the loopback of
  version 6, fc00::/7 and fe80::/10. Multicast (224/4), reserved addresses (240/4), the unspecified address of version 6 and the addresses of
  version 4 under 64:ff9b::/96 are in none of them.
\<close>

definition private_v4 :: "nat \<Rightarrow> nat \<Rightarrow> bool" where
  "private_v4 a b \<longleftrightarrow> a = 0 \<or> a = 10 \<or> a = 127 \<or> a = 172 \<and> 16 \<le> b \<and> b \<le> 31 \<or> a = 192 \<and> b = 168
    \<or> a = 100 \<and> 64 \<le> b \<and> b \<le> 127 \<or> a = 169 \<and> b = 254"

definition private_v6 :: "IP \<Rightarrow> bool" where
  "private_v6 ip \<longleftrightarrow> ip = replicate 15 0 @ [1] \<or> ip ! 0 = 252 \<or> ip ! 0 = 253
    \<or> ip ! 0 = 254 \<and> 128 \<le> ip ! 1 \<and> ip ! 1 \<le> 191"

definition private_address :: "IP \<Rightarrow> bool" where
  "private_address ip =
    (case To4 ip of
       Some v4 \<Rightarrow> private_v4 (v4 ! 0) (v4 ! 1)
     | None \<Rightarrow> length ip = 16 \<and> private_v6 ip)"

lemma To4_length: "To4 ip = Some x \<Longrightarrow> length x = 4"
  by (auto simp: To4_def split: if_splits)

lemma div_eq_range:
  assumes "0 < (k::nat)"
  shows "b div k = q \<longleftrightarrow> q * k \<le> b \<and> b < Suc q * k"
proof -
  have "b div k = q \<longleftrightarrow> q \<le> b div k \<and> b div k < Suc q" by linarith
  then show ?thesis using assms by (simp only: less_eq_div_iff_mult_less_eq div_less_iff_less_mult)
qed

lemma div_range:
  "(b::nat) div 16 = Suc 0 \<longleftrightarrow> 16 \<le> b \<and> b \<le> 31"
  "(b::nat) div 64 = Suc 0 \<longleftrightarrow> 64 \<le> b \<and> b \<le> 127"
  "(b::nat) div 64 = 2 \<longleftrightarrow> 128 \<le> b \<and> b \<le> 191"
  "(b::nat) div 2 = 126 \<longleftrightarrow> b = 252 \<or> b = 253"
  by (auto simp: div_eq_range)

lemma To4_nets:
  "To4 [p, q, r, t] = Some [p, q, r, t]"
  "To4 [0, 0, 0, 0, 0, 0, 0, 0, 0, 0, 0, 0, 0, 0, 0, Suc 0] = None"
  "To4 [252, 0, 0, 0, 0, 0, 0, 0, 0, 0, 0, 0, 0, 0, 0, 0] = None"
  "To4 [254, 128, 0, 0, 0, 0, 0, 0, 0, 0, 0, 0, 0, 0, 0, 0] = None"
  by (simp_all add: To4_def net_eval)

lemma contains_private_v4:
  assumes "To4 ip = Some v4"
  shows "list_ex (\<lambda>n. IPNet_Contains n ip) private_nets \<longleftrightarrow> private_v4 (v4 ! 0) (v4 ! 1)"
proof -
  obtain a b c d where v4: "v4 = [a, b, c, d]"
    using To4_length [OF assms] by (auto simp: length_Suc_conv numeral_eq_Suc)
  show ?thesis
    by (auto simp: private_nets_def IPNet_Contains_def networkNumberAndMask_def assms v4 To4_nets
        div_range private_v4_def Let_def)
qed

lemma contains_private_v6:
  assumes "To4 ip = None"
  shows "list_ex (\<lambda>n. IPNet_Contains n ip) private_nets \<longleftrightarrow> length ip = 16 \<and> private_v6 ip"
proof (cases "length ip = 16")
  case True
  then obtain x0 x1 x2 x3 x4 x5 x6 x7 x8 x9 x10 x11 x12 x13 x14 x15
    where "ip = [x0, x1, x2, x3, x4, x5, x6, x7, x8, x9, x10, x11, x12, x13, x14, x15]"
    by (auto simp: length_Suc_conv numeral_eq_Suc)
  then show ?thesis
    using assms
    by (auto simp: private_nets_def IPNet_Contains_def networkNumberAndMask_def To4_nets
        div_range private_v6_def net_eval)
next
  case False
  then show ?thesis
    by (simp add: private_nets_def IPNet_Contains_def networkNumberAndMask_def To4_nets assms Let_def)
      (use assms in \<open>simp add: To4_def split: if_splits\<close>)
qed

lemma isPrivateIP_ready:
  assumes "nets_ready st"
  obtains st' where "isPrivateIP ip st = (Inr (private_address ip), st')" "nets_ready st'"
proof -
  obtain st' where st': "initPrivateNets st = (None, st')" "nets_ready st'" "privateNets st' = private_nets"
    using initPrivateNets_ready [OF assms] .
  have "list_ex (\<lambda>n. IPNet_Contains n ip) private_nets = private_address ip"
    by (cases "To4 ip") (simp_all add: private_address_def contains_private_v4 contains_private_v6)
  then show ?thesis using that st' by (simp add: isPrivateIP_def)
qed

lemma check_ips_ready:
  assumes "nets_ready st"
  shows "fst (check_ips ips st) = map_option PrivateIP (find private_address ips)
    \<and> nets_ready (snd (check_ips ips st))"
  using assms
proof (induction ips arbitrary: st)
  case (Cons ip ips)
  obtain st' where "isPrivateIP ip st = (Inr (private_address ip), st')" "nets_ready st'"
    using isPrivateIP_ready [OF Cons.prems] .
  then show ?case using Cons.IH by simp
qed simp















text \<open>
  What the validator lets through. The host \<^verbatim>\<open>0x7f000001\<close> is the address 127.0.0.1 in one hexadecimal number, a form the package says it detects; it
  passes the tests of the name. A host that resolves to the unspecified address of version 6, to a multicast or reserved address, or to
  64:ff9b::127.0.0.1 passes the test of the addresses.
\<close>

theorem ValidateURL_gaps:
  assumes "ip \<in> {replicate 16 0, [224, 0, 0, 1], [240, 0, 0, 1], [0, 100, 255, 155, 0, 0, 0, 0, 0, 0, 0, 0, 127, 0, 0, 1]}"
  shows "fst (ValidateURL (\<lambda>h. Some [ip]) ''http://0x7f000001/'' nets_unset) = None"
proof -
  have parse: "url_Parse ''http://0x7f000001/'' = Some \<lparr>Scheme = ''http'', Opaque = [], Host = ''0x7f000001''\<rparr>"
    by (simp add: url_Parse_def cut_at_def has_ctl_def code_def unescape_any_def getScheme_def is_alpha_def
        is_lower_def is_upper_def is_digit_def ToLower_def lower_char_def parseAuthority_def LastIndexByte_def
        parseHost_def unescape_host_def host_byte_def)
  have host: "Hostname \<lparr>Scheme = ''http'', Opaque = [], Host = ''0x7f000001''\<rparr> = ''0x7f000001''"
    by (simp add: Hostname_def LastIndexByte_def)
  have "\<not> isBypassHost ''0x7f000001''" by (simp add: isBypassHost_def Atoi_def is_digit_def code_def)
  moreover have "\<not> private_address ip"
    using assms by (auto simp: private_address_def To4_def net_eval private_v4_def private_v6_def)
  ultimately show ?thesis
    using check_ips_ready [OF nets_ready_unset, of "[ip]"]
    by (simp add: ValidateURL_def parse host validateHost_def ToLower_def lower_char_def is_upper_def code_def HasSuffix_def)
qed

text \<open>Connection-time protection resolves twice. When the first answer for the host of an address is
  public, \<^verbatim>\<open>dialContext\<close> goes on to whatever a second query answers, private or not.\<close>

theorem dialContext_second_answer:
  assumes "nets_ready st" "SplitHostPort addr = Some (host, port)" "\<not> isBypassHost host"
    and "resolve q host = Some ips" "\<forall>ip \<in> set ips. \<not> private_address ip"
    and "resolve (q + 1) host = Some targets"
  shows "fst (dialContext resolve q addr st) = Inr targets"
proof -
  have "find private_address ips = None" using assms(5) by (simp add: find_None_iff)
  then obtain st' where "check_ips ips st = (None, st')"
    using check_ips_ready [OF assms(1), of ips] by (cases "check_ips ips st") auto
  then show ?thesis using assms(2-4,6) by (simp add: dialContext_def Dial_def)
qed

theorem dialContext_second_answer_witness:
  "fst (dialContext (\<lambda>q h. Some [if q = 0 then [93, 184, 216, 34] else [127, 0, 0, 1]]) 0 ''a.example:80'' nets_unset)
    = Inr [[127, 0, 0, 1]] \<and> private_address [127, 0, 0, 1]"
proof -
  have "fst (dialContext (\<lambda>q h. Some [if q = 0 then [93, 184, 216, 34] else [127, 0, 0, 1]]) 0 ''a.example:80'' nets_unset)
    = Inr [[127, 0, 0, 1]]"
    by (rule dialContext_second_answer [where host = "''a.example''" and port = "''80''" and ips = "[[93, 184, 216, 34]]"])
      (simp_all add: SplitHostPort_def LastIndexByte_def isBypassHost_def Atoi_def is_digit_def code_def
        private_address_def To4_nets private_v4_def)
  then show ?thesis by (simp add: private_address_def To4_nets private_v4_def)
qed

end
