(* ===== verification/Go_Base64.thy ===== *)
theory Go_Base64
  imports Aleph_Prelude
begin

text \<open>
  \<^verbatim>\<open>encoding/base64\<close> with and without padding, over an alphabet given by its two maps between
  sextets and characters. The locale \<open>base64_alphabet\<close> says what makes two such maps an
  alphabet and proves the round trip; the standard and the URL-safe alphabets interpret it.
  Like Go's decoder, decoding skips line breaks and ignores the spare bits of the last
  character.
\<close>

fun b64_encode :: "(nat \<Rightarrow> char) \<Rightarrow> bool \<Rightarrow> string \<Rightarrow> string" where
  "b64_encode enc pad [] = []"
| "b64_encode enc pad [a] =
    [enc (code a div 4), enc (code a mod 4 * 16)] @ (if pad then ''=='' else [])"
| "b64_encode enc pad [a, b] =
    [enc (code a div 4), enc (code a mod 4 * 16 + code b div 16), enc (code b mod 16 * 4)]
    @ (if pad then ''='' else [])"
| "b64_encode enc pad (a # b # c # s) =
    [enc (code a div 4), enc (code a mod 4 * 16 + code b div 16),
     enc (code b mod 16 * 4 + code c div 64), enc (code c mod 64)] @ b64_encode enc pad s"

definition two_sextets :: "nat option \<Rightarrow> nat option \<Rightarrow> string option" where
  "two_sextets x y =
    (case (x, y) of (Some a, Some b) \<Rightarrow> Some [char_of (a * 4 + b div 16)] | _ \<Rightarrow> None)"

definition three_sextets :: "nat option \<Rightarrow> nat option \<Rightarrow> nat option \<Rightarrow> string option" where
  "three_sextets x y z =
    (case (x, y, z) of
       (Some a, Some b, Some c) \<Rightarrow> Some [char_of (a * 4 + b div 16), char_of (b mod 16 * 16 + c div 4)]
     | _ \<Rightarrow> None)"

definition four_sextets :: "nat option \<Rightarrow> nat option \<Rightarrow> nat option \<Rightarrow> nat option \<Rightarrow> string option" where
  "four_sextets x y z w =
    (case (x, y, z, w) of
       (Some a, Some b, Some c, Some d) \<Rightarrow>
         Some [char_of (a * 4 + b div 16), char_of (b mod 16 * 16 + c div 4), char_of (c mod 4 * 64 + d)]
     | _ \<Rightarrow> None)"

fun b64_groups :: "(char \<Rightarrow> nat option) \<Rightarrow> bool \<Rightarrow> string \<Rightarrow> string option" where
  "b64_groups dec pad [] = Some []"
| "b64_groups dec pad [x] = None"
| "b64_groups dec pad [x, y] = (if pad then None else two_sextets (dec x) (dec y))"
| "b64_groups dec pad [x, y, z] = (if pad then None else three_sextets (dec x) (dec y) (dec z))"
| "b64_groups dec pad (x # y # z # w # s) =
    (if pad \<and> w = CHR ''='' then
       (if s \<noteq> [] then None
        else if z = CHR ''='' then two_sextets (dec x) (dec y)
        else three_sextets (dec x) (dec y) (dec z))
     else
       (case four_sextets (dec x) (dec y) (dec z) (dec w) of
          None \<Rightarrow> None
        | Some bs \<Rightarrow> map_option (\<lambda>rest. bs @ rest) (b64_groups dec pad s)))"

definition b64_decode :: "(char \<Rightarrow> nat option) \<Rightarrow> bool \<Rightarrow> string \<Rightarrow> string option" where
  "b64_decode dec pad s = b64_groups dec pad (filter (\<lambda>c. c \<noteq> CR \<and> c \<noteq> NL) s)"

section \<open>Alphabets\<close>

definition sextet_char :: "char \<Rightarrow> char \<Rightarrow> nat \<Rightarrow> char" where
  "sextet_char c62 c63 n =
    (if n < 26 then char_of (65 + n) else if n < 52 then char_of (71 + n)
     else if n < 62 then char_of (n - 4) else if n = 62 then c62 else c63)"

definition char_sextet :: "char \<Rightarrow> char \<Rightarrow> char \<Rightarrow> nat option" where
  "char_sextet c62 c63 c =
    (if is_upper c then Some (code c - 65) else if is_lower c then Some (code c - 71)
     else if is_digit c then Some (code c + 4)
     else if c = c62 then Some 62 else if c = c63 then Some 63 else None)"

abbreviation std_char :: "nat \<Rightarrow> char" where "std_char \<equiv> sextet_char (CHR ''+'') (CHR ''/'')"
abbreviation std_sextet :: "char \<Rightarrow> nat option" where "std_sextet \<equiv> char_sextet (CHR ''+'') (CHR ''/'')"
abbreviation url_char :: "nat \<Rightarrow> char" where "url_char \<equiv> sextet_char (CHR ''-'') (CHR ''_'')"
abbreviation url_sextet :: "char \<Rightarrow> nat option" where "url_sextet \<equiv> char_sextet (CHR ''-'') (CHR ''_'')"

lemma triples_induct:
  fixes s :: string
  assumes "P []" "\<And>a. P [a]" "\<And>a b. P [a, b]" "\<And>a b c s. P s \<Longrightarrow> P (a # b # c # s)"
  shows "P s"
  by (rule b64_encode.induct [of "\<lambda>_ _ s. P s"]) (use assms in auto)

lemma code_sextets:
  "code a div 4 < 64" "code a mod 4 * 16 + code b div 16 < 64" "code a mod 4 * 16 < 64"
  "code b mod 16 * 4 + code c div 64 < 64" "code b mod 16 * 4 < 64"
  "code b div 16 mod 16 = code b div 16" "code c div 64 mod 4 = code c div 64"
  "(code a mod 4 * 16 + code b div 16) div 16 = code a mod 4"
  "(code a mod 4 * 16 + code b div 16) mod 16 = code b div 16"
  "(code b mod 16 * 4 + code c div 64) div 4 = code b mod 16"
  "(code b mod 16 * 4 + code c div 64) mod 4 = code c div 64"
proof -
  have "code a div 4 < 64" "code b div 16 < 16" "code c div 64 < 4"
    by (rule less_mult_imp_div_less, simp)+
  moreover have "code a mod 4 < 4" "code b mod 16 < 16" by simp_all
  ultimately show "code a div 4 < 64" "code a mod 4 * 16 + code b div 16 < 64" "code a mod 4 * 16 < 64"
    "code b mod 16 * 4 + code c div 64 < 64" "code b mod 16 * 4 < 64"
    "code b div 16 mod 16 = code b div 16" "code c div 64 mod 4 = code c div 64"
    "(code a mod 4 * 16 + code b div 16) div 16 = code a mod 4"
    "(code a mod 4 * 16 + code b div 16) mod 16 = code b div 16"
    "(code b mod 16 * 4 + code c div 64) div 4 = code b mod 16"
    "(code b mod 16 * 4 + code c div 64) mod 4 = code c div 64" by auto
qed

lemma char_of_code [simp]: "char_of (code c) = c"
  by (simp add: code_def)

locale base64_alphabet =
  fixes enc :: "nat \<Rightarrow> char" and dec :: "char \<Rightarrow> nat option"
  assumes dec_enc: "n < 64 \<Longrightarrow> dec (enc n) = Some n"
    and enc_plain: "enc n \<noteq> CR" "enc n \<noteq> NL" "enc n \<noteq> CHR ''=''"
begin

lemma no_breaks: "filter (\<lambda>c. c \<noteq> CR \<and> c \<noteq> NL) (b64_encode enc pad s) = b64_encode enc pad s"
  by (induction s rule: triples_induct) (auto simp: enc_plain)

lemma groups_encode: "b64_groups dec pad (b64_encode enc pad s) = Some s"
  by (induction s rule: triples_induct)
    (auto simp: enc_plain dec_enc code_sextets
      two_sextets_def three_sextets_def four_sextets_def)

lemma decode_encode: "b64_decode dec pad (b64_encode enc pad s) = Some s"
  by (simp add: b64_decode_def no_breaks groups_encode)

lemma set_encode: "c \<in> set (b64_encode enc pad s) \<Longrightarrow> c \<in> range enc \<or> c = CHR ''=''"
  by (induction s rule: triples_induct) (auto split: if_splits)

lemma set_encode_raw: "c \<in> set (b64_encode enc False s) \<Longrightarrow> c \<in> range enc"
  by (induction s rule: triples_induct) auto

end

lemma sextet_char_code:
  "code (sextet_char c62 c63 n) = (if n < 26 then 65 + n else if n < 52 then 71 + n
    else if n < 62 then n - 4 else if n = 62 then code c62 else code c63)"
  by (auto simp: sextet_char_def)

lemma char_sextet_char:
  assumes "n < 64" "\<not> is_alpha c62" "\<not> is_alpha c63" "\<not> is_digit c62" "\<not> is_digit c63" "c62 \<noteq> c63"
  shows "char_sextet c62 c63 (sextet_char c62 c63 n) = Some n"
proof (cases "n < 62")
  case True
  then consider "n < 26" | "26 \<le> n" "n < 52" | "52 \<le> n" "n < 62" by linarith
  then show ?thesis
    by cases (simp_all add: char_sextet_def sextet_char_code is_upper_def is_lower_def is_digit_def, linarith?)
next
  case False
  then consider "n = 62" | "n = 63" using assms(1) by linarith
  then show ?thesis
    by cases (use assms(2-6) in \<open>simp_all add: char_sextet_def sextet_char_def is_alpha_def\<close>)
qed

lemma sextet_char_cases:
  "is_alpha (sextet_char c62 c63 n) \<or> is_digit (sextet_char c62 c63 n)
    \<or> sextet_char c62 c63 n = c62 \<or> sextet_char c62 c63 n = c63"
proof (cases "n < 62")
  case True
  then consider "n < 26" | "26 \<le> n" "n < 52" | "52 \<le> n" "n < 62" by linarith
  then have "is_alpha (sextet_char c62 c63 n) \<or> is_digit (sextet_char c62 c63 n)"
    by cases (simp_all add: is_alpha_def is_upper_def is_lower_def is_digit_def sextet_char_code, linarith?)
  then show ?thesis by blast
next
  case False
  then show ?thesis by (auto simp: sextet_char_def)
qed

lemma sextet_char_plain:
  assumes "\<not> is_alpha c" "\<not> is_digit c" "c \<noteq> c62" "c \<noteq> c63"
  shows "sextet_char c62 c63 n \<noteq> c"
  using sextet_char_cases [of c62 c63 n] assms by metis

lemmas byte_class_defs = is_alpha_def is_upper_def is_lower_def is_digit_def code_def

interpretation std64: base64_alphabet std_char std_sextet
proof (unfold_locales, goal_cases)
  case (1 n)
  then show ?case by (intro char_sextet_char) (simp_all add: byte_class_defs)
qed (rule sextet_char_plain; simp add: byte_class_defs)+

interpretation url64: base64_alphabet url_char url_sextet
proof (unfold_locales, goal_cases)
  case (1 n)
  then show ?case by (intro char_sextet_char) (simp_all add: byte_class_defs)
qed (rule sextet_char_plain; simp add: byte_class_defs)+

end
