(* ===== verification/Auth.thy ===== *)
theory Auth
  imports Rate_Limit Go_Base64
begin

text \<open>
  Authentication and authorisation: API key hashes (\<^verbatim>\<open>internal/auth/hash.go\<close>), session tokens
  (\<^verbatim>\<open>internal/auth/jwt.go\<close>), the HTTP middleware (\<^verbatim>\<open>internal/middleware/auth.go\<close>) and the RPC
  interceptor with its role table and revocation list
  (\<^verbatim>\<open>internal/middleware/auth_middleware.go\<close>).

  Outside code is in the record \<open>auth_env\<close>: the argon2id function, the signing and parsing of
  tokens by the JWT library, the lookup of a key in the database, the environment variable with
  the backend key. A byte slice is a \<^typ>\<open>string\<close>.
\<close>

section \<open>API key hashes\<close>

datatype hash_error = InvalidFormat nat | UnexpectedAlgorithm string | UnexpectedVersion string | BadSalt | BadHash | NoEntropy

type_synonym argon2 = "string \<Rightarrow> string \<Rightarrow> nat \<Rightarrow> nat \<Rightarrow> nat \<Rightarrow> nat \<Rightarrow> string"

definition argonMemory :: nat where "argonMemory = 65536"
definition argonTime :: nat where "argonTime = 1"
definition argonThreads :: nat where "argonThreads = 4"
definition argonKeyLen :: nat where "argonKeyLen = 32"
definition argonVersion :: nat where "argonVersion = 19"

definition HashAPIKey :: "argon2 \<Rightarrow> string option \<Rightarrow> string \<Rightarrow> hash_error + string" where
  "HashAPIKey IDKey entropy key =
    (case entropy of
       None \<Rightarrow> Inl NoEntropy
     | Some salt \<Rightarrow>
         (let hash = IDKey key salt argonTime argonMemory argonThreads argonKeyLen;
              b64Salt = b64_encode std_char False salt;
              b64Hash = b64_encode std_char False hash in
          Inr (''$argon2id$v='' @ show_nat argonVersion @ ''$m='' @ show_nat argonMemory @ '',t='' @ show_nat argonTime
               @ '',p='' @ show_nat argonThreads @ ''$'' @ b64Salt @ ''$'' @ b64Hash)))"

definition VerifyAPIKey :: "argon2 \<Rightarrow> string \<Rightarrow> string \<Rightarrow> hash_error + bool" where
  "VerifyAPIKey IDKey key encodedHash =
    (let parts = Split encodedHash (CHR ''$'') in
     if length parts \<noteq> 6 then Inl (InvalidFormat (length parts))
     else if parts ! 1 \<noteq> ''argon2id'' then Inl (UnexpectedAlgorithm (parts ! 1))
     else if parts ! 2 \<noteq> ''v='' @ show_nat argonVersion then Inl (UnexpectedVersion (parts ! 2))
     else case b64_decode std_sextet False (parts ! 4) of
       None \<Rightarrow> Inl BadSalt
     | Some salt \<Rightarrow>
         (case b64_decode std_sextet False (parts ! 5) of
            None \<Rightarrow> Inl BadHash
          | Some storedHash \<Rightarrow>
              (let computedHash = IDKey key salt argonTime argonMemory argonThreads argonKeyLen in
               if length storedHash \<noteq> length computedHash then Inr False
               else Inr (storedHash = computedHash))))"

section \<open>Session tokens\<close>

datatype jwt_error =
    SecretEmpty | JtiFailed | SignFailed | ValidationFailed | TokenInvalid
  | ErrMissingSubject | ErrInvalidIssuer | ErrInvalidAudience | ErrMissingTokenID

definition JWTAudience :: string where "JWTAudience = ''aleph-v2-api''"
definition JWTIssuer :: string where "JWTIssuer = ''aleph-v2''"
definition JWTTTL :: nanos where "JWTTTL = 60 * minute"

record SessionToken =
  UserID :: string
  ProjectID :: string
  TokenRole :: string
  Scopes :: string
  Issuer :: string
  Subject :: string
  Audience :: "string list"
  ExpiresAt :: nanos
  NotBefore :: nanos
  IssuedAt :: nanos
  TokenID :: string

datatype jwt_method = SigningMethodHMAC | OtherSigningMethod

text \<open>\<^verbatim>\<open>hex.EncodeToString\<close> of the sixteen random bytes.\<close>

definition hex_digit :: "nat \<Rightarrow> char" where
  "hex_digit n = (if n < 10 then char_of (48 + n) else char_of (87 + n))"

definition generateJTI :: "string option \<Rightarrow> string option" where
  "generateJTI entropy =
    map_option (\<lambda>b. concat (map (\<lambda>c. [hex_digit (code c div 16), hex_digit (code c mod 16)]) b)) entropy"

definition GenerateToken ::
  "(SessionToken \<Rightarrow> string \<Rightarrow> string option) \<Rightarrow> (nanos \<Rightarrow> nanos) \<Rightarrow> nanos \<Rightarrow> string option
    \<Rightarrow> SessionToken \<Rightarrow> string \<Rightarrow> nanos \<Rightarrow> jwt_error + string" where
  "GenerateToken SignedString NewNumericDate now entropy claims secret ttl0 =
    (if secret = [] then Inl SecretEmpty
     else
       (let ttl = (if ttl0 \<le> 0 then JWTTTL else ttl0) in
        case generateJTI entropy of
          None \<Rightarrow> Inl JtiFailed
        | Some jti \<Rightarrow>
            (case SignedString
               (claims\<lparr>Issuer := JWTIssuer, Subject := UserID claims, Audience := [JWTAudience],
                       ExpiresAt := NewNumericDate (now + ttl), NotBefore := NewNumericDate now,
                       IssuedAt := NewNumericDate now, TokenID := jti\<rparr>) secret of
               None \<Rightarrow> Inl SignFailed
             | Some signed \<Rightarrow> Inr signed)))"

definition validateClaims :: "SessionToken \<Rightarrow> jwt_error option" where
  "validateClaims claims =
    (if Subject claims = [] then Some ErrMissingSubject
     else if Issuer claims \<noteq> JWTIssuer then Some ErrInvalidIssuer
     else if JWTAudience \<notin> set (Audience claims) then Some ErrInvalidAudience
     else if TokenID claims = [] then Some ErrMissingTokenID
     else None)"

text \<open>
  The library's parser is given the time, the token, the key function and the expected issuer
  and audience; it answers with the claims and the validity flag, or fails.
\<close>

type_synonym jwt_parser =
  "nanos \<Rightarrow> string \<Rightarrow> (jwt_method \<Rightarrow> string option) \<Rightarrow> string \<Rightarrow> string \<Rightarrow> (SessionToken \<times> bool) option"

definition hmac_only :: "string \<Rightarrow> jwt_method \<Rightarrow> string option" where
  "hmac_only secret m = (if m = SigningMethodHMAC then Some secret else None)"

definition ValidateToken :: "jwt_parser \<Rightarrow> nanos \<Rightarrow> string \<Rightarrow> string \<Rightarrow> jwt_error + SessionToken" where
  "ValidateToken ParseWithClaims now tokenString secret =
    (if secret = [] then Inl SecretEmpty
     else case ParseWithClaims now tokenString (hmac_only secret) JWTIssuer JWTAudience of
            None \<Rightarrow> Inl ValidationFailed
          | Some (claims, valid) \<Rightarrow>
              if \<not> valid then Inl TokenInvalid
              else case validateClaims claims of Some err \<Rightarrow> Inl err | None \<Rightarrow> Inr claims)"

section \<open>The revocation list\<close>

record TokenRevocationStore =
  revoked :: "(string, nanos) gomap"
  rev_ttl :: nanos

definition NewTokenRevocationStore :: "nanos \<Rightarrow> TokenRevocationStore" where
  "NewTokenRevocationStore ttl = \<lparr>revoked = Map.empty, rev_ttl = ttl\<rparr>"

definition Revoke :: "nanos \<Rightarrow> string \<Rightarrow> TokenRevocationStore \<Rightarrow> TokenRevocationStore" where
  "Revoke now jti s = s\<lparr>revoked := (revoked s)(jti \<mapsto> now)\<rparr>"

definition IsRevoked :: "TokenRevocationStore \<Rightarrow> string \<Rightarrow> bool" where
  "IsRevoked s jti \<longleftrightarrow> revoked s jti \<noteq> None"

text \<open>One tick of \<^verbatim>\<open>cleanupLoop\<close>.\<close>

definition revocation_cleanup :: "nanos \<Rightarrow> TokenRevocationStore \<Rightarrow> TokenRevocationStore" where
  "revocation_cleanup now s =
    s\<lparr>revoked := (\<lambda>jti. case revoked s jti of
        Some revokedAt \<Rightarrow> if now - revokedAt > rev_ttl s then None else Some revokedAt
      | None \<Rightarrow> None)\<rparr>"

section \<open>Roles and keys\<close>

type_synonym Role = string

definition RoleAdmin :: Role where "RoleAdmin = ''admin''"
definition RoleUser :: Role where "RoleUser = ''user''"
definition RoleReadOnly :: Role where "RoleReadOnly = ''readonly''"

datatype auth_error = ErrNoAPIKey | ErrInvalidAPIKey | ErrForbidden | InvalidSession jwt_error | TokenRevoked

record auth_env =
  env_backendKey :: string
  env_GetAPIKeyByID :: "string \<Rightarrow> (string \<times> string \<times> string) option"
  env_IDKey :: argon2
  env_ParseWithClaims :: jwt_parser

definition bootstrapRole :: "string \<Rightarrow> string \<Rightarrow> Role" where
  "bootstrapRole backendKey apiKey =
    (if backendKey \<noteq> [] \<and> apiKey = backendKey then RoleAdmin
     else if HasPrefix apiKey ''user_'' then RoleUser
     else if HasPrefix apiKey ''ro_'' then RoleReadOnly
     else [])"

definition roleFromEnvImpl :: "string \<Rightarrow> string \<Rightarrow> Role" where
  "roleFromEnvImpl backendKey apiKey =
    (if backendKey \<noteq> [] \<and> apiKey = backendKey then RoleAdmin
     else if HasPrefix apiKey ''user_'' then RoleUser
     else if HasPrefix apiKey ''ro_'' then RoleReadOnly
     else RoleUser)"

definition ValidateAPIKey :: "auth_env \<Rightarrow> string \<Rightarrow> auth_error + string \<times> Role" where
  "ValidateAPIKey env apiKey =
    (if length apiKey < 8 then Inl ErrInvalidAPIKey
     else if bootstrapRole (env_backendKey env) apiKey \<noteq> [] then
       Inr (''bootstrap'', bootstrapRole (env_backendKey env) apiKey)
     else case env_GetAPIKeyByID env (take 8 apiKey) of
            None \<Rightarrow> Inl ErrInvalidAPIKey
          | Some (storedHash, projectID, role) \<Rightarrow>
              (case VerifyAPIKey (env_IDKey env) apiKey storedHash of
                 Inr True \<Rightarrow>
                   Inr (projectID, if role = [] then roleFromEnvImpl (env_backendKey env) apiKey else role)
               | _ \<Rightarrow> Inl ErrInvalidAPIKey))"

definition jwtFromCookie :: "header \<Rightarrow> string" where
  "jwtFromCookie h =
    (case find (\<lambda>c. HasPrefix c ''aleph_jwt='')
            (concat (map (\<lambda>cookie. map TrimSpace (Split cookie (CHR '';''))) (Header_Values h ''Cookie''))) of
       Some c \<Rightarrow> TrimPrefix c ''aleph_jwt=''
     | None \<Rightarrow> [])"

definition validateJWT :: "auth_env \<Rightarrow> nanos \<Rightarrow> string \<Rightarrow> string \<Rightarrow> auth_error + string \<times> Role" where
  "validateJWT env now tokenStr secret =
    (case ValidateToken (env_ParseWithClaims env) now tokenStr secret of
       Inl err \<Rightarrow> Inl (InvalidSession err)
     | Inr claims \<Rightarrow> Inr (ProjectID claims, if TokenRole claims = [] then RoleUser else TokenRole claims))"

definition validateJWTWithRevocation ::
  "auth_env \<Rightarrow> nanos \<Rightarrow> string \<Rightarrow> string \<Rightarrow> TokenRevocationStore option \<Rightarrow> auth_error + string \<times> Role" where
  "validateJWTWithRevocation env now tokenStr secret store =
    (case ValidateToken (env_ParseWithClaims env) now tokenStr secret of
       Inl err \<Rightarrow> Inl (InvalidSession err)
     | Inr claims \<Rightarrow>
         if (case store of Some s \<Rightarrow> IsRevoked s (TokenID claims) | None \<Rightarrow> False) then Inl TokenRevoked
         else Inr (ProjectID claims, if TokenRole claims = [] then RoleUser else TokenRole claims))"

section \<open>The request context and the HTTP middleware\<close>

record auth_ctx =
  ctx_projectID :: "string option"
  ctx_role :: "Role option"

definition projectIDToContext :: "auth_ctx \<Rightarrow> string \<Rightarrow> Role \<Rightarrow> auth_ctx" where
  "projectIDToContext ctx projectID role = ctx\<lparr>ctx_projectID := Some projectID, ctx_role := Some role\<rparr>"

definition ProjectIDFromContext :: "auth_ctx \<Rightarrow> string" where
  "ProjectIDFromContext ctx = (case ctx_projectID ctx of Some v \<Rightarrow> v | None \<Rightarrow> [])"

definition RoleFromContext :: "auth_ctx \<Rightarrow> Role" where
  "RoleFromContext ctx = (case ctx_role ctx of Some v \<Rightarrow> v | None \<Rightarrow> RoleUser)"

definition RequireRole :: "auth_ctx \<Rightarrow> Role list \<Rightarrow> auth_error option" where
  "RequireRole ctx allowed = (if RoleFromContext ctx \<in> set allowed then None else Some ErrForbidden)"

definition IsAdmin :: "auth_ctx \<Rightarrow> bool" where
  "IsAdmin ctx \<longleftrightarrow> RoleFromContext ctx = RoleAdmin"

text \<open>The HTTP status of a rejection, or the request handed on.\<close>

definition RequireRoleHTTP :: "Role list \<Rightarrow> auth_ctx \<Rightarrow> nat + unit" where
  "RequireRoleHTTP allowed ctx = (if RoleFromContext ctx \<in> set allowed then Inr () else Inl 403)"

definition RequireProjectRole :: "string \<Rightarrow> string \<Rightarrow> auth_ctx \<Rightarrow> nat + unit" where
  "RequireProjectRole pathProject queryProject ctx =
    (let authProjectID = ProjectIDFromContext ctx;
         urlProject = (if pathProject = [] then queryProject else pathProject) in
     if authProjectID = [] then Inr ()
     else if urlProject \<noteq> [] \<and> urlProject \<noteq> authProjectID then Inl 403
     else Inr ())"

text \<open>\<^verbatim>\<open>Request.Cookie\<close> for the session cookie, as \<^verbatim>\<open>net/http\<close> reads it.\<close>

definition trim_ascii :: "string \<Rightarrow> string" where
  "trim_ascii s = TrimRight (TrimLeft s ([CHR '' '', TAB, NL, CR])) ([CHR '' '', TAB, NL, CR])"

definition cookie_value :: "string \<Rightarrow> string option" where
  "cookie_value raw =
    (let v = (if length raw > 1 \<and> hd raw = DQ \<and> last raw = DQ then butlast (tl raw) else raw) in
     if list_all (\<lambda>c. 32 \<le> code c \<and> code c < 127 \<and> c \<noteq> DQ \<and> c \<noteq> CHR '';'' \<and> c \<noteq> BACKSLASH) v
     then Some v else None)"

definition read_cookies :: "header \<Rightarrow> string \<Rightarrow> string list" where
  "read_cookies h name =
    concat (map (\<lambda>line. concat (map (\<lambda>part.
        (let p = trim_ascii part; n = takeWhile (\<lambda>c. c \<noteq> CHR ''='') p; v = drop (Suc (length n)) p in
         if p \<noteq> [] \<and> trim_ascii n = name then (case cookie_value v of Some x \<Rightarrow> [x] | None \<Rightarrow> []) else []))
        (Split (trim_ascii line) (CHR '';'')))) (Header_Values h ''Cookie''))"

definition ExtractAPIKeyFromCookie :: "header \<Rightarrow> string" where
  "ExtractAPIKeyFromCookie h = (case read_cookies h ''aleph_session'' of [] \<Rightarrow> [] | v # _ \<Rightarrow> v)"

definition authenticateHTTP :: "auth_env \<Rightarrow> nanos \<Rightarrow> string \<Rightarrow> header \<Rightarrow> auth_error + string \<times> Role" where
  "authenticateHTTP env now jwtSecret h =
    (let jwtStr = jwtFromCookie h;
         apiKey = (if ExtractAPIKey h = [] then ExtractAPIKeyFromCookie h else ExtractAPIKey h) in
     if jwtStr \<noteq> [] then validateJWT env now jwtStr jwtSecret
     else if apiKey \<noteq> [] then ValidateAPIKey env apiKey
     else Inl ErrNoAPIKey)"

definition AuthMiddleware :: "auth_env \<Rightarrow> nanos \<Rightarrow> string \<Rightarrow> header \<Rightarrow> auth_ctx \<Rightarrow> (nat \<times> auth_error) + auth_ctx" where
  "AuthMiddleware env now jwtSecret h ctx =
    (case authenticateHTTP env now jwtSecret h of
       Inl err \<Rightarrow> Inl (401, err)
     | Inr (projectID, role) \<Rightarrow> Inr (projectIDToContext ctx projectID role))"

section \<open>The RPC interceptor\<close>

record AuthInterceptor =
  jwtSecret :: string
  revocationStore :: "TokenRevocationStore option"

definition NewAuthInterceptor :: "string \<Rightarrow> AuthInterceptor" where
  "NewAuthInterceptor secret =
    \<lparr>jwtSecret = secret, revocationStore = Some (NewTokenRevocationStore (60 * minute))\<rparr>"

definition NewAuthInterceptorWithRevocation :: "string \<Rightarrow> TokenRevocationStore option \<Rightarrow> AuthInterceptor" where
  "NewAuthInterceptorWithRevocation secret store = \<lparr>jwtSecret = secret, revocationStore = store\<rparr>"

record procedureRole =
  adminOnly :: bool
  minRole :: Role

abbreviation anyone :: procedureRole where "anyone \<equiv> \<lparr>adminOnly = False, minRole = []\<rparr>"
abbreviation users :: procedureRole where "users \<equiv> \<lparr>adminOnly = False, minRole = RoleUser\<rparr>"
abbreviation admins :: procedureRole where "admins \<equiv> \<lparr>adminOnly = True, minRole = []\<rparr>"

definition procedureRBAC :: "(string \<times> procedureRole) list" where
  "procedureRBAC =
    [(''/aleph.v1.AuthService/CreateApiKey'', admins),
     (''/aleph.v1.AuthService/ListApiKeys'', admins),
     (''/aleph.v1.AuthService/DeleteApiKey'', admins),
     (''/aleph.v1.ProjectService/CreateProject'', users),
     (''/aleph.v1.ProjectService/DeleteProject'', admins),
     (''/aleph.v1.ProjectService/ListProjects'', anyone),
     (''/aleph.v1.ProjectService/EmergeOntology'', users),
     (''/aleph.v1.ProjectService/GetOntology'', anyone),
     (''/aleph.v1.ProjectService/SaveOntology'', users),
     (''/aleph.v1.AgentService/CreateAgent'', users),
     (''/aleph.v1.AgentService/UpdateAgent'', users),
     (''/aleph.v1.AgentService/DeleteAgent'', users),
     (''/aleph.v1.AgentService/ListAgents'', anyone),
     (''/aleph.v1.AgentService/ListModels'', anyone),
     (''/aleph.v1.SkillService/ListSkills'', anyone),
     (''/aleph.v1.SkillService/CreateSkill'', users),
     (''/aleph.v1.SkillService/UpdateSkill'', users),
     (''/aleph.v1.SkillService/DeleteSkill'', users),
     (''/aleph.v1.ToolService/ListTools'', anyone),
     (''/aleph.v1.ToolService/CreateTool'', users),
     (''/aleph.v1.ToolService/UpdateTool'', users),
     (''/aleph.v1.ToolService/DeleteTool'', users),
     (''/aleph.v1.LibraryService/ListAssets'', anyone),
     (''/aleph.v1.LibraryService/GetAssetContent'', anyone),
     (''/aleph.v1.LibraryService/DeleteAsset'', users),
     (''/aleph.v1.LibraryService/GeneratePdf'', anyone),
     (''/aleph.v1.LibraryService/UploadAsset'', users),
     (''/aleph.v1.QueryService/ExecuteQuery'', anyone),
     (''/aleph.v1.QueryService/Chat'', anyone),
     (''/aleph.v1.QueryService/GetChatHistory'', anyone),
     (''/aleph.v1.QueryService/GetDataStats'', anyone),
     (''/aleph.v1.QueryService/ConfirmAction'', users),
     (''/aleph.v1.QueryService/GlobalQuery'', anyone),
     (''/aleph.v1.QueryService/GetDataLineage'', anyone),
     (''/aleph.v1.QueryService/GetChecksum'', anyone),
     (''/aleph.v1.IngestionService/RunTask'', users),
     (''/aleph.v1.IngestionService/CreateTask'', users),
     (''/aleph.v1.IngestionService/DeleteTask'', users),
     (''/aleph.v1.IngestionService/ListTasks'', anyone),
     (''/aleph.v1.IngestionService/GetTaskLogs'', anyone),
     (''/aleph.v1.IngestionService/GetProgress'', anyone),
     (''/aleph.v1.NotificationService/ListChannels'', anyone),
     (''/aleph.v1.NotificationService/SendWebhook'', users),
     (''/aleph.registry.v1.RegistryService/RegisterComponent'', users),
     (''/aleph.registry.v1.RegistryService/GetComponent'', anyone),
     (''/aleph.registry.v1.RegistryService/ListComponents'', anyone),
     (''/aleph.registry.v1.RegistryService/UpdateComponentStatus'', users),
     (''/aleph.tool.v1.SandboxService/ExecuteTool'', users),
     (''/aleph.tool.v1.SandboxService/RunSkill'', users),
     (''/aleph.nlp.v1.NLPService/AnalyzeSentiment'', users),
     (''/aleph.nlp.v1.NLPService/ExtractEntities'', users)]"

definition roleRank :: "Role \<Rightarrow> nat" where
  "roleRank r =
    (if r = RoleAdmin then 3 else if r = RoleUser then 2 else if r = RoleReadOnly then 1 else 0)"

definition checkProcedureRBAC :: "string \<Rightarrow> Role \<Rightarrow> auth_error option" where
  "checkProcedureRBAC procedure role =
    (case map_of procedureRBAC procedure of
       None \<Rightarrow> None
     | Some rbac \<Rightarrow>
         if adminOnly rbac \<and> role \<noteq> RoleAdmin then Some ErrForbidden
         else if roleRank role < roleRank (minRole rbac) then Some ErrForbidden
         else None)"

definition extractApiKey :: "header \<Rightarrow> string" where
  "extractApiKey h =
    (let key = Header_Get h ''X-Aleph-Api-Key''; authH = Header_Get h ''Authorization'' in
     if key \<noteq> [] then key else if authH \<noteq> [] then TrimPrefix authH ''Bearer '' else [])"

definition authenticate :: "auth_env \<Rightarrow> AuthInterceptor \<Rightarrow> nanos \<Rightarrow> header \<Rightarrow> auth_error + string \<times> Role" where
  "authenticate env a now h =
    (let tokenStr = jwtFromCookie h; apiKey = extractApiKey h in
     if tokenStr \<noteq> [] then validateJWTWithRevocation env now tokenStr (jwtSecret a) (revocationStore a)
     else if apiKey \<noteq> [] then ValidateAPIKey env apiKey
     else Inl ErrNoAPIKey)"

datatype connect_code = CodeUnauthenticated | CodePermissionDenied

definition authSkipSet :: "string list" where "authSkipSet = []"

definition WrapUnary_auth ::
  "auth_env \<Rightarrow> AuthInterceptor \<Rightarrow> nanos \<Rightarrow> string \<Rightarrow> header \<Rightarrow> auth_ctx \<Rightarrow> (connect_code \<times> auth_error) + auth_ctx" where
  "WrapUnary_auth env a now procedure h ctx =
    (if procedure \<in> set authSkipSet then Inr ctx
     else case authenticate env a now h of
            Inl err \<Rightarrow> Inl (CodeUnauthenticated, err)
          | Inr (projectID, role) \<Rightarrow>
              (case checkProcedureRBAC procedure role of
                 Some err \<Rightarrow> Inl (CodePermissionDenied, err)
               | None \<Rightarrow> Inr (projectIDToContext ctx projectID role)))"

definition WrapStreamingHandler_auth ::
  "auth_env \<Rightarrow> AuthInterceptor \<Rightarrow> nanos \<Rightarrow> string \<Rightarrow> header \<Rightarrow> auth_ctx \<Rightarrow> (connect_code \<times> auth_error) + auth_ctx" where
  "WrapStreamingHandler_auth env a now procedure h ctx =
    (if procedure \<in> set authSkipSet then Inr ctx
     else case authenticate env a now h of
            Inl err \<Rightarrow> Inl (CodeUnauthenticated, err)
          | Inr (projectID, role) \<Rightarrow>
              (let ctx' = projectIDToContext ctx projectID role in
               case checkProcedureRBAC procedure role of
                 Some err \<Rightarrow> Inl (CodePermissionDenied, err)
               | None \<Rightarrow> Inr ctx'))"

definition ValidateScopes :: "string \<Rightarrow> string \<Rightarrow> bool" where
  "ValidateScopes required tokenScopes =
    (if required = [] then True
     else
       (let scopeSet = map TrimSpace (Split tokenScopes (CHR '','')) in
        list_all (\<lambda>r. TrimSpace r = [] \<or> TrimSpace r \<in> set scopeSet) (Split required (CHR '',''))))"

end
