(* ===== verification/Auth_Facts.thy ===== *)
theory Auth_Facts
  imports Auth
begin

text \<open>
  What authentication guarantees: key hashes and session tokens survive their round trips,
  revoked tokens stay rejected, administrative procedures are reached by administrators only;
  and what it lets through: every key with one of two prefixes.
\<close>

section \<open>Key hashes\<close>

lemma no_dollar_b64: "CHR ''$'' \<notin> set (b64_encode std_char False s)"
proof
  assume "CHR ''$'' \<in> set (b64_encode std_char False s)"
  then obtain n where "sextet_char (CHR ''+'') (CHR ''/'') n = CHR ''$''"
    using std64.set_encode_raw by (metis imageE)
  then show False using sextet_char_plain [of "CHR ''$''" "CHR ''+''" "CHR ''/''" n] by (simp add: byte_class_defs)
qed

lemma no_dollar_show_nat: "CHR ''$'' \<notin> set (show_nat n)"
  using show_nat_digits [of n] by (auto simp: list_all_iff is_digit_def code_def)

lemma Split_hash:
  assumes "HashAPIKey IDKey (Some salt) key = Inr enc"
  shows "\<exists>params. Split enc (CHR ''$'') =
    [[], ''argon2id'', ''v='' @ show_nat argonVersion, params, b64_encode std_char False salt,
     b64_encode std_char False (IDKey key salt argonTime argonMemory argonThreads argonKeyLen)]"
proof -
  define params where
    "params = ''m='' @ show_nat argonMemory @ '',t='' @ show_nat argonTime @ '',p='' @ show_nat argonThreads"
  define v where "v = ''v='' @ show_nat argonVersion"
  have "CHR ''$'' \<notin> set params" "CHR ''$'' \<notin> set v" by (auto simp: params_def v_def no_dollar_show_nat)
  moreover have "enc = CHR ''$'' # ''argon2id'' @ CHR ''$'' # v @ CHR ''$'' # params @ CHR ''$'' #
      b64_encode std_char False salt @ CHR ''$'' #
      b64_encode std_char False (IDKey key salt argonTime argonMemory argonThreads argonKeyLen)"
    using assms by (simp add: HashAPIKey_def params_def v_def Let_def)
  moreover have "CHR ''$'' \<notin> set ''argon2id''" by simp
  ultimately show ?thesis
    by (simp only: Split_append_sep no_dollar_b64 Split.simps Split_id v_def simp_thms if_True) blast
qed

text \<open>C20. A stored key hash accepts exactly the keys with the same argon2id value. Verifying a key against the
  hash that was produced for a key never fails with a format error, and succeeds if and only if
  the two keys give the same value under the stored salt; in particular the key itself is
  accepted.\<close>

theorem VerifyAPIKey_HashAPIKey:
  assumes "HashAPIKey IDKey (Some salt) key = Inr enc"
  shows "VerifyAPIKey IDKey key' enc =
    Inr (IDKey key' salt argonTime argonMemory argonThreads argonKeyLen
         = IDKey key salt argonTime argonMemory argonThreads argonKeyLen)"
  using Split_hash [OF assms] by (auto simp: VerifyAPIKey_def std64.decode_encode Let_def numeral_eq_Suc)

theorem VerifyAPIKey_HashAPIKey_witness:
  "\<exists>enc. HashAPIKey (\<lambda>k s _ _ _ _. k @ s) (Some ''salt'') ''user-key'' = Inr enc
    \<and> VerifyAPIKey (\<lambda>k s _ _ _ _. k @ s) ''user-key'' enc = Inr True
    \<and> VerifyAPIKey (\<lambda>k s _ _ _ _. k @ s) ''other-key'' enc = Inr False"
proof -
  obtain enc where enc: "HashAPIKey (\<lambda>k s _ _ _ _. k @ s) (Some ''salt'') ''user-key'' = Inr enc"
    by (simp add: HashAPIKey_def Let_def)
  show ?thesis using enc VerifyAPIKey_HashAPIKey [OF enc, of "''user-key''"] VerifyAPIKey_HashAPIKey [OF enc, of "''other-key''"]
    by auto
qed

section \<open>Session tokens\<close>

text \<open>The claims \<^verbatim>\<open>GenerateToken\<close> signs.\<close>

definition issued :: "(nanos \<Rightarrow> nanos) \<Rightarrow> nanos \<Rightarrow> nanos \<Rightarrow> string \<Rightarrow> SessionToken \<Rightarrow> SessionToken" where
  "issued NewNumericDate now ttl jti claims =
    claims\<lparr>Issuer := JWTIssuer, Subject := UserID claims, Audience := [JWTAudience],
           ExpiresAt := NewNumericDate (now + (if ttl \<le> 0 then JWTTTL else ttl)), NotBefore := NewNumericDate now,
           IssuedAt := NewNumericDate now, TokenID := jti\<rparr>"

lemma GenerateToken_issued:
  assumes "GenerateToken SignedString NewNumericDate now entropy claims secret ttl = Inr token"
  obtains jti where "generateJTI entropy = Some jti" "secret \<noteq> []"
    "SignedString (issued NewNumericDate now ttl jti claims) secret = Some token"
  using assms by (auto simp: GenerateToken_def issued_def Let_def split: if_splits option.splits)

lemma generateJTI_nonempty: "generateJTI (Some b) = Some jti \<Longrightarrow> b \<noteq> [] \<Longrightarrow> jti \<noteq> []"
  by (cases b) (auto simp: generateJTI_def)

lemma validateClaims_issued:
  "validateClaims (issued D now ttl jti claims) =
    (if UserID claims = [] then Some ErrMissingSubject else if jti = [] then Some ErrMissingTokenID else None)"
  by (simp add: validateClaims_def issued_def)

text \<open>
  What the JWT library documents of a token it signed, for one set of claims: with the secret that signed it, the token is parsed to these claims
  from \<^verbatim>\<open>nbf\<close> on until \<^verbatim>\<open>exp\<close>, and refused at any other time. It is asked of claims that were issued only: their dates are whole seconds, which is
  what the library writes, and their issuer and audience are the expected ones.
\<close>

definition parses_back :: "(SessionToken \<Rightarrow> string \<Rightarrow> string option) \<Rightarrow> jwt_parser \<Rightarrow> string \<Rightarrow> SessionToken \<Rightarrow> bool" where
  "parses_back SignedString ParseWithClaims secret c \<longleftrightarrow>
    (\<forall>token t. SignedString c secret = Some token \<longrightarrow>
       ParseWithClaims t token (hmac_only secret) JWTIssuer JWTAudience = (if NotBefore c \<le> t \<and> t < ExpiresAt c then Some (c, True) else None))"

text \<open>A fresh session token is accepted and gives its claims back: a token generated for a user is validated by
  the same secret at any time in its lifetime, with the claims it was generated from; a token generated
  without a user is refused.\<close>

theorem token_round_trip:
  assumes lib: "\<And>jti. generateJTI (Some entropy) = Some jti \<Longrightarrow>
      parses_back SignedString ParseWithClaims secret (issued NewNumericDate now ttl jti claims)"
    and gen: "GenerateToken SignedString NewNumericDate now (Some entropy) claims secret ttl = Inr token"
    and live: "NewNumericDate now \<le> now'" "now' < NewNumericDate (now + (if ttl \<le> 0 then JWTTTL else ttl))"
    and "entropy \<noteq> []"
  shows "\<exists>jti. ValidateToken ParseWithClaims now' token secret =
    (if UserID claims = [] then Inl ErrMissingSubject else Inr (issued NewNumericDate now ttl jti claims))"
proof -
  obtain jti where jti: "generateJTI (Some entropy) = Some jti" and s: "secret \<noteq> []"
    and sign: "SignedString (issued NewNumericDate now ttl jti claims) secret = Some token"
    using GenerateToken_issued [OF gen] .
  have "ParseWithClaims now' token (hmac_only secret) JWTIssuer JWTAudience
      = Some (issued NewNumericDate now ttl jti claims, True)"
    using lib [OF jti] sign live unfolding parses_back_def by (simp add: issued_def)
  then show ?thesis
    using s generateJTI_nonempty [OF jti assms(5)] by (auto simp: ValidateToken_def validateClaims_issued)
qed

definition sample_claims :: SessionToken where
  "sample_claims = \<lparr>UserID = ''u1'', ProjectID = ''p1'', TokenRole = ''user'', Scopes = [], Issuer = [], Subject = [],
    Audience = [], ExpiresAt = 0, NotBefore = 0, IssuedAt = 0, TokenID = []\<rparr>"

text \<open>A library that signs the sessions of one user: the token is the second it was issued at and its identifier, and dates are cut to seconds.\<close>

definition whole_second :: "nanos \<Rightarrow> nanos" where
  "whole_second t = t - t mod second"

definition sign_for :: "nanos \<Rightarrow> SessionToken \<Rightarrow> SessionToken \<Rightarrow> string \<Rightarrow> string option" where
  "sign_for ttl claims c secret =
    (let n = nat (IssuedAt c div second) in
     if c = issued whole_second (int n * second) ttl (TokenID c) claims then Some (show_nat n @ CHR ''.'' # TokenID c) else None)"

definition parse_for :: "nanos \<Rightarrow> SessionToken \<Rightarrow> jwt_parser" where
  "parse_for ttl claims now tok kf iss aud =
    (let n = read_nat (takeWhile (\<lambda>ch. ch \<noteq> CHR ''.'') tok); jti = tl (dropWhile (\<lambda>ch. ch \<noteq> CHR ''.'') tok);
         c = issued whole_second (int n * second) ttl jti claims in
     if NotBefore c \<le> now \<and> now < ExpiresAt c then Some (c, True) else None)"

lemma parse_for_law: "parses_back (sign_for ttl claims) (parse_for ttl claims) secret c"
  unfolding parses_back_def
proof (intro allI impI)
  fix token t assume sign: "sign_for ttl claims c secret = Some token"
  define n where "n = nat (IssuedAt c div second)"
  have c: "issued whole_second (int n * second) ttl (TokenID c) claims = c" and tok: "token = show_nat n @ CHR ''.'' # TokenID c"
    using sign by (auto simp: sign_for_def n_def Let_def split: if_splits)
  have "ch \<noteq> CHR ''.''" if "ch \<in> set (show_nat n)" for ch
    using that show_nat_digits [of n] by (auto simp: list_all_iff is_digit_def code_def)
  then have "takeWhile (\<lambda>ch. ch \<noteq> CHR ''.'') token = show_nat n" "dropWhile (\<lambda>ch. ch \<noteq> CHR ''.'') token = CHR ''.'' # TokenID c"
    by (simp_all add: tok takeWhile_append2 dropWhile_append2)
  then show "parse_for ttl claims t token (hmac_only secret) JWTIssuer JWTAudience = (if NotBefore c \<le> t \<and> t < ExpiresAt c then Some (c, True) else None)"
    by (simp add: parse_for_def c)
qed

definition sample_token :: SessionToken where
  "sample_token = issued whole_second 0 minute ''61'' sample_claims"

definition sample_sign :: "SessionToken \<Rightarrow> string \<Rightarrow> string option" where
  "sample_sign = sign_for minute sample_claims"

definition sample_parse :: jwt_parser where
  "sample_parse = parse_for minute sample_claims"

lemma sample_jti: "generateJTI (Some ''a'') = Some ''61''"
proof -
  have "char_of (54::nat) = CHR ''6''" "char_of (49::nat) = CHR ''1''"
    by (rule code_eqI, simp, simp add: code_def)+
  then show ?thesis
    by (simp add: generateJTI_def hex_digit_def) (simp add: code_def)
qed

lemma sample_generate:
  "GenerateToken sample_sign whole_second 0 (Some ''a'') sample_claims ''k'' minute = Inr ''0.61''"
proof -
  have "show_nat 0 = ''0''" by code_simp
  then have "sign_for minute sample_claims (issued whole_second 0 minute ''61'' sample_claims) ''k'' = Some ''0.61''"
    by (simp add: sign_for_def issued_def whole_second_def)
  then show ?thesis by (simp add: GenerateToken_def sample_jti sample_sign_def issued_def minute_def second_def)
qed

theorem token_round_trip_witness:
  "\<exists>jti. ValidateToken sample_parse 5 ''0.61'' ''k'' = Inr (issued whole_second 0 minute jti sample_claims)"
proof -
  have "\<exists>jti. ValidateToken sample_parse 5 ''0.61'' ''k'' =
      (if UserID sample_claims = [] then Inl ErrMissingSubject else Inr (issued whole_second 0 minute jti sample_claims))"
    by (rule token_round_trip [OF _ sample_generate])
      (auto simp: sample_sign_def sample_parse_def parse_for_law whole_second_def minute_def second_def)
  then show ?thesis by (simp add: sample_claims_def)
qed

section \<open>Revocation\<close>

datatype revocation_event = RevokeAt nanos string | CleanupAt nanos

fun revocation_time :: "revocation_event \<Rightarrow> nanos" where
  "revocation_time (RevokeAt t _) = t"
| "revocation_time (CleanupAt t) = t"

fun revocation_step :: "TokenRevocationStore \<Rightarrow> revocation_event \<Rightarrow> TokenRevocationStore" where
  "revocation_step s (RevokeAt t jti) = Revoke t jti s"
| "revocation_step s (CleanupAt t) = revocation_cleanup t s"

lemma rev_ttl_step [simp]: "rev_ttl (revocation_step s ev) = rev_ttl s"
  by (cases ev) (auto simp: Revoke_def revocation_cleanup_def)

lemma rev_ttl_run [simp]: "rev_ttl (foldl revocation_step s evs) = rev_ttl s"
  by (induction evs arbitrary: s) auto

text \<open>A revocation is only forgotten after the store's time to live.\<close>

lemma revocation_kept:
  assumes "\<exists>x \<ge> r. revoked s jti = Some x" "\<forall>ev \<in> set evs. r \<le> revocation_time ev \<and> revocation_time ev \<le> now"
  shows "IsRevoked (foldl revocation_step s evs) jti \<or> now - r > rev_ttl s"
proof -
  have "(\<exists>x \<ge> r. revoked (foldl revocation_step s evs) jti = Some x) \<or> now - r > rev_ttl s"
    using assms
  proof (induction evs rule: rev_induct)
    case (snoc ev evs)
    let ?s = "foldl revocation_step s evs"
    have IH: "(\<exists>x \<ge> r. revoked ?s jti = Some x) \<or> now - r > rev_ttl s" using snoc by simp
    show ?case
    proof (cases ev)
      case (RevokeAt t j)
      then show ?thesis using IH snoc.prems(2) by (auto simp: Revoke_def)
    next
      case (CleanupAt t)
      then have "t \<le> now" using snoc.prems(2) by simp
      then show ?thesis using IH CleanupAt by (auto simp: revocation_cleanup_def)
    qed
  qed simp
  then show ?thesis by (auto simp: IsRevoked_def)
qed

text \<open>C10. A revoked session stays rejected. If a token's lifetime is positive and does not exceed the time the revocation
  list keeps its entries, and the JWT library parses this token to the claims it was issued for, until it expires, then from the moment its id is revoked the interceptor rejects it for
  good, whatever other revocations and clean-ups happen: as long as it has not expired its id is
  still listed.\<close>

theorem revoked_token_rejected:
  assumes lib: "parses_back SignedString (env_ParseWithClaims env) (jwtSecret a) (issued NewNumericDate issuedAt ttl jti claims)"
    and trunc: "NewNumericDate (issuedAt + ttl) \<le> issuedAt + ttl"
    and gen: "GenerateToken SignedString NewNumericDate issuedAt entropy claims (jwtSecret a) ttl = Inr token"
    and jti: "generateJTI entropy = Some jti"
    and ttl: "0 < ttl" "ttl \<le> rev_ttl s"
    and evs: "issuedAt \<le> r" "\<forall>ev \<in> set evs. r \<le> revocation_time ev \<and> revocation_time ev \<le> now"
    and store: "revocationStore a = Some (foldl revocation_step (Revoke r jti s) evs)"
    and cookie: "jwtFromCookie h = token" "token \<noteq> []"
  shows "\<exists>err. authenticate env a now h = Inl err"
proof (cases "ValidateToken (env_ParseWithClaims env) now token (jwtSecret a)")
  case (Inl err)
  then show ?thesis using cookie by (simp add: authenticate_def validateJWTWithRevocation_def)
next
  case (Inr c)
  then obtain v where parse: "env_ParseWithClaims env now token (hmac_only (jwtSecret a)) JWTIssuer JWTAudience = Some (c, v)"
    by (auto simp: ValidateToken_def split: if_splits option.splits prod.splits)
  have sign: "SignedString (issued NewNumericDate issuedAt ttl jti claims) (jwtSecret a) = Some token"
    using GenerateToken_issued [OF gen] jti by auto
  have c: "c = issued NewNumericDate issuedAt ttl jti claims" "now < ExpiresAt c"
    using lib sign parse unfolding parses_back_def by (auto split: if_splits)
  then have "now < issuedAt + ttl" using trunc ttl(1) by (simp add: issued_def)
  then have "IsRevoked (foldl revocation_step (Revoke r jti s) evs) jti"
    using revocation_kept [of r "Revoke r jti s" jti evs now] ttl evs by (auto simp: Revoke_def)
  then show ?thesis
    using Inr c cookie store by (simp add: authenticate_def validateJWTWithRevocation_def issued_def)
qed

definition sample_env :: auth_env where
  "sample_env = \<lparr>env_backendKey = ''backend-secret'', env_GetAPIKeyByID = (\<lambda>_. None),
    env_IDKey = (\<lambda>k s _ _ _ _. k @ s), env_ParseWithClaims = sample_parse\<rparr>"

definition sample_cookie :: header where
  "sample_cookie = [''Cookie'' \<mapsto> [''aleph_jwt=0.61'']]"

lemma sample_cookie_jwt: "jwtFromCookie sample_cookie = ''0.61''"
  by (simp add: jwtFromCookie_def sample_cookie_def Header_Values_def TrimSpace_def TrimLeftFunc_def TrimRightFunc_def
      is_space_def code_def TrimPrefix_def)

definition sample_revoked :: AuthInterceptor where
  "sample_revoked = NewAuthInterceptorWithRevocation ''k''
    (Some (foldl revocation_step (Revoke 3 ''61'' (NewTokenRevocationStore (60 * minute))) [RevokeAt 4 ''x'', CleanupAt 5]))"

theorem revoked_token_rejected_witness:
  "\<exists>err. authenticate sample_env sample_revoked 6 sample_cookie = Inl err"
proof -
  have secret: "jwtSecret sample_revoked = ''k''"
    by (simp add: sample_revoked_def NewAuthInterceptorWithRevocation_def)
  have parse: "env_ParseWithClaims sample_env = sample_parse" by (simp add: sample_env_def)
  show ?thesis
  proof (rule revoked_token_rejected [where SignedString = sample_sign and NewNumericDate = whole_second and issuedAt = 0
        and ttl = minute and token = "''0.61''" and entropy = "Some ''a''" and claims = sample_claims and jti = "''61''"
        and r = 3 and s = "NewTokenRevocationStore (60 * minute)" and evs = "[RevokeAt 4 ''x'', CleanupAt 5]"])
    show "GenerateToken sample_sign whole_second 0 (Some ''a'') sample_claims (jwtSecret sample_revoked) minute = Inr ''0.61''"
      using sample_generate by (simp add: secret)
    show "generateJTI (Some ''a'') = Some ''61''" by (rule sample_jti)
    show "jwtFromCookie sample_cookie = ''0.61''" by (rule sample_cookie_jwt)
    show "revocationStore sample_revoked = Some (foldl revocation_step
        (Revoke 3 ''61'' (NewTokenRevocationStore (60 * minute))) [RevokeAt 4 ''x'', CleanupAt 5])"
      by (simp add: sample_revoked_def NewAuthInterceptorWithRevocation_def)
    show "parses_back sample_sign (env_ParseWithClaims sample_env) (jwtSecret sample_revoked) (issued whole_second 0 minute ''61'' sample_claims)"
      unfolding parse sample_sign_def sample_parse_def by (rule parse_for_law)
  qed (simp_all add: NewTokenRevocationStore_def whole_second_def minute_def second_def)
qed

lemma ValidateAPIKey_error: "ValidateAPIKey env key = Inl err \<Longrightarrow> err = ErrInvalidAPIKey"
  by (auto simp: ValidateAPIKey_def split: if_splits option.splits sum.splits bool.splits)

text \<open>The HTTP routes ignore revocation. A session that the RPC interceptor rejects because it was revoked is
  accepted by the middleware of the HTTP routes, which never consults the revocation list.\<close>

theorem revoked_token_accepted_over_http:
  assumes "authenticate env a now h = Inl TokenRevoked"
  shows "\<exists>projectID role. AuthMiddleware env now (jwtSecret a) h ctx = Inr (projectIDToContext ctx projectID role)"
proof -
  have "jwtFromCookie h \<noteq> []"
    using assms ValidateAPIKey_error [of env "extractApiKey h"] by (auto simp: authenticate_def Let_def split: if_splits)
  moreover from this obtain claims where
    "ValidateToken (env_ParseWithClaims env) now (jwtFromCookie h) (jwtSecret a) = Inr claims"
    using assms by (auto simp: authenticate_def validateJWTWithRevocation_def split: sum.splits)
  ultimately show ?thesis by (auto simp: AuthMiddleware_def authenticateHTTP_def validateJWT_def)
qed

theorem revoked_token_accepted_over_http_witness:
  "\<exists>projectID role. AuthMiddleware sample_env 6 (jwtSecret sample_revoked) sample_cookie \<lparr>ctx_projectID = None, ctx_role = None\<rparr>
    = Inr (projectIDToContext \<lparr>ctx_projectID = None, ctx_role = None\<rparr> projectID role)"
proof -
  have "parse_for minute sample_claims 6 ''0.61'' (hmac_only ''k'') JWTIssuer JWTAudience = Some (sample_token, True)"
    by (simp add: parse_for_def sample_token_def read_nat_def digit_val_def code_def)
      (simp add: issued_def whole_second_def minute_def second_def)
  then have "ValidateToken sample_parse 6 ''0.61'' ''k'' = Inr sample_token"
    by (simp add: ValidateToken_def sample_parse_def sample_token_def validateClaims_issued) (simp add: sample_claims_def)
  moreover have "TokenID sample_token = ''61''" by (simp add: sample_token_def issued_def)
  ultimately have "authenticate sample_env sample_revoked 6 sample_cookie = Inl TokenRevoked"
    by (simp add: authenticate_def validateJWTWithRevocation_def sample_cookie_jwt sample_revoked_def sample_env_def
        NewAuthInterceptorWithRevocation_def NewTokenRevocationStore_def Revoke_def revocation_cleanup_def IsRevoked_def
        minute_def second_def)
  then show ?thesis by (rule revoked_token_accepted_over_http)
qed

section \<open>Roles\<close>

text \<open>C4. Administrative procedures are reached by administrators only. When a call of a procedure of the
  table's administrator group reaches its handler, the context carries the administrator
  role, and it came from a valid unrevoked token with that role, from the backend key, or from a
  stored key with that role whose hash verifies.\<close>

theorem admin_procedures_need_admin:
  assumes "map_of procedureRBAC procedure = Some rbac" "adminOnly rbac"
    and "WrapUnary_auth env a now procedure h ctx = Inr ctx'"
  shows "IsAdmin ctx' \<and>
    ((\<exists>claims. ValidateToken (env_ParseWithClaims env) now (jwtFromCookie h) (jwtSecret a) = Inr claims
        \<and> TokenRole claims = RoleAdmin
        \<and> (\<forall>s. revocationStore a = Some s \<longrightarrow> \<not> IsRevoked s (TokenID claims)))
     \<or> extractApiKey h = env_backendKey env
     \<or> (\<exists>hash projectID. env_GetAPIKeyByID env (take 8 (extractApiKey h)) = Some (hash, projectID, RoleAdmin)
        \<and> VerifyAPIKey (env_IDKey env) (extractApiKey h) hash = Inr True))"
proof -
  obtain projectID role where au: "authenticate env a now h = Inr (projectID, role)"
    and rb: "checkProcedureRBAC procedure role = None" and ctx': "ctx' = projectIDToContext ctx projectID role"
    using assms(3) by (auto simp: WrapUnary_auth_def authSkipSet_def split: sum.splits option.splits)
  have role: "role = RoleAdmin" using rb assms(1,2) by (auto simp: checkProcedureRBAC_def split: if_splits)
  have neq: "RoleAdmin \<noteq> RoleUser" "RoleAdmin \<noteq> RoleReadOnly" "RoleAdmin \<noteq> []"
    by (simp_all add: RoleAdmin_def RoleUser_def RoleReadOnly_def)
  have admin: "IsAdmin ctx'" by (simp add: ctx' role IsAdmin_def RoleFromContext_def projectIDToContext_def)
  show ?thesis
  proof (cases "jwtFromCookie h = []")
    case False
    then show ?thesis using au role neq admin
      by (auto simp: authenticate_def validateJWTWithRevocation_def split: sum.splits if_splits option.splits)
  next
    case True
    then have "ValidateAPIKey env (extractApiKey h) = Inr (projectID, RoleAdmin)"
      using au role by (auto simp: authenticate_def Let_def split: if_splits)
    then show ?thesis using neq admin
      by (auto simp: ValidateAPIKey_def bootstrapRole_def roleFromEnvImpl_def
          split: if_splits option.splits sum.splits bool.splits)
  qed
qed

definition key_header :: "string \<Rightarrow> header" where
  "key_header key = [''X-Aleph-Api-Key'' \<mapsto> [key]]"

lemma key_header_simps [simp]:
  "jwtFromCookie (key_header key) = []" "extractApiKey (key_header key) = key"
  by (simp_all add: key_header_def jwtFromCookie_def extractApiKey_def Header_Values_def Header_Get_def Let_def)

theorem admin_procedures_need_admin_witness:
  "IsAdmin (projectIDToContext \<lparr>ctx_projectID = None, ctx_role = None\<rparr> ''bootstrap'' RoleAdmin)"
proof -
  have rbac: "map_of procedureRBAC ''/aleph.v1.AuthService/CreateApiKey'' = Some admins"
    by (simp add: procedureRBAC_def)
  have "WrapUnary_auth sample_env (NewAuthInterceptor ''k'') 0 ''/aleph.v1.AuthService/CreateApiKey''
      (key_header ''backend-secret'') \<lparr>ctx_projectID = None, ctx_role = None\<rparr>
    = Inr (projectIDToContext \<lparr>ctx_projectID = None, ctx_role = None\<rparr> ''bootstrap'' RoleAdmin)"
    by (simp add: WrapUnary_auth_def authSkipSet_def authenticate_def ValidateAPIKey_def bootstrapRole_def sample_env_def
        checkProcedureRBAC_def rbac roleRank_def RoleAdmin_def RoleUser_def RoleReadOnly_def)
  from admin_procedures_need_admin [OF rbac _ this] show ?thesis by simp
qed

lemma roleRank_user: "roleRank RoleUser = 2"
  by (simp add: roleRank_def RoleAdmin_def RoleUser_def)

lemma rbac_minRole: "map_of procedureRBAC procedure = Some rbac \<Longrightarrow> roleRank (minRole rbac) \<le> 2"
proof -
  have "list_all (\<lambda>(_, r). roleRank (minRole r) \<le> 2) procedureRBAC"
    by (simp add: procedureRBAC_def roleRank_def RoleAdmin_def RoleUser_def RoleReadOnly_def)
  then show "roleRank (minRole rbac) \<le> 2" if "map_of procedureRBAC procedure = Some rbac"
    using map_of_SomeD [OF that] by (auto simp: list_all_iff)
qed

text \<open>C25. A made-up key with the prefix of user keys is accepted. Any string of at least eight bytes that starts with
  \<^verbatim>\<open>user_\<close>, other than the backend key, passes the interceptor as a user of the project \<^verbatim>\<open>bootstrap\<close> for every procedure
  outside the administrator group, without a lookup in the database and without a hash check.\<close>

theorem prefixed_key_accepted:
  assumes "length s \<ge> 3" "''user_'' @ s \<noteq> env_backendKey env"
    and "\<forall>rbac. map_of procedureRBAC procedure = Some rbac \<longrightarrow> \<not> adminOnly rbac"
  shows "WrapUnary_auth env a now procedure (key_header (''user_'' @ s)) ctx
    = Inr (projectIDToContext ctx ''bootstrap'' RoleUser)"
proof -
  have "checkProcedureRBAC procedure RoleUser = None"
    using assms(3) rbac_minRole [of procedure]
    by (auto simp: checkProcedureRBAC_def roleRank_user split: option.splits)
  moreover have "bootstrapRole (env_backendKey env) (''user_'' @ s) = RoleUser"
    using assms(2) by (auto simp: bootstrapRole_def)
  ultimately show ?thesis
    using assms(1) by (simp add: WrapUnary_auth_def authSkipSet_def authenticate_def ValidateAPIKey_def RoleUser_def)
qed

theorem prefixed_key_accepted_witness:
  "WrapUnary_auth sample_env (NewAuthInterceptor ''k'') 0 ''/aleph.tool.v1.SandboxService/ExecuteTool''
     (key_header (''user_'' @ ''xyz'')) \<lparr>ctx_projectID = None, ctx_role = None\<rparr>
   = Inr (projectIDToContext \<lparr>ctx_projectID = None, ctx_role = None\<rparr> ''bootstrap'' RoleUser)"
proof (rule prefixed_key_accepted)
  show "\<forall>rbac. map_of procedureRBAC ''/aleph.tool.v1.SandboxService/ExecuteTool'' = Some rbac \<longrightarrow> \<not> adminOnly rbac"
    by (simp add: procedureRBAC_def)
qed (simp_all add: sample_env_def)

end
