(* ===== verification/Interceptors.thy ===== *)
theory Interceptors
  imports Rate_Limit Go_Url
begin

text \<open>
  The remaining request guards of \<^verbatim>\<open>internal/middleware\<close>: retry with exponential backoff
  (\<^verbatim>\<open>retry.go\<close>), bulkheads (\<^verbatim>\<open>bulkhead.go\<close>), subsystem annotation (\<^verbatim>\<open>subsystem.go\<close>), cross-origin
  headers (\<^verbatim>\<open>cors.go\<close>) and the origin check of mutating requests (\<^verbatim>\<open>csrf.go\<close>).
\<close>

section \<open>Retry\<close>

text \<open>
  An error as \<^verbatim>\<open>ShouldRetry\<close> inspects it: whether its chain holds a context error or a network
  error, the code of a Connect error in it, and its text.
\<close>

record go_error =
  err_context :: bool
  err_net :: bool
  err_code :: "nat option"
  err_text :: string

definition CodeInvalidArgument :: nat where "CodeInvalidArgument = 3"
definition CodeInternal :: nat where "CodeInternal = 13"
definition CodeDataLoss :: nat where "CodeDataLoss = 15"
definition CodeUnauthenticated_num :: nat where "CodeUnauthenticated_num = 16"

definition ShouldRetry :: "go_error option \<Rightarrow> bool" where
  "ShouldRetry err =
    (case err of
       None \<Rightarrow> False
     | Some e \<Rightarrow>
         if err_context e then True
         else if err_net e then True
         else if (case err_code e of Some c \<Rightarrow> CodeInternal \<le> c \<and> c \<le> CodeDataLoss | None \<Rightarrow> False) then True
         else if (case err_code e of Some c \<Rightarrow> CodeInvalidArgument \<le> c \<and> c \<le> CodeUnauthenticated_num | None \<Rightarrow> False)
           then False
         else Contains (err_text e) ''status code 5'')"

record RetryConfig =
  MaxRetries :: int
  InitialDelay :: nanos
  MaxDelay :: nanos
  JitterFactor :: real

definition DefaultRetryConfig :: RetryConfig where
  "DefaultRetryConfig =
    \<lparr>MaxRetries = 3, InitialDelay = 497 * millisecond, MaxDelay = 5 * second, JitterFactor = 1 / 10\<rparr>"

text \<open>A duration is a 64-bit integer: arithmetic on it wraps around.\<close>

definition wrap64 :: "int \<Rightarrow> int" where
  "wrap64 x = (x + 2 ^ 63) mod 2 ^ 64 - 2 ^ 63"

definition truncate :: "real \<Rightarrow> int" where
  "truncate x = (if 0 \<le> x then \<lfloor>x\<rfloor> else \<lceil>x\<rceil>)"

definition next_delay :: "RetryConfig \<Rightarrow> real \<Rightarrow> nanos \<Rightarrow> nanos" where
  "next_delay config rand delay =
    (let jittered = (if JitterFactor config > 0
                     then wrap64 (delay + truncate (rand * (of_int delay * JitterFactor config)))
                     else delay) in
     if jittered > MaxDelay config then MaxDelay config else jittered)"

text \<open>
  The operation's outcome, the random number and the state of the context may differ from
  attempt to attempt, so they are functions of the attempt's number. \<open>Done i\<close> is the context's
  error if it ends before the wait after attempt \<open>i\<close> does. The result pairs the returned value
  and error with the waits made; the value \<open>None\<close> is the zero value of the type. The first
  argument counts the attempts left after this one.
\<close>

fun retry_loop ::
  "nat \<Rightarrow> RetryConfig \<Rightarrow> (nat \<Rightarrow> go_error + 'a) \<Rightarrow> (nat \<Rightarrow> real) \<Rightarrow> (nat \<Rightarrow> go_error option)
    \<Rightarrow> nat \<Rightarrow> nanos \<Rightarrow> ('a option \<times> go_error option) \<times> nanos list" where
  "retry_loop 0 config op rand Done attempt delay =
    (case op attempt of
       Inr result \<Rightarrow> ((Some result, None), [])
     | Inl err \<Rightarrow> ((None, Some err), []))"
| "retry_loop (Suc left) config op rand Done attempt delay =
    (case op attempt of
       Inr result \<Rightarrow> ((Some result, None), [])
     | Inl err \<Rightarrow>
         if \<not> ShouldRetry (Some err) then ((None, Some err), [])
         else
           (let nextDelay = next_delay config (rand attempt) delay in
            case Done attempt of
              Some cerr \<Rightarrow> ((None, Some cerr), [])
            | None \<Rightarrow>
                (let (res, waits) = retry_loop left config op rand Done (Suc attempt) (wrap64 (delay * 2)) in
                 (res, nextDelay # waits))))"

definition Retry ::
  "RetryConfig \<Rightarrow> (nat \<Rightarrow> go_error + 'a) \<Rightarrow> (nat \<Rightarrow> real) \<Rightarrow> (nat \<Rightarrow> go_error option)
    \<Rightarrow> ('a option \<times> go_error option) \<times> nanos list" where
  "Retry config op rand Done =
    (if MaxRetries config < 0 then ((None, None), [])
     else retry_loop (nat (MaxRetries config)) config op rand Done 0 (InitialDelay config))"

section \<open>Bulkheads\<close>

record BulkheadConfig =
  QueryPoolSize :: int
  IngestionPoolSize :: int
  ChatPoolSize :: int

definition DefaultBulkheadConfig :: BulkheadConfig where
  "DefaultBulkheadConfig = \<lparr>QueryPoolSize = 20, IngestionPoolSize = 5, ChatPoolSize = 10\<rparr>"

text \<open>
  The pools are weighted semaphores of \<^verbatim>\<open>golang.org/x/sync\<close>, a type of the model's parameter;
  a pool is shared by every request of its domain.
\<close>

record 'sem BulkheadInterceptor =
  bh_config :: BulkheadConfig
  poolsByDomain :: "(string, 'sem) gomap"

definition NewBulkheadInterceptor :: "(int \<Rightarrow> 'sem) \<Rightarrow> BulkheadConfig option \<Rightarrow> 'sem BulkheadInterceptor" where
  "NewBulkheadInterceptor NewWeighted config =
    (let c = (case config of Some c \<Rightarrow> c | None \<Rightarrow> DefaultBulkheadConfig) in
     \<lparr>bh_config = c,
      poolsByDomain = [''query'' \<mapsto> NewWeighted (QueryPoolSize c), ''ingestion'' \<mapsto> NewWeighted (IngestionPoolSize c),
                       ''chat'' \<mapsto> NewWeighted (ChatPoolSize c)]\<rparr>)"

definition domainForProcedure :: "string \<Rightarrow> string" where
  "domainForProcedure procedure =
    (if Contains procedure ''QueryService'' \<or> Contains procedure ''ProjectService'' \<or>
        Contains procedure ''RegistryService'' \<or> Contains procedure ''LibraryService'' then ''query''
     else if Contains procedure ''IngestionService'' then ''ingestion''
     else if Contains procedure ''AgentService'' \<or> Contains procedure ''SkillService'' \<or>
        Contains procedure ''ToolService'' \<or> Contains procedure ''NLPService'' then ''chat''
     else '''')"

definition poolForProcedure :: "'sem BulkheadInterceptor \<Rightarrow> string \<Rightarrow> 'sem option" where
  "poolForProcedure b procedure = poolsByDomain b (domainForProcedure procedure)"

definition configForDomain :: "BulkheadConfig \<Rightarrow> string \<Rightarrow> int" where
  "configForDomain c domain =
    (if domain = ''query'' then QueryPoolSize c
     else if domain = ''ingestion'' then IngestionPoolSize c
     else if domain = ''chat'' then ChatPoolSize c
     else 0)"

definition Stats :: "'sem BulkheadInterceptor \<Rightarrow> (string, int) gomap" where
  "Stats b = (\<lambda>domain. if poolsByDomain b domain = None then None else Some (configForDomain (bh_config b) domain))"

text \<open>
  \<^verbatim>\<open>WrapUnary\<close> and \<^verbatim>\<open>WrapStreamingHandler\<close> share their guard. A call has two steps: it enters (a
  rejection is \<^verbatim>\<open>CodeUnavailable\<close> with the domain, otherwise the domain set in the context, empty when
  there is no pool), and on its way out it releases what it took.
\<close>

definition bulkhead_enter ::
  "('sem \<Rightarrow> bool \<times> 'sem) \<Rightarrow> string \<Rightarrow> 'sem BulkheadInterceptor \<Rightarrow> (string + string) \<times> 'sem BulkheadInterceptor" where
  "bulkhead_enter TryAcquire procedure b =
    (case poolForProcedure b procedure of
       None \<Rightarrow> (Inr '''', b)
     | Some pool \<Rightarrow>
         (let (ok, pool') = TryAcquire pool; domain = domainForProcedure procedure in
          if ok then (Inr domain, b\<lparr>poolsByDomain := (poolsByDomain b)(domain \<mapsto> pool')\<rparr>)
          else (Inl domain, b\<lparr>poolsByDomain := (poolsByDomain b)(domain \<mapsto> pool')\<rparr>)))"

definition bulkhead_leave ::
  "('sem \<Rightarrow> 'sem) \<Rightarrow> string \<Rightarrow> 'sem BulkheadInterceptor \<Rightarrow> 'sem BulkheadInterceptor" where
  "bulkhead_leave Release procedure b =
    (case poolForProcedure b procedure of
       None \<Rightarrow> b
     | Some pool \<Rightarrow> b\<lparr>poolsByDomain := (poolsByDomain b)(domainForProcedure procedure \<mapsto> Release pool)\<rparr>)"

section \<open>Subsystem annotation\<close>

definition procedureSubsystems :: "(string \<times> string) list" where
  "procedureSubsystems =
    [(''aleph.v1.QueryService/'', ''handler''), (''aleph.v1.ProjectService/'', ''handler''),
     (''aleph.v1.AgentService/'', ''handler''), (''aleph.v1.SkillService/'', ''handler''),
     (''aleph.v1.ToolService/'', ''handler''), (''aleph.v1.LibraryService/'', ''handler''),
     (''aleph.v1.NotificationService/'', ''handler''), (''aleph.v1.AuthService/'', ''handler''),
     (''aleph.v1.IngestionService/'', ''ingestion''), (''aleph.v1.SandboxService/'', ''sandbox''),
     (''aleph.registry.v1.RegistryService/'', ''handler''), (''aleph.nlp.v1.NLPService/'', ''nlp'')]"

definition procedureOperations :: "(string \<times> string) list" where
  "procedureOperations =
    [(''ExecuteQuery'', ''query''), (''GetChatHistory'', ''query''), (''ConfirmAction'', ''execute''),
     (''HealthCheck'', ''health''), (''CreateProject'', ''insert''), (''DeleteProject'', ''delete''),
     (''GetProject'', ''query''), (''ListProjects'', ''query''), (''CreateAgent'', ''insert''),
     (''UpdateAgent'', ''update''), (''DeleteAgent'', ''delete''), (''GetAgent'', ''query''),
     (''ListAgents'', ''query''), (''CreateSkill'', ''insert''), (''UpdateSkill'', ''update''),
     (''DeleteSkill'', ''delete''), (''GetSkill'', ''query''), (''ListSkills'', ''query''),
     (''InstallTool'', ''insert''), (''UninstallTool'', ''delete''), (''GetTool'', ''query''),
     (''ListTools'', ''query''), (''GetToolHealth'', ''health''), (''ExecuteTool'', ''execute''),
     (''Execute'', ''execute''), (''ListComponents'', ''query''), (''GetComponent'', ''query''),
     (''RegisterComponent'', ''insert''), (''UpdateComponentStatus'', ''update''), (''IngestFromRSS'', ''insert''),
     (''IngestFromGitHub'', ''insert''), (''IngestFromFile'', ''insert''), (''IngestFromSitemap'', ''insert''),
     (''IngestFromGoogleSheets'', ''insert''), (''IngestFromEmail'', ''insert''), (''IngestFromURL'', ''insert''),
     (''GetIngestionStatus'', ''query''), (''ListIngestions'', ''query''), (''StreamPredictions'', ''execute''),
     (''RecordFeedback'', ''insert''), (''AnalyzeSentiment'', ''execute'')]"

text \<open>
  The source ranges over a map in no fixed order and stops at the first prefix that matches;
  the order is the argument \<open>entries\<close>.
\<close>

definition deriveSubsystem_in :: "(string \<times> string) list \<Rightarrow> string \<Rightarrow> string \<times> string" where
  "deriveSubsystem_in entries procedure =
    (let path = TrimPrefix procedure ''/'';
         subsystem = (case find (\<lambda>(prefix, _). HasPrefix path prefix) entries of Some (_, sub) \<Rightarrow> sub | None \<Rightarrow> []);
         operation =
           (case LastIndexByte path (CHR ''/'') of
              None \<Rightarrow> []
            | Some idx \<Rightarrow>
                (let op = drop (idx + 1) path in
                 case map_of procedureOperations op of Some mapped \<Rightarrow> mapped | None \<Rightarrow> ToLower op)) in
     (subsystem, operation))"

definition deriveSubsystem :: "string \<Rightarrow> string \<times> string" where
  "deriveSubsystem = deriveSubsystem_in procedureSubsystems"

text \<open>\<^verbatim>\<open>WrapUnary\<close> and \<^verbatim>\<open>WrapStreamingHandler\<close>: what the context of the next handler is annotated with, if anything.\<close>

definition subsystem_annotation :: "string \<Rightarrow> (string \<times> string) option" where
  "subsystem_annotation procedure =
    (let (subsystem, operation) = deriveSubsystem procedure in
     if subsystem \<noteq> [] then Some (subsystem, operation) else None)"

section \<open>Cross-origin headers\<close>

record CORSConfig =
  AllowedOrigins :: "string \<Rightarrow> bool"
  AllowedMethods :: string
  AllowedHeaders :: string
  ExposeHeaders :: string
  AllowCredentials :: bool
  MaxAge :: int

definition or_default :: "string \<Rightarrow> string \<Rightarrow> string" where
  "or_default s d = (if s = [] then d else s)"

definition DefaultCORSAllowedOrigins :: "string \<Rightarrow> bool" where
  "DefaultCORSAllowedOrigins origin \<longleftrightarrow>
    origin \<in> {''http://localhost:5173'', ''http://localhost:3000'', ''http://localhost:8081'', ''http://localhost:5174''}"

text \<open>The headers set on the response, and the status when the middleware answers itself (a preflight request).\<close>

definition CORS :: "CORSConfig \<Rightarrow> Request \<Rightarrow> (string \<times> string) list \<times> nat option" where
  "CORS cfg r =
    (let origin = Header_Get (req_Header r) ''Origin'';
         own = (if origin \<noteq> [] \<and> AllowedOrigins cfg origin then
                  (''Access-Control-Allow-Origin'', origin) #
                  (if AllowCredentials cfg then [(''Access-Control-Allow-Credentials'', ''true'')] else [])
                else []);
         common =
           [(''Access-Control-Allow-Methods'', or_default (AllowedMethods cfg) ''GET, POST, PUT, DELETE, OPTIONS''),
            (''Access-Control-Allow-Headers'',
              or_default (AllowedHeaders cfg) ''Content-Type, Authorization, X-Aleph-Api-Key, X-Request-Id, X-Project-Id''),
            (''Access-Control-Expose-Headers'', or_default (ExposeHeaders cfg) ''Grpc-Status, Grpc-Message'')];
         age = (if MaxAge cfg > 0 then [(''Access-Control-Max-Age'', Itoa (MaxAge cfg))] else []) in
     (own @ common @ age, if req_Method r = ''OPTIONS'' then Some 204 else None))"

section \<open>The origin check of mutating requests\<close>

datatype csrf_result = CsrfPass | CsrfForbidden | CsrfNilDereference

text \<open>
  \<^verbatim>\<open>url.URL.String\<close> is an argument: the check compares its result only after the host already
  failed to match. A failed parse leaves a nil pointer, whose first use is a run-time panic.
\<close>

fun csrf_scan :: "(URL \<Rightarrow> string) \<Rightarrow> URL \<Rightarrow> string \<Rightarrow> string list \<Rightarrow> bool" where
  "csrf_scan URL_String u referer [] = False"
| "csrf_scan URL_String u referer (allowed # rest) =
    (if (ToLower (URL_String u) = ToLower allowed \<or> HasPrefix (ToLower referer) (ToLower (allowed @ ''/''))) \<and>
        (case url_Parse allowed of Some parsed \<Rightarrow> Host parsed = Host u \<and> Scheme parsed = Scheme u | None \<Rightarrow> False)
     then True else csrf_scan URL_String u referer rest)"

definition csrf_hosts :: "string list \<Rightarrow> string list" where
  "csrf_hosts allowedOrigins = map Host (List.map_filter url_Parse allowedOrigins)"

definition CSRFProtection :: "(URL \<Rightarrow> string) \<Rightarrow> string list \<Rightarrow> Request \<Rightarrow> csrf_result" where
  "CSRFProtection URL_String allowedOrigins r =
    (if req_Method r \<in> {''GET'', ''HEAD'', ''OPTIONS''} then CsrfPass
     else if req_Method r = ''POST'' \<and> req_Path r = ''/api/v1/auth/session'' then CsrfPass
     else
       (let origin = Header_Get (req_Header r) ''Origin''; referer = Header_Get (req_Header r) ''Referer'' in
        if origin = [] \<and> referer = [] then CsrfForbidden
        else if origin \<noteq> [] \<and> origin \<in> set allowedOrigins then CsrfPass
        else if referer \<noteq> [] then
          (case url_Parse referer of
             None \<Rightarrow> if allowedOrigins = [] then CsrfForbidden else CsrfNilDereference
           | Some u \<Rightarrow>
               if Host u \<noteq> [] \<and> Host u \<in> set (csrf_hosts allowedOrigins) then CsrfPass
               else if csrf_scan URL_String u referer allowedOrigins then CsrfPass
               else CsrfForbidden)
        else CsrfForbidden))"

end
