(* ===== verification/Interceptors_Facts.thy ===== *)
theory Interceptors_Facts
  imports Interceptors
begin

text \<open>
  Properties of the request guards: the schedule of the retries, the bound on concurrent calls
  per bulkhead, the independence of the subsystem annotation from the order of map iteration, and
  what a mutating request must show to pass the origin check.
\<close>

section \<open>Retry\<close>

lemma wrap64_id: "- (2 ^ 63) \<le> x \<Longrightarrow> x < 2 ^ 63 \<Longrightarrow> wrap64 x = x"
  by (simp add: wrap64_def)

lemma retry_loop_backoff:
  assumes "k \<le> left" "\<forall>i < k. \<exists>e. op (a + i) = Inl e \<and> ShouldRetry (Some e) \<and> Done (a + i) = None"
    and "op (a + k) = Inr v" "JitterFactor config \<le> 0" "0 \<le> d" "d * 2 ^ k < 2 ^ 63"
  shows "retry_loop left config op rand Done a d
    = ((Some v, None), map (\<lambda>i. min (d * 2 ^ i) (MaxDelay config)) [0..<k])"
  using assms
proof (induction k arbitrary: left a d)
  case 0
  then show ?case by (cases left) simp_all
next
  case (Suc k)
  then obtain l where l: "left = Suc l" "k \<le> l" by (cases left) auto
  obtain e where e: "op a = Inl e" "ShouldRetry (Some e)" "Done a = None"
    using Suc.prems(2) by (metis add.right_neutral zero_less_Suc)
  have small: "d * 2 * 2 ^ k < 2 ^ 63" using Suc.prems(6) by (simp add: mult.assoc)
  have "d * 2 \<le> d * 2 * 2 ^ k" using mult_left_mono [of 1 "2 ^ k" "d * 2"] Suc.prems(5) by simp
  then have "wrap64 (d * 2) = d * 2" using small Suc.prems(5) by (intro wrap64_id) linarith+
  moreover have "retry_loop l config op rand Done (Suc a) (d * 2)
      = ((Some v, None), map (\<lambda>i. min (d * 2 * 2 ^ i) (MaxDelay config)) [0..<k])"
  proof (rule Suc.IH [OF l(2)])
    show "\<forall>i < k. \<exists>e. op (Suc a + i) = Inl e \<and> ShouldRetry (Some e) \<and> Done (Suc a + i) = None"
      using Suc.prems(2) by (metis Suc_less_eq add_Suc_shift)
  qed (use Suc.prems small in simp_all)
  moreover have "map (\<lambda>i. min (d * 2 ^ i) (MaxDelay config)) [0..<Suc k]
      = min d (MaxDelay config) # map (\<lambda>i. min (d * 2 * 2 ^ i) (MaxDelay config)) [0..<k]"
    by (subst map_upt_Suc) (simp add: mult.assoc)
  moreover have "next_delay config (rand a) d = min d (MaxDelay config)"
    using Suc.prems(4) by (simp add: next_delay_def min_def)
  ultimately show ?case by (simp add: l(1) e)
qed

text \<open>C34. Exponential backoff. An operation that fails \<open>k\<close> times with retryable errors and then succeeds
  is retried to success as long as \<open>k\<close> does not exceed the configured retries; without jitter the
  waits are the initial delay doubled each time and capped by the maximum delay, provided the doubled delay stays
  within 64 bits.\<close>

theorem Retry_backoff:
  assumes "int k \<le> MaxRetries config" "\<forall>i < k. \<exists>e. op i = Inl e \<and> ShouldRetry (Some e) \<and> Done i = None"
    and "op k = Inr v" "JitterFactor config \<le> 0"
    and "0 \<le> InitialDelay config" "InitialDelay config * 2 ^ k < 2 ^ 63"
  shows "Retry config op rand Done
    = ((Some v, None), map (\<lambda>i. min (InitialDelay config * 2 ^ i) (MaxDelay config)) [0..<k])"
proof -
  have "k \<le> nat (MaxRetries config)" "\<not> MaxRetries config < 0" using assms(1) by linarith+
  then show ?thesis
    unfolding Retry_def using assms(2-6) retry_loop_backoff [of k _ op 0 Done v config "InitialDelay config" rand] by simp
qed

definition unavailable :: go_error where
  "unavailable = \<lparr>err_context = False, err_net = False, err_code = Some 14, err_text = ''unavailable''\<rparr>"

theorem Retry_backoff_witness:
  "Retry (DefaultRetryConfig\<lparr>JitterFactor := 0\<rparr>) (\<lambda>i. if i < 2 then Inl unavailable else Inr ''ok'') (\<lambda>_. 0) (\<lambda>_. None)
    = ((Some ''ok'', None), [497000000, 994000000])"
proof -
  have "Retry (DefaultRetryConfig\<lparr>JitterFactor := 0\<rparr>) (\<lambda>i. if i < 2 then Inl unavailable else Inr ''ok'') (\<lambda>_. 0) (\<lambda>_. None)
    = ((Some ''ok'', None), map (\<lambda>i. min (InitialDelay (DefaultRetryConfig\<lparr>JitterFactor := 0\<rparr>) * 2 ^ i)
        (MaxDelay (DefaultRetryConfig\<lparr>JitterFactor := 0\<rparr>))) [0..<2])"
    by (rule Retry_backoff)
      (simp_all add: DefaultRetryConfig_def unavailable_def ShouldRetry_def CodeInternal_def CodeDataLoss_def
        millisecond_def)
  then show ?thesis by (simp add: DefaultRetryConfig_def millisecond_def second_def upt_rec)
qed

section \<open>Subsystems\<close>

lemma subsystem_prefix_free:
  "\<forall>(p, s) \<in> set procedureSubsystems. \<forall>(p', s') \<in> set procedureSubsystems. HasPrefix p p' \<longrightarrow> p = p' \<and> s = s'"
  by (simp add: procedureSubsystems_def)

lemma subsystem_prefix_freeD:
  "(p, s) \<in> set procedureSubsystems \<Longrightarrow> (p', s') \<in> set procedureSubsystems \<Longrightarrow> HasPrefix p p' \<Longrightarrow> p = p' \<and> s = s'"
  using subsystem_prefix_free by blast

lemma HasPrefix_linear: "HasPrefix s p \<Longrightarrow> HasPrefix s q \<Longrightarrow> HasPrefix p q \<or> HasPrefix q p"
  unfolding HasPrefix_prefix by (rule prefix_same_cases)

lemma find_unique:
  assumes "x \<in> set xs" "P x" "\<And>y. y \<in> set xs \<Longrightarrow> P y \<Longrightarrow> y = x"
  shows "find P xs = Some x"
proof -
  have "find P xs \<noteq> None" unfolding find_None_iff using assms(1,2) by blast
  then obtain y where y: "find P xs = Some y" by blast
  then have "y \<in> set xs" "P y" by (auto simp: find_Some_iff)
  then show ?thesis using y assms(3) by blast
qed

text \<open>Map iteration order does not matter. The source looks for the subsystem of a procedure by ranging
  over a Go map; in whatever order the entries come, the annotation is the same.\<close>

theorem deriveSubsystem_any_order:
  assumes "set entries = set procedureSubsystems"
  shows "deriveSubsystem_in entries procedure = deriveSubsystem procedure"
proof -
  let ?path = "TrimPrefix procedure ''/''"
  let ?P = "\<lambda>(prefix, _). HasPrefix ?path prefix"
  have uniq: "x = y" if "x \<in> set procedureSubsystems" "y \<in> set procedureSubsystems" "?P x" "?P y" for x y
  proof -
    obtain p s p' s' where xy: "x = (p, s)" "y = (p', s')" by (meson surj_pair)
    then have pre: "HasPrefix p p' \<or> HasPrefix p' p" using that(3,4) HasPrefix_linear by auto
    show ?thesis using pre subsystem_prefix_freeD that(1,2) xy by metis
  qed
  have "find ?P entries = find ?P procedureSubsystems"
  proof (cases "\<exists>x \<in> set procedureSubsystems. ?P x")
    case True
    then obtain x where x: "x \<in> set procedureSubsystems" "?P x" by blast
    have "find ?P zs = Some x" if "set zs = set procedureSubsystems" for zs
      using x uniq unfolding that [symmetric] by (intro find_unique) blast+
    then show ?thesis using assms by simp
  next
    case False
    then have "find ?P entries = None" "find ?P procedureSubsystems = None"
      using assms unfolding find_None_iff by blast+
    then show ?thesis by simp
  qed
  then show ?thesis by (simp add: deriveSubsystem_def deriveSubsystem_in_def)
qed

theorem deriveSubsystem_any_order_witness:
  "deriveSubsystem_in (rev procedureSubsystems) ''/aleph.v1.QueryService/ExecuteQuery''
    = deriveSubsystem ''/aleph.v1.QueryService/ExecuteQuery''"
  by (rule deriveSubsystem_any_order) simp

section \<open>Origin check\<close>

lemma csrf_scan_host:
  "csrf_scan URL_String u referer origins \<Longrightarrow>
    \<exists>allowed \<in> set origins. \<exists>parsed. url_Parse allowed = Some parsed \<and> Host parsed = Host u"
  by (induction origins) (auto split: if_splits option.splits)

text \<open>A mutating request needs an allowed origin. Apart from reads and the creation of a session, a request passes
  the origin check only with an Origin header that is literally in the list, or with a Referer that
  parses and has the host of a listed origin.\<close>

theorem CSRF_pass_needs_allowed_host:
  assumes "CSRFProtection URL_String origins r = CsrfPass"
    and "req_Method r \<notin> {''GET'', ''HEAD'', ''OPTIONS''}" "req_Path r \<noteq> ''/api/v1/auth/session''"
  shows "Header_Get (req_Header r) ''Origin'' \<in> set origins \<or>
    (\<exists>u allowed parsed. url_Parse (Header_Get (req_Header r) ''Referer'') = Some u \<and> allowed \<in> set origins \<and>
      url_Parse allowed = Some parsed \<and> Host parsed = Host u)"
proof -
  have hosts: "\<exists>allowed parsed. allowed \<in> set origins \<and> url_Parse allowed = Some parsed \<and> Host parsed = h"
    if "h \<in> set (csrf_hosts origins)" for h
    using that by (auto simp: csrf_hosts_def List.map_filter_def)
  let ?referer = "Header_Get (req_Header r) ''Referer''"
  have "Header_Get (req_Header r) ''Origin'' \<in> set origins \<or>
      (\<exists>u. url_Parse ?referer = Some u \<and> (Host u \<in> set (csrf_hosts origins) \<or> csrf_scan URL_String u ?referer origins))"
    using assms by (simp add: CSRFProtection_def Let_def split: if_splits option.splits)
  then show ?thesis using hosts csrf_scan_host by metis
qed

theorem CSRF_pass_needs_allowed_host_witness:
  "Header_Get [''Origin'' \<mapsto> [''https://a.example'']] ''Origin'' \<in> set [''https://a.example''] \<or>
    (\<exists>u allowed parsed. url_Parse (Header_Get [''Origin'' \<mapsto> [''https://a.example'']] ''Referer'') = Some u
      \<and> allowed \<in> set [''https://a.example''] \<and> url_Parse allowed = Some parsed \<and> Host parsed = Host u)"
proof -
  let ?r = "\<lparr>req_Method = ''POST'', req_Path = ''/x'', req_RemoteAddr = [], req_Header = [''Origin'' \<mapsto> [''https://a.example'']]\<rparr>"
  have "CSRFProtection (\<lambda>_. []) [''https://a.example''] ?r = CsrfPass"
    by (simp add: CSRFProtection_def Header_Get_def Header_Values_def)
  from CSRF_pass_needs_allowed_host [OF this] show ?thesis by (simp del: fun_upd_apply)
qed

section \<open>Bulkheads\<close>

text \<open>Calls that enter and leave in any order; the list holds the procedures of the calls in flight.\<close>

datatype bulkhead_event = Enter string | Leave string

fun bulkhead_step ::
  "('sem \<Rightarrow> bool \<times> 'sem) \<Rightarrow> ('sem \<Rightarrow> 'sem) \<Rightarrow> string list \<times> 'sem BulkheadInterceptor \<Rightarrow> bulkhead_event
    \<Rightarrow> string list \<times> 'sem BulkheadInterceptor" where
  "bulkhead_step TryAcquire Release (inflight, b) (Enter p) =
    (case bulkhead_enter TryAcquire p b of
       (Inr _, b') \<Rightarrow> (p # inflight, b')
     | (Inl _, b') \<Rightarrow> (inflight, b'))"
| "bulkhead_step TryAcquire Release (inflight, b) (Leave p) =
    (if p \<in> set inflight then (remove1 p inflight, bulkhead_leave Release p b) else (inflight, b))"

definition in_domain :: "string \<Rightarrow> string list \<Rightarrow> int" where
  "in_domain d ps = int (length (filter (\<lambda>p. domainForProcedure p = d) ps))"

lemma in_domain_simps [simp]:
  "in_domain d [] = 0"
  "in_domain d (p # ps) = in_domain d ps + (if domainForProcedure p = d then 1 else 0)"
  by (auto simp: in_domain_def)

lemma in_domain_remove1:
  "p \<in> set ps \<Longrightarrow> in_domain d (remove1 p ps) = in_domain d ps - (if domainForProcedure p = d then 1 else 0)"
  by (induction ps) auto

text \<open>The pool of a domain holds as many units as there are calls of the domain in flight.\<close>

definition pool_count ::
  "('sem \<Rightarrow> int) \<Rightarrow> ('sem \<Rightarrow> int) \<Rightarrow> BulkheadConfig \<Rightarrow> string list \<Rightarrow> string \<Rightarrow> 'sem option \<Rightarrow> bool" where
  "pool_count held cap c inflight d pool =
    (case pool of
       Some s \<Rightarrow> held s = in_domain d inflight \<and> cap s = configForDomain c d
         \<and> (0 \<le> configForDomain c d \<longrightarrow> in_domain d inflight \<le> configForDomain c d)
     | None \<Rightarrow> d \<notin> {''query'', ''ingestion'', ''chat''})"

definition pools_count ::
  "('sem \<Rightarrow> int) \<Rightarrow> ('sem \<Rightarrow> int) \<Rightarrow> BulkheadConfig \<Rightarrow> string list \<times> 'sem BulkheadInterceptor \<Rightarrow> bool" where
  "pools_count held cap c st \<longleftrightarrow> (\<forall>d. pool_count held cap c (fst st) d (poolsByDomain (snd st) d))"

lemma pools_count_step:
  assumes acq: "\<And>s. fst (TryAcquire s) = (held s < cap s)"
      "\<And>s. held (snd (TryAcquire s)) = held s + (if held s < cap s then 1 else 0)" "\<And>s. cap (snd (TryAcquire s)) = cap s"
    and rel: "\<And>s. held (Release s) = held s - 1" "\<And>s. cap (Release s) = cap s"
    and inv: "pools_count held cap c st"
  shows "pools_count held cap c (bulkhead_step TryAcquire Release st ev)"
  unfolding pools_count_def
proof
  fix d
  obtain ps b where st: "st = (ps, b)" by fastforce
  have inv_d: "pool_count held cap c ps d (poolsByDomain b d)" using inv by (simp add: pools_count_def st)
  show "pool_count held cap c (fst (bulkhead_step TryAcquire Release st ev)) d
      (poolsByDomain (snd (bulkhead_step TryAcquire Release st ev)) d)"
  proof (cases ev)
    case (Enter p)
    show ?thesis
    proof (cases "poolsByDomain b (domainForProcedure p)")
      case None
      then show ?thesis using inv_d
        by (cases "poolsByDomain b d") (auto simp: Enter st bulkhead_enter_def poolForProcedure_def pool_count_def)
    next
      case (Some s)
      obtain ok s' where ta: "TryAcquire s = (ok, s')" by fastforce
      have "ok = (held s < cap s)" "held s' = held s + (if held s < cap s then 1 else 0)" "cap s' = cap s"
        using acq [of s] by (simp_all add: ta)
      then show ?thesis using inv_d Some
        by (cases "domainForProcedure p = d"; cases "poolsByDomain b d")
          (auto simp: Enter st bulkhead_enter_def poolForProcedure_def pool_count_def ta Let_def)
    qed
  next
    case (Leave p)
    then show ?thesis using inv_d
      by (cases "domainForProcedure p = d"; cases "poolsByDomain b d"; cases "poolsByDomain b (domainForProcedure p)")
        (auto simp: st bulkhead_leave_def poolForProcedure_def pool_count_def in_domain_remove1 rel)
  qed
qed

text \<open>C13. Bulkheads bound concurrency and reject only when full. With semaphores that grant a unit exactly while
  fewer than their capacity are held, any interleaving of calls entering and leaving keeps the
  calls in flight of a domain within its pool size, and a call of the domain is turned away
  exactly when the pool is full.\<close>

theorem bulkhead_bounds_concurrency:
  assumes new: "\<And>n. held (NewWeighted n) = 0" "\<And>n. cap (NewWeighted n) = n"
    and acq: "\<And>s. fst (TryAcquire s) = (held s < cap s)"
      "\<And>s. held (snd (TryAcquire s)) = held s + (if held s < cap s then 1 else 0)" "\<And>s. cap (snd (TryAcquire s)) = cap s"
    and rel: "\<And>s. held (Release s) = held s - 1" "\<And>s. cap (Release s) = cap s"
    and run: "foldl (bulkhead_step TryAcquire Release) ([], NewBulkheadInterceptor NewWeighted (Some c)) evs = (inflight, b)"
    and d: "d \<in> {''query'', ''ingestion'', ''chat''}" "0 \<le> configForDomain c d"
  shows "in_domain d inflight \<le> configForDomain c d \<and>
    (domainForProcedure p = d \<longrightarrow>
      (\<exists>b'. bulkhead_enter TryAcquire p b = (Inl d, b')) = (in_domain d inflight = configForDomain c d))"
proof -
  have "pools_count held cap c ([], NewBulkheadInterceptor NewWeighted (Some c))"
    using new by (auto simp: pools_count_def pool_count_def NewBulkheadInterceptor_def configForDomain_def)
  then have "pools_count held cap c (foldl (bulkhead_step TryAcquire Release) st0 evs)"
    if "st0 = ([], NewBulkheadInterceptor NewWeighted (Some c))" for st0
    unfolding that
    by (induction evs rule: rev_induct) (auto intro: pools_count_step [OF acq rel])
  from this [OF refl] have inv: "pools_count held cap c (inflight, b)" by (simp add: run)
  obtain s where s: "poolsByDomain b d = Some s" "held s = in_domain d inflight" "cap s = configForDomain c d"
    "in_domain d inflight \<le> configForDomain c d"
    using inv [unfolded pools_count_def pool_count_def, rule_format, of d] d by (cases "poolsByDomain b d") auto
  obtain ok s' where ta: "TryAcquire s = (ok, s')" by fastforce
  have "ok = (held s < cap s)" using acq(1) [of s] by (simp add: ta)
  then show ?thesis using s by (auto simp: bulkhead_enter_def poolForProcedure_def ta Let_def)
qed

theorem bulkhead_bounds_concurrency_witness:
  "\<exists>inflight b. foldl (bulkhead_step (\<lambda>(h, k). (h < k, (if h < k then h + 1 else h, k))) (\<lambda>(h, k). (h - 1, k)))
       ([], NewBulkheadInterceptor (\<lambda>n. (0, n)) (Some DefaultBulkheadConfig))
       [Enter ''/aleph.v1.IngestionService/RunTask'', Leave ''/aleph.v1.IngestionService/RunTask''] = (inflight, b)
     \<and> in_domain ''ingestion'' inflight \<le> configForDomain DefaultBulkheadConfig ''ingestion''"
proof -
  let ?T = "\<lambda>(h::int, k::int). (h < k, (if h < k then h + 1 else h, k))" and ?R = "\<lambda>(h::int, k::int). (h - 1, k)"
  let ?evs = "[Enter ''/aleph.v1.IngestionService/RunTask'', Leave ''/aleph.v1.IngestionService/RunTask'']"
  obtain inflight b where run:
    "foldl (bulkhead_step ?T ?R) ([], NewBulkheadInterceptor (\<lambda>n. (0, n)) (Some DefaultBulkheadConfig)) ?evs = (inflight, b)"
    by (meson surj_pair)
  have "in_domain ''ingestion'' inflight \<le> configForDomain DefaultBulkheadConfig ''ingestion'' \<and>
    (domainForProcedure ''/x'' = ''ingestion'' \<longrightarrow> (\<exists>b'. bulkhead_enter ?T ''/x'' b = (Inl ''ingestion'', b'))
      = (in_domain ''ingestion'' inflight = configForDomain DefaultBulkheadConfig ''ingestion''))"
    by (rule bulkhead_bounds_concurrency [where held = fst and cap = snd, OF _ _ _ _ _ _ _ run])
      (auto simp: configForDomain_def DefaultBulkheadConfig_def split: prod.splits)
  then show ?thesis using run by blast
qed

end
