(* ===== verification/Cursor.thy ===== *)
theory Cursor
  imports Go_Base64
begin

text \<open>
  Pagination: the opaque cursors of \<^verbatim>\<open>internal/cursor/cursor.go\<close>, the clamping of page sizes in
  \<^verbatim>\<open>internal/api/handler/cursor.go\<close> and the page numbers of \<^verbatim>\<open>internal/api/handler/pagination.go\<close>.
\<close>

definition encode :: "string \<Rightarrow> string \<Rightarrow> string" where
  "encode pfx val = b64_encode url_char True (pfx @ '':'' @ val)"

text \<open>\<^verbatim>\<open>strings.SplitN(s, ":", 2)\<close> gives two parts exactly when the text has a colon.\<close>

definition decode :: "string \<Rightarrow> string \<times> string" where
  "decode cursor =
    (if cursor = [] then ([], [])
     else case b64_decode url_sextet True cursor of
            None \<Rightarrow> ([], [])
          | Some decoded \<Rightarrow>
              if CHR '':'' \<in> set decoded
              then (takeWhile (\<lambda>c. c \<noteq> CHR '':'') decoded, tl (dropWhile (\<lambda>c. c \<noteq> CHR '':'') decoded))
              else ([], []))"

definition EncodePosition :: "int \<Rightarrow> string" where
  "EncodePosition offset = encode ''pos'' (Itoa offset)"

definition EncodeID :: "string \<Rightarrow> string" where
  "EncodeID ident = encode ''id'' ident"

definition DecodePosition :: "string \<Rightarrow> int" where
  "DecodePosition cursor =
    (let (pfx, val) = decode cursor in
     if pfx \<noteq> ''pos'' \<or> val = [] then 0
     else case Atoi val of Some n \<Rightarrow> n | None \<Rightarrow> 0)"

definition DecodeID :: "string \<Rightarrow> string" where
  "DecodeID cursor =
    (let (pfx, val) = decode cursor in
     if pfx \<noteq> ''id'' \<or> val = [] then [] else val)"

section \<open>Page sizes and numbers\<close>

definition DefaultPageSize :: int where "DefaultPageSize = 25"
definition MaxPageSize :: int where "MaxPageSize = 100"

definition clampLimit :: "int \<Rightarrow> int" where
  "clampLimit limit =
    (if limit \<le> 0 then DefaultPageSize else if limit > MaxPageSize then MaxPageSize else limit)"

record PagePaginationParams =
  Page :: int
  PerPage :: int

text \<open>The arguments are the values of the query parameters \<^verbatim>\<open>page\<close> and \<^verbatim>\<open>per_page\<close>, empty when absent.\<close>

definition ParsePagePagination :: "string \<Rightarrow> string \<Rightarrow> PagePaginationParams" where
  "ParsePagePagination p pp =
    (let page = (if p \<noteq> [] then (case Atoi p of Some v \<Rightarrow> if v > 0 then v else 1 | None \<Rightarrow> 1) else 1);
         perPage = (if pp \<noteq> [] then
                      (case Atoi pp of
                         Some v \<Rightarrow> if v > 0 then (if v \<le> 100 then v else 100) else 50
                       | None \<Rightarrow> 50)
                    else 50) in
     \<lparr>Page = page, PerPage = perPage\<rparr>)"

text \<open>A Go \<^verbatim>\<open>int\<close> has 64 bits and its product wraps around.\<close>

definition Offset :: "PagePaginationParams \<Rightarrow> int" where
  "Offset p = ((Page p - 1) * PerPage p + 2 ^ 63) mod 2 ^ 64 - 2 ^ 63"

section \<open>Round trips\<close>

lemma encode_nonempty [simp]: "encode pfx val \<noteq> []"
proof -
  have "pfx @ '':'' @ val \<noteq> []" by simp
  then show ?thesis unfolding encode_def
    by (cases "(url_char, True, pfx @ '':'' @ val)" rule: b64_encode.cases) auto
qed

lemma decode_encode_cursor:
  assumes "CHR '':'' \<notin> set pfx"
  shows "decode (encode pfx val) = (pfx, val)"
proof -
  have "b64_decode url_sextet True (encode pfx val) = Some (pfx @ '':'' @ val)"
    unfolding encode_def by (rule url64.decode_encode)
  moreover have "takeWhile (\<lambda>c. c \<noteq> CHR '':'') (pfx @ '':'' @ val) = pfx"
    using assms by (subst takeWhile_append2) auto
  moreover have "dropWhile (\<lambda>c. c \<noteq> CHR '':'') (pfx @ '':'' @ val) = '':'' @ val"
    using assms by (subst dropWhile_append2) auto
  ultimately show ?thesis by (simp add: decode_def)
qed

text \<open>C19. Cursors are faithful. Every 64-bit row offset and every entity id, whatever bytes it contains, comes back from
  its cursor, and the two kinds of cursor are never taken for each other: the position of an id cursor
  is 0 and the id of a position cursor is empty.\<close>

theorem cursor_round_trip:
  assumes "int64_min \<le> n" "n \<le> int64_max"
  shows "DecodePosition (EncodePosition n) = n \<and> DecodeID (EncodeID ident) = ident
    \<and> DecodePosition (EncodeID ident) = 0 \<and> DecodeID (EncodePosition n) = []"
proof -
  have "Itoa n \<noteq> []" by (simp add: Itoa_def)
  then show ?thesis
    using Atoi_Itoa [OF assms]
    by (simp add: DecodePosition_def EncodePosition_def DecodeID_def EncodeID_def decode_encode_cursor)
qed

theorem cursor_round_trip_witness:
  "DecodePosition (EncodePosition (- 7)) = - 7 \<and> DecodeID (EncodeID ''a:b'') = ''a:b''
    \<and> DecodePosition (EncodeID ''a:b'') = 0 \<and> DecodeID (EncodePosition (- 7)) = []"
  by (rule cursor_round_trip) (simp_all add: int64_min_def int64_max_def)

text \<open>Page sizes lie between 1 and 100 and page numbers are positive, for every input.\<close>

lemma page_bounds:
  "1 \<le> clampLimit limit" "clampLimit limit \<le> 100"
  "1 \<le> Page (ParsePagePagination p pp)" "1 \<le> PerPage (ParsePagePagination p pp)"
  "PerPage (ParsePagePagination p pp) \<le> 100"
  by (auto simp: clampLimit_def DefaultPageSize_def MaxPageSize_def ParsePagePagination_def Let_def split: option.splits)

text \<open>The offset is the exact product as long as it fits, and wraps to a negative number for a large enough page.\<close>

lemma Offset_exact:
  "(Page p - 1) * PerPage p < 2 ^ 63 \<Longrightarrow> 1 \<le> Page p \<Longrightarrow> 1 \<le> PerPage p \<Longrightarrow> Offset p = (Page p - 1) * PerPage p"
  by (simp add: Offset_def)

lemma Offset_overflow: "Offset \<lparr>Page = 184467440737095518, PerPage = 50\<rparr> < 0"
  by (simp add: Offset_def)

end
