(* ===== verification/Sandbox.thy ===== *)
theory Sandbox
  imports Go_Regexp Complex_Main
begin

text \<open>
  The static guards of the tool sandbox, package \<^verbatim>\<open>internal/sandbox\<close>: validation of Go and Python
  tool code and its quality metrics (\<^verbatim>\<open>validation.go\<close>), the command allowlist
  (\<^verbatim>\<open>allowlist.go\<close>), the security scanner (\<^verbatim>\<open>security.go\<close>), the verifier (\<^verbatim>\<open>verification.go\<close>) and the
  watcher of the development directory (\<^verbatim>\<open>dev_mode.go\<close>).

  The Go compiler's parser and the process that runs a tool are parameters: the parser gives
  the import path literals as they stand in the file, or fails; a tool run gives its output and exit
  code. Regular expressions are those of \<open>Go_Regexp\<close>.
\<close>

section \<open>Go code\<close>

definition blocklistedGoImports :: "string list" where
  "blocklistedGoImports =
    [''os/exec'', ''net'', ''net/http'', ''net/url'', ''net/smtp'', ''net/rpc'', ''net/mail'', ''syscall'', ''unsafe'',
     ''reflect'', ''plugin'', ''runtime'', ''runtime/cgo'', ''runtime/pprof'', ''crypto'', ''crypto/md5'', ''crypto/sha1'',
     ''crypto/sha256'', ''crypto/sha512'', ''crypto/aes'', ''crypto/cipher'', ''crypto/des'', ''crypto/ecdsa'',
     ''crypto/ed25519'', ''crypto/elliptic'', ''crypto/hmac'', ''crypto/rand'', ''crypto/rsa'', ''crypto/subtle'',
     ''crypto/tls'', ''crypto/x509'', ''encoding'', ''encoding/hex'', ''encoding/base64'', ''encoding/gob'', ''encoding/pem'',
     ''encoding/asn1'', ''encoding/binary'', ''io/ioutil'', ''mime/multipart'', ''text/template'', ''html/template'',
     ''debug/dwarf'', ''debug/elf'', ''debug/gosym'', ''debug/macho'', ''debug/pe'', ''debug/plan9obj'']"

datatype sandbox_error =
    BlocklistedImport string
  | NetSubpackage string
  | InternalSubpackage string
  | BlocklistedImportDetected
  | NetSubpackageDetected
  | InternalSubpackageDetected
  | BlocklistedPattern nat nat
  | BlocklistedPythonImport nat

text \<open>The first error a list of checks reports.\<close>

fun first_error :: "('a \<Rightarrow> 'e option) \<Rightarrow> 'a list \<Rightarrow> 'e option" where
  "first_error f [] = None"
| "first_error f (x # xs) = (case f x of Some e \<Rightarrow> Some e | None \<Rightarrow> first_error f xs)"

definition go_import_line :: "string \<Rightarrow> sandbox_error option" where
  "go_import_line raw =
    (let line = TrimSpace raw in
     if \<not> HasPrefix line ''import'' then None
     else if list_ex (\<lambda>blocked. Contains line ([DQ] @ blocked @ [DQ])) blocklistedGoImports then Some BlocklistedImportDetected
     else if Contains line ([DQ] @ ''net/'') then Some NetSubpackageDetected
     else if Contains line ([DQ] @ ''internal/'') then Some InternalSubpackageDetected
     else None)"

definition simpleGoImportCheck :: "string \<Rightarrow> sandbox_error option" where
  "simpleGoImportCheck source = first_error go_import_line (Split source NL)"

definition go_import_path :: "string \<Rightarrow> sandbox_error option" where
  "go_import_path literal =
    (let importPath = TrimRight (TrimLeft literal [DQ]) [DQ] in
     if importPath \<in> set blocklistedGoImports then Some (BlocklistedImport importPath)
     else if HasPrefix importPath ''net/'' then Some (NetSubpackage importPath)
     else if HasPrefix importPath ''internal/'' then Some (InternalSubpackage importPath)
     else None)"

definition ValidateGoCode :: "(string \<Rightarrow> string list option) \<Rightarrow> string \<Rightarrow> sandbox_error option" where
  "ValidateGoCode ParseImports source =
    (if Contains source ''import'' then
       (case ParseImports source of
          None \<Rightarrow> simpleGoImportCheck source
        | Some imports \<Rightarrow> first_error go_import_path imports)
     else None)"

section \<open>Python code\<close>

definition import_of :: "string list \<Rightarrow> re" where
  "import_of mods = Seqs [Bol, Star Sp, Lit ''import'', Plus Sp, Alts (map Lit mods)]"

definition from_import :: "string list \<Rightarrow> re" where
  "from_import mods = Seqs [Bol, Star Sp, Lit ''from'', Plus Sp, Alts (map Lit mods), Plus Sp, Lit ''import'']"

definition call_of :: "string \<Rightarrow> re" where
  "call_of name = Seqs [Lit name, Star Sp, Lit ''('']"

definition member_of :: "string \<Rightarrow> string list \<Rightarrow> re" where
  "member_of name fields = Seqs [Lit (name @ ''.''), Alts (map Lit fields)]"

definition blocklistedPythonPatterns :: "re list" where
  "blocklistedPythonPatterns =
    [import_of [''subprocess'', ''socket'', ''ctypes'', ''__import__'', ''imaplib''],
     from_import [''subprocess'', ''socket'', ''ctypes'', ''imaplib''],
     member_of ''subprocess'' [''run'', ''call'', ''Popen'', ''check_output''],
     member_of ''socket'' [''socket'', ''create_connection'', ''gethostbyname''],
     Lit ''os.system'', Lit ''os.popen'', call_of ''eval'', call_of ''exec'', call_of ''__import__'',
     Seqs [Lit ''open'', Star Sp, Lit ''('', Star (NoneOf '')''), OneOf [SQ, DQ], Lit ''http'', Opt (Lit ''s''), Lit '':''],
     Seqs [Lit ''open'', Star Sp, Lit ''('', Star (NoneOf '')''), OneOf [SQ, DQ], Lit ''ftp://''],
     import_of [''importlib'', ''runpy'', ''pickle'', ''shelve'', ''shutil'', ''code''],
     from_import [''importlib'', ''runpy'', ''pickle'', ''shelve'', ''shutil'', ''code''],
     import_of [''requests'', ''httpx'', ''urllib3'', ''aiohttp'', ''websockets''],
     from_import [''requests'', ''httpx'', ''urllib3'', ''aiohttp'', ''websockets''],
     import_of [''smtplib''], from_import [''smtplib''],
     call_of ''getattr'', Lit ''__getattribute__'', Lit ''__dict__'', Lit ''__class__'', call_of ''globals'',
     call_of ''locals'', call_of ''vars'', Lit ''__builtins__'', call_of ''compile'']"

definition blocklistedPythonWords :: "string list" where
  "blocklistedPythonWords =
    [''subprocess'', ''socket'', ''ctypes'', ''__import__'', ''imaplib'', ''importlib'', ''runpy'', ''pickle'', ''shelve'',
     ''shutil'', ''code'', ''requests'', ''httpx'', ''urllib3'', ''aiohttp'', ''websockets'', ''smtplib'']"

text \<open>The loop of \<^verbatim>\<open>collapseBackslashContinuations\<close>: \<open>buf\<close> is the text carried over from lines that ended in a backslash.\<close>

fun collapse_lines :: "string \<Rightarrow> string list \<Rightarrow> string list" where
  "collapse_lines buf [] = (if buf \<noteq> [] then [buf] else [])"
| "collapse_lines buf (line # rest) =
    (let trimmed = TrimRight line [CHR '' '', TAB, CR] in
     if HasSuffix trimmed [BACKSLASH] then collapse_lines (buf @ butlast trimmed) rest
     else if buf \<noteq> [] then (buf @ line) # collapse_lines [] rest
     else line # collapse_lines [] rest)"

definition collapseBackslashContinuations :: "string \<Rightarrow> string" where
  "collapseBackslashContinuations source = Join (collapse_lines [] (Split source NL)) [NL]"

definition python_line :: "nat \<times> string \<Rightarrow> sandbox_error option" where
  "python_line = (\<lambda>(i, line).
    (if HasPrefix (TrimSpace line) ''#'' then None
     else case find (\<lambda>k. MatchString (blocklistedPythonPatterns ! k) line) [0..<length blocklistedPythonPatterns] of
            Some k \<Rightarrow> Some (BlocklistedPattern (Suc i) k)
          | None \<Rightarrow>
              if Contains line ''import'' \<and> list_ex (Contains line) blocklistedPythonWords
              then Some (BlocklistedPythonImport (Suc i))
              else None))"

definition ValidatePythonCode :: "string \<Rightarrow> sandbox_error option" where
  "ValidatePythonCode source =
    (let lines = Split (collapseBackslashContinuations source) NL in
     first_error python_line (zip [0..<length lines] lines))"

definition IsPythonCode :: "string \<Rightarrow> bool" where
  "IsPythonCode src \<longleftrightarrow>
    HasPrefix src ''# python'' \<or> HasPrefix src ''#!/usr/bin/env python'' \<or> Contains src ''def '' \<or>
    Contains src ''import '' \<or> Contains src ''print(''"

section \<open>Quality metrics\<close>

definition countNonBlankLines :: "string \<Rightarrow> nat" where
  "countNonBlankLines source = length (filter (\<lambda>line. TrimSpace line \<noteq> []) (Split source NL))"

fun strip_lines :: "bool \<Rightarrow> string list \<Rightarrow> string list" where
  "strip_lines inBlock [] = []"
| "strip_lines True (line # rest) =
    (case Index line ''*/'' of
       Some idx \<Rightarrow> TrimSpace (drop (idx + 2) line) # strip_lines False rest
     | None \<Rightarrow> strip_lines True rest)"
| "strip_lines False (line0 # rest) =
    (let line = (case Index line0 ''//'' of Some idx \<Rightarrow> take idx line0 | None \<Rightarrow> line0) in
     case Index line ''/*'' of
       Some idx \<Rightarrow>
         (case Index (drop (idx + 2) line) ''*/'' of
            Some e \<Rightarrow> (take idx line @ drop (idx + 2 + e + 2) line) # strip_lines False rest
          | None \<Rightarrow> take idx line # strip_lines True rest)
     | None \<Rightarrow> line # strip_lines False rest)"

definition stripComments :: "string \<Rightarrow> string" where
  "stripComments source = Join (strip_lines False (Split source NL)) [NL]"

definition EstimateComplexity :: "string \<Rightarrow> nat" where
  "EstimateComplexity source =
    1 + length (filter (\<lambda>tok. tok \<in> set [''if'', ''else'', ''for'', ''range'', ''select'', ''switch'', ''case'', ''&&'', ''||''])
      (Fields (stripComments source)))"

definition estimateCoverage :: "string \<Rightarrow> real" where
  "estimateCoverage source =
    (let noComments = stripComments source in
     if \<not> Contains noComments ''func Test'' \<and> \<not> Contains noComments ''func Benchmark'' then 0
     else
       (let assertCount = Count noComments ''t.Error'' + Count noComments ''t.Fatal'' + Count noComments ''assert.'' in
        if assertCount = 0 then 10
        else if real assertCount * 5 > 85 then 85 else real assertCount * 5))"

datatype format_issue = ParseError | TrailingWhitespace nat | MixedIndentation nat

definition format_line :: "nat \<times> string \<Rightarrow> format_issue list" where
  "format_line = (\<lambda>(i, line).
    (if HasSuffix line '' '' \<or> HasSuffix line [TAB] then [TrailingWhitespace (Suc i)] else []) @
    (if TAB \<in> set line then
       (let trimmed = TrimLeft line [CHR '' '', TAB]; lead = take (length line - length trimmed) line in
        if length trimmed < length line \<and> CHR '' '' \<in> set lead \<and> TAB \<in> set lead then [MixedIndentation (Suc i)] else [])
     else []))"

definition CheckGoFormat :: "(string \<Rightarrow> bool) \<Rightarrow> string \<Rightarrow> format_issue list" where
  "CheckGoFormat parses source =
    (if \<not> parses source then [ParseError]
     else
       (let lines = Split source NL in
        concat (map format_line (zip [0..<length lines] lines))))"

record CodeMetrics =
  LinesOfCode :: nat
  CyclomaticComplexity :: nat
  GofmtErrors :: "format_issue list"
  HasGofmtViolations :: bool
  EstimatedCoverage :: real

definition AnalyzeGoCodeQuality :: "(string \<Rightarrow> bool) \<Rightarrow> string \<Rightarrow> CodeMetrics" where
  "AnalyzeGoCodeQuality parses source =
    \<lparr>LinesOfCode = countNonBlankLines source,
     CyclomaticComplexity = EstimateComplexity source,
     GofmtErrors = CheckGoFormat parses source,
     HasGofmtViolations = (length (CheckGoFormat parses source) > 0),
     EstimatedCoverage = estimateCoverage source\<rparr>"

section \<open>The command allowlist\<close>

definition shellMetaRE :: re where
  "shellMetaRE = OneOf ('';&|'' @ [BACKTICK] @ ''$(){}<>'')"

record CommandAllowlist =
  allowedCommands :: "string list"
  allowedArgSet :: "(string, string list) gomap"
  blockedFlags :: "string list"

definition NewCommandAllowlist :: CommandAllowlist where
  "NewCommandAllowlist =
    \<lparr>allowedCommands = [''ls'', ''cat'', ''head'', ''tail'', ''wc'', ''sort'', ''grep''],
     allowedArgSet = map_of
       [(''ls'', [''-l'', ''-a'', ''-la'', ''-lh'']), (''head'', [''-n'']), (''tail'', [''-n'']),
        (''wc'', [''-l'', ''-w'', ''-c'']), (''sort'', [''-n'', ''-r'']),
        (''grep'', [''-i'', ''-v'', ''-n'', ''-r'', ''-rn'', ''-l''])],
     blockedFlags = [''--pty'', ''--interactive'', ''--tty'', ''-i'', ''-t'']\<rparr>"

datatype allow_error =
    NoCommand | ShellMetacharacter string | CommandNotAllowed string | BlockedFlag string | ArgumentNotAllowed string string

definition Validate :: "CommandAllowlist \<Rightarrow> string list \<Rightarrow> allow_error option" where
  "Validate a args =
    (if args = [] then Some NoCommand
     else case find (MatchString shellMetaRE) args of
       Some arg \<Rightarrow> Some (ShellMetacharacter arg)
     | None \<Rightarrow>
         (let cmd = hd args;
              allowedIn = (\<lambda>arg. case allowedArgSet a cmd of Some allowedSet \<Rightarrow> arg \<in> set allowedSet | None \<Rightarrow> False) in
          if cmd \<notin> set (allowedCommands a) then Some (CommandNotAllowed cmd)
          else case find (\<lambda>arg. arg \<in> set (blockedFlags a) \<and> \<not> allowedIn arg) (tl args) of
            Some arg \<Rightarrow> Some (BlockedFlag arg)
          | None \<Rightarrow>
              if allowedArgSet a cmd \<noteq> None then
                (case find (\<lambda>arg. HasPrefix arg ''-'' \<and> \<not> allowedIn arg) (tl args) of
                   Some arg \<Rightarrow> Some (ArgumentNotAllowed cmd arg)
                 | None \<Rightarrow> None)
              else None))"

definition maxOutputBytes :: nat where "maxOutputBytes = 10 * 1024 * 1024"

datatype exec_command_error =
    Refused allow_error | OutputTooLarge nat | CommandFailed string | NoArguments

text \<open>
  \<open>run\<close> is the process: its combined output and whether it failed. An empty argument list makes
  the first line index out of range, a run-time panic (\<open>NoArguments\<close>).
\<close>

definition ExecCommandContext ::
  "CommandAllowlist \<Rightarrow> (string list \<Rightarrow> string \<times> bool) \<Rightarrow> string list \<Rightarrow> exec_command_error + string" where
  "ExecCommandContext a run args =
    (if args = [] then Inl NoArguments
     else case Validate a args of
       Some e \<Rightarrow> Inl (Refused e)
     | None \<Rightarrow>
         (let (output, failed) = run args in
          if length output > maxOutputBytes then Inl (OutputTooLarge (length output))
          else if failed then Inl (CommandFailed output)
          else Inr output))"

section \<open>The security scanner\<close>

record SecurityRule =
  rule_Name :: string
  rule_Description :: string
  rule_Pattern :: re
  rule_Severity :: string
  rule_Languages :: "string list"

record SecurityIssue =
  RuleName :: string
  Description :: string
  Severity :: string
  Line :: nat
  Code :: string

definition word_in :: "string list \<Rightarrow> re" where
  "word_in ws = Alts (map LitI ws)"

definition defaultSecurityRules :: "SecurityRule list" where
  "defaultSecurityRules =
    [SecurityRule.make ''xss-script-tag'' ''direct script tag injection in rendered output''
       (Seqs [Lit ''<script'', WordB, Star (NoneOf ''>''), Lit ''>'', Star Dot, Lit ''</script>''])
       ''high'' [''go'', ''python''],
     SecurityRule.make ''xss-event-handler'' ''inline event handler attribute in output''
       (Seqs [WordB, Lit ''on'', Plus Wd, Star Sp, Lit ''=''])
       ''high'' [''go'', ''python''],
     SecurityRule.make ''sql-injection-concat'' ''possible SQL injection: string concatenation in query context''
       (Seqs [word_in [''select'', ''insert'', ''update'', ''delete'', ''drop'', ''alter'', ''truncate''], Plus Sp, Star Dot, Lit ''+''])
       ''high'' [''go'', ''python''],
     SecurityRule.make ''sql-injection-fmt'' ''possible SQL injection via fmt.Sprintf with query''
       (Seqs [LitI ''fmt.Sprintf'', Star Dot, WordB, word_in [''select'', ''insert'', ''update'', ''delete'', ''drop''], WordB])
       ''high'' [''go''],
     SecurityRule.make ''path-traversal'' ''possible path traversal via string concatenation in file ops''
       (Seqs [Alts [Lit ''os.Open'', Lit ''os.ReadFile'', Lit ''os.Create'', Lit ''ioutil.ReadFile'', call_of ''open''],
          Star Sp, Star (NoneOf '')''), Lit ''+''])
       ''high'' [''go'', ''python''],
     SecurityRule.make ''hardcoded-api-key'' ''possible hardcoded API key or secret token''
       (Seqs [Alts [Seqs [LitI ''api'', Opt (OneOf ''_-''), LitI ''key''], LitI ''apikey'', LitI ''secret'', LitI ''token'',
            LitI ''password'', LitI ''passwd''],
          Star Sp, OneOf ''=:'', Star Sp, OneOf [SQ, DQ], Rep 8 (NoneOf [SQ, DQ]), Star (NoneOf [SQ, DQ]), OneOf [SQ, DQ]])
       ''high'' [''go'', ''python''],
     SecurityRule.make ''hardcoded-private-key'' ''possible hardcoded private key block''
       (Seqs [Lit ''-----BEGIN'', Plus Sp, Alts [Lit ''RSA'', Lit ''DSA'', Lit ''EC'', Lit ''OPENSSH''], Plus Sp, Lit ''PRIVATE'',
          Plus Sp, Lit ''KEY-----''])
       ''critical'' [''go'', ''python''],
     SecurityRule.make ''command-injection'' ''possible command injection via external call with concatenation''
       (Seqs [Alts [Lit ''exec.Command'', member_of ''subprocess'' [''run'', ''call'', ''Popen'', ''check_output''], Lit ''os.system''],
          Star Sp, Lit ''('', Star (NoneOf '')''), Lit ''+''])
       ''critical'' [''go'', ''python''],
     SecurityRule.make ''insecure-deserialization'' ''unsafe deserialization via eval/pickle/yaml.load''
       (Seqs [WordB, Alts [Lit ''eval'', Lit ''pickle.loads'', Lit ''yaml.load''], Star Sp, Lit ''(''])
       ''high'' [''python''],
     SecurityRule.make ''template-injection'' ''possible template injection via unescaped rendering helpers''
       (Seqs [Alts [LitI ''template.HTML'', LitI ''template.JS'', LitI ''template.URL'', LitI ''template.HTMLEscapeString''],
          Star Sp, Lit ''(''])
       ''medium'' [''go'', ''python'']]"

definition Scan :: "SecurityRule list \<Rightarrow> string \<Rightarrow> SecurityIssue list" where
  "Scan rules src =
    (let lines = Split src NL in
     concat (map (\<lambda>rule.
       map (\<lambda>(i, line). \<lparr>RuleName = rule_Name rule, Description = rule_Description rule, Severity = rule_Severity rule,
             Line = Suc i, Code = TrimSpace line\<rparr>)
         (filter (\<lambda>(i, line). MatchString (rule_Pattern rule) line) (zip [0..<length lines] lines))) rules))"

definition issue_message :: "SecurityIssue \<Rightarrow> string" where
  "issue_message issue =
    ''['' @ Severity issue @ ''] line '' @ show_nat (Line issue) @ '': '' @ Description issue @ '' ('' @ RuleName issue @ '')''"

definition ScanCode :: "SecurityRule list \<Rightarrow> string \<Rightarrow> string option" where
  "ScanCode rules src =
    (let issues = Scan rules src in
     if issues = [] then None
     else Some (''security issues found:'' @ [NL] @ Join (map issue_message issues) [NL]))"

section \<open>The verifier\<close>

record ExecutionResult =
  ex_Stdout :: string
  ex_Stderr :: string
  ex_ExitCode :: int
  ex_Error :: string

datatype verify_error =
    ContextExpired | ToolNotFound | LookupFailed | ValidationFailed sandbox_error | ExecutionFailed string | ExitedWith int | SuspiciousOutput

record VerificationResult =
  vr_ToolID :: string
  vr_ToolName :: string
  vr_Stdout :: string
  vr_Stderr :: string
  vr_ExitCode :: int
  vr_Passed :: bool
  vr_Error :: "verify_error option"

definition suspiciousPatterns :: "string list" where
  "suspiciousPatterns =
    [''/etc/passwd'', ''/etc/shadow'', ''root:'', ''sudo '', ''chmod 777'', ''rm -rf /'', ''fork bomb'']"

definition isOutputSafe :: "string \<Rightarrow> bool" where
  "isOutputSafe output = (\<not> list_ex (Contains (ToLower output)) suspiciousPatterns)"

definition validate_tool_code :: "(string \<Rightarrow> string list option) \<Rightarrow> string \<Rightarrow> sandbox_error option" where
  "validate_tool_code ParseImports src =
    (if IsPythonCode src then ValidatePythonCode src else ValidateGoCode ParseImports src)"

definition blank_result :: VerificationResult where
  "blank_result = \<lparr>vr_ToolID = [], vr_ToolName = [], vr_Stdout = [], vr_Stderr = [], vr_ExitCode = 0,
    vr_Passed = False, vr_Error = None\<rparr>"

definition VerifyToolCode :: "(string \<Rightarrow> string list option) \<Rightarrow> string \<Rightarrow> VerificationResult" where
  "VerifyToolCode ParseImports src =
    (case validate_tool_code ParseImports src of
       Some err \<Rightarrow> blank_result\<lparr>vr_Error := Some (ValidationFailed err), vr_Passed := False\<rparr>
     | None \<Rightarrow> blank_result\<lparr>vr_Passed := True\<rparr>)"

text \<open>
  \<open>GetToolCode\<close> is the lookup in the database, \<open>ExecuteTool\<close> the sandbox that runs the tool (\<open>Inl\<close> an
  error with the partial result). The second component is the error returned beside the
  result. Durations and resource estimates are left out.
\<close>

definition VerifyTool ::
  "(string \<Rightarrow> string list option) \<Rightarrow> (string \<Rightarrow> string option) \<Rightarrow> (string \<Rightarrow> ExecutionResult \<times> string option)
    \<Rightarrow> bool \<Rightarrow> string \<Rightarrow> VerificationResult \<times> bool" where
  "VerifyTool ParseImports GetToolCode ExecuteTool expired toolID =
    (let result = blank_result\<lparr>vr_ToolID := toolID\<rparr> in
     if expired then (result\<lparr>vr_Error := Some ContextExpired, vr_ExitCode := - 1\<rparr>, False)
     else case GetToolCode toolID of
       None \<Rightarrow> (result\<lparr>vr_Error := Some ToolNotFound, vr_ExitCode := - 1\<rparr>, True)
     | Some toolCode \<Rightarrow>
         (let result = result\<lparr>vr_ToolName := toolID\<rparr> in
          case validate_tool_code ParseImports toolCode of
            Some err \<Rightarrow>
              (result\<lparr>vr_Error := Some (ValidationFailed err), vr_ExitCode := - 1, vr_Passed := False\<rparr>, False)
          | None \<Rightarrow>
              (let (ex, err) = ExecuteTool toolID;
                   result = result\<lparr>vr_Stdout := ex_Stdout ex, vr_Stderr := ex_Stderr ex, vr_ExitCode := ex_ExitCode ex\<rparr> in
               case err of
                 Some e \<Rightarrow> (result\<lparr>vr_Error := Some (ExecutionFailed e), vr_Passed := False\<rparr>, False)
               | None \<Rightarrow>
                   if vr_ExitCode result \<noteq> 0 then
                     (result\<lparr>vr_Passed := False, vr_Error := Some (ExitedWith (vr_ExitCode result))\<rparr>, False)
                   else if isOutputSafe (vr_Stdout result) \<and> isOutputSafe (vr_Stderr result) then
                     (result\<lparr>vr_Passed := True\<rparr>, False)
                   else (result\<lparr>vr_Passed := False, vr_Error := Some SuspiciousOutput\<rparr>, False))))"

text \<open>
  \<^verbatim>\<open>VerifyMultipleTools\<close> starts one goroutine per tool and stores each answer under its index as it
  arrives: \<open>arrivals\<close> is the order in which the answers come out of the channel, each with the index, the
  result and the error of \<^verbatim>\<open>VerifyTool\<close>.
\<close>

fun collect_results ::
  "(nat \<times> VerificationResult \<times> bool) list \<Rightarrow> VerificationResult list \<Rightarrow> VerificationResult list" where
  "collect_results [] results = results"
| "collect_results ((index, result, err) # arrivals) results =
    collect_results arrivals
      (results[index := if err then result\<lparr>vr_Error := Some LookupFailed, vr_Passed := False\<rparr> else result])"

definition VerifyMultipleTools ::
  "(string \<Rightarrow> VerificationResult \<times> bool) \<Rightarrow> nat list \<Rightarrow> string list \<Rightarrow> VerificationResult list" where
  "VerifyMultipleTools verify order toolIDs =
    collect_results (map (\<lambda>i. (i, verify (toolIDs ! i))) order) (replicate (length toolIDs) blank_result)"

definition CheckSandboxSecurity :: "(string \<Rightarrow> bool) \<Rightarrow> string list" where
  "CheckSandboxSecurity LookPath = filter (\<lambda>tool. \<not> LookPath tool) [''unshare'', ''timeout'', ''python3'', ''go'']"

section \<open>The development watcher\<close>

text \<open>
  \<open>dir\<close> is the listing of the watch directory: the name of each entry, whether it is a directory, and its content
  if it can be read. \<open>Sha\<close> is SHA-256 in hexadecimal. A scan returns the calls of the change
  handler, in order, and the new table of checksums.
\<close>

type_synonym listing = "(string \<times> bool \<times> string option) list"

definition is_tool_file :: "string \<times> bool \<times> string option \<Rightarrow> bool" where
  "is_tool_file = (\<lambda>(name, isDir, _). \<not> isDir \<and> (HasSuffix name ''.go'' \<or> HasSuffix name ''.py''))"

fun scan_entries ::
  "(string \<Rightarrow> string) \<Rightarrow> listing \<Rightarrow> (string, string) gomap \<Rightarrow> (string \<times> string) list \<times> (string, string) gomap" where
  "scan_entries Sha [] checksums = ([], checksums)"
| "scan_entries Sha ((name, isDir, content) # rest) checksums =
    (if \<not> is_tool_file (name, isDir, content) then scan_entries Sha rest checksums
     else case content of
       None \<Rightarrow> scan_entries Sha rest checksums
     | Some raw \<Rightarrow>
         if checksums name = Some (Sha raw) then scan_entries Sha rest checksums
         else
           (let codeStr = (if HasSuffix name ''.py'' \<and> \<not> HasPrefix raw ''#'' then ''# python'' @ [NL] @ raw else raw);
                (calls, final) = scan_entries Sha rest (checksums(name \<mapsto> Sha raw)) in
            ((name, codeStr) # calls, final)))"

definition scanAndLoad ::
  "(string \<Rightarrow> string) \<Rightarrow> listing option \<Rightarrow> (string, string) gomap \<Rightarrow> (string \<times> string) list \<times> (string, string) gomap" where
  "scanAndLoad Sha dir checksums =
    (case dir of
       None \<Rightarrow> ([], checksums)
     | Some entries \<Rightarrow>
         (let (calls, updated) = scan_entries Sha entries checksums;
              seen = map fst (filter is_tool_file entries) in
          (calls, updated |` set seen)))"

end
