(* ===== verification/Sandbox_Exec.thy ===== *)
theory Sandbox_Exec
  imports Sandbox
begin

text \<open>
  The two executors of the tool sandbox: \<^verbatim>\<open>internal/sandbox/exec_sandbox.go\<close>, which runs a tool as a
  child process (with \<^verbatim>\<open>namespace_isolated.go\<close> and \<^verbatim>\<open>seccomp_profile.go\<close>), and
  \<^verbatim>\<open>container_sandbox.go\<close>, which runs it with docker.

  The operating system is a parameter, the record \<open>sandbox_os\<close>: creating directories and files, installing
  a system call filter, and running a command under the filters installed so far. An execution
  returns its result, the filters installed in the server process afterwards, and the
  commands it started. The JSON library is a parameter as well. Control groups only limit resources
  and are left out, as are the time limits.
\<close>

section \<open>The operating system\<close>

text \<open>A command with its arguments, its environment, and the source files in its directory.\<close>

record command =
  cmd_argv :: "string list"
  cmd_env :: "string list"
  cmd_files :: "(string \<times> string) list"

datatype run_outcome =
    Exited string string int   \<comment> \<open>standard output, standard error, exit code\<close>
  | NotStarted string string   \<comment> \<open>error, standard error\<close>

type_synonym syscall_filters = "string list list"

record sandbox_os =
  os_MkdirTemp :: "string + string"
  os_WriteFile :: "string option"
  os_Supported :: bool
  os_LoadFilter :: "syscall_filters \<Rightarrow> bool"
  os_Run :: "syscall_filters \<Rightarrow> command \<Rightarrow> run_outcome"

section \<open>System call filter\<close>

definition allowedSyscalls :: "string list" where
  "allowedSyscalls =
    [''read'', ''write'', ''close'',
     ''socket'', ''connect'', ''sendto'', ''recvfrom'', ''sendmsg'', ''recvmsg'',
     ''getsockname'', ''getpeername'', ''setsockopt'', ''getsockopt'',
     ''bind'', ''listen'', ''accept'', ''accept4'',
     ''shutdown'', ''socketpair'',
     ''exit'', ''exit_group'',
     ''mmap'', ''mprotect'', ''munmap'', ''brk'', ''mremap'',
     ''futex'', ''futex_waitv'',
     ''clock_gettime'', ''gettimeofday'', ''nanosleep'',
     ''rt_sigaction'', ''rt_sigprocmask'', ''rt_sigreturn'',
     ''openat'', ''readlink'',
     ''fstat'', ''stat'', ''lstat'', ''newfstatat'',
     ''getdents64'',
     ''lseek'',
     ''getpid'', ''gettid'', ''getuid'', ''getgid'', ''geteuid'', ''getegid'',
     ''sched_yield'',
     ''getrandom'',
     ''arch_prctl'',
     ''clone'', ''clone3'',
     ''set_robust_list'',
     ''rseq'',
     ''prlimit64'',
     ''uname'',
     ''getcwd'',
     ''ioctl'', ''fcntl'']"

text \<open>The filter is installed in the calling process, the server; the second component is the error.\<close>

definition LoadSeccompFilter :: "sandbox_os \<Rightarrow> syscall_filters \<Rightarrow> syscall_filters \<times> bool" where
  "LoadSeccompFilter os filters =
    (if \<not> os_Supported os then (filters, False)
     else if os_LoadFilter os filters then (allowedSyscalls # filters, False)
     else (filters, True))"

definition prepareSandboxedCmd :: "sandbox_os \<Rightarrow> syscall_filters \<Rightarrow> syscall_filters \<times> bool" where
  "prepareSandboxedCmd os filters = LoadSeccompFilter os filters"

section \<open>Child processes\<close>

record ExecSandbox =
  metaRepo :: "(string \<Rightarrow> string + string) option"
  pythonCmd :: string
  goCmd :: string

definition exec_failure :: "string \<Rightarrow> string \<Rightarrow> ExecutionResult" where
  "exec_failure err stderr = \<lparr>ex_Stdout = [], ex_Stderr = stderr, ex_ExitCode = - 1, ex_Error = err\<rparr>"

definition run_result :: "run_outcome \<Rightarrow> ExecutionResult" where
  "run_result r =
    (case r of
       Exited stdout stderr exitCode \<Rightarrow>
         \<lparr>ex_Stdout = stdout, ex_Stderr = stderr, ex_ExitCode = exitCode, ex_Error = []\<rparr>
     | NotStarted err stderr \<Rightarrow> exec_failure err stderr)"

definition tool_env :: "string \<Rightarrow> string \<Rightarrow> string list" where
  "tool_env inputJSON tmpDir = [''ALEPH_INPUT='' @ inputJSON, ''PATH=/usr/bin:/bin'', ''HOME='' @ tmpDir]"

type_synonym execution = "ExecutionResult \<times> syscall_filters \<times> command list"

definition run_python_tool ::
  "sandbox_os \<Rightarrow> ExecSandbox \<Rightarrow> syscall_filters \<Rightarrow> string \<Rightarrow> string \<Rightarrow> string \<Rightarrow> execution" where
  "run_python_tool os s filters tmpDir src inputJSON =
    (case ValidatePythonCode src of
       Some err \<Rightarrow> (exec_failure ''python validation failed'' [], filters, [])
     | None \<Rightarrow>
         (case os_WriteFile os of
            Some err \<Rightarrow> (exec_failure (''failed to write tool file: '' @ err) [], filters, [])
          | None \<Rightarrow>
              (let cmd = \<lparr>cmd_argv = [pythonCmd s, tmpDir @ ''/tool.py''], cmd_env = tool_env inputJSON tmpDir,
                          cmd_files = [(''tool.py'', src)]\<rparr>;
                   (filters', sandboxErr) = prepareSandboxedCmd os filters in
               (run_result (os_Run os filters' cmd), filters', [cmd]))))"

definition run_go_tool ::
  "(string \<Rightarrow> string list option) \<Rightarrow> sandbox_os \<Rightarrow> ExecSandbox \<Rightarrow> syscall_filters \<Rightarrow> string \<Rightarrow> string \<Rightarrow> string \<Rightarrow> execution" where
  "run_go_tool ParseImports os s filters tmpDir src inputJSON =
    (case ValidateGoCode ParseImports src of
       Some err \<Rightarrow> (exec_failure ''go validation failed'' [], filters, [])
     | None \<Rightarrow>
         (case os_WriteFile os of
            Some err \<Rightarrow> (exec_failure (''failed to write tool file: '' @ err) [], filters, [])
          | None \<Rightarrow>
              (let binPath = tmpDir @ ''/tool_bin'';
                   build = \<lparr>cmd_argv = [goCmd s, ''build'', ''-o'', binPath, ''.''], cmd_env = [], cmd_files = [(''main.go'', src)]\<rparr>;
                   runCmd = \<lparr>cmd_argv = [binPath], cmd_env = tool_env inputJSON tmpDir, cmd_files = [(''main.go'', src)]\<rparr> in
               case os_Run os filters build of
                 NotStarted err stderr \<Rightarrow> (exec_failure (''build failed: '' @ err) stderr, filters, [build])
               | Exited out stderr exitCode \<Rightarrow>
                   if exitCode \<noteq> 0 then
                     (exec_failure (''build failed: exit status '' @ Itoa exitCode) stderr, filters, [build])
                   else
                     (let (filters', sandboxErr) = prepareSandboxedCmd os filters in
                      (run_result (os_Run os filters' runCmd), filters', [build, runCmd])))))"

definition ExecuteTool ::
  "(string \<Rightarrow> string list option) \<Rightarrow> sandbox_os \<Rightarrow> ExecSandbox \<Rightarrow> syscall_filters \<Rightarrow> string \<Rightarrow> string \<Rightarrow> execution" where
  "ExecuteTool ParseImports os s filters toolID inputJSON =
    (case metaRepo s of
       None \<Rightarrow> (exec_failure ''metadata repository not available'' [], filters, [])
     | Some GetToolCode \<Rightarrow>
         (case GetToolCode toolID of
            Inl err \<Rightarrow> (exec_failure (''tool not found: '' @ err) [], filters, [])
          | Inr src \<Rightarrow>
              (case os_MkdirTemp os of
                 Inl err \<Rightarrow> (exec_failure (''failed to create temp dir: '' @ err) [], filters, [])
               | Inr tmpDir \<Rightarrow>
                   if HasPrefix src ''# python'' \<or> HasPrefix src ''#!/usr/bin/env python''
                   then run_python_tool os s filters tmpDir src inputJSON
                   else run_go_tool ParseImports os s filters tmpDir src inputJSON)))"

section \<open>Skills\<close>

text \<open>
  A skill runs its tools one after the other, each on the output of the one before. \<open>Marshal\<close> and
  \<open>Unmarshal\<close> are the JSON library on input maps, \<open>wrap\<close> the map with the raw output under \<^verbatim>\<open>stdout\<close>. The
  executors never return an error beside their result, so the branch for it is left out.
\<close>

fun skill_loop ::
  "(syscall_filters \<Rightarrow> string \<Rightarrow> string \<Rightarrow> execution) \<Rightarrow> ('v \<Rightarrow> string) \<Rightarrow> (string \<Rightarrow> 'v option) \<Rightarrow> (string \<Rightarrow> 'v)
    \<Rightarrow> ExecutionResult \<Rightarrow> 'v \<Rightarrow> syscall_filters \<Rightarrow> string list \<Rightarrow> execution" where
  "skill_loop exec Marshal Unmarshal wrap result input filters [] = (result, filters, [])"
| "skill_loop exec Marshal Unmarshal wrap result input filters (tid # tids) =
    (let (r, filters', cmds) = exec filters tid (Marshal input) in
     if ex_ExitCode r \<noteq> 0 then (r, filters', cmds)
     else
       (let nextInput = (case Unmarshal (ex_Stdout r) of Some v \<Rightarrow> v | None \<Rightarrow> wrap (ex_Stdout r));
            (final, filters'', cmds') = skill_loop exec Marshal Unmarshal wrap r nextInput filters' tids in
        (final, filters'', cmds @ cmds')))"

definition RunSkill ::
  "(string \<Rightarrow> string list option) \<Rightarrow> sandbox_os \<Rightarrow> ExecSandbox \<Rightarrow> (string \<Rightarrow> string + string) \<Rightarrow> (string \<Rightarrow> string list option)
    \<Rightarrow> ('v \<Rightarrow> string) \<Rightarrow> (string \<Rightarrow> 'v option) \<Rightarrow> (string \<Rightarrow> 'v) \<Rightarrow> syscall_filters \<Rightarrow> string \<Rightarrow> 'v \<Rightarrow> execution" where
  "RunSkill ParseImports os s GetSkillToolIDs UnmarshalIDs Marshal Unmarshal wrap filters skillID input =
    (case metaRepo s of
       None \<Rightarrow> (exec_failure ''metadata repository not available'' [], filters, [])
     | Some _ \<Rightarrow>
         (case GetSkillToolIDs skillID of
            Inl err \<Rightarrow> (exec_failure (''skill not found: '' @ err) [], filters, [])
          | Inr json \<Rightarrow>
              (case UnmarshalIDs json of
                 None \<Rightarrow> (exec_failure ''invalid tool_ids JSON'' [], filters, [])
               | Some toolIDs \<Rightarrow>
                   skill_loop (ExecuteTool ParseImports os s) Marshal Unmarshal wrap
                     \<lparr>ex_Stdout = [], ex_Stderr = [], ex_ExitCode = 0, ex_Error = []\<rparr> input filters toolIDs)))"

section \<open>Containers\<close>

record ContainerConfig =
  PythonImage :: string
  GoImage :: string
  DefaultTimeout :: nanos
  MaxMemoryMB :: int
  MaxCPUSeconds :: real
  NetworkBlocked :: bool

definition DefaultContainerConfig :: ContainerConfig where
  "DefaultContainerConfig =
    \<lparr>PythonImage = ''python:3.12-alpine'', GoImage = ''golang:1.24-alpine'', DefaultTimeout = 30 * second,
     MaxMemoryMB = 256, MaxCPUSeconds = (1 / 2) * 30, NetworkBlocked = True\<rparr>"

record ContainerSandbox =
  toolCode :: "(string \<Rightarrow> string + string) option"
  config :: ContainerConfig
  hasRunsc :: bool
  dockerCheck :: bool

text \<open>
  The number of processors, before it is printed: \<open>None\<close> where the timeout is zero and the quotient
  infinite. \<open>fmt2\<close> is the format \<^verbatim>\<open>%.2f\<close>.
\<close>

definition cpu_quota :: "ContainerConfig \<Rightarrow> real option" where
  "cpu_quota c =
    (if DefaultTimeout c = 0 then None
     else
       (let cpus = MaxCPUSeconds c / (real_of_int (DefaultTimeout c) / real_of_int second) in
        Some (if cpus < 1 / 10 then 1 / 10 else cpus)))"

definition docker_args ::
  "(real option \<Rightarrow> string) \<Rightarrow> ContainerSandbox \<Rightarrow> string \<Rightarrow> string \<Rightarrow> string \<Rightarrow> string \<Rightarrow> string list" where
  "docker_args fmt2 s tmpDir inputJSON img containerCmd =
    (let c = config s in
     [''run'', ''--rm'', ''--network'', ''none'', ''--security-opt=no-new-privileges:true'', ''--cap-drop=ALL'',
      ''--read-only'', ''--tmpfs'', ''/tmp:size=100m''] @
     (if hasRunsc s then [''--runtime=runsc''] else []) @
     [''--memory'', Itoa (MaxMemoryMB c) @ ''m'', ''--memory-swap'', Itoa (MaxMemoryMB c) @ ''m''] @
     (if MaxCPUSeconds c > 0 then [''--cpus'', fmt2 (cpu_quota c)] else []) @
     [''-v'', tmpDir @ '':/workspace:ro'', ''-w'', ''/workspace'', ''-e'', ''ALEPH_INPUT='' @ inputJSON, ''-e'', ''HOME=/tmp'',
      img, ''sh'', ''-c'', containerCmd])"

definition executeInContainer ::
  "(real option \<Rightarrow> string) \<Rightarrow> sandbox_os \<Rightarrow> ContainerSandbox \<Rightarrow> syscall_filters \<Rightarrow> string \<Rightarrow> string \<Rightarrow> execution" where
  "executeInContainer fmt2 os s filters src inputJSON =
    (case os_MkdirTemp os of
       Inl err \<Rightarrow> (exec_failure (''failed to create temp dir: '' @ err) [], filters, [])
     | Inr tmpDir \<Rightarrow>
         (let isPython = IsPythonCode src;
              img = (if isPython then PythonImage (config s) else GoImage (config s));
              containerCmd = (if isPython then ''python /workspace/tool.py''
                else ''go build -o /tmp/tool /workspace/main.go && /tmp/tool'');
              fileName = (if isPython then ''tool.py'' else ''main.go'') in
          case os_WriteFile os of
            Some err \<Rightarrow> (exec_failure (''failed to write tool file: '' @ err) [], filters, [])
          | None \<Rightarrow>
              (let cmd = \<lparr>cmd_argv = ''docker'' # docker_args fmt2 s tmpDir inputJSON img containerCmd, cmd_env = [],
                          cmd_files = [(fileName, src)]\<rparr> in
               (case os_Run os filters cmd of
                  NotStarted err stderr \<Rightarrow> exec_failure (''docker execution failed: '' @ err) stderr
                | Exited stdout stderr exitCode \<Rightarrow> run_result (Exited stdout stderr exitCode),
                filters, [cmd]))))"

definition container_ExecuteTool ::
  "(string \<Rightarrow> string list option) \<Rightarrow> (real option \<Rightarrow> string) \<Rightarrow> sandbox_os \<Rightarrow> ContainerSandbox \<Rightarrow> syscall_filters \<Rightarrow> string \<Rightarrow> string \<Rightarrow> execution" where
  "container_ExecuteTool ParseImports fmt2 os s filters toolID inputJSON =
    (case toolCode s of
       None \<Rightarrow> (exec_failure ''metadata repository not available'' [], filters, [])
     | Some getToolCode \<Rightarrow>
         (case getToolCode toolID of
            Inl err \<Rightarrow> (exec_failure (''tool not found: '' @ err) [], filters, [])
          | Inr src \<Rightarrow>
              if IsPythonCode src \<and> ValidatePythonCode src \<noteq> None then (exec_failure ''python validation failed'' [], filters, [])
              else if \<not> IsPythonCode src \<and> ValidateGoCode ParseImports src \<noteq> None
              then (exec_failure ''go validation failed'' [], filters, [])
              else if \<not> dockerCheck s
              then (exec_failure ''container runtime unavailable: docker daemon not reachable'' [], filters, [])
              else executeInContainer fmt2 os s filters src inputJSON))"

end
