(* ===== verification/Sandbox_Facts.thy ===== *)
theory Sandbox_Facts
  imports Sandbox_Exec
begin

text \<open>
  What the guards of the sandbox promise and what they do not: the command lines the allowlist accepts, programs
  the Python validator cannot see, the code the executors start, and the system call
  filter that keeps the server from starting anything.
\<close>

section \<open>The command allowlist\<close>

lemma MatchString_OneOf: "MatchString (OneOf cs) s \<longleftrightarrow> (\<exists>c \<in> set s. c \<in> set cs)"
proof
  assume "\<exists>c \<in> set s. c \<in> set cs"
  then obtain c u post where "c \<in> set cs" "s = u @ [c] @ post" by (auto simp: in_set_conv_decomp [of _ s])
  then show "MatchString (OneOf cs) s" unfolding MatchString_iff OneOf_def re_matches_Cls by blast
qed (auto simp: MatchString_iff OneOf_def re_matches_Cls)

lemma find_None_iff_all: "find P xs = None \<longleftrightarrow> (\<forall>x \<in> set xs. \<not> P x)"
  by (auto simp: find_None_iff)

definition accepted_flags :: "string \<Rightarrow> string list option" where
  "accepted_flags cmd = map_of
    [(''ls'', [''-l'', ''-a'', ''-la'', ''-lh'']), (''head'', [''-n'']), (''tail'', [''-n'']),
     (''wc'', [''-l'', ''-w'', ''-c'']), (''sort'', [''-n'', ''-r'']),
     (''grep'', [''-i'', ''-v'', ''-n'', ''-r'', ''-rn'', ''-l''])] cmd"

lemma Validate_None:
  "Validate a (cmd # args) = None \<longleftrightarrow>
     (\<forall>arg \<in> set (cmd # args). \<not> MatchString shellMetaRE arg) \<and> cmd \<in> set (allowedCommands a) \<and>
     (\<forall>arg \<in> set args. arg \<in> set (blockedFlags a) \<longrightarrow> (\<exists>ok. allowedArgSet a cmd = Some ok \<and> arg \<in> set ok)) \<and>
     (\<forall>ok. allowedArgSet a cmd = Some ok \<longrightarrow> (\<forall>arg \<in> set args. HasPrefix arg ''-'' \<longrightarrow> arg \<in> set ok))"
  unfolding Validate_def Let_def
  by (cases "allowedArgSet a cmd") (auto simp: find_None_iff_all split: option.splits if_splits dest!: find_Some_iff [THEN iffD1])

lemma shellMetaRE_iff: "MatchString shellMetaRE arg \<longleftrightarrow> set arg \<inter> set ('';&|$(){}<>'' @ [BACKTICK]) \<noteq> {}"
  unfolding shellMetaRE_def MatchString_OneOf by auto

lemma NewCommandAllowlist_simps:
  "allowedArgSet NewCommandAllowlist = accepted_flags"
  "cmd \<in> set (allowedCommands NewCommandAllowlist) \<longleftrightarrow> cmd = ''cat'' \<or> accepted_flags cmd \<noteq> None"
  "set (blockedFlags NewCommandAllowlist) = {''--pty'', ''--interactive'', ''--tty'', ''-i'', ''-t''}"
  by (auto simp: NewCommandAllowlist_def accepted_flags_def fun_eq_iff)

text \<open>C15. A command line passes the allowlist exactly when no word of it has a shell metacharacter and either the
  command is \<^verbatim>\<open>cat\<close> without one of the five blocked flags, or it is one of the six commands with a table
  of flags and every word that starts with a dash is in its table.\<close>

theorem Validate_accepts:
  "Validate NewCommandAllowlist (cmd # args) = None \<longleftrightarrow>
     (\<forall>arg \<in> set (cmd # args). set arg \<inter> set ('';&|$(){}<>'' @ [BACKTICK]) = {}) \<and>
     (cmd = ''cat'' \<and> set args \<inter> {''--pty'', ''--interactive'', ''--tty'', ''-i'', ''-t''} = {} \<or>
      (\<exists>flags. accepted_flags cmd = Some flags \<and> (\<forall>arg \<in> set args. HasPrefix arg ''-'' \<longrightarrow> arg \<in> set flags)))"
proof -
  define blocked where "blocked = {''--pty'', ''--interactive'', ''--tty'', ''-i'', ''-t''}"
  define meta where "meta = set ('';&|$(){}<>'' @ [BACKTICK])"
  have dash: "\<forall>arg \<in> blocked. HasPrefix arg ''-''" by (simp add: blocked_def)
  have cat: "accepted_flags ''cat'' = None" by (simp add: accepted_flags_def)
  show ?thesis
    unfolding Validate_None NewCommandAllowlist_simps shellMetaRE_iff blocked_def [symmetric] meta_def [symmetric]
    using dash cat by (cases "accepted_flags cmd") auto
qed

theorem Validate_accepts_witness:
  "Validate NewCommandAllowlist [''grep'', ''-i'', ''root'', ''notes.txt''] = None"
  by (rule Validate_accepts [THEN iffD2]) (auto simp: accepted_flags_def)

section \<open>Python code behind comments\<close>

text \<open>Every line of a program, each behind a comment line that ends in a backslash. Python ends a comment at the end of its line, backslash or not.\<close>

definition disguise :: "string list \<Rightarrow> string" where
  "disguise lines = Join (concat (map (\<lambda>line. [''# python'' @ [BACKSLASH], line]) lines)) [NL]"

lemma Split_disguise:
  assumes "lines \<noteq> []" "list_all (\<lambda>line. NL \<notin> set line) lines"
  shows "Split (disguise lines) NL = concat (map (\<lambda>line. [''# python'' @ [BACKSLASH], line]) lines)"
  unfolding disguise_def
proof (rule Split_Join)
  show "concat (map (\<lambda>line. [''# python'' @ [BACKSLASH], line]) lines) \<noteq> []"
    using assms(1) by (cases lines) auto
  show "list_all (\<lambda>w. NL \<notin> set w) (concat (map (\<lambda>line. [''# python'' @ [BACKSLASH], line]) lines))"
    using assms(2) by (auto simp: list_all_iff)
qed

definition continued :: "string \<Rightarrow> bool" where
  "continued line = HasSuffix (TrimRight line [CHR '' '', TAB, CR]) [BACKSLASH]"

lemma collapse_disguise:
  "list_all (\<lambda>line. \<not> continued line) lines \<Longrightarrow>
     collapse_lines [] (concat (map (\<lambda>line. [''# python'' @ [BACKSLASH], line]) lines)) = map (\<lambda>line. ''# python'' @ line) lines"
  by (induction lines) (simp_all add: continued_def TrimRight_def TrimRightFunc_def HasSuffix_def)

lemma TrimSpace_Cons: "\<not> is_space c \<Longrightarrow> \<exists>t. TrimSpace (c # s) = c # t"
  by (cases "list_all is_space s")
    (auto simp: TrimSpace_def TrimLeftFunc_def TrimRightFunc_def dropWhile_append list_all_iff intro: exI [of _ "rev (dropWhile is_space (rev s))"])

lemma python_line_comment: "python_line (i, CHR ''#'' # s) = None"
proof -
  obtain t where "TrimSpace (CHR ''#'' # s) = CHR ''#'' # t" using TrimSpace_Cons [of "CHR ''#''" s] by (auto simp: is_space_def code_def)
  then show ?thesis by (simp add: python_line_def)
qed

lemma first_error_None: "first_error f xs = None \<longleftrightarrow> (\<forall>x \<in> set xs. f x = None)"
  by (induction xs) (auto split: option.splits)

lemma ValidatePythonCode_disguise:
  assumes "list_all (\<lambda>line. NL \<notin> set line \<and> \<not> continued line) lines" and ne: "lines \<noteq> []"
  shows "ValidatePythonCode (disguise lines) = None"
proof -
  from assms(1) have nl: "list_all (\<lambda>line. NL \<notin> set line) lines" and nc: "list_all (\<lambda>line. \<not> continued line) lines"
    by (simp_all add: list_all_iff)
  let ?seen = "map (\<lambda>line. ''# python'' @ line) lines"
  have "collapseBackslashContinuations (disguise lines) = Join ?seen [NL]"
    using Split_disguise [OF ne nl] collapse_disguise [OF nc] by (simp add: collapseBackslashContinuations_def)
  moreover have "Split (Join ?seen [NL]) NL = ?seen"
    using ne nl by (intro Split_Join) (auto simp: list_all_iff)
  ultimately show ?thesis
    by (auto simp: ValidatePythonCode_def Let_def first_error_None python_line_comment dest!: set_zip_rightD)
qed

lemma disguise_python: "lines \<noteq> [] \<Longrightarrow> HasPrefix (disguise lines) ''# python''"
  by (cases lines) (simp_all add: disguise_def)

text \<open>C17. Any Python program whose lines do not end in a backslash passes the validator and the verifier once each line is put
  behind a comment line that ends in a backslash, although Python runs the same program: the validator
  joins the line to the comment before it looks at it.\<close>

theorem disguised_program_accepted:
  assumes "list_all (\<lambda>line. NL \<notin> set line \<and> \<not> continued line) lines" "lines \<noteq> []"
  shows "ValidatePythonCode (disguise lines) = None \<and> vr_Passed (VerifyToolCode ParseImports (disguise lines)) \<and>
    Split (disguise lines) NL = concat (map (\<lambda>line. [''# python'' @ [BACKSLASH], line]) lines)"
proof -
  have "IsPythonCode (disguise lines)" using disguise_python [OF assms(2)] by (simp add: IsPythonCode_def)
  moreover have "list_all (\<lambda>line. NL \<notin> set line) lines" using assms(1) by (simp add: list_all_iff)
  ultimately show ?thesis
    using ValidatePythonCode_disguise [OF assms] Split_disguise [OF assms(2)]
    by (simp add: VerifyToolCode_def validate_tool_code_def blank_result_def)
qed

theorem disguised_program_accepted_witness:
  "ValidatePythonCode (disguise [''import subprocess'', ''subprocess.run(cmd)'']) = None"
  using disguised_program_accepted [of "[''import subprocess'', ''subprocess.run(cmd)'']"]
  by (simp add: continued_def TrimRight_def TrimRightFunc_def HasSuffix_def)

section \<open>The executors\<close>

text \<open>What the kernel does with a process under a filter that forbids \<^verbatim>\<open>execve\<close>: it starts no program.\<close>

definition execve_denied :: "sandbox_os \<Rightarrow> bool" where
  "execve_denied os \<longleftrightarrow>
    (\<forall>filters cmd. (\<exists>names \<in> set filters. ''execve'' \<notin> set names) \<longrightarrow> (\<exists>err. os_Run os filters cmd = NotStarted err []))"

lemma execve_not_allowed: "''execve'' \<notin> set allowedSyscalls"
  by (simp add: allowedSyscalls_def)

lemma exec_failure_code [simp]: "ex_ExitCode (exec_failure err stderr) = - 1"
  by (simp add: exec_failure_def)

definition locked_down :: "sandbox_os \<Rightarrow> syscall_filters \<Rightarrow> bool" where
  "locked_down os filters \<longleftrightarrow> (os_Supported os \<and> os_LoadFilter os []) \<and>
     (filters = [] \<or> (\<exists>names \<in> set filters. ''execve'' \<notin> set names))"

lemma prepare_locks:
  "locked_down os filters \<Longrightarrow> \<exists>names \<in> set (fst (prepareSandboxedCmd os filters)). ''execve'' \<notin> set names"
  using execve_not_allowed by (auto simp: locked_down_def prepareSandboxedCmd_def LoadSeccompFilter_def)

lemma locked_run:
  assumes "execve_denied os" "locked_down os filters" "prepareSandboxedCmd os filters = (filters', sandboxErr)"
  shows "ex_ExitCode (run_result (os_Run os filters' cmd)) = - 1" "locked_down os filters'"
proof -
  from prepare_locks [OF assms(2)] assms(3) have deny: "\<exists>names \<in> set filters'. ''execve'' \<notin> set names" by simp
  with assms(1) obtain err where "os_Run os filters' cmd = NotStarted err []"
    unfolding execve_denied_def by blast
  then show "ex_ExitCode (run_result (os_Run os filters' cmd)) = - 1" by (simp add: run_result_def)
  from deny assms(2) show "locked_down os filters'" by (simp add: locked_down_def)
qed

lemma locked_ExecuteTool:
  assumes "execve_denied os" "locked_down os filters" "ExecuteTool ParseImports os s filters toolID inputJSON = (r, filters', cmds)"
  shows "ex_ExitCode r = - 1 \<and> locked_down os filters'"
proof -
  obtain fs e where p: "prepareSandboxedCmd os filters = (fs, e)" by (cases "prepareSandboxedCmd os filters")
  note run = locked_run [OF assms(1,2) p]
  show ?thesis
    using assms(2,3) run
    by (auto simp: ExecuteTool_def run_python_tool_def run_go_tool_def Let_def p
      split: option.splits sum.splits if_splits run_outcome.splits)
qed

fun execute_all ::
  "(string \<Rightarrow> string list option) \<Rightarrow> sandbox_os \<Rightarrow> ExecSandbox \<Rightarrow> syscall_filters \<Rightarrow> (string \<times> string) list \<Rightarrow> ExecutionResult list" where
  "execute_all ParseImports os s filters [] = []"
| "execute_all ParseImports os s filters ((toolID, inputJSON) # calls) =
    (let (r, filters', _) = ExecuteTool ParseImports os s filters toolID inputJSON in
     r # execute_all ParseImports os s filters' calls)"

lemma locked_execute_all:
  "execve_denied os \<Longrightarrow> locked_down os filters \<Longrightarrow> list_all (\<lambda>r. ex_ExitCode r = - 1) (execute_all ParseImports os s filters calls)"
proof (induction calls arbitrary: filters)
  case (Cons c calls)
  obtain toolID inputJSON where "c = (toolID, inputJSON)" by force
  moreover obtain r filters' cmds where ex: "ExecuteTool ParseImports os s filters toolID inputJSON = (r, filters', cmds)"
    by (cases "ExecuteTool ParseImports os s filters toolID inputJSON") auto
  ultimately show ?case
    using locked_ExecuteTool [OF Cons.prems ex] Cons.IH [OF Cons.prems(1), of filters'] by simp
qed simp

text \<open>Without a filter a tool is run as on a kernel that has none.\<close>

lemma unfiltered_ExecuteTool:
  assumes "\<not> (os_Supported os \<and> os_LoadFilter os [])"
  shows "ExecuteTool ParseImports os s [] toolID inputJSON = ExecuteTool ParseImports (os\<lparr>os_Supported := False\<rparr>) s [] toolID inputJSON"
    "fst (snd (ExecuteTool ParseImports os s [] toolID inputJSON)) = []"
  using assms
  by (auto simp: ExecuteTool_def run_python_tool_def run_go_tool_def prepareSandboxedCmd_def LoadSeccompFilter_def Let_def
      split: option.splits sum.splits run_outcome.splits)

lemma unfiltered_execute_all:
  assumes "\<not> (os_Supported os \<and> os_LoadFilter os [])"
  shows "execute_all ParseImports os s [] calls = execute_all ParseImports (os\<lparr>os_Supported := False\<rparr>) s [] calls"
proof (induction calls)
  case (Cons c calls)
  obtain toolID inputJSON where c: "c = (toolID, inputJSON)" by force
  obtain r filters' cmds where ex: "ExecuteTool ParseImports os s [] toolID inputJSON = (r, filters', cmds)" by (metis prod_cases3)
  have "filters' = []" using unfiltered_ExecuteTool(2) [OF assms, of ParseImports s toolID inputJSON] by (simp add: ex)
  moreover have "ExecuteTool ParseImports (os\<lparr>os_Supported := False\<rparr>) s [] toolID inputJSON = (r, filters', cmds)"
    using unfiltered_ExecuteTool(1) [OF assms, of ParseImports s toolID inputJSON] by (simp only: ex)
  ultimately show ?case using Cons.IH by (simp add: c ex)
qed simp

text \<open>C18. What the system call filter does to the tools that \<^verbatim>\<open>ExecSandbox\<close> runs, when the kernel starts no program for a process under a filter without
  \<^verbatim>\<open>execve\<close>. If the kernel supports filters and the first one can be installed, the first run puts it on the server itself, and as it does not
  allow \<^verbatim>\<open>execve\<close> no tool is ever run: from a fresh server on, every execution of every tool ends with exit code -1. If the kernel has no
  filters or the installation fails, every tool is run exactly as if there were no filter.\<close>

theorem filter_stops_every_tool:
  assumes "execve_denied os"
  shows "(os_Supported os \<and> os_LoadFilter os [] \<longrightarrow> list_all (\<lambda>r. ex_ExitCode r = - 1) (execute_all ParseImports os s [] calls)) \<and>
    (\<not> (os_Supported os \<and> os_LoadFilter os []) \<longrightarrow>
       execute_all ParseImports os s [] calls = execute_all ParseImports (os\<lparr>os_Supported := False\<rparr>) s [] calls)"
  using locked_execute_all [OF assms, of "[]"] unfiltered_execute_all [of os] by (simp add: locked_down_def)

definition sample_os :: sandbox_os where
  "sample_os = \<lparr>os_MkdirTemp = Inr ''/tmp/t'', os_WriteFile = None, os_Supported = True, os_LoadFilter = (\<lambda>filters. filters = []),
     os_Run = (\<lambda>filters cmd. if list_all (\<lambda>names. ''execve'' \<in> set names) filters then Exited ''ok'' [] 0
       else NotStarted ''operation not permitted'' [])\<rparr>"

definition sample_sandbox :: ExecSandbox where
  "sample_sandbox = \<lparr>metaRepo = Some (\<lambda>_. Inr (''# python'' @ [NL] @ ''x = 1'')), pythonCmd = ''python3'', goCmd = ''go''\<rparr>"

lemma sample_os_denies: "execve_denied sample_os"
  by (auto simp: execve_denied_def sample_os_def list_all_iff)

theorem filter_stops_every_tool_witness:
  "map ex_ExitCode (execute_all (\<lambda>_. None) sample_os sample_sandbox [] [(''t'', ''{}''), (''t'', ''{}'')]) = [- 1, - 1]"
  using filter_stops_every_tool [OF sample_os_denies, of "\<lambda>_. None" sample_sandbox "[(''t'', ''{}''), (''t'', ''{}'')]"]
  by (simp add: sample_os_def Let_def split: prod.splits)

section \<open>Only validated code is started\<close>

definition validated_start :: "(string \<Rightarrow> string list option) \<Rightarrow> command \<Rightarrow> bool" where
  "validated_start ParseImports cmd \<longleftrightarrow>
    (\<exists>src. cmd_files cmd = [(''tool.py'', src)] \<and> ValidatePythonCode src = None \<or>
           cmd_files cmd = [(''main.go'', src)] \<and> ValidateGoCode ParseImports src = None)"

lemma ExecuteTool_validated:
  "ExecuteTool ParseImports os s filters toolID inputJSON = (r, filters', cmds) \<Longrightarrow> list_all (validated_start ParseImports) cmds"
  by (auto simp: ExecuteTool_def run_python_tool_def run_go_tool_def Let_def validated_start_def
    split: option.splits sum.splits if_splits run_outcome.splits prod.splits)

lemma skill_loop_validated:
  assumes "\<And>fs tid json r fs' cmds. exec fs tid json = (r, fs', cmds) \<Longrightarrow> list_all P cmds"
  shows "skill_loop exec Marshal Unmarshal wrap result input filters tids = (r, filters', cmds) \<Longrightarrow> list_all P cmds"
proof (induction tids arbitrary: result input filters r filters' cmds)
  case (Cons tid tids)
  from Cons.prems show ?case
    by (auto simp: Let_def split: prod.splits if_splits dest: assms Cons.IH)
qed simp

lemma container_validated:
  "container_ExecuteTool ParseImports fmt2 os s filters toolID inputJSON = (r, filters', cmds) \<Longrightarrow>
     list_all (validated_start ParseImports) cmds"
  by (auto simp: container_ExecuteTool_def executeInContainer_def Let_def validated_start_def
    split: option.splits sum.splits if_splits run_outcome.splits)

text \<open>C26. Whatever a skill consists of and whatever its tools print, every command a run of the skill starts works on one source
  file, which the validator of its language has accepted.\<close>

theorem RunSkill_only_validated:
  assumes "RunSkill ParseImports os s GetSkillToolIDs UnmarshalIDs Marshal Unmarshal wrap filters skillID input = (r, filters', cmds)"
  shows "list_all (validated_start ParseImports) cmds"
  using assms skill_loop_validated [where exec = "ExecuteTool ParseImports os s", OF ExecuteTool_validated]
  by (auto simp: RunSkill_def split: option.splits sum.splits)

definition sample_skill_run :: execution where
  "sample_skill_run =
    RunSkill (\<lambda>_. None) (sample_os\<lparr>os_Supported := False\<rparr>) sample_sandbox (\<lambda>_. Inr ''two'') (\<lambda>_. Some [''t'', ''t'']) (\<lambda>i::string. i)
      Some (\<lambda>out. out) [] ''skill'' ''{}''"

theorem RunSkill_only_validated_witness:
  "list_all (validated_start (\<lambda>_. None)) (snd (snd sample_skill_run))"
  by (rule RunSkill_only_validated [OF trans [OF sample_skill_run_def [symmetric] trans [OF prod.collapse [symmetric]
        arg_cong [where f = "Pair (fst sample_skill_run)", OF prod.collapse [symmetric]]]]])

section \<open>Go tools in containers\<close>

text \<open>C37. A tool whose text contains \<^verbatim>\<open>import\<close> and a blank, as a Go program with an import does, is taken for Python: once the Python
  rules accept it, the container runs it with the Python interpreter.\<close>

theorem container_runs_imports_as_python:
  assumes "toolCode s = Some get" "get toolID = Inr src" "Contains src ''import ''" "ValidatePythonCode src = None"
    "dockerCheck s" "os_MkdirTemp os = Inr tmpDir" "os_WriteFile os = None"
  shows "\<exists>cmd. snd (snd (container_ExecuteTool ParseImports fmt2 os s filters toolID inputJSON)) = [cmd] \<and>
    cmd_files cmd = [(''tool.py'', src)] \<and> last (cmd_argv cmd) = ''python /workspace/tool.py'' \<and>
    PythonImage (config s) \<in> set (cmd_argv cmd)"
proof -
  have "IsPythonCode src" using assms(3) by (simp add: IsPythonCode_def)
  with assms show ?thesis
    by (simp add: container_ExecuteTool_def executeInContainer_def docker_args_def Let_def)
qed

definition go_hello :: string where
  "go_hello = ''package main'' @ [NL] @ ''import '' @ [DQ] @ ''fmt'' @ [DQ] @ [NL] @ ''func main() { fmt.Println(1) }''"

definition sample_container :: ContainerSandbox where
  "sample_container = \<lparr>toolCode = Some (\<lambda>_. Inr go_hello), config = DefaultContainerConfig, hasRunsc = False, dockerCheck = True\<rparr>"

lemma go_hello_accepted: "ValidatePythonCode go_hello = None"
  by code_simp

theorem container_runs_imports_as_python_witness:
  "\<exists>cmd. snd (snd (container_ExecuteTool (\<lambda>_. Some [[DQ] @ ''fmt'' @ [DQ]]) (\<lambda>_. ''0.50'') sample_os sample_container [] ''t'' ''{}'')) = [cmd] \<and>
    cmd_files cmd = [(''tool.py'', go_hello)] \<and> last (cmd_argv cmd) = ''python /workspace/tool.py'' \<and>
    PythonImage (config sample_container) \<in> set (cmd_argv cmd)"
  by (rule container_runs_imports_as_python)
    (simp_all add: sample_container_def sample_os_def go_hello_accepted, simp add: go_hello_def)

end
