(* ===== verification/Go_Strings.thy ===== *)
theory Go_Strings
  imports Aleph_Prelude
begin

text \<open>
  Further functions of Go's package \<^verbatim>\<open>strings\<close>: replacement of texts of any length, \<^verbatim>\<open>NewReplacer\<close>,
  \<^verbatim>\<open>LastIndex\<close>, \<^verbatim>\<open>Repeat\<close> and \<^verbatim>\<open>SplitN\<close> with the limit 2.
\<close>

text \<open>
  \<^verbatim>\<open>NewReplacer(old, new, ...).Replace\<close>: at each position the first pair, in the order of the arguments, whose
  old text occurs there; \<open>k\<close> counts the bytes of the replaced text still to be passed over. No old
  text is empty.
\<close>

fun replacer_from :: "(string \<times> string) list \<Rightarrow> nat \<Rightarrow> string \<Rightarrow> string" where
  "replacer_from ps k [] = []"
| "replacer_from ps (Suc k) (c # s) = replacer_from ps k s"
| "replacer_from ps 0 (c # s) =
    (case find (\<lambda>(old, new). HasPrefix (c # s) old) ps of
       None \<Rightarrow> c # replacer_from ps 0 s
     | Some (old, new) \<Rightarrow> new @ replacer_from ps (length old - 1) s)"

definition Replacer :: "(string \<times> string) list \<Rightarrow> string \<Rightarrow> string" where
  "Replacer ps s = replacer_from ps 0 s"

definition ReplaceAllText :: "string \<Rightarrow> string \<Rightarrow> string \<Rightarrow> string" where
  "ReplaceAllText s old new = Replacer [(old, new)] s"

text \<open>\<^verbatim>\<open>strings.Replace\<close> with the limit 1.\<close>

definition ReplaceFirst :: "string \<Rightarrow> string \<Rightarrow> string \<Rightarrow> string" where
  "ReplaceFirst s old new =
    (case Index s old of None \<Rightarrow> s | Some i \<Rightarrow> take i s @ new @ drop (i + length old) s)"

text \<open>The operator \<^verbatim>\<open><\<close> on strings.\<close>

fun bytes_before :: "string \<Rightarrow> string \<Rightarrow> bool" where
  "bytes_before _ [] = False"
| "bytes_before [] (_ # _) = True"
| "bytes_before (x # xs) (y # ys) = (if x = y then bytes_before xs ys else (of_char x :: nat) < of_char y)"

fun LastIndex :: "string \<Rightarrow> string \<Rightarrow> nat option" where
  "LastIndex [] sub = (if sub = [] then Some 0 else None)"
| "LastIndex (c # s) sub =
    (case LastIndex s sub of
       Some i \<Rightarrow> Some (Suc i)
     | None \<Rightarrow> if HasPrefix (c # s) sub then Some 0 else None)"

definition Repeat :: "string \<Rightarrow> nat \<Rightarrow> string" where
  "Repeat s n = concat (replicate n s)"

text \<open>\<^verbatim>\<open>SplitN(s, sep, 2)\<close> where \<open>sep\<close> occurs: the text before and the text after the first occurrence.\<close>

definition Cut :: "string \<Rightarrow> string \<Rightarrow> (string \<times> string) option" where
  "Cut s sep = map_option (\<lambda>i. (take i s, drop (i + length sep) s)) (Index s sep)"

lemma replacer_from_fresh:
  "(\<And>old new. (old, new) \<in> set ps \<Longrightarrow> \<not> Contains s old) \<Longrightarrow> replacer_from ps 0 s = s"
proof (induction s)
  case (Cons c s)
  then have "find (\<lambda>(old, new). HasPrefix (c # s) old) ps = None"
    by (auto simp: find_None_iff)
  with Cons show ?case by auto
qed simp

lemma Replacer_fresh: "(\<And>old new. (old, new) \<in> set ps \<Longrightarrow> \<not> Contains s old) \<Longrightarrow> Replacer ps s = s"
  by (simp add: Replacer_def replacer_from_fresh)

end
