(* ===== verification/Repair_Fixes.thy ===== *)
theory Repair_Fixes
  imports Go_Regexp Go_Strings
begin

text \<open>
  The code transformations of the repair engine, \<^verbatim>\<open>internal/repair/repair.go\<close>: one function per fix of the catalog and the
  helpers they share. \<open>None\<close> stands for a run-time panic. The comment texts are the bytes of the source.
\<close>

section \<open>Imports\<close>

definition addImportToBlock :: "string \<Rightarrow> string \<Rightarrow> string" where
  "addImportToBlock src importPath =
    (let package_decl =
       (if HasPrefix src ''package '' then
          (case Index (drop 7 src) [NL] of
             Some pkgEnd \<Rightarrow>
               if pkgEnd > 0 then
                 (let pos = 7 + pkgEnd + 1 in
                  take pos src @ [NL] @ ''import ('' @ [NL, TAB] @ importPath @ [NL] @ '')'' @ [NL] @ drop pos src)
               else src
           | None \<Rightarrow> src)
        else src);
       single =
       (case Index src (''import '' @ [DQ]) of
          Some importIdx \<Rightarrow>
            (case Index (drop importIdx src) [NL] of
               Some lineEnd \<Rightarrow>
                 if lineEnd > 0 then
                   (let existingImport = take lineEnd (drop importIdx src) in
                    take importIdx src @ ''import ('' @ [NL, TAB] @ drop 7 existingImport @ [NL, TAB] @ importPath @ [NL] @ '')'' @
                    drop (importIdx + lineEnd) src)
                 else src
             | None \<Rightarrow> src)
        | None \<Rightarrow> package_decl) in
     if Contains src (''import ('' @ [NL]) then
       (case LastIndex src ([NL] @ '')'') of
          Some idx \<Rightarrow>
            if idx > 0 then
              (if \<not> Contains (take idx src) importPath then take idx src @ [NL, TAB] @ importPath @ drop idx src else src)
            else single
        | None \<Rightarrow> single)
     else single)"

definition add_import_if :: "bool \<Rightarrow> string \<Rightarrow> string \<Rightarrow> string" where
  "add_import_if needed importPath src = (if needed then addImportToBlock src importPath else src)"

definition quoted_path :: "string \<Rightarrow> string" where
  "quoted_path p = [DQ] @ p @ [DQ]"

definition fixMissingImports :: "string \<Rightarrow> string" where
  "fixMissingImports src =
    (if \<not> Contains src ''import'' then src
     else
       (let need = (\<lambda>src use path. Contains src use \<and> \<not> Contains src (quoted_path path));
            s1 = add_import_if (need src ''context.'' ''context'') (quoted_path ''context'') src;
            s2 = add_import_if (need s1 ''fmt.'' ''fmt'') (quoted_path ''fmt'') s1;
            s3 = add_import_if (need s2 ''json.'' ''encoding/json'') (quoted_path ''encoding/json'') s2;
            s4 = add_import_if (need s3 ''http.'' ''net/http'') (quoted_path ''net/http'') s3;
            s5 = add_import_if (need s4 ''ioutil.'' ''io/ioutil'' \<and> \<not> Contains s4 (quoted_path ''io'')) (quoted_path ''io'') s4;
            s6 = add_import_if (need s5 ''strings.'' ''strings'' \<or> need s5 ''strings.ToLower'' ''strings'') (quoted_path ''strings'') s5;
            s7 = add_import_if (need s6 ''time.'' ''time'') (quoted_path ''time'') s6 in
        add_import_if (need s7 ''os.'' ''os'') (quoted_path ''os'') s7))"

definition fixImportPath :: "string \<Rightarrow> string" where
  "fixImportPath =
    Replacer [(quoted_path ''context'', quoted_path ''context''), (quoted_path ''fmt'', quoted_path ''fmt''),
      (quoted_path ''encoding/json'', quoted_path ''encoding/json''), (quoted_path ''io/ioutil'', quoted_path ''io'')]"

section \<open>Syntax, deprecated calls, configuration\<close>

definition close_signature :: "string \<Rightarrow> string" where
  "close_signature line =
    (let trimmed = TrimSpace line in
     if HasPrefix trimmed ''func '' \<and> \<not> HasSuffix trimmed ''{'' then
       (let parenOpen = Count trimmed ''(''; parenClose = Count trimmed '')'' in
        if parenOpen > parenClose then line @ Repeat '')'' (parenOpen - parenClose) else line)
     else line)"

definition fixSyntaxError :: "string \<Rightarrow> string" where
  "fixSyntaxError src =
    (let op = Count src ''{''; cl = Count src ''}'';
         src' = (if op > cl then src @ Repeat ([NL] @ ''}'') (op - cl) else src) in
     Join (map close_signature (Split src' NL)) [NL])"

definition fixDeprecatedAPI :: "string \<Rightarrow> string" where
  "fixDeprecatedAPI =
    Replacer [(''ioutil.ReadAll'', ''io.ReadAll''), (''ioutil.ReadFile'', ''os.ReadFile''), (''ioutil.WriteFile'', ''os.WriteFile''),
      (''ioutil.ReadDir'', ''os.ReadDir''), (''ioutil.TempDir'', ''os.MkdirTemp''), (''ioutil.TempFile'', ''os.CreateTemp''),
      (''ioutil.NopCloser'', ''io.NopCloser''), (''ioutil.Discard'', ''io.Discard'')]"

definition fixConfiguration :: "string \<Rightarrow> string" where
  "fixConfiguration src = ReplaceAllText src (quoted_path ''localhost:8080'') (''os.Getenv('' @ quoted_path ''ALEPH_ENDPOINT'' @ '')'')"

section \<open>Comments after the first function\<close>

definition funcDeclPattern :: re where
  "funcDeclPattern = Seqs [LineB, Lit ''func'', Plus Sp, Plus Wd, Lit ''('']"

definition addCommentAfterFuncDecl :: "string \<Rightarrow> string \<Rightarrow> string" where
  "addCommentAfterFuncDecl src comment =
    (case Index src ''func Handle'' of
       Some idx \<Rightarrow>
         (case Index (drop idx src) ''{'' of
            Some braceIdx \<Rightarrow>
              if braceIdx > 0 then take (idx + braceIdx + 1) src @ comment @ drop (idx + braceIdx + 1) src else src @ comment
          | None \<Rightarrow> src @ comment)
     | None \<Rightarrow>
         (case FindStringIndex funcDeclPattern src of
            Some loc \<Rightarrow>
              (case Index (drop loc src) ''{'' of
                 Some braceIdx \<Rightarrow>
                   if braceIdx > 0 then take (loc + braceIdx + 1) src @ comment @ drop (loc + braceIdx + 1) src else src @ comment
               | None \<Rightarrow> src @ comment)
          | None \<Rightarrow> src @ comment))"

section \<open>Performance\<close>

definition nestedLoopPattern :: re where
  "nestedLoopPattern =
    Seqs [Lit ''for'', Plus Sp, Star (NoneOf ''{''), Lit ''{'', Star (NoneOf ''}''), Lit ''for'', Plus Sp]"

definition sequentialDBPattern :: re where
  "sequentialDBPattern =
    Seqs [Lit ''db.'', Star Sp, Alts [Lit ''Query'', Lit ''QueryRow'', Lit ''Exec''], Star Sp, Lit ''('']"

definition httpCallPattern :: re where
  "httpCallPattern =
    Alts [Seqs [Lit ''http.'', Alts [Lit ''Get'', Lit ''Post'', Lit ''Head'', Lit ''Put'', Lit ''Delete''], Star Sp, Lit ''(''],
      Seqs [Lit ''client.Do'', Star Sp, Lit ''(''], Seqs [Lit ''http.NewRequest'', Star Sp, Lit ''('']]"

definition httpCallCount :: "string \<Rightarrow> nat" where
  "httpCallCount src = length (FindAllString httpCallPattern src)"

definition addConcurrentHTTPPattern :: "string \<Rightarrow> string" where
  "addConcurrentHTTPPattern src = addCommentAfterFuncDecl src
     (''// PERFORMANCE FIX: Multiple HTTP calls detected '' @ [CHR 0xE2, CHR 0x80, CHR 0x94] @ '' consider parallelizing with goroutines:'' @ [NL] @
      [TAB] @ ''// var wg sync.WaitGroup'' @ [NL] @
      [TAB] @ ''// errCh := make(chan error, N)'' @ [NL] @
      [TAB] @ ''// for _, url := range urls {'' @ [NL] @
      [TAB] @ ''//     wg.Add(1)'' @ [NL] @
      [TAB] @ ''//     go func(u string) {'' @ [NL] @
      [TAB] @ ''//         defer wg.Done()'' @ [NL] @
      [TAB] @ ''//         resp, err := http.Get(u)'' @ [NL] @
      [TAB] @ ''//         if err != nil { errCh <- err; return }'' @ [NL] @
      [TAB] @ ''//         defer resp.Body.Close()'' @ [NL] @
      [TAB] @ ''//         // process resp'' @ [NL] @
      [TAB] @ ''//     }(url)'' @ [NL] @
      [TAB] @ ''// }'' @ [NL] @
      [TAB] @ ''// wg.Wait()'' @ [NL] @
      [TAB] @ ''// close(errCh)'' @ [NL])"

definition countBraces :: "string \<Rightarrow> int" where
  "countBraces line = int (Count line ''{'') - int (Count line ''}'')"

definition starts_loop :: "string \<Rightarrow> bool" where
  "starts_loop trimmed \<longleftrightarrow> HasPrefix trimmed ''for '' \<or> trimmed = ''for'' \<or> HasPrefix trimmed ''for range''"

definition insertBeforeLastBrace :: "string \<Rightarrow> string \<Rightarrow> string" where
  "insertBeforeLastBrace body text =
    (let lines = Split body NL in
     case find (\<lambda>i. TrimSpace (lines ! i) = ''}'') (rev [0..<length lines]) of
       Some i \<Rightarrow> Join (take i lines) [NL] @ [NL] @ text @ [NL] @ Join (drop i lines) [NL]
     | None \<Rightarrow> body @ [NL] @ text)"

definition cancelBlock :: string where
  "cancelBlock = [TAB, TAB] @ ''select {'' @ [NL] @
    [TAB, TAB] @ ''case <-ctx.Done():'' @ [NL] @
    [TAB, TAB, TAB] @ ''return '' @ [DQ, DQ] @ '', ctx.Err()'' @ [NL] @
    [TAB, TAB] @ ''default:'' @ [NL] @
    [TAB, TAB] @ ''}''"

fun cancel_lines :: "bool \<Rightarrow> bool \<Rightarrow> int \<Rightarrow> string list \<Rightarrow> string list \<Rightarrow> string list" where
  "cancel_lines inFunc inLoop depth loopLines [] = []"
| "cancel_lines inFunc inLoop depth loopLines (line # rest) =
    (let trimmed = TrimSpace line; inFunc' = (inFunc \<or> HasPrefix trimmed ''func '') in
     if \<not> inFunc' then line # cancel_lines inFunc' inLoop depth loopLines rest
     else
       (let starts = (\<not> inLoop \<and> starts_loop trimmed) in
        if inLoop \<or> starts then
          (let loopLines' = (if starts then [] else loopLines) @ [line];
               depth' = (if starts then 0 else depth) + countBraces line;
               loopBody = Join loopLines' [NL] in
           if depth' \<le> 0 then
             (if \<not> Contains loopBody ''ctx.Done()'' \<and> \<not> Contains loopBody ''ctx.Err()''
              then insertBeforeLastBrace loopBody cancelBlock else loopBody)
             # cancel_lines inFunc' False depth' [] rest
           else cancel_lines inFunc' True depth' loopLines' rest)
        else line # cancel_lines inFunc' inLoop depth loopLines rest))"

definition addContextCancelInLoops :: "string \<Rightarrow> string" where
  "addContextCancelInLoops src = Join (cancel_lines False False 0 [] (Split src NL)) [NL]"

definition concat_rhs :: "string \<Rightarrow> bool" where
  "concat_rhs trimmed =
    (case Cut trimmed ''+='' of
       Some (_, after) \<Rightarrow>
         (let rhs = TrimSpace after in
          HasPrefix rhs [DQ] \<or> HasPrefix rhs [BACKTICK] \<or> Contains rhs ''fmt.Sprint'' \<or> Contains rhs ''strconv.'')
     | None \<Rightarrow> False)"

fun concat_in_loop :: "int \<Rightarrow> bool \<Rightarrow> string list \<Rightarrow> bool" where
  "concat_in_loop depth inLoop [] = False"
| "concat_in_loop depth inLoop (line # rest) =
    (let trimmed = TrimSpace line; inLoop' = (inLoop \<or> starts_loop trimmed); depth' = depth + countBraces line in
     if inLoop' \<and> concat_rhs trimmed then True
     else concat_in_loop depth' (inLoop' \<and> \<not> depth' \<le> 0) rest)"

definition hasStringConcatInLoop :: "string \<Rightarrow> bool" where
  "hasStringConcatInLoop src = concat_in_loop 0 False (Split src NL)"

fun builder_name :: "string list \<Rightarrow> string" where
  "builder_name [] = []"
| "builder_name (l # rest) =
    (let t = TrimSpace l in
     case Cut t ''+='' of
       Some (before, _) \<Rightarrow> TrimSpace before
     | None \<Rightarrow> if Contains t ''}'' \<and> countBraces l < 0 then [] else builder_name rest)"

text \<open>
  Where the variable has a declaration the function goes on to compile a pattern with a negative lookahead, \<^verbatim>\<open>(?!\.String)\<close>, which
  the package \<^verbatim>\<open>regexp\<close> does not accept: \<^verbatim>\<open>MustCompile\<close> panics, and what was replaced before is lost.
\<close>

definition fixStringConcatInLoop :: "string \<Rightarrow> string option" where
  "fixStringConcatInLoop src =
    (let name = builder_name (dropWhile (\<lambda>line. \<not> starts_loop (TrimSpace line)) (Split src NL)) in
     if name = [] then Some src
     else
       (let declPattern = Alts [Seqs [Lit ''var'', Plus Sp, Lit name, Plus Sp, Lit ''string''],
              Seqs [Lit name, Star Sp, Lit '':='', Star Sp, Lit [DQ, DQ]]] in
        if MatchString declPattern src then None
        else Some (addCommentAfterFuncDecl src
          ([NL] @
           [TAB] @ ''// PERFORMANCE FIX: Use strings.Builder instead of += in loop:'' @ [NL] @
           [TAB] @ ''// var builder strings.Builder'' @ [NL] @
           [TAB] @ ''// builder.WriteString('' @ [DQ] @ ''...'' @ [DQ] @ '')'' @ [NL] @
           [TAB] @ ''// result := builder.String()''))))"

definition osReadFilePattern :: re where
  "osReadFilePattern =
    Seqs [Lit ''os.ReadFile('', Star Sp, Lit [DQ], Plus (NoneOf [DQ]), Lit [DQ], Star Sp, Lit '')'']"

text \<open>The group of the pattern: the text between the first two quotes of a match.\<close>

definition read_path :: "string \<Rightarrow> string" where
  "read_path m = takeWhile (\<lambda>c. c \<noteq> DQ) (tl (dropWhile (\<lambda>c. c \<noteq> DQ) m))"

text \<open>The loop returns the first path with two reads in the iteration order of a map: \<open>pick\<close> chooses among them.\<close>

definition repeatedFileRead :: "(string list \<Rightarrow> string) \<Rightarrow> string \<Rightarrow> string" where
  "repeatedFileRead pick src =
    (let paths = map read_path (FindAllString osReadFilePattern src);
         repeated = filter (\<lambda>p. count_list paths p > 1) (remdups paths) in
     if repeated = [] then [] else pick repeated)"

definition addFileReadCaching :: "string \<Rightarrow> string \<Rightarrow> string" where
  "addFileReadCaching src filePath = addCommentAfterFuncDecl src
     ([NL] @
      [TAB] @ ''// PERFORMANCE FIX: File '' @ filePath @
      '' is read multiple times. Consider caching with sync.Once:'' @ [NL] @
      [TAB] @ ''// var once sync.Once'' @ [NL] @
      [TAB] @ ''// var cachedData []byte'' @ [NL] @
      [TAB] @ ''// var cacheErr error'' @ [NL] @
      [TAB] @ ''// once.Do(func() {'' @ [NL] @
      [TAB] @ ''//     cachedData, cacheErr = os.ReadFile('' @ [DQ] @ filePath @
      [DQ] @ '')'' @ [NL] @
      [TAB] @ ''// })'' @ [NL] @
      [TAB] @ ''// if cacheErr != nil { return '' @ [DQ, DQ] @ '', cacheErr }'')"

definition addNestedLoopBreakSuggestion :: "string \<Rightarrow> string" where
  "addNestedLoopBreakSuggestion src = addCommentAfterFuncDecl src
     ([NL] @
      [TAB] @ ''// PERFORMANCE FIX: Nested loops detected '' @ [CHR 0xE2, CHR 0x80, CHR 0x94] @ '' consider adding break conditions'' @ [NL] @
      [TAB] @ ''// or limiting inner iterations to prevent O(n'' @ [CHR 0xC2, CHR 0xB2] @ '') or worse behavior:'' @ [NL] @
      [TAB] @ ''// for i := 0; i < len(outer); i++ {'' @ [NL] @
      [TAB] @ ''//     for j := 0; j < len(inner) && j < maxIterations; j++ {'' @ [NL] @
      [TAB] @ ''//         if condition { break }'' @ [NL] @
      [TAB] @ ''//     }'' @ [NL] @
      [TAB] @ ''// }'')"

definition dbCallCount :: "string \<Rightarrow> nat" where
  "dbCallCount src = length (FindAllString sequentialDBPattern src)"

definition addBatchDBSuggestion :: "string \<Rightarrow> string" where
  "addBatchDBSuggestion src = addCommentAfterFuncDecl src
     ([NL] @
      [TAB] @ ''// PERFORMANCE FIX: Multiple database calls detected '' @ [CHR 0xE2, CHR 0x80, CHR 0x94] @ '' consider batching:'' @ [NL] @
      [TAB] @ ''// 1. Use a single query with JOINs instead of N+1 queries'' @ [NL] @
      [TAB] @ ''// 2. Use db.Query with IN clause for batch lookups'' @ [NL] @
      [TAB] @ ''// 3. Use transactions for multiple writes: tx, err := db.Begin()'')"

definition fixPerformance :: "(string list \<Rightarrow> string) \<Rightarrow> string \<Rightarrow> string option" where
  "fixPerformance pick src =
    (let s1 = (if httpCallCount src > 1 then addConcurrentHTTPPattern src else src);
         s2 = (if Contains s1 ''context'' then addContextCancelInLoops s1 else s1) in
     case (if hasStringConcatInLoop s2 then fixStringConcatInLoop s2 else Some s2) of
       None \<Rightarrow> None
     | Some s3 \<Rightarrow>
         (let path = repeatedFileRead pick s3;
              s4 = (if path \<noteq> [] then addFileReadCaching s3 path else s3);
              s5 = (if MatchString nestedLoopPattern s4 then addNestedLoopBreakSuggestion s4 else s4) in
          Some (if dbCallCount s5 > 1 then addBatchDBSuggestion s5 else s5)))"

section \<open>Caching\<close>

definition syncMapPattern :: re where
  "syncMapPattern = Seqs [Lit ''sync.Map'', WordB]"

definition manualCachePattern :: re where
  "manualCachePattern =
    Alts [Seqs [Alts [Lit ''var'', Lit ''map[''], Star Wd, Lit ''_cache'', WordB],
      Seqs [WordB, Lit ''cache'', Star Sp, Lit '':='', Star Sp, Lit ''make(map['']]"

definition fixCaching :: "string \<Rightarrow> string" where
  "fixCaching src =
    (let s1 = (if MatchString syncMapPattern src then addCommentAfterFuncDecl src
           ([NL] @
            [TAB] @ ''// CACHING FIX: sync.Map detected '' @ [CHR 0xE2, CHR 0x80, CHR 0x94] @ '' for typed key-value caches with'' @ [NL] @
            [TAB] @ ''// predictable access patterns, consider sync.Pool for allocation reuse'' @ [NL] @
            [TAB] @ ''// or singleflight.Group to deduplicate concurrent computations.'') else src);
         s2 = (if MatchString manualCachePattern s1 \<and> \<not> Contains s1 ''sync.'' then addCommentAfterFuncDecl s1
           ([NL] @
            [TAB] @ ''// CACHING FIX: Manual map-based cache detected '' @ [CHR 0xE2, CHR 0x80, CHR 0x94] @ '' consider using sync.Map'' @ [NL] @
            [TAB] @ ''// for concurrent access, or adding an LRU eviction policy with'' @ [NL] @
            [TAB] @ ''// time-based TTL to prevent unbounded memory growth.'') else s1) in
     if \<not> Contains s2 ''cache'' \<and> \<not> MatchString syncMapPattern s2 \<and> \<not> MatchString manualCachePattern s2
     then ReplaceFirst s2 ''func Handle'' (''// TODO: consider adding caching/connection pooling for performance'' @ [NL] @
            ''func Handle'')
     else s2)"

section \<open>Timeouts\<close>

definition time_unit :: re where
  "time_unit = Seqs [Lit ''time.'', Opt (Alts [Lit ''Milli'', Lit ''Nano'', Lit ''Micro'']), Lit ''Second'']"

definition digits :: re where
  "digits = Plus (Cls is_digit)"

definition contextTimeoutPattern :: re where
  "contextTimeoutPattern =
    Seqs [Lit ''context.WithTimeout'', Star Sp, Lit ''('', Star Sp, Plus (NoneOf '',''), Lit '','', Star Sp, digits, Star Sp, Lit ''*'',
      Star Sp, time_unit, Star Sp, Lit '')'']"

definition timeAfterPattern :: re where
  "timeAfterPattern =
    Seqs [Lit ''time.After'', Star Sp, Lit ''('', Star Sp, digits, Star Sp, Lit ''*'', Star Sp, time_unit, Star Sp, Lit '')'']"

definition timeSleepPattern :: re where
  "timeSleepPattern =
    Seqs [Lit ''time.Sleep'', Star Sp, Lit ''('', Star Sp, digits, Star Sp, Lit ''*'', Star Sp, time_unit, Star Sp, Lit '')'']"

definition shortTimeoutPattern :: re where
  "shortTimeoutPattern = Seqs [digits, Star Sp, Lit ''*'', Star Sp, Lit ''time.Millisecond'']"

definition mediumTimeoutPattern :: re where
  "mediumTimeoutPattern = Seqs [digits, Star Sp, Lit ''*'', Star Sp, Lit ''time.Second'', WordB]"

definition jsonTimeoutPattern :: re where
  "jsonTimeoutPattern = Seqs [Lit (quoted_path ''timeout''), Star Sp, Lit '':'', Star Sp, digits]"

text \<open>The group of the two patterns is the number at the start and at the end of the match.\<close>

definition raise_seconds :: "string \<Rightarrow> string" where
  "raise_seconds m =
    (let v = takeWhile is_digit m in
     if v = ''1'' then ''10 * time.Second''
     else if v = ''2'' \<or> v = ''3'' \<or> v = ''5'' then ''30 * time.Second''
     else m)"

definition raise_json :: "string \<Rightarrow> string" where
  "raise_json m =
    (let v = rev (takeWhile is_digit (rev m)) in
     if v = ''1'' then quoted_path ''timeout'' @ '': 10''
     else if v = ''5'' \<or> v = ''10'' then quoted_path ''timeout'' @ '': 30''
     else m)"

definition fixTimeout :: "string \<Rightarrow> string" where
  "fixTimeout src =
    (let s1 = (if MatchString contextTimeoutPattern src \<or> MatchString timeAfterPattern src \<or> MatchString timeSleepPattern src
           then addCommentAfterFuncDecl src
             ([NL] @
              [TAB] @ ''// TIMEOUT FIX: Consider adding context cancellation and timeout propagation:'' @ [NL] @
              [TAB] @ ''// - Replace time.After with select on ctx.Done() for cancellation support'' @ [NL] @
              [TAB] @ ''// - Replace time.Sleep with select + ctx.Done() to allow cancellation'' @ [NL] @
              [TAB] @ ''// - Propagate context through call chains for cascading cancellation'') else src);
         s2 = (if \<not> Contains s1 ''TIMEOUT FIX'' \<and> (Contains s1 ''time.After('' \<or> Contains s1 ''time.Sleep('')
           then addCommentAfterFuncDecl s1
             ([NL] @
              [TAB] @ ''// TIMEOUT FIX: time.After/time.Sleep detected '' @ [CHR 0xE2, CHR 0x80, CHR 0x94] @ '' consider using'' @ [NL] @
              [TAB] @ ''// select on ctx.Done() instead for cancellation support'') else s1);
         s3 = ReplaceAllStringFunc shortTimeoutPattern s2 (\<lambda>_. ''5 * time.Second'');
         s4 = ReplaceAllStringFunc mediumTimeoutPattern s3 raise_seconds in
     ReplaceAllStringFunc jsonTimeoutPattern s4 raise_json)"

section \<open>Retries and data\<close>

definition retryComment :: string where
  "retryComment = [NL] @
    [TAB] @ ''// Retry with exponential backoff'' @ [NL] @
    [TAB] @ ''maxRetries := 3'' @ [NL] @
    [TAB] @ ''for attempt := 0; attempt < maxRetries; attempt++ {'' @ [NL] @
    [TAB, TAB] @ ''select {'' @ [NL] @
    [TAB, TAB] @ ''case <-ctx.Done():'' @ [NL] @
    [TAB, TAB, TAB] @ ''return '' @ [DQ, DQ] @ '', ctx.Err()'' @ [NL] @
    [TAB, TAB] @ ''default:'' @ [NL] @
    [TAB, TAB] @ ''}'' @ [NL] @
    [TAB, TAB] @ ''time.Sleep(time.Duration(100*(1<<attempt)) * time.Millisecond)'' @ [NL] @
    [TAB, TAB] @ ''// retry logic here'' @ [NL] @
    [TAB] @ ''}'' @ [NL]"

definition fixRetry :: "string \<Rightarrow> string" where
  "fixRetry src =
    (if \<not> Contains src ''retry'' \<and> Contains src ''func Handle'' then
       ReplaceFirst (ReplaceFirst src ''func Handle'' ''func Handle'') ([TAB] @ ''// TODO:'') (retryComment @ [TAB] @ ''// TODO:'')
     else src)"

definition unmarshalGuard :: string where
  "unmarshalGuard = ''if err := json.Unmarshal([]byte(inputJSON), &input); err != nil''"

definition fixDataPipeline :: "string \<Rightarrow> string" where
  "fixDataPipeline src =
    (if Contains src ''json.Unmarshal'' \<and> \<not> Contains src ''json.Decode'' then
       ReplaceFirst src unmarshalGuard
         (unmarshalGuard @ '' {'' @ [NL] @
          [TAB, TAB] @ ''return '' @ [DQ, DQ] @ '', fmt.Errorf('' @ [DQ] @ ''unmarshal input: %w'' @ [DQ] @ '', err)'' @ [NL] @
          [TAB] @ ''}'')
     else src)"

definition fixDataValidation :: "string \<Rightarrow> string" where
  "fixDataValidation src =
    (if \<not> Contains src ''if input.'' then
       ReplaceFirst src ''var input __NAME__Input''
         (''var input __NAME__Input'' @ [NL] @
          [TAB] @ ''// Validate required fields'' @ [NL] @
          [TAB] @ ''if input == (__NAME__Input{}) {'' @ [NL] @
          [TAB, TAB] @ ''return '' @ [DQ, DQ] @ '', fmt.Errorf('' @ [DQ] @ ''empty input provided'' @ [DQ] @ '')'' @ [NL] @
          [TAB] @ ''}'')
     else src)"

section \<open>Dispatch\<close>

text \<open>\<open>executeFix\<close> selects the fix by the identifier of the action; every other identifier leaves the code as it is.\<close>

definition executeFix :: "(string list \<Rightarrow> string) \<Rightarrow> string \<Rightarrow> string \<Rightarrow> string option" where
  "executeFix pick src actionID =
    (if actionID = ''fix-import-01'' then Some (fixMissingImports src)
     else if actionID = ''fix-import-02'' then Some (fixImportPath src)
     else if actionID = ''fix-syntax-01'' then Some (fixSyntaxError src)
     else if actionID = ''fix-dep-01'' then Some (fixDeprecatedAPI src)
     else if actionID = ''fix-config-01'' then Some (fixConfiguration src)
     else if actionID = ''fix-perf-01'' then fixPerformance pick src
     else if actionID = ''fix-perf-02'' then Some (fixCaching src)
     else if actionID = ''fix-perf-03'' then Some (fixTimeout src)
     else if actionID = ''fix-data-01'' then Some (fixDataPipeline src)
     else if actionID = ''fix-data-02'' then Some (fixDataValidation src)
     else if actionID = ''fix-timeout-01'' then Some (fixTimeout src)
     else if actionID = ''fix-timeout-02'' then Some (fixRetry src)
     else if actionID = ''fix-depdep-01'' then Some src
     else Some src)"

end
