(* ===== verification/Tool_Templates.thy ===== *)
theory Tool_Templates
  imports Aleph_Prelude
begin

text \<open>
  The texts of \<^verbatim>\<open>internal/dsl/compiler_tool.go\<close> from which the tools are generated, byte for byte and line by line: three Go handlers, three
  Python tools, the protocol buffer definition and the Go test. The markers between double underscores are replaced by
  \<open>Tool_Compiler\<close>.
\<close>

definition dataProcessorGoTemplate :: string where
  "dataProcessorGoTemplate = Join
     [[],
      ''package tools'',
      [],
      ''import ('',
      [TAB, DQ] @ ''context'' @ [DQ],
      [TAB, DQ] @ ''encoding/json'' @ [DQ],
      [TAB, DQ] @ ''fmt'' @ [DQ],
      '')'',
      [],
      ''// __NAME__Input represents the input parameters for __NAME__.'',
      ''type __NAME__Input struct {'',
      ''__INPUT_FIELDS__'',
      ''}'',
      [],
      ''// __NAME__Output represents the output parameters for __NAME__.'',
      ''type __NAME__Output struct {'',
      ''__OUTPUT_FIELDS__'',
      ''}'',
      [],
      ''// Handle__NAME__ processes a data transformation request.'',
      ''// __DESCRIPTION__'',
      ''func Handle__NAME__(ctx context.Context, inputJSON string) (string, error) {'',
      [TAB] @ ''var input __NAME__Input'',
      [TAB] @ ''if err := json.Unmarshal([]byte(inputJSON), &input); err != nil {'',
      [TAB, TAB] @ ''return '' @ [DQ, DQ] @ '', fmt.Errorf('' @ [DQ] @ ''__NAME__: invalid input: %w'' @ [DQ] @ '', err)'',
      [TAB] @ ''}'',
      [],
      [TAB] @ ''// implement data transformation logic'',
      [TAB] @ ''// Access input fields via input.FieldName'',
      [TAB] @ ''// Use SQL queries via duckdb or aggregate in-memory'',
      [],
      [TAB] @ ''result := __NAME__Output{'',
      ''__OUTPUT_INIT__'',
      [TAB] @ ''}'',
      [],
      [TAB] @ ''output, err := json.Marshal(result)'',
      [TAB] @ ''if err != nil {'',
      [TAB, TAB] @ ''return '' @ [DQ, DQ] @ '', fmt.Errorf('' @ [DQ] @ ''__NAME__: marshal output: %w'' @ [DQ] @ '', err)'',
      [TAB] @ ''}'',
      [TAB] @ ''return string(output), nil'',
      ''}'',
      []]
     [NL]"

definition apiConnectorGoTemplate :: string where
  "apiConnectorGoTemplate = Join
     [[],
      ''package tools'',
      [],
      ''import ('',
      [TAB, DQ] @ ''context'' @ [DQ],
      [TAB, DQ] @ ''encoding/json'' @ [DQ],
      [TAB, DQ] @ ''fmt'' @ [DQ],
      [TAB, DQ] @ ''io'' @ [DQ],
      [TAB, DQ] @ ''net/http'' @ [DQ],
      [],
      [TAB, DQ] @ ''github.com/ff3300/aleph-v2/internal/ssrf'' @ [DQ],
      '')'',
      [],
      ''// __NAME__Input represents the input parameters for __NAME__.'',
      ''type __NAME__Input struct {'',
      ''__INPUT_FIELDS__'',
      ''}'',
      [],
      ''// __NAME__Output represents the output parameters for __NAME__.'',
      ''type __NAME__Output struct {'',
      ''__OUTPUT_FIELDS__'',
      ''}'',
      [],
      ''// httpClient is reused across API connector tool calls.'',
      ''// Uses ssrf.NewClient() for SSRF protection (private IP blocking,'',
      ''// DNS rebinding prevention, redirect validation).'',
      ''var httpClient = ssrf.NewClient()'',
      [],
      ''// Handle__NAME__ calls an external API and returns structured results.'',
      ''// __DESCRIPTION__'',
      ''func Handle__NAME__(ctx context.Context, inputJSON string) (string, error) {'',
      [TAB] @ ''var input __NAME__Input'',
      [TAB] @ ''if err := json.Unmarshal([]byte(inputJSON), &input); err != nil {'',
      [TAB, TAB] @ ''return '' @ [DQ, DQ] @ '', fmt.Errorf('' @ [DQ] @ ''__NAME__: invalid input: %w'' @ [DQ] @ '', err)'',
      [TAB] @ ''}'',
      [],
      [TAB] @ ''// implement API call with auth, retry, error handling'',
      [TAB] @ ''// req, err := http.NewRequestWithContext(ctx, '' @ [DQ] @ ''GET'' @ [DQ] @ '', url, nil)'',
      [TAB] @ ''// resp, err := httpClient.Do(req)'',
      [TAB] @ ''// body, err := io.ReadAll(resp.Body)'',
      [],
      [TAB] @ ''result := __NAME__Output{'',
      ''__OUTPUT_INIT__'',
      [TAB] @ ''}'',
      [],
      [TAB] @ ''output, err := json.Marshal(result)'',
      [TAB] @ ''if err != nil {'',
      [TAB, TAB] @ ''return '' @ [DQ, DQ] @ '', fmt.Errorf('' @ [DQ] @ ''__NAME__: marshal output: %w'' @ [DQ] @ '', err)'',
      [TAB] @ ''}'',
      [TAB] @ ''return string(output), nil'',
      ''}'',
      [],
      ''func init() {'',
      [TAB] @ ''// Ensure imports are used (required for response body reading and SSRF protection)'',
      [TAB] @ ''var _ = io.Discard'',
      [TAB] @ ''var _ = http.DefaultClient'',
      [TAB] @ ''_ = ssrf.NewClient'',
      ''}'',
      []]
     [NL]"

definition analyzerGoTemplate :: string where
  "analyzerGoTemplate = Join
     [[],
      ''package tools'',
      [],
      ''import ('',
      [TAB, DQ] @ ''context'' @ [DQ],
      [TAB, DQ] @ ''encoding/json'' @ [DQ],
      [TAB, DQ] @ ''fmt'' @ [DQ],
      [TAB, DQ] @ ''strings'' @ [DQ],
      '')'',
      [],
      ''// __NAME__Input represents the input parameters for __NAME__.'',
      ''type __NAME__Input struct {'',
      ''__INPUT_FIELDS__'',
      ''}'',
      [],
      ''// __NAME__Output represents the output parameters for __NAME__.'',
      ''type __NAME__Output struct {'',
      ''__OUTPUT_FIELDS__'',
      ''}'',
      [],
      ''// Handle__NAME__ analyzes input data and returns scored results.'',
      ''// __DESCRIPTION__'',
      ''func Handle__NAME__(ctx context.Context, inputJSON string) (string, error) {'',
      [TAB] @ ''var input __NAME__Input'',
      [TAB] @ ''if err := json.Unmarshal([]byte(inputJSON), &input); err != nil {'',
      [TAB, TAB] @ ''return '' @ [DQ, DQ] @ '', fmt.Errorf('' @ [DQ] @ ''__NAME__: invalid input: %w'' @ [DQ] @ '', err)'',
      [TAB] @ ''}'',
      [],
      [TAB] @ ''// implement analysis/reporting logic'',
      [TAB] @ ''// Pattern: load input, analyze, score, return structured output'',
      [],
      [TAB] @ ''result := __NAME__Output{'',
      ''__OUTPUT_INIT__'',
      [TAB] @ ''}'',
      [],
      [TAB] @ ''output, err := json.Marshal(result)'',
      [TAB] @ ''if err != nil {'',
      [TAB, TAB] @ ''return '' @ [DQ, DQ] @ '', fmt.Errorf('' @ [DQ] @ ''__NAME__: marshal output: %w'' @ [DQ] @ '', err)'',
      [TAB] @ ''}'',
      [TAB] @ ''return string(output), nil'',
      ''}'',
      [],
      ''// Ensure strings import is used (common in text analysis tools)'',
      ''var _ = strings.ToLower'',
      []]
     [NL]"

definition dataProcessorPythonTemplate :: string where
  "dataProcessorPythonTemplate = Join
     [''# python'',
      [BACKSLASH, DQ, BACKSLASH, DQ, BACKSLASH, DQ] @ ''__DESCRIPTION__'' @ [BACKSLASH, DQ, BACKSLASH, DQ, BACKSLASH, DQ],
      ''import json'',
      ''import sys'',
      ''from typing import Any'',
      [],
      [],
      ''def handle__NAME__('',
      ''__INPUT_PARAMS__'',
      '') -> dict[str, Any]:'',
      [TAB, BACKSLASH, DQ, BACKSLASH, DQ, BACKSLASH, DQ] @ ''Process data transformation for __NAME__.'' @ [BACKSLASH, DQ, BACKSLASH, DQ, BACKSLASH, DQ],
      [TAB] @ ''# TODO(data_processor): implement data transformation logic'',
      [TAB] @ ''result = {'',
      ''__OUTPUT_FIELDS__'',
      [TAB] @ ''}'',
      [TAB] @ ''return result'',
      [],
      [],
      ''def main() -> None:'',
      [TAB] @ ''input_json = sys.stdin.read() if not sys.stdin.isatty() else '' @ [DQ] @ ''{}'' @ [DQ],
      [TAB] @ ''try:'',
      [TAB, TAB] @ ''input_data = json.loads(input_json)'',
      [TAB] @ ''except json.JSONDecodeError as e:'',
      [TAB, TAB] @ ''print(json.dumps({'' @ [DQ] @ ''error'' @ [DQ] @ '': f'' @ [DQ] @ ''invalid input: {e}'' @ [DQ] @ ''}))'',
      [TAB, TAB] @ ''sys.exit(1)'',
      [TAB] @ ''result = handle__NAME__(**input_data)'',
      [TAB] @ ''print(json.dumps(result, default=str))'',
      [],
      [],
      ''if __name__ == '' @ [DQ] @ ''__main__'' @ [DQ] @ '':'',
      [TAB] @ ''main()'',
      []]
     [NL]"

definition apiConnectorPythonTemplate :: string where
  "apiConnectorPythonTemplate = Join
     [''# python'',
      [BACKSLASH, DQ, BACKSLASH, DQ, BACKSLASH, DQ] @ ''__DESCRIPTION__'' @ [BACKSLASH, DQ, BACKSLASH, DQ, BACKSLASH, DQ],
      ''import json'',
      ''import sys'',
      ''from typing import Any'',
      ''# Network access is sandbox-gated; HTTP calls must go through the approved SSRF client'',
      [],
      [],
      ''def handle__NAME__('',
      ''__INPUT_PARAMS__'',
      '') -> dict[str, Any]:'',
      [TAB, BACKSLASH, DQ, BACKSLASH, DQ, BACKSLASH, DQ] @ ''Call external API for __NAME__.'' @ [BACKSLASH, DQ, BACKSLASH, DQ, BACKSLASH, DQ],
      [TAB] @ ''# TODO(api_connector): implement API call with auth, retry, error handling'',
      [TAB] @ ''result = {'',
      ''__OUTPUT_FIELDS__'',
      [TAB] @ ''}'',
      [TAB] @ ''return result'',
      [],
      [],
      ''def main() -> None:'',
      [TAB] @ ''input_json = sys.stdin.read() if not sys.stdin.isatty() else '' @ [DQ] @ ''{}'' @ [DQ],
      [TAB] @ ''try:'',
      [TAB, TAB] @ ''input_data = json.loads(input_json)'',
      [TAB] @ ''except json.JSONDecodeError as e:'',
      [TAB, TAB] @ ''print(json.dumps({'' @ [DQ] @ ''error'' @ [DQ] @ '': f'' @ [DQ] @ ''invalid input: {e}'' @ [DQ] @ ''}))'',
      [TAB, TAB] @ ''sys.exit(1)'',
      [TAB] @ ''result = handle__NAME__(**input_data)'',
      [TAB] @ ''print(json.dumps(result, default=str))'',
      [],
      [],
      ''if __name__ == '' @ [DQ] @ ''__main__'' @ [DQ] @ '':'',
      [TAB] @ ''main()'',
      []]
     [NL]"

definition analyzerPythonTemplate :: string where
  "analyzerPythonTemplate = Join
     [''# python'',
      [BACKSLASH, DQ, BACKSLASH, DQ, BACKSLASH, DQ] @ ''__DESCRIPTION__'' @ [BACKSLASH, DQ, BACKSLASH, DQ, BACKSLASH, DQ],
      ''import json'',
      ''import re'',
      ''import sys'',
      ''from typing import Any'',
      [],
      [],
      ''def handle__NAME__('',
      ''__INPUT_PARAMS__'',
      '') -> dict[str, Any]:'',
      [TAB, BACKSLASH, DQ, BACKSLASH, DQ, BACKSLASH, DQ] @ ''Analyze data and return scored results for __NAME__.'' @ [BACKSLASH, DQ, BACKSLASH, DQ, BACKSLASH, DQ],
      [TAB] @ ''# TODO(analyzer): implement analysis/scoring logic'',
      [TAB] @ ''result = {'',
      ''__OUTPUT_FIELDS__'',
      [TAB] @ ''}'',
      [TAB] @ ''return result'',
      [],
      [],
      ''def main() -> None:'',
      [TAB] @ ''input_json = sys.stdin.read() if not sys.stdin.isatty() else '' @ [DQ] @ ''{}'' @ [DQ],
      [TAB] @ ''try:'',
      [TAB, TAB] @ ''input_data = json.loads(input_json)'',
      [TAB] @ ''except json.JSONDecodeError as e:'',
      [TAB, TAB] @ ''print(json.dumps({'' @ [DQ] @ ''error'' @ [DQ] @ '': f'' @ [DQ] @ ''invalid input: {e}'' @ [DQ] @ ''}))'',
      [TAB, TAB] @ ''sys.exit(1)'',
      [TAB] @ ''result = handle__NAME__(**input_data)'',
      [TAB] @ ''print(json.dumps(result, default=str))'',
      [],
      [],
      ''if __name__ == '' @ [DQ] @ ''__main__'' @ [DQ] @ '':'',
      [TAB] @ ''main()'',
      []]
     [NL]"

definition protoTemplate :: string where
  "protoTemplate = Join
     [''syntax = '' @ [DQ] @ ''proto3'' @ [DQ] @ '';'',
      ''package tools;'',
      [],
      ''option go_package = '' @ [DQ] @ ''tools/__NAME__'' @ [DQ] @ '';'',
      [],
      ''// __NAME__Input is the request message for the __NAME__ tool.'',
      ''message __NAME__Input {'',
      ''__INPUT_FIELDS__'',
      ''}'',
      [],
      ''// __NAME__Output is the response message for the __NAME__ tool.'',
      ''message __NAME__Output {'',
      ''__OUTPUT_FIELDS__'',
      ''}'',
      [],
      ''// __NAME__Service defines the RPC interface for the __NAME__ tool.'',
      ''service __NAME__Service {'',
      ''  rpc Execute(__NAME__Input) returns (__NAME__Output);'',
      ''}'',
      []]
     [NL]"

definition testGoTemplate :: string where
  "testGoTemplate = Join
     [''package tools'',
      [],
      ''import ('',
      [TAB, DQ] @ ''context'' @ [DQ],
      [TAB, DQ] @ ''encoding/json'' @ [DQ],
      [TAB, DQ] @ ''testing'' @ [DQ],
      '')'',
      [],
      ''func TestHandle__NAME__(t *testing.T) {'',
      [TAB] @ ''input := __INPUT_JSON__'',
      [TAB] @ ''inputJSON, _ := json.Marshal(input)'',
      [],
      [TAB] @ ''output, err := Handle__NAME__(context.TODO(), string(inputJSON))'',
      [TAB] @ ''if err != nil {'',
      [TAB, TAB] @ ''t.Fatalf('' @ [DQ] @ ''Handle__NAME__() error = %v'' @ [DQ] @ '', err)'',
      [TAB] @ ''}'',
      [],
      [TAB] @ ''var result map[string]interface{}'',
      [TAB] @ ''if err := json.Unmarshal([]byte(output), &result); err != nil {'',
      [TAB, TAB] @ ''t.Fatalf('' @ [DQ] @ ''invalid JSON output: %v'' @ [DQ] @ '', err)'',
      [TAB] @ ''}'',
      ''}'',
      []]
     [NL]"

end
