(* ===== verification/Tool_Compiler.thy ===== *)
theory Tool_Compiler
  imports Tool_Templates Go_Strings Sandbox
begin

text \<open>
  The generation of tools, \<^verbatim>\<open>internal/dsl/compiler_tool.go\<close>: from a tool definition to Go, Python, protocol buffer and test code, the
  validation of definitions, the checks of a generated tool and its registration. A nil pointer is \<open>None\<close>. The parser of the Go
  compiler and the insertion into the database are parameters.
\<close>

section \<open>Definitions of tools\<close>

record ToolParam =
  param_Name :: string
  param_Type :: string
  param_Required :: bool

record ToolHandler =
  handler_Language :: string
  handler_EntryPoint :: string

record ToolDep =
  dep_Name :: string
  dep_Type :: string

record DslToolDefinition =
  def_Name :: string
  def_Description :: string
  def_Inputs :: "ToolParam list"
  def_Outputs :: "ToolParam list"
  def_Handler :: "ToolHandler option"
  def_Deps :: "ToolDep list"

datatype ToolTemplate = TemplateDataProcessor | TemplateAPIConnector | TemplateAnalyzer

fun template_name :: "ToolTemplate \<Rightarrow> string" where
  "template_name TemplateDataProcessor = ''data_processor''"
| "template_name TemplateAPIConnector = ''api_connector''"
| "template_name TemplateAnalyzer = ''analyzer''"

record GeneratedTool =
  gen_Name :: string
  gen_Template :: ToolTemplate
  GoCode :: string
  PythonCode :: string
  ProtoDef :: string
  TestCode :: string
  gen_Inputs :: "ToolParam list"
  gen_Outputs :: "ToolParam list"
  gen_Handler :: "ToolHandler option"
  gen_Deps :: "ToolDep list"

definition ValidToolTypes :: "string list" where
  "ValidToolTypes = [''string'', ''float'', ''int'', ''bool'']"

section \<open>Generation\<close>

definition selectTemplate :: "string \<Rightarrow> ToolTemplate" where
  "selectTemplate name =
    (let lower = ToLower name in
     if Contains lower ''api'' \<or> Contains lower ''fetch'' \<or> Contains lower ''http'' then TemplateAPIConnector
     else if Contains lower ''analyze'' \<or> Contains lower ''score'' \<or> Contains lower ''audit'' then TemplateAnalyzer
     else TemplateDataProcessor)"

definition goType :: "string \<Rightarrow> string" where
  "goType dslType =
    (if dslType = ''string'' then ''string'' else if dslType = ''float'' then ''float64'' else if dslType = ''int'' then ''int''
     else if dslType = ''bool'' then ''bool'' else ''string'')"

definition pythonType :: "string \<Rightarrow> string" where
  "pythonType dslType =
    (if dslType = ''string'' then ''str'' else if dslType = ''float'' then ''float'' else if dslType = ''int'' then ''int''
     else if dslType = ''bool'' then ''bool'' else ''str'')"

definition protoType :: "string \<Rightarrow> string" where
  "protoType dslType =
    (if dslType = ''string'' then ''string'' else if dslType = ''float'' then ''double'' else if dslType = ''int'' then ''int64''
     else if dslType = ''bool'' then ''bool'' else ''string'')"

text \<open>The first byte alone is mapped: a byte that is no character of its own becomes the replacement character.\<close>

fun title :: "string \<Rightarrow> string" where
  "title [] = []"
| "title (c # s) = (if code c < 128 then ToUpper [c] else [CHR 0xEF, CHR 0xBF, CHR 0xBD]) @ s"

definition go_field :: "ToolParam \<Rightarrow> string" where
  "go_field p =
    (let jsonTag = [BACKTICK] @ ''json:'' @ [DQ] @ param_Name p @ [DQ, BACKTICK] in
     [TAB] @ title (param_Name p) @ '' '' @ goType (param_Type p) @ '' '' @ jsonTag)"

definition go_template :: "ToolTemplate \<Rightarrow> string" where
  "go_template tmpl =
    (if tmpl = TemplateAPIConnector then apiConnectorGoTemplate
     else if tmpl = TemplateAnalyzer then analyzerGoTemplate
     else dataProcessorGoTemplate)"

definition renderGoHandler :: "DslToolDefinition \<Rightarrow> ToolTemplate \<Rightarrow> string" where
  "renderGoHandler def tmpl =
    (let inputFields = map go_field (def_Inputs def);
         outputFields = map go_field (def_Outputs def);
         outputInit = map (\<lambda>p. [TAB, TAB, TAB] @ ''// '' @ title (param_Name p) @ '': zero value, TODO: implement'') (def_Outputs def);
         otStr = Join outputFields [NL];
         oiStr = Join outputInit [NL];
         inStr = Join inputFields [NL];
         r = Replacer
           [(''__NAME__'', def_Name def),
            (''__NAME_TITLE__'', title (def_Name def)),
            (''__INPUT_FIELDS__'', inStr),
            (''__OUTPUT_FIELDS__'', otStr),
            (''__OUTPUT_INIT__'', oiStr),
            (''__DESCRIPTION__'', def_Description def)] in
     TrimSpace (r (go_template tmpl)))"

definition python_default :: "ToolParam \<Rightarrow> string" where
  "python_default p =
    (if \<not> param_Required p then
       if param_Type p = ''string'' then '' = '' @ [DQ, DQ]
       else if param_Type p = ''int'' then '' = 0''
       else if param_Type p = ''float'' then '' = 0.0''
       else if param_Type p = ''bool'' then '' = False''
       else []
     else [])"

definition python_template :: "ToolTemplate \<Rightarrow> string" where
  "python_template tmpl =
    (if tmpl = TemplateAPIConnector then apiConnectorPythonTemplate
     else if tmpl = TemplateAnalyzer then analyzerPythonTemplate
     else dataProcessorPythonTemplate)"

definition renderPythonTool :: "DslToolDefinition \<Rightarrow> ToolTemplate \<Rightarrow> string" where
  "renderPythonTool def tmpl =
    (let inputParams = map (\<lambda>p. [TAB] @ param_Name p @ '': '' @ pythonType (param_Type p) @ python_default p) (def_Inputs def);
         outputFields = map (\<lambda>p. [TAB, TAB, DQ] @ param_Name p @ [DQ] @ '': None,'') (def_Outputs def);
         r = Replacer
           [(''__NAME__'', def_Name def),
            (''__INPUT_PARAMS__'', Join inputParams ('','' @ [NL])),
            (''__OUTPUT_FIELDS__'', Join outputFields [NL]),
            (''__DESCRIPTION__'', def_Description def)] in
     TrimSpace (r (python_template tmpl)))"

definition proto_field :: "nat \<times> ToolParam \<Rightarrow> string" where
  "proto_field ip =
    (let (i, p) = ip; tag = int i + 1 in
     ''  '' @ protoType (param_Type p) @ '' '' @ param_Name p @ '' = '' @ Itoa tag @ '';'')"

definition renderProtoDef :: "DslToolDefinition \<Rightarrow> string" where
  "renderProtoDef def =
    (let inputFields = map proto_field (enumerate 0 (def_Inputs def));
         outputFields = map proto_field (enumerate 0 (def_Outputs def));
         r = Replacer
           [(''__NAME__'', def_Name def),
            (''__INPUT_FIELDS__'', Join inputFields [NL]),
            (''__OUTPUT_FIELDS__'', Join outputFields [NL])] in
     TrimSpace (r protoTemplate))"

definition test_value :: "ToolParam \<Rightarrow> string list" where
  "test_value p =
    (let key = [DQ] @ param_Name p @ [DQ] in
     if param_Type p = ''string'' then [key @ '': '' @ [DQ] @ ''test_value'' @ [DQ]]
     else if param_Type p = ''int'' then [key @ '': 0'']
     else if param_Type p = ''float'' then [key @ '': 0.0'']
     else if param_Type p = ''bool'' then [key @ '': false'']
     else [])"

definition renderTestCode :: "DslToolDefinition \<Rightarrow> ToolTemplate \<Rightarrow> string" where
  "renderTestCode def tmpl =
    (let inputJSON = concat (map test_value (def_Inputs def));
         inputStr = ''{'' @ Join inputJSON '', '' @ ''}'';
         r = Replacer [(''__NAME__'', def_Name def), (''__INPUT_JSON__'', inputStr)] in
     TrimSpace (r testGoTemplate))"

definition CompileToolDefinition :: "DslToolDefinition option \<Rightarrow> string + GeneratedTool" where
  "CompileToolDefinition odef =
    (case odef of
       None \<Rightarrow> Inl ''tool definition is nil''
     | Some def \<Rightarrow>
         (let tmpl = selectTemplate (def_Name def) in
          Inr \<lparr>gen_Name = def_Name def, gen_Template = tmpl,
               GoCode = renderGoHandler def tmpl, PythonCode = renderPythonTool def tmpl,
               ProtoDef = renderProtoDef def, TestCode = renderTestCode def tmpl,
               gen_Inputs = def_Inputs def, gen_Outputs = def_Outputs def, gen_Handler = def_Handler def, gen_Deps = def_Deps def\<rparr>))"

section \<open>Validation\<close>

datatype tool_def_error =
    EmptyToolName
  | InvalidToolName string
  | UnsupportedInputType string string
  | DuplicateInput string
  | UnsupportedOutputType string string
  | DuplicateOutput string
  | InvalidHandlerLanguage string
  | EmptyEntryPoint
  | MissingHandler
  | SelfDependency string

definition validNameRegex :: re where
  "validNameRegex = Seqs [Bol, Cls (\<lambda>c. is_alpha c \<or> c = CHR ''_''), Star Wd, Eol]"

text \<open>The loop over the parameters, with the names seen so far; the two arguments in front make the error values.\<close>

fun check_params :: "(string \<Rightarrow> string \<Rightarrow> tool_def_error) \<Rightarrow> (string \<Rightarrow> tool_def_error) \<Rightarrow> string list \<Rightarrow> ToolParam list \<Rightarrow> tool_def_error list" where
  "check_params unsupported duplicate seen [] = []"
| "check_params unsupported duplicate seen (p # ps) =
    (if param_Type p \<in> set ValidToolTypes then [] else [unsupported (param_Name p) (param_Type p)]) @
    (if param_Name p \<in> set seen then [duplicate (param_Name p)] else []) @
    check_params unsupported duplicate (param_Name p # seen) ps"

definition ValidateTool :: "DslToolDefinition \<Rightarrow> tool_def_error list" where
  "ValidateTool def =
    (if def_Name def = [] then [EmptyToolName]
     else if \<not> MatchString validNameRegex (def_Name def) then [InvalidToolName (def_Name def)]
     else []) @
    check_params UnsupportedInputType DuplicateInput [] (def_Inputs def) @
    check_params UnsupportedOutputType DuplicateOutput [] (def_Outputs def) @
    (case def_Handler def of
       Some h \<Rightarrow>
         (let lang = ToLower (handler_Language h) in
          (if lang \<noteq> ''go'' \<and> lang \<noteq> ''python'' then [InvalidHandlerLanguage (handler_Language h)] else []) @
          (if handler_EntryPoint h = [] then [EmptyEntryPoint] else []))
     | None \<Rightarrow> [MissingHandler]) @
    concat (map (\<lambda>dep. if dep_Name dep = def_Name def then [SelfDependency (dep_Name dep)] else []) (def_Deps def))"

datatype scan_issue = SuspiciousDependency string | SuspiciousEntryPoint string

definition SecurityScan :: "DslToolDefinition \<Rightarrow> scan_issue list" where
  "SecurityScan def =
    (case def_Handler def of
       None \<Rightarrow> []
     | Some h \<Rightarrow>
         concat (map (\<lambda>dep.
           let lower = ToLower (dep_Name dep) in
           if Contains lower ''exec'' \<or> Contains lower ''shell'' \<or> Contains lower ''system'' then
             if dep_Type dep = ''library'' then [SuspiciousDependency (dep_Name dep)] else []
           else []) (def_Deps def)) @
         (let ep = handler_EntryPoint h in
          if Contains (ToLower ep) ''exec'' \<or> Contains (ToLower ep) ''eval'' then [SuspiciousEntryPoint ep] else []))"

section \<open>Test and registration\<close>

datatype tool_test_error =
    ToolValidationFailed "tool_def_error list"
  | SecurityScanFailed "scan_issue list"
  | VerifierRejected "verify_error option"

record TestResult =
  test_ToolName :: string
  test_Passed :: bool
  test_Error :: "tool_test_error option"

text \<open>The definition the checks see has no description.\<close>

definition checked_definition :: "GeneratedTool \<Rightarrow> DslToolDefinition" where
  "checked_definition gen =
    \<lparr>def_Name = gen_Name gen, def_Description = [], def_Inputs = gen_Inputs gen, def_Outputs = gen_Outputs gen,
     def_Handler = gen_Handler gen, def_Deps = gen_Deps gen\<rparr>"

definition TestGeneratedTool :: "(string \<Rightarrow> string list option) \<Rightarrow> GeneratedTool option \<Rightarrow> string + TestResult" where
  "TestGeneratedTool ParseImports ogen =
    (case ogen of
       None \<Rightarrow> Inl ''generated tool is nil''
     | Some gen \<Rightarrow>
         (let result = \<lparr>test_ToolName = gen_Name gen, test_Passed = False, test_Error = None\<rparr>;
              vErrs = ValidateTool (checked_definition gen);
              sIssues = SecurityScan (checked_definition gen);
              vResult = VerifyToolCode ParseImports (GoCode gen) in
          if vErrs \<noteq> [] then Inr (result\<lparr>test_Error := Some (ToolValidationFailed vErrs)\<rparr>)
          else if sIssues \<noteq> [] then Inr (result\<lparr>test_Error := Some (SecurityScanFailed sIssues)\<rparr>)
          else if \<not> vr_Passed vResult then Inr (result\<lparr>test_Error := Some (VerifierRejected (vr_Error vResult))\<rparr>)
          else Inr (result\<lparr>test_Passed := True\<rparr>)))"

record ToolRecord =
  rec_tool_ID :: string
  rec_Name :: string
  rec_Description :: string
  rec_Code :: string
  rec_Category :: string
  rec_Version :: string
  rec_HealthStatus :: string
  rec_SourceType :: string

datatype register_error = GeneratedToolNil | RepositoryNil | CreateToolFailed string string

text \<open>\<open>CreateTool\<close> inserts the record into the database, \<open>Some\<close> error if it cannot; \<open>None\<close> is a nil repository.\<close>

definition RegisterTool :: "GeneratedTool option \<Rightarrow> (ToolRecord \<Rightarrow> string option) option \<Rightarrow> register_error + ToolRecord" where
  "RegisterTool ogen metaRepo =
    (case ogen of
       None \<Rightarrow> Inl GeneratedToolNil
     | Some gen \<Rightarrow>
         (case metaRepo of
            None \<Rightarrow> Inl RepositoryNil
          | Some CreateTool \<Rightarrow>
              (let src = (case gen_Handler gen of
                            Some h \<Rightarrow> if ToLower (handler_Language h) = ''python'' then PythonCode gen else GoCode gen
                          | None \<Rightarrow> GoCode gen);
                   rec = \<lparr>rec_tool_ID = ''user_'' @ gen_Name gen, rec_Name = gen_Name gen,
                     rec_Description = ''User-defined tool: '' @ gen_Name gen @ '' (template: '' @ template_name (gen_Template gen) @ '')'',
                     rec_Code = src, rec_Category = ''user'', rec_Version = ''0.1.0'', rec_HealthStatus = ''unknown'',
                     rec_SourceType = ''user''\<rparr> in
               case CreateTool rec of
                 Some err \<Rightarrow> Inl (CreateToolFailed (gen_Name gen) err)
               | None \<Rightarrow> Inr rec)))"

datatype record_error = ToolRecordNil | InvalidSourceType string

definition ValidateToolRecord :: "ToolRecord option \<Rightarrow> record_error option" where
  "ValidateToolRecord orec =
    (case orec of
       None \<Rightarrow> Some ToolRecordNil
     | Some rec \<Rightarrow>
         if rec_SourceType rec \<noteq> ''builtin'' \<and> rec_SourceType rec \<noteq> ''mcp'' \<and> rec_SourceType rec \<noteq> ''user'' \<and>
           rec_SourceType rec \<noteq> ''package''
         then Some (InvalidSourceType (rec_SourceType rec)) else None)"

end
