(* ===== verification/Repair.thy ===== *)
theory Repair
  imports Repair_Fixes Tool_Compiler
begin

text \<open>
  The repair engine for tools, \<^verbatim>\<open>internal/repair\<close>: classification of errors, the catalog of actions, plans and their
  approval, execution of a plan with verification and rollback, and the history of attempts.

  The store of tool code is explicit: \<open>write_fails\<close> says which of its updates fail, by their number. The compiler of tool definitions
  is an interface of the source and a field here (\<open>compile\<close>, \<open>None\<close> where the engine has none, \<open>DSLCompilerAdapter\<close> for the one in \<open>Tool_Compiler\<close>), a parameter is the parser of the Go compiler (\<open>parse_imports\<close>). Time
  stamps, durations and log output are left out. Locks only serialise the operations.
\<close>

section \<open>Error patterns\<close>

definition PatternToolImport :: string where "PatternToolImport = ''import_error''"
definition PatternToolSyntax :: string where "PatternToolSyntax = ''syntax_error''"
definition PatternToolDeprecated :: string where "PatternToolDeprecated = ''deprecated_api''"
definition PatternToolConfig :: string where "PatternToolConfig = ''configuration_error''"
definition PatternToolPerformance :: string where "PatternToolPerformance = ''performance_issue''"
definition PatternToolDataPipeline :: string where "PatternToolDataPipeline = ''data_pipeline_error''"
definition PatternToolTimeout :: string where "PatternToolTimeout = ''timeout_error''"
definition PatternToolDependency :: string where "PatternToolDependency = ''dependency_error''"
definition PatternToolUnknown :: string where "PatternToolUnknown = ''unknown_error''"

lemmas tool_patterns = PatternToolImport_def PatternToolSyntax_def PatternToolDeprecated_def PatternToolConfig_def
  PatternToolPerformance_def PatternToolDataPipeline_def PatternToolTimeout_def PatternToolDependency_def PatternToolUnknown_def

definition containsAnyLower :: "string \<Rightarrow> string list \<Rightarrow> bool" where
  "containsAnyLower s substrs \<longleftrightarrow> list_ex (\<lambda>sub. Contains s (ToLower sub)) substrs"

definition ClassifyToolError :: "string \<Rightarrow> string" where
  "ClassifyToolError errMsg =
    (let msg = ToLower errMsg in
     if containsAnyLower msg
       [''import'', ''undefined'', ''cannot find module'', ''no such file'', ''unresolved reference'',
        ''undefined name'', ''module not found'']
     then PatternToolImport
     else if containsAnyLower msg
       [''syntax'', ''parse error'', ''unexpected token'', ''expected'', ''unmatched'', ''invalid syntax'',
        ''compilation error'', ''cannot compile'', ''expected '' @ [SQ] @ '';'' @ [SQ],
        ''unexpected '' @ [SQ] @ ''}'' @ [SQ], ''unexpected EOF'']
     then PatternToolSyntax
     else if containsAnyLower msg
       [''deprecated'', ''removed'', ''no longer supported'', ''has been removed'', ''renamed to'', ''moved to'',
        ''use instead'', ''is deprecated'', ''was removed'']
     then PatternToolDeprecated
     else if containsAnyLower msg
       [''config'', ''env'', ''environment variable'', ''misconfig'', ''invalid argument'', ''invalid setting'',
        ''missing required'', ''configuration'', ''not configured'', ''no such configuration'']
     then PatternToolConfig
     else if containsAnyLower msg
       [''performance'', ''too slow'', ''timeout exceeded'', ''deadline exceeded'', ''context deadline'', ''OOM'',
        ''out of memory'', ''memory limit'', ''cpu limit'', ''too many'']
     then PatternToolTimeout
     else if containsAnyLower msg
       [''data'', ''pipeline'', ''ETL'', ''transform'', ''invalid data'', ''corrupt'', ''unmarshal'',
        ''schema mismatch'', ''type mismatch'', ''cannot convert'']
     then PatternToolDataPipeline
     else if containsAnyLower msg
       [''dependency'', ''module'', ''package'', ''go module'', ''pip install'', ''npm install'',
        ''missing dependency'', ''no module'', ''cannot find package'']
     then PatternToolDependency
     else PatternToolUnknown)"

section \<open>Actions, plans, catalog\<close>

datatype RepairActionType = ActionFix | ActionRegenerate

datatype PlanStatus = PlanPending | PlanApproved | PlanRejected | PlanApplied | PlanFailed

record RepairAction =
  act_ID :: string
  act_Type :: RepairActionType
  act_Description :: string
  act_ToolID :: string
  act_Applied :: bool

record RepairPlan =
  plan_ID :: string
  plan_ToolID :: string
  plan_Actions :: "RepairAction list"
  plan_NeedsApproval :: bool
  plan_Status :: PlanStatus
  plan_ErrorPattern :: string
  plan_ErrorMessage :: string
  plan_BackupCode :: string

definition catalog_action :: "string \<Rightarrow> RepairActionType \<Rightarrow> string \<Rightarrow> RepairAction" where
  "catalog_action i t d = \<lparr>act_ID = i, act_Type = t, act_Description = d, act_ToolID = [], act_Applied = False\<rparr>"

definition BuildRepairCatalog :: "(string \<times> RepairAction list) list" where
  "BuildRepairCatalog =
    [(PatternToolImport,
       [catalog_action ''fix-import-01'' ActionFix ''Add missing import statements to tool code'',
        catalog_action ''fix-import-02'' ActionFix ''Fix import path or module name'',
        catalog_action ''fix-import-03'' ActionRegenerate ''Regenerate tool from DSL definition to generate correct imports'']),
     (PatternToolSyntax,
       [catalog_action ''fix-syntax-01'' ActionFix ''Fix syntax error in tool code (missing brace/parenthesis/semicolon)'',
        catalog_action ''fix-syntax-02'' ActionRegenerate ''Regenerate tool from DSL definition to produce valid code'']),
     (PatternToolDeprecated,
       [catalog_action ''fix-dep-01'' ActionFix ''Replace deprecated API calls with current equivalents'',
        catalog_action ''fix-dep-02'' ActionRegenerate ''Regenerate tool from DSL definition with updated API usage'']),
     (PatternToolConfig,
       [catalog_action ''fix-config-01'' ActionFix ''Fix configuration parameter value'',
        catalog_action ''fix-config-02'' ActionRegenerate ''Regenerate tool from DSL definition with corrected configuration'']),
     (PatternToolPerformance,
       [catalog_action ''fix-perf-01'' ActionFix ''Optimise loop and data structures for better performance'',
        catalog_action ''fix-perf-02'' ActionFix ''Add caching or connection pooling to reduce latency'',
        catalog_action ''fix-perf-03'' ActionFix ''Increase timeout or resource limits'']),
     (PatternToolDataPipeline,
       [catalog_action ''fix-data-01'' ActionFix ''Fix data transformation logic or type conversion'',
        catalog_action ''fix-data-02'' ActionFix ''Add input validation and error handling for data pipeline'',
        catalog_action ''fix-data-03'' ActionRegenerate ''Regenerate tool from DSL definition with corrected data flow'']),
     (PatternToolTimeout,
       [catalog_action ''fix-timeout-01'' ActionFix ''Increase timeout value in tool configuration'',
        catalog_action ''fix-timeout-02'' ActionFix ''Add retry with exponential backoff for transient failures'']),
     (PatternToolDependency,
       [catalog_action ''fix-depdep-01'' ActionFix ''Add missing dependency declaration to tool definition'',
        catalog_action ''fix-depdep-02'' ActionRegenerate ''Regenerate tool from DSL definition with complete dependency list'']),
     (PatternToolUnknown,
       [catalog_action ''fix-unknown-01'' ActionRegenerate ''Regenerate tool from DSL definition to resolve unknown error''])]"

section \<open>Analysis\<close>

definition nextPlanID :: "nat \<Rightarrow> string \<times> nat" where
  "nextPlanID counter = (''plan-'' @ show_nat (Suc counter), Suc counter)"

definition nextActionID :: "string \<Rightarrow> nat \<Rightarrow> string" where
  "nextActionID planID seq = planID @ ''-act-'' @ show_nat seq"

definition hasRegenerateAction :: "RepairAction list \<Rightarrow> bool" where
  "hasRegenerateAction actions \<longleftrightarrow> list_ex (\<lambda>a. act_Type a = ActionRegenerate) actions"

definition plan_actions :: "string \<Rightarrow> string \<Rightarrow> RepairAction list \<Rightarrow> RepairAction list" where
  "plan_actions planID toolID catalogActions =
    map (\<lambda>(i, ca). \<lparr>act_ID = nextActionID planID (i + 1), act_Type = act_Type ca, act_Description = act_Description ca,
        act_ToolID = toolID, act_Applied = False\<rparr>)
      (zip [0..<length catalogActions] catalogActions)"

definition AnalyseAndPlan :: "(string \<Rightarrow> string option) \<Rightarrow> nat \<Rightarrow> string \<Rightarrow> string \<Rightarrow> RepairPlan option \<times> nat" where
  "AnalyseAndPlan GetToolCode counter toolID errMsg =
    (let pattern = ClassifyToolError errMsg in
     case GetToolCode toolID of
       None \<Rightarrow> (None, counter)
     | Some src \<Rightarrow>
         (let catalogActions = (case map_of BuildRepairCatalog pattern of
                Some as \<Rightarrow> as
              | None \<Rightarrow> the (map_of BuildRepairCatalog PatternToolUnknown));
              (planID, counter') = nextPlanID counter;
              actions = plan_actions planID toolID catalogActions;
              needsApproval = (pattern = PatternToolImport \<or> pattern = PatternToolSyntax \<or> pattern = PatternToolDeprecated \<or>
                pattern = PatternToolUnknown \<or> hasRegenerateAction actions) in
          (Some \<lparr>plan_ID = planID, plan_ToolID = toolID, plan_Actions = actions, plan_NeedsApproval = needsApproval,
              plan_Status = PlanPending, plan_ErrorPattern = pattern, plan_ErrorMessage = errMsg, plan_BackupCode = src\<rparr>,
           counter')))"

definition ApprovePlan :: "RepairPlan \<Rightarrow> RepairPlan" where
  "ApprovePlan plan = (if plan_Status plan = PlanPending then plan\<lparr>plan_Status := PlanApproved\<rparr> else plan)"

definition RejectPlan :: "RepairPlan \<Rightarrow> RepairPlan" where
  "RejectPlan plan =
    (if plan_Status plan = PlanPending \<or> plan_Status plan = PlanApproved then plan\<lparr>plan_Status := PlanRejected\<rparr> else plan)"

section \<open>History\<close>

datatype RepairStatus = StatusSuccess | StatusFailed

record RepairRecord =
  rec_ID :: nat
  rec_ToolID :: string
  rec_PlanID :: string
  rec_ActionID :: string
  rec_ActionType :: RepairActionType
  rec_Status :: RepairStatus

record RepairHistory =
  records :: "RepairRecord list"
  nextID :: nat

definition NewRepairHistory :: RepairHistory where
  "NewRepairHistory = \<lparr>records = [], nextID = 1\<rparr>"

definition Record :: "RepairHistory \<Rightarrow> RepairRecord \<Rightarrow> RepairHistory" where
  "Record h r = h\<lparr>records := records h @ [r\<lparr>rec_ID := nextID h\<rparr>], nextID := nextID h + 1\<rparr>"

definition repair_GetHistory :: "RepairHistory \<Rightarrow> string \<Rightarrow> RepairRecord list" where
  "repair_GetHistory h toolID = filter (\<lambda>r. rec_ToolID r = toolID) (records h)"

definition GetAll :: "RepairHistory \<Rightarrow> RepairRecord list" where
  "GetAll h = records h"

definition success_ratio :: "RepairRecord list \<Rightarrow> real" where
  "success_ratio rs =
    (if rs = [] then 0 else real (length (filter (\<lambda>r. rec_Status r = StatusSuccess) rs)) / real (length rs))"

definition SuccessRate :: "RepairHistory \<Rightarrow> string \<Rightarrow> real" where
  "SuccessRate h toolID = success_ratio (filter (\<lambda>r. rec_ToolID r = toolID) (records h))"

definition OverallSuccessRate :: "RepairHistory \<Rightarrow> real" where
  "OverallSuccessRate h = success_ratio (records h)"

section \<open>Execution\<close>

datatype repair_error =
    PlanNotApproved PlanStatus
  | CompilerNotAvailable
  | RegenerationFailed string
  | NilResult
  | EmptyCode
  | DeployRegeneratedFailed
  | RegeneratedRejected
  | RegeneratedRejectedRestoreFailed
  | VerificationFailed RepairActionType
  | DeployFailed RepairActionType
  | AllActionsFailed nat repair_error
  | RestoreFailed repair_error
  | FixPanicked

record tool_store =
  tools :: "(string, string) gomap"
  writes :: nat

record RepairEngine =
  compile :: "(DslToolDefinition \<Rightarrow> string + GeneratedTool option) option"
  write_fails :: "nat \<Rightarrow> bool"
  parse_imports :: "string \<Rightarrow> string list option"
  pick_path :: "string list \<Rightarrow> string"

definition UpdateToolCode :: "RepairEngine \<Rightarrow> tool_store \<Rightarrow> string \<Rightarrow> string \<Rightarrow> tool_store \<times> bool" where
  "UpdateToolCode e st toolID src =
    (if write_fails e (writes st) then (st\<lparr>writes := Suc (writes st)\<rparr>, False)
     else (st\<lparr>tools := (tools st)(toolID \<mapsto> src), writes := Suc (writes st)\<rparr>, True))"

definition verified :: "RepairEngine \<Rightarrow> string \<Rightarrow> bool" where
  "verified e src = vr_Passed (VerifyToolCode (parse_imports e) src)"

text \<open>The adapter of the compiler of tool definitions, and the definition the engine makes up for it: the one the tool came from is not kept.\<close>

definition DSLCompilerAdapter :: "DslToolDefinition \<Rightarrow> string + GeneratedTool option" where
  "DSLCompilerAdapter def = map_sum (\<lambda>err. err) Some (CompileToolDefinition (Some def))"

definition regenerated_definition :: "string \<Rightarrow> DslToolDefinition" where
  "regenerated_definition toolID =
    \<lparr>def_Name = toolID, def_Description = ''Regenerated tool: '' @ toolID, def_Inputs = [], def_Outputs = [],
     def_Handler = Some \<lparr>handler_Language = ''go'', handler_EntryPoint = ''Handle''\<rparr>, def_Deps = []\<rparr>"

definition executeRegenerate :: "RepairEngine \<Rightarrow> tool_store \<Rightarrow> RepairPlan \<Rightarrow> tool_store \<times> repair_error option" where
  "executeRegenerate e st plan =
    (case compile e of
       None \<Rightarrow> (st, Some CompilerNotAvailable)
     | Some c \<Rightarrow>
         (case c (regenerated_definition (plan_ToolID plan)) of
            Inl err \<Rightarrow> (st, Some (RegenerationFailed err))
          | Inr None \<Rightarrow> (st, Some NilResult)
          | Inr (Some gt) \<Rightarrow>
              (let src = (if GoCode gt = [] then PythonCode gt else GoCode gt) in
               if src = [] then (st, Some EmptyCode)
               else
                 (let (st1, ok) = UpdateToolCode e st (plan_ToolID plan) src in
                  if \<not> ok then (st1, Some DeployRegeneratedFailed)
                  else if \<not> verified e src then
                    (let (st2, restored) = UpdateToolCode e st1 (plan_ToolID plan) (plan_BackupCode plan) in
                     (st2, Some (if restored then RegeneratedRejected else RegeneratedRejectedRestoreFailed)))
                  else (st1, None)))))"

text \<open>One action: the code it leaves in hand, and the error if it failed.\<close>

definition perform_action ::
  "RepairEngine \<Rightarrow> tool_store \<Rightarrow> RepairPlan \<Rightarrow> string \<Rightarrow> RepairAction \<Rightarrow> tool_store \<times> string \<times> repair_error option" where
  "perform_action e st plan currentCode a =
    (case act_Type a of
       ActionRegenerate \<Rightarrow> (let (st', err) = executeRegenerate e st plan in (st', currentCode, err))
     | ActionFix \<Rightarrow>
         (case executeFix (pick_path e) currentCode (act_ID a) of
            Some src \<Rightarrow> (st, src, None)
          | None \<Rightarrow> (st, currentCode, Some FixPanicked)))"

definition attempt :: "RepairPlan \<Rightarrow> RepairAction \<Rightarrow> RepairStatus \<Rightarrow> RepairRecord" where
  "attempt plan a status =
    \<lparr>rec_ID = 0, rec_ToolID = plan_ToolID plan, rec_PlanID = plan_ID plan, rec_ActionID = act_ID a, rec_ActionType = act_Type a,
     rec_Status = status\<rparr>"

record execution_state =
  ex_store :: tool_store
  ex_history :: RepairHistory
  ex_plan :: RepairPlan

definition record_attempt :: "execution_state \<Rightarrow> RepairAction \<Rightarrow> RepairStatus \<Rightarrow> execution_state" where
  "record_attempt s a status = s\<lparr>ex_history := Record (ex_history s) (attempt (ex_plan s) a status)\<rparr>"

text \<open>
  The loop over the actions, by their index. It ends with the first action whose code is verified and deployed, with a panic, or
  with the last error.
\<close>

fun run_actions ::
  "RepairEngine \<Rightarrow> string \<Rightarrow> nat \<Rightarrow> RepairAction list \<Rightarrow> string \<Rightarrow> repair_error option \<Rightarrow> execution_state
    \<Rightarrow> execution_state \<times> (repair_error option + repair_error option)" where
  "run_actions e backup i [] currentCode lastErr s = (s, Inr lastErr)"
| "run_actions e backup i (a # rest) currentCode lastErr s =
    (let (st, src, err) = perform_action e (ex_store s) (ex_plan s) currentCode a; s1 = s\<lparr>ex_store := st\<rparr> in
     case err of
       Some FixPanicked \<Rightarrow> (s1, Inl (Some FixPanicked))
     | Some er \<Rightarrow> run_actions e backup (Suc i) rest src (Some er) (record_attempt s1 a StatusFailed)
     | None \<Rightarrow>
         if \<not> verified e src then
           run_actions e backup (Suc i) rest backup (Some (VerificationFailed (act_Type a))) (record_attempt s1 a StatusFailed)
         else
           (let (st', ok) = UpdateToolCode e st (plan_ToolID (ex_plan s)) src; s2 = s1\<lparr>ex_store := st'\<rparr> in
            if \<not> ok then
              run_actions e backup (Suc i) rest backup (Some (DeployFailed (act_Type a))) (record_attempt s2 a StatusFailed)
            else
              (let plan = ex_plan s2;
                   plan' = plan\<lparr>plan_Actions := (plan_Actions plan)[i := a\<lparr>act_Applied := True\<rparr>]\<rparr> in
               (record_attempt (s2\<lparr>ex_plan := plan'\<rparr>) a StatusSuccess, Inl None))))"

definition ExecutePlan :: "RepairEngine \<Rightarrow> execution_state \<Rightarrow> execution_state \<times> repair_error option" where
  "ExecutePlan e s =
    (let plan = ex_plan s in
     if plan_Status plan \<noteq> PlanApproved then (s, Some (PlanNotApproved (plan_Status plan)))
     else
       (let backup = plan_BackupCode plan;
            (s1, outcome) = run_actions e backup 0 (plan_Actions plan) backup None (s\<lparr>ex_plan := plan\<lparr>plan_Status := PlanApplied\<rparr>\<rparr>) in
        case outcome of
          Inl result \<Rightarrow> (s1, result)
        | Inr None \<Rightarrow> (s1, None)
        | Inr (Some lastErr) \<Rightarrow>
            (let (st, ok) = UpdateToolCode e (ex_store s1) (plan_ToolID plan) backup;
                 s2 = s1\<lparr>ex_store := st, ex_plan := (ex_plan s1)\<lparr>plan_Status := PlanFailed\<rparr>\<rparr> in
             (s2, Some (if ok then AllActionsFailed (length (plan_Actions plan)) lastErr else RestoreFailed lastErr)))))"

end
