(* ===== verification/Repair_Facts.thy ===== *)
theory Repair_Facts
  imports Repair
begin

text \<open>
  The repair engine as a whole: what a plan made by the analysis does to the tool, and which errors the catalog
  serves.
\<close>

section \<open>Classification\<close>

lemma ClassifyToolError_range:
  "ClassifyToolError msg \<in> {PatternToolImport, PatternToolSyntax, PatternToolDeprecated, PatternToolConfig, PatternToolTimeout,
     PatternToolDataPipeline, PatternToolDependency, PatternToolUnknown}"
  unfolding ClassifyToolError_def Let_def by (simp split: if_split)

lemma catalog_entry:
  assumes "p \<in> {PatternToolImport, PatternToolSyntax, PatternToolDeprecated, PatternToolConfig, PatternToolTimeout,
     PatternToolDataPipeline, PatternToolDependency, PatternToolUnknown}"
  obtains a as where "map_of BuildRepairCatalog p = Some (a # as)" "p \<noteq> PatternToolUnknown \<Longrightarrow> act_Type a = ActionFix"
  using assms by (auto simp: BuildRepairCatalog_def tool_patterns catalog_action_def)

text \<open>Every error message is classified under a pattern with a non-empty list of actions in the catalog, so the fallback of the
  planner is never taken; and no message is classified as a performance issue, so the three performance fixes
  of the catalog are never proposed.\<close>

theorem ClassifyToolError_catalogued:
  "(\<exists>a as. map_of BuildRepairCatalog (ClassifyToolError errMsg) = Some (a # as)) \<and>
   ClassifyToolError errMsg \<noteq> PatternToolPerformance"
proof -
  from catalog_entry [OF ClassifyToolError_range [of errMsg]] 
  have "\<exists>a as. map_of BuildRepairCatalog (ClassifyToolError errMsg) = Some (a # as)" by metis
  moreover have "ClassifyToolError errMsg \<noteq> PatternToolPerformance"
    using ClassifyToolError_range [of errMsg] by (auto simp: tool_patterns)
  ultimately show ?thesis by blast
qed

section \<open>Plans\<close>

lemma planned_fix_is_identity:
  "executeFix pick src (nextActionID (fst (nextPlanID n)) k) = Some src"
  by (simp add: executeFix_def nextActionID_def nextPlanID_def)

definition planned_action :: "RepairAction \<Rightarrow> bool" where
  "planned_action a \<longleftrightarrow> (\<exists>n k. act_ID a = nextActionID (fst (nextPlanID n)) k)"

lemma plan_actions_planned: "list_all planned_action (plan_actions (fst (nextPlanID n)) toolID as)"
  unfolding plan_actions_def planned_action_def list_all_iff by (auto split: prod.splits)

lemma plan_actions_Cons:
  "\<exists>b bs. plan_actions planID toolID (a # as) = b # bs \<and> act_Type b = act_Type a \<and> (as = [] \<longrightarrow> bs = [])"
  by (simp add: plan_actions_def upt_conv_Cons del: upt_Suc)

text \<open>The store during the execution of a plan: only the code of the plan's tool may differ.\<close>

definition only_tool :: "(string, string) gomap \<Rightarrow> string \<Rightarrow> tool_store \<Rightarrow> bool" where
  "only_tool T toolID st \<longleftrightarrow> (\<exists>x. tools st = T(toolID := x))"

definition reliable :: "RepairEngine \<Rightarrow> bool" where
  "reliable e \<longleftrightarrow> (\<forall>n. \<not> write_fails e n)"

lemma UpdateToolCode_reliable:
  "reliable e \<Longrightarrow> UpdateToolCode e st toolID src = (st\<lparr>tools := (tools st)(toolID \<mapsto> src), writes := Suc (writes st)\<rparr>, True)"
  by (simp add: UpdateToolCode_def reliable_def)

lemma perform_planned:
  assumes "planned_action a" "reliable e" "only_tool T (plan_ToolID plan) st" "perform_action e st plan backup a = (st', src, err)"
  shows "src = backup" "only_tool T (plan_ToolID plan) st'" "err \<noteq> Some FixPanicked" "act_Type a = ActionFix \<Longrightarrow> err = None"
proof -
  from assms(1) have fix_id: "executeFix (pick_path e) backup (act_ID a) = Some backup"
    using planned_fix_is_identity by (auto simp: planned_action_def)
  have "src = backup \<and> only_tool T (plan_ToolID plan) st' \<and> err \<noteq> Some FixPanicked \<and> (act_Type a = ActionFix \<longrightarrow> err = None)"
    using assms(3,4) fix_id
    by (auto simp: perform_action_def executeRegenerate_def UpdateToolCode_reliable [OF assms(2)] only_tool_def Let_def
      split: RepairActionType.splits option.splits sum.splits if_splits)
  then show "src = backup" "only_tool T (plan_ToolID plan) st'" "err \<noteq> Some FixPanicked" "act_Type a = ActionFix \<Longrightarrow> err = None"
    by simp_all
qed

lemma record_attempt_simps [simp]:
  "ex_store (record_attempt s a status) = ex_store s" "ex_plan (record_attempt s a status) = ex_plan s"
  by (simp_all add: record_attempt_def)

lemma run_planned:
  assumes "reliable e"
  shows "list_all planned_action as \<Longrightarrow> only_tool T (plan_ToolID (ex_plan s)) (ex_store s) \<Longrightarrow>
    run_actions e backup i as backup lastErr s = (s', outcome) \<Longrightarrow>
    plan_ToolID (ex_plan s') = plan_ToolID (ex_plan s) \<and>
    only_tool T (plan_ToolID (ex_plan s)) (ex_store s') \<and>
    (case outcome of
       Inl result \<Rightarrow> result = None \<and> verified e backup \<and> tools (ex_store s') (plan_ToolID (ex_plan s)) = Some backup
     | Inr None \<Rightarrow> as = [] \<and> lastErr = None
     | Inr (Some _) \<Rightarrow> True)"
proof (induction as arbitrary: i lastErr s)
  case Nil
  then show ?case by (auto split: option.splits)
next
  case (Cons a as)
  obtain st src err where act: "perform_action e (ex_store s) (ex_plan s) backup a = (st, src, err)"
    by (cases "perform_action e (ex_store s) (ex_plan s) backup a") auto
  from Cons.prems have pa: "planned_action a" and pas: "list_all planned_action as" by simp_all
  note step = perform_planned [OF pa assms Cons.prems(2) act]
  have upd: "only_tool T tid st \<Longrightarrow> only_tool T tid (st\<lparr>tools := (tools st)(tid \<mapsto> backup), writes := n\<rparr>)" for tid n
    by (auto simp: only_tool_def)
  show ?case
  proof (cases "err = None \<and> verified e backup")
    case True
    with Cons.prems(3) act step upd [OF step(2)] show ?thesis
      by (auto simp: Let_def UpdateToolCode_reliable [OF assms])
  next
    case False
    then obtain er where "run_actions e backup (Suc i) as backup (Some er) (record_attempt (s\<lparr>ex_store := st\<rparr>) a StatusFailed) = (s', outcome)"
      using Cons.prems(3) act step
      by (cases err) (auto simp: Let_def split: repair_error.splits)
    from Cons.IH [OF pas _ this] step(2) show ?thesis
      by (auto split: sum.splits option.splits)
  qed
qed

lemma AnalyseAndPlan_SomeD:
  assumes "AnalyseAndPlan GetToolCode counter toolID errMsg = (Some plan, counter')"
  obtains src a as where "GetToolCode toolID = Some src" "plan_BackupCode plan = src" "plan_ToolID plan = toolID"
    "plan_Status plan = PlanPending" "plan_Actions plan = a # as" "list_all planned_action (a # as)"
    "ClassifyToolError errMsg \<noteq> PatternToolUnknown \<Longrightarrow> act_Type a = ActionFix"
    "ClassifyToolError errMsg = PatternToolUnknown \<Longrightarrow> as = [] \<and> act_Type a = ActionRegenerate"
proof -
  obtain c cs where cat: "map_of BuildRepairCatalog (ClassifyToolError errMsg) = Some (c # cs)"
    "ClassifyToolError errMsg \<noteq> PatternToolUnknown \<Longrightarrow> act_Type c = ActionFix"
    using catalog_entry [OF ClassifyToolError_range] by metis
  have unknown: "cs = [] \<and> act_Type c = ActionRegenerate" if "ClassifyToolError errMsg = PatternToolUnknown"
    using cat(1) that by (auto simp: BuildRepairCatalog_def tool_patterns catalog_action_def)
  obtain b bs where acts: "plan_actions (fst (nextPlanID counter)) toolID (c # cs) = b # bs" "act_Type b = act_Type c" "cs = [] \<Longrightarrow> bs = []"
    using plan_actions_Cons by metis
  from assms cat(1) acts(1) obtain src where src: "GetToolCode toolID = Some src"
    "plan_BackupCode plan = src" "plan_ToolID plan = toolID" "plan_Status plan = PlanPending" "plan_Actions plan = b # bs"
    by (auto simp: AnalyseAndPlan_def Let_def split: option.splits prod.splits)
  moreover have "list_all planned_action (b # bs)"
    using plan_actions_planned [of counter toolID "c # cs"] unfolding acts(1) .
  ultimately show thesis using that cat(2) acts(2,3) unknown by metis
qed

lemma ExecutePlan_planned:
  assumes e: "reliable e" and acts: "plan_Actions (ex_plan s) = a # as" "list_all planned_action (a # as)"
    and plan: "plan_Status (ex_plan s) = PlanApproved" "tools (ex_store s) (plan_ToolID (ex_plan s)) = Some (plan_BackupCode (ex_plan s))"
    and run: "ExecutePlan e s = (s', result)"
  shows "tools (ex_store s') = tools (ex_store s)" "result = None \<Longrightarrow> verified e (plan_BackupCode (ex_plan s))"
proof -
  let ?plan = "ex_plan s" and ?T = "tools (ex_store s)"
  let ?s0 = "s\<lparr>ex_plan := ?plan\<lparr>plan_Status := PlanApplied\<rparr>\<rparr>"
  obtain s1 outcome where r: "run_actions e (plan_BackupCode ?plan) 0 (a # as) (plan_BackupCode ?plan) None ?s0 = (s1, outcome)"
    by (cases "run_actions e (plan_BackupCode ?plan) 0 (a # as) (plan_BackupCode ?plan) None ?s0") auto
  have "only_tool ?T (plan_ToolID (ex_plan ?s0)) (ex_store ?s0)"
    unfolding only_tool_def using fun_upd_triv by (intro exI [of _ "?T (plan_ToolID ?plan)"]) simp
  note inv = run_planned [OF e acts(2) this r]
  have restore: "only_tool ?T (plan_ToolID ?plan) st \<Longrightarrow> (tools st)(plan_ToolID ?plan \<mapsto> plan_BackupCode ?plan) = ?T" for st
    using plan(2) by (auto simp: only_tool_def fun_eq_iff)
  have kept: "only_tool ?T (plan_ToolID ?plan) st \<Longrightarrow> tools st (plan_ToolID ?plan) = Some (plan_BackupCode ?plan) \<Longrightarrow> tools st = ?T" for st
    using restore [of st] by (metis fun_upd_triv)
  have "tools (ex_store s') = ?T \<and> (result = None \<longrightarrow> verified e (plan_BackupCode ?plan))"
  proof (cases outcome)
    case (Inl res)
    with inv run r acts(1) plan(1) kept show ?thesis by (auto simp: ExecutePlan_def Let_def)
  next
    case (Inr err)
    with inv obtain er where "err = Some er" by (cases err) auto
    with Inr inv run r acts(1) plan(1) restore show ?thesis
      by (auto simp: ExecutePlan_def Let_def UpdateToolCode_reliable [OF e])
  qed
  then show "tools (ex_store s') = ?T" "result = None \<Longrightarrow> verified e (plan_BackupCode ?plan)" by simp_all
qed

lemma ExecutePlan_first_fix:
  assumes e: "reliable e" and acts: "plan_Actions (ex_plan s) = a # as" "planned_action a" "act_Type a = ActionFix"
    and plan: "plan_Status (ex_plan s) = PlanApproved" "verified e (plan_BackupCode (ex_plan s))"
  shows "snd (ExecutePlan e s) = None"
proof -
  have "executeFix (pick_path e) (plan_BackupCode (ex_plan s)) (act_ID a) = Some (plan_BackupCode (ex_plan s))"
    using acts(2) planned_fix_is_identity by (auto simp: planned_action_def)
  with acts plan show ?thesis
    by (simp add: ExecutePlan_def Let_def perform_action_def UpdateToolCode_reliable [OF e])
qed

text \<open>Regeneration works if there is a compiler, it compiles the stand-in definition, and the code is not empty and passes verification.\<close>

definition regenerates :: "RepairEngine \<Rightarrow> string \<Rightarrow> bool" where
  "regenerates e toolID \<longleftrightarrow>
    (\<exists>c gt. compile e = Some c \<and> c (regenerated_definition toolID) = Inr (Some gt) \<and>
       (GoCode gt \<noteq> [] \<and> verified e (GoCode gt) \<or> GoCode gt = [] \<and> PythonCode gt \<noteq> [] \<and> verified e (PythonCode gt)))"

lemma executeRegenerate_None:
  assumes "reliable e"
  shows "snd (executeRegenerate e st plan) = None \<longleftrightarrow> regenerates e (plan_ToolID plan)"
proof (cases "compile e")
  case (Some c)
  then show ?thesis
    by (cases "c (regenerated_definition (plan_ToolID plan))")
      (auto simp: executeRegenerate_def regenerates_def UpdateToolCode_reliable [OF assms] Let_def split: option.splits)
qed (simp add: executeRegenerate_def regenerates_def)

lemma executeRegenerate_no_panic: "snd (executeRegenerate e st plan) \<noteq> Some FixPanicked"
  by (auto simp: executeRegenerate_def Let_def split: option.splits sum.splits prod.splits if_splits)

lemma ExecutePlan_regenerate:
  assumes e: "reliable e" and acts: "plan_Actions (ex_plan s) = [a]" "act_Type a = ActionRegenerate"
    and plan: "plan_Status (ex_plan s) = PlanApproved"
  shows "snd (ExecutePlan e s) = None \<longleftrightarrow> verified e (plan_BackupCode (ex_plan s)) \<and> regenerates e (plan_ToolID (ex_plan s))"
proof -
  let ?plan = "ex_plan s\<lparr>plan_Status := PlanApplied\<rparr>"
  obtain st err where x: "executeRegenerate e (ex_store s) ?plan = (st, err)" by fastforce
  have err: "err = None \<longleftrightarrow> regenerates e (plan_ToolID (ex_plan s))"
    using executeRegenerate_None [OF e, of "ex_store s" ?plan] by (simp add: x)
  have "err \<noteq> Some FixPanicked" using executeRegenerate_no_panic [of e "ex_store s" ?plan] by (simp add: x)
  then show ?thesis
    using err acts plan x
    by (cases err)
      (auto simp: ExecutePlan_def perform_action_def UpdateToolCode_reliable [OF e] Let_def split: repair_error.splits)
qed

text \<open>C14. A plan that the engine makes for an error, once approved and executed while no write to the store fails, leaves the code of every tool as it
  was, whatever the compiler regenerates: the planner gives the actions new identifiers that no fix answers to, and
  regenerated code is overwritten by the backup. Nevertheless the execution may report success. For an error that has a pattern it does exactly when the
  old code passes verification; for an unknown error exactly when the old code passes and there is a compiler whose regenerated
  code passes too.\<close>

theorem repair_never_changes_tools:
  assumes "AnalyseAndPlan (tools st) counter toolID errMsg = (Some plan, counter')" "\<forall>n. \<not> write_fails e n"
    "ExecutePlan e \<lparr>ex_store = st, ex_history = h, ex_plan = ApprovePlan plan\<rparr> = (s', result)"
  shows "tools (ex_store s') = tools st \<and>
    (result = None \<longleftrightarrow>
      verified e (plan_BackupCode plan) \<and> (ClassifyToolError errMsg = PatternToolUnknown \<longrightarrow> regenerates e toolID))"
proof -
  obtain src a as where p: "tools st toolID = Some src" "plan_BackupCode plan = src" "plan_ToolID plan = toolID"
    "plan_Status plan = PlanPending" "plan_Actions plan = a # as" "list_all planned_action (a # as)"
    "ClassifyToolError errMsg \<noteq> PatternToolUnknown \<Longrightarrow> act_Type a = ActionFix"
    "ClassifyToolError errMsg = PatternToolUnknown \<Longrightarrow> as = [] \<and> act_Type a = ActionRegenerate"
    using AnalyseAndPlan_SomeD [OF assms(1)] by metis
  let ?s = "\<lparr>ex_store = st, ex_history = h, ex_plan = ApprovePlan plan\<rparr>"
  have e: "reliable e" using assms(2) by (simp add: reliable_def)
  have s: "plan_Actions (ex_plan ?s) = a # as" "plan_Status (ex_plan ?s) = PlanApproved"
    "tools (ex_store ?s) (plan_ToolID (ex_plan ?s)) = Some (plan_BackupCode (ex_plan ?s))" "plan_BackupCode (ex_plan ?s) = src"
    "plan_ToolID (ex_plan ?s) = toolID"
    using p by (simp_all add: ApprovePlan_def)
  have kept: "tools (ex_store s') = tools st" using ExecutePlan_planned(1) [OF e s(1) p(6) s(2,3) assms(3)] by simp
  have result: "snd (ExecutePlan e ?s) = result" using assms(3) by simp
  show ?thesis
  proof (cases "ClassifyToolError errMsg = PatternToolUnknown")
    case True
    then have "plan_Actions (ex_plan ?s) = [a]" "act_Type a = ActionRegenerate" using p(8) s(1) by simp_all
    from ExecutePlan_regenerate [OF e this s(2)] True kept show ?thesis unfolding result s(4,5) p(2) by simp
  next
    case False
    with ExecutePlan_planned(2) [OF e s(1) p(6) s(2,3) assms(3)] ExecutePlan_first_fix [OF e s(1) _ _ s(2)] s(4) p(2,6,7) assms(3) kept
    show ?thesis by auto
  qed
qed

definition sample_store :: tool_store where
  "sample_store = \<lparr>tools = [''t'' \<mapsto> ''func Handle() {''], writes = 0\<rparr>"

definition sample_engine :: RepairEngine where
  "sample_engine = \<lparr>compile = Some DSLCompilerAdapter, write_fails = (\<lambda>_. False),
     parse_imports = (\<lambda>_. Some []), pick_path = hd\<rparr>"

definition sample_repair_plan :: RepairPlan where
  "sample_repair_plan = the (fst (AnalyseAndPlan (tools sample_store) 0 ''t'' ''syntax error: unexpected EOF''))"

lemma sample_analysis:
  "AnalyseAndPlan (tools sample_store) 0 ''t'' ''syntax error: unexpected EOF'' = (Some sample_repair_plan, 1)"
  by (simp add: sample_repair_plan_def AnalyseAndPlan_def sample_store_def nextPlanID_def Let_def)

theorem repair_never_changes_tools_witness:
  "tools (ex_store (fst (ExecutePlan sample_engine
     \<lparr>ex_store = sample_store, ex_history = NewRepairHistory, ex_plan = ApprovePlan sample_repair_plan\<rparr>))) = tools sample_store"
  using repair_never_changes_tools [OF sample_analysis, of sample_engine NewRepairHistory, OF _ prod.collapse [symmetric]]
  by (simp add: sample_engine_def)

section \<open>Balanced braces\<close>

lemma count_list_concat_replicate: "count_list (concat (replicate n xs)) c = n * count_list xs c"
  by (induction n) simp_all

lemma Index_single:
  "Index s [c] = Some i \<Longrightarrow> i < length s \<and> c \<notin> set (take i s) \<and> s ! i = c"
proof (induction s arbitrary: i)
  case (Cons d s)
  then show ?case by (cases "d = c") auto
qed simp

lemma Index_single_None: "Index s [c] = None \<longleftrightarrow> c \<notin> set s"
  by (induction s) auto

lemma Count_fuel_single: "length s < n \<Longrightarrow> Count_fuel n s [c] = count_list s c"
proof (induction n arbitrary: s)
  case (Suc n)
  show ?case
  proof (cases "Index s [c]")
    case None
    then show ?thesis using Index_single_None [of s c] by simp
  next
    case (Some i)
    from Index_single [OF Some] have i: "i < length s" "c \<notin> set (take i s)" "s ! i = c" by simp_all
    then have "s = take i s @ c # drop (Suc i) s" using id_take_nth_drop [of i s] by simp
    then have "count_list s c = count_list (take i s @ c # drop (Suc i) s) c" by (rule arg_cong)
    then have "count_list s c = count_list (take i s) c + Suc (count_list (drop (Suc i) s) c)" by simp
    moreover have "Count_fuel n (drop (Suc i) s) [c] = count_list (drop (Suc i) s) c"
      using Suc.prems i(1) by (intro Suc.IH) simp
    ultimately show ?thesis using Some i(2) by simp
  qed
qed simp

lemma Count_single: "Count s [c] = count_list s c"
  unfolding Count_def by (rule Count_fuel_single) simp

lemma count_Join: "c \<noteq> NL \<Longrightarrow> count_list (Join ws [NL]) c = sum_list (map (\<lambda>w. count_list w c) ws)"
  by (induction ws "[NL]" rule: Join.induct) simp_all

lemma count_close_signature: "c \<noteq> CHR '')'' \<Longrightarrow> count_list (close_signature line) c = count_list line c"
  by (simp add: close_signature_def Let_def Repeat_def count_list_concat_replicate)

lemma count_fixSyntaxError:
  assumes "c \<noteq> CHR '')''" "c \<noteq> NL"
  shows "count_list (fixSyntaxError src) c =
    count_list (if Count src ''{'' > Count src ''}'' then src @ Repeat ([NL] @ ''}'') (Count src ''{'' - Count src ''}'') else src) c"
proof -
  have "count_list (Join (map close_signature (Split s NL)) [NL]) c = count_list s c" for s
    using count_Join [OF assms(2), of "Split s NL"] Join_Split [of s NL]
    by (simp add: count_Join [OF assms(2)] count_close_signature [OF assms(1)] comp_def)
  then show ?thesis by (simp add: fixSyntaxError_def Let_def)
qed

text \<open>The syntax fix keeps every opening brace and adds closing braces until there are at least as many.\<close>

theorem fixSyntaxError_balances:
  "Count (fixSyntaxError src) ''{'' = Count src ''{'' \<and>
   Count (fixSyntaxError src) ''}'' = max (Count src ''{'') (Count src ''}'')"
  by (simp add: Count_single count_fixSyntaxError Repeat_def count_list_concat_replicate)

end
