(* ===== verification/Workflow.thy ===== *)
theory Workflow
  imports Aleph_Prelude
begin

text \<open>
  The workflow engine and the orchestrator, \<^verbatim>\<open>internal/workflow\<close>. A step function is a parameter: from the collected inputs it
  computes an error or an output, where \<open>None\<close> is a nil map. The context is the predicate \<open>cancelled\<close> on
  the number of steps already taken. Identifiers are given.
\<close>

section \<open>Workflows\<close>

datatype Status = StatusPending | StatusRunning | StatusCompleted | StatusFailed | StatusCancelled

record 'o StepResult =
  sr_Name :: string
  sr_Error :: "string option"
  sr_Output :: "'o option"

record 'o Workflow =
  wf_ID :: string
  wf_Status :: Status
  wf_Steps :: "string list"
  wf_Result :: "'o StepResult list"

type_synonym 'o StepFunc = "(string, 'o) gomap \<Rightarrow> string + 'o option"

datatype workflow_error =
    ContextCancelled
  | StepNotRegistered string string
  | StepFailed string string string

section \<open>The engine\<close>

record 'o engine =
  steps :: "(string, 'o StepFunc) gomap"
  statuses :: "(string, Status) gomap"

definition NewWorkflowEngine :: "'o engine" where
  "NewWorkflowEngine = \<lparr>steps = Map.empty, statuses = Map.empty\<rparr>"

definition RegisterStep :: "'o engine \<Rightarrow> string \<Rightarrow> 'o StepFunc \<Rightarrow> 'o engine" where
  "RegisterStep e name fn = e\<lparr>steps := (steps e)(name \<mapsto> fn)\<rparr>"

definition GetStatus :: "'o engine \<Rightarrow> string \<Rightarrow> Status option" where
  "GetStatus e i = statuses e i"

fun collect_from :: "(string, 'o) gomap \<Rightarrow> 'o StepResult list \<Rightarrow> (string, 'o) gomap" where
  "collect_from input [] = input"
| "collect_from input (r # rs) =
    collect_from (case sr_Output r of Some out \<Rightarrow> input(sr_Name r \<mapsto> out) | None \<Rightarrow> input) rs"

definition collectInputs :: "'o StepResult list \<Rightarrow> (string, 'o) gomap" where
  "collectInputs results = collect_from Map.empty results"

text \<open>The loop over the steps; the deferred function follows in \<open>Execute_workflow\<close>.\<close>

fun run_steps ::
  "(string, 'o StepFunc) gomap \<Rightarrow> (nat \<Rightarrow> bool) \<Rightarrow> nat \<Rightarrow> string list \<Rightarrow> 'o Workflow \<Rightarrow> 'o Workflow \<times> workflow_error option" where
  "run_steps fns cancelled i [] w = (w\<lparr>wf_Status := StatusCompleted\<rparr>, None)"
| "run_steps fns cancelled i (name # rest) w =
    (if cancelled i then (w\<lparr>wf_Status := StatusCancelled\<rparr>, Some ContextCancelled)
     else case fns name of
       None \<Rightarrow> (w, Some (StepNotRegistered (wf_ID w) name))
     | Some fn \<Rightarrow>
         (case fn (collectInputs (wf_Result w)) of
            Inl err \<Rightarrow>
              (w\<lparr>wf_Result := wf_Result w @ [\<lparr>sr_Name = name, sr_Error = Some err, sr_Output = None\<rparr>]\<rparr>,
               Some (StepFailed (wf_ID w) name err))
          | Inr out \<Rightarrow>
              run_steps fns cancelled (Suc i) rest
                (w\<lparr>wf_Result := wf_Result w @ [\<lparr>sr_Name = name, sr_Error = None, sr_Output = out\<rparr>]\<rparr>)))"

definition Execute_workflow ::
  "(nat \<Rightarrow> bool) \<Rightarrow> 'o engine \<Rightarrow> 'o Workflow \<Rightarrow> 'o engine \<times> 'o Workflow \<times> workflow_error option" where
  "Execute_workflow cancelled e w =
    (let e0 = e\<lparr>statuses := (statuses e)(wf_ID w \<mapsto> StatusRunning)\<rparr>;
         (w1, err) = run_steps (steps e) cancelled 0 (wf_Steps w) (w\<lparr>wf_Status := StatusRunning\<rparr>);
         w2 = (if wf_Status w1 \<noteq> StatusCompleted then w1\<lparr>wf_Status := StatusFailed\<rparr> else w1) in
     (e0\<lparr>statuses := (statuses e0)(wf_ID w2 \<mapsto> wf_Status w2)\<rparr>, w2, err))"

section \<open>The orchestrator\<close>

record Orchestrator =
  maxAgents :: int
  active :: int

definition NewOrchestrator :: "int \<Rightarrow> Orchestrator" where
  "NewOrchestrator n = \<lparr>maxAgents = (if n \<le> 0 then 3 else n), active = 0\<rparr>"

text \<open>Calls of \<^verbatim>\<open>DecomposeTask\<close> overlap: each enters, runs its workflow, and leaves.\<close>

definition enter_task :: "Orchestrator \<Rightarrow> Orchestrator option" where
  "enter_task orch = (if active orch \<ge> maxAgents orch then None else Some (orch\<lparr>active := active orch + 1\<rparr>))"

definition leave_task :: "Orchestrator \<Rightarrow> Orchestrator" where
  "leave_task orch = orch\<lparr>active := active orch - 1\<rparr>"

definition DecomposeTask ::
  "(nat \<Rightarrow> bool) \<Rightarrow> 'o engine \<Rightarrow> string \<Rightarrow> string list \<Rightarrow> 'o engine \<times> (workflow_error + 'o Workflow)" where
  "DecomposeTask cancelled e newID stepNames =
    (let (e', w, err) = Execute_workflow cancelled e \<lparr>wf_ID = newID, wf_Status = StatusPending, wf_Steps = stepNames, wf_Result = []\<rparr> in
     (e', case err of Some er \<Rightarrow> Inl er | None \<Rightarrow> Inr w))"

inductive orchestrated :: "Orchestrator \<Rightarrow> nat \<Rightarrow> Orchestrator \<Rightarrow> bool" where
  start: "orchestrated orch 0 orch"
| enter: "orchestrated o0 n orch \<Longrightarrow> enter_task orch = Some orch' \<Longrightarrow> orchestrated o0 (Suc n) orch'"
| leave: "orchestrated o0 (Suc n) orch \<Longrightarrow> orchestrated o0 n (leave_task orch)"

section \<open>Facts\<close>

lemma run_steps_facts:
  "run_steps fns cancelled i names w = (w', err) \<Longrightarrow> wf_Status w = StatusRunning \<Longrightarrow>
     wf_ID w' = wf_ID w \<and> wf_Steps w' = wf_Steps w \<and> (wf_Status w' = StatusCompleted \<longleftrightarrow> err = None) \<and>
     (\<exists>done. map sr_Name (wf_Result w') = map sr_Name (wf_Result w) @ done \<and> prefix done names \<and> (err = None \<longrightarrow> done = names))"
proof (induction names arbitrary: i w)
  case (Cons name names)
  show ?case
  proof (cases "cancelled i \<or> fns name = None \<or> (\<exists>fn e. fns name = Some fn \<and> fn (collectInputs (wf_Result w)) = Inl e)")
    case True
    with Cons.prems show ?thesis
      by (auto split: if_splits option.splits sum.splits intro: exI [of _ "[]"] exI [of _ "[name]"])
  next
    case False
    then obtain fn out where fn: "\<not> cancelled i" "fns name = Some fn" "fn (collectInputs (wf_Result w)) = Inr out"
      by (metis old.sum.exhaust option.exhaust)
    let ?w = "w\<lparr>wf_Result := wf_Result w @ [\<lparr>sr_Name = name, sr_Error = None, sr_Output = out\<rparr>]\<rparr>"
    from Cons.prems fn have "run_steps fns cancelled (Suc i) names ?w = (w', err)" "wf_Status ?w = StatusRunning" by simp_all
    from Cons.IH [OF this] obtain dn where
      "wf_ID w' = wf_ID w" "wf_Steps w' = wf_Steps w" "wf_Status w' = StatusCompleted \<longleftrightarrow> err = None"
      "map sr_Name (wf_Result w') = map sr_Name (wf_Result w) @ name # dn" "prefix dn names" "err = None \<longrightarrow> dn = names"
      by auto
    then show ?thesis by (intro conjI exI [of _ "name # dn"]) simp_all
  qed
qed auto

lemma orchestrated_active:
  "orchestrated o0 n orch \<Longrightarrow> active o0 = 0 \<Longrightarrow> 0 < maxAgents o0 \<Longrightarrow> active orch = int n \<and> maxAgents orch = maxAgents o0 \<and> int n \<le> maxAgents o0"
  by (induction rule: orchestrated.induct) (auto simp: enter_task_def leave_task_def split: if_splits)

text \<open>However calls of the orchestrator overlap, at most the configured number run at a time.\<close>

theorem orchestrator_bound:
  "orchestrated (NewOrchestrator m) n orch \<Longrightarrow> int n \<le> (if m \<le> 0 then 3 else m)"
  using orchestrated_active [of "NewOrchestrator m" n orch] by (simp add: NewOrchestrator_def split: if_splits)

text \<open>C28. An execution ends with the status completed exactly when it returns no error and with the status failed otherwise; a
  cancelled workflow is reported as failed too, although the loop marks it as cancelled. The results name a
  prefix of the steps in their order, and all of them on success.\<close>

theorem Execute_outcome:
  "case Execute_workflow cancelled e w of (e', w', err) \<Rightarrow>
     GetStatus e' (wf_ID w) = Some (if err = None then StatusCompleted else StatusFailed) \<and>
     wf_Status w' = (if err = None then StatusCompleted else StatusFailed) \<and>
     (\<exists>taken left. wf_Steps w = taken @ left \<and> (err = None \<longrightarrow> left = []) \<and>
        map sr_Name (wf_Result w') = map sr_Name (wf_Result w) @ taken)"
proof -
  obtain w1 err where run: "run_steps (steps e) cancelled 0 (wf_Steps w) (w\<lparr>wf_Status := StatusRunning\<rparr>) = (w1, err)"
    by (cases "run_steps (steps e) cancelled 0 (wf_Steps w) (w\<lparr>wf_Status := StatusRunning\<rparr>)")
  from run_steps_facts [OF run] obtain dn where
    "wf_ID w1 = wf_ID w" "wf_Status w1 = StatusCompleted \<longleftrightarrow> err = None"
    "map sr_Name (wf_Result w1) = map sr_Name (wf_Result w) @ dn" "prefix dn (wf_Steps w)" "err = None \<longrightarrow> dn = wf_Steps w"
    by auto
  with run show ?thesis
    by (auto simp: Execute_workflow_def GetStatus_def Let_def elim!: prefixE)
qed

theorem Execute_outcome_witness:
  "case Execute_workflow (\<lambda>i. i = 1) (RegisterStep NewWorkflowEngine ''a'' (\<lambda>_. Inr (Some (0::nat))))
      \<lparr>wf_ID = ''wf-1'', wf_Status = StatusPending, wf_Steps = [''a'', ''a''], wf_Result = []\<rparr> of (e', w', err) \<Rightarrow>
     err = Some ContextCancelled \<and> GetStatus e' ''wf-1'' = Some StatusFailed \<and> wf_Status w' = StatusFailed"
  using Execute_outcome [where cancelled = "\<lambda>i. i = 1" and e = "RegisterStep NewWorkflowEngine ''a'' (\<lambda>_. Inr (Some (0::nat)))"
      and w = "\<lparr>wf_ID = ''wf-1'', wf_Status = StatusPending, wf_Steps = [''a'', ''a''], wf_Result = []\<rparr>"]
  by (simp add: Execute_workflow_def RegisterStep_def NewWorkflowEngine_def)

end
