(* ===== verification/Tool_Registry.thy ===== *)
theory Tool_Registry
  imports Aleph_Prelude "HOL-Library.AList"
begin

text \<open>
  The registry of built-in tools, \<^verbatim>\<open>internal/tools/registry.go\<close>: single and batch registration, lookup and execution. The map from keys to
  definitions is an association list with distinct keys; where the code iterates over it, the order is open. The functions of the
  tools are parameters, and the time limit of an execution is left out.
\<close>

section \<open>Registration\<close>

record ('p, 'r) RegistryTool =
  td_Name :: string
  td_Category :: string
  td_Description :: string
  td_Execute :: "('p \<Rightarrow> string + 'r) option"

type_synonym ('p, 'r) ToolRegistry = "(string \<times> ('p, 'r) RegistryTool) list"

definition NewToolRegistry :: "('p, 'r) ToolRegistry" where
  "NewToolRegistry = []"

definition toolKey :: "string \<Rightarrow> string \<Rightarrow> string" where
  "toolKey category name = category @ '':'' @ name"

abbreviation def_key :: "('p, 'r) RegistryTool \<Rightarrow> string" where
  "def_key d \<equiv> toolKey (td_Category d) (td_Name d)"

datatype registry_error =
    NameRequired
  | CategoryRequired string
  | NilExecute string
  | DuplicateTool string string
  | ToolMissing string string
  | ExecuteError string

definition check_def :: "('p, 'r) RegistryTool \<Rightarrow> registry_error option" where
  "check_def d =
    (if td_Name d = [] then Some NameRequired
     else if td_Category d = [] then Some (CategoryRequired (td_Name d))
     else if td_Execute d = None then Some (NilExecute (td_Name d))
     else None)"

definition Register :: "('p, 'r) ToolRegistry \<Rightarrow> ('p, 'r) RegistryTool \<Rightarrow> registry_error + ('p, 'r) ToolRegistry" where
  "Register r d =
    (case check_def d of
       Some err \<Rightarrow> Inl err
     | None \<Rightarrow>
         if map_of r (def_key d) \<noteq> None then Inl (DuplicateTool (td_Name d) (td_Category d))
         else Inr (AList.update (def_key d) d r))"

fun check_defs :: "('p, 'r) RegistryTool list \<Rightarrow> registry_error option" where
  "check_defs [] = None"
| "check_defs (d # ds) = (case check_def d of Some err \<Rightarrow> Some err | None \<Rightarrow> check_defs ds)"

fun check_duplicates :: "string set \<Rightarrow> ('p, 'r) RegistryTool list \<Rightarrow> registry_error option" where
  "check_duplicates existing [] = None"
| "check_duplicates existing (d # ds) =
    (if def_key d \<in> existing then Some (DuplicateTool (td_Name d) (td_Category d))
     else check_duplicates (insert (def_key d) existing) ds)"

fun add_all :: "('p, 'r) ToolRegistry \<Rightarrow> ('p, 'r) RegistryTool list \<Rightarrow> ('p, 'r) ToolRegistry" where
  "add_all r [] = r"
| "add_all r (d # ds) = add_all (AList.update (def_key d) d r) ds"

definition RegisterAll ::
  "('p, 'r) ToolRegistry \<Rightarrow> ('p, 'r) RegistryTool list \<Rightarrow> registry_error + ('p, 'r) ToolRegistry" where
  "RegisterAll r ds =
    (case check_defs ds of
       Some err \<Rightarrow> Inl err
     | None \<Rightarrow>
         (case check_duplicates (set (map fst r)) ds of
            Some err \<Rightarrow> Inl err
          | None \<Rightarrow> Inr (add_all r ds)))"

section \<open>Lookup\<close>

definition ListTools :: "('p, 'r) ToolRegistry \<Rightarrow> string \<Rightarrow> ('p, 'r) RegistryTool list" where
  "ListTools r category =
    (if category = [] then map snd r else filter (\<lambda>d. td_Category d = category) (map snd r))"

definition Get :: "('p, 'r) ToolRegistry \<Rightarrow> string \<Rightarrow> string \<Rightarrow> ('p, 'r) RegistryTool option" where
  "Get r category name = map_of r (toolKey category name)"

definition ExecuteContext :: "('p, 'r) ToolRegistry \<Rightarrow> string \<Rightarrow> string \<Rightarrow> 'p \<Rightarrow> registry_error + 'r" where
  "ExecuteContext r category name params =
    (case Get r category name of
       None \<Rightarrow> Inl (ToolMissing name category)
     | Some d \<Rightarrow>
         (case td_Execute d of
            None \<Rightarrow> Inl (NilExecute name)
          | Some run \<Rightarrow> (case run params of Inl err \<Rightarrow> Inl (ExecuteError err) | Inr res \<Rightarrow> Inr res)))"

definition Categories :: "('p, 'r) ToolRegistry \<Rightarrow> string list" where
  "Categories r = remdups (map (td_Category \<circ> snd) r)"

text \<open>The tools of one category after the other, as \<^verbatim>\<open>internal/suggestion/engine.go\<close> collects them.\<close>

definition collectAllTools :: "('p, 'r) ToolRegistry \<Rightarrow> ('p, 'r) RegistryTool list" where
  "collectAllTools r = concat (map (ListTools r) (Categories r))"

section \<open>Facts\<close>

text \<open>Every definition is stored under its own key, with a name, a category and a function.\<close>

definition registry_ok :: "('p, 'r) ToolRegistry \<Rightarrow> bool" where
  "registry_ok r \<longleftrightarrow> distinct (map fst r) \<and> (\<forall>(k, d) \<in> set r. k = def_key d \<and> check_def d = None)"

lemma update_fresh: "map_of r k = None \<Longrightarrow> AList.update k d r = r @ [(k, d)]"
  by (induction r) (auto split: if_splits)

lemma registry_ok_New: "registry_ok NewToolRegistry"
  by (simp add: registry_ok_def NewToolRegistry_def)

lemma registry_ok_update:
  "registry_ok r \<Longrightarrow> check_def d = None \<Longrightarrow> map_of r (def_key d) = None \<Longrightarrow> registry_ok (AList.update (def_key d) d r)"
  by (auto simp: registry_ok_def update_fresh map_of_eq_None_iff)

lemma registry_ok_Register: "registry_ok r \<Longrightarrow> Register r d = Inr r' \<Longrightarrow> registry_ok r'"
  by (auto simp: Register_def registry_ok_update split: option.splits if_splits)

text \<open>Registering one after the other, stopping at the first error.\<close>

fun register_each :: "('p, 'r) ToolRegistry \<Rightarrow> ('p, 'r) RegistryTool list \<Rightarrow> ('p, 'r) ToolRegistry option" where
  "register_each r [] = Some r"
| "register_each r (d # ds) = (case Register r d of Inl _ \<Rightarrow> None | Inr r' \<Rightarrow> register_each r' ds)"

lemma keys_update: "set (map fst (AList.update k d r)) = insert k (set (map fst r))"
  by (auto simp: AList.update_keys)

lemma register_each_iff:
  "register_each r ds =
     (if check_defs ds = None \<and> check_duplicates (set (map fst r)) ds = None then Some (add_all r ds) else None)"
proof (induction ds arbitrary: r)
  case (Cons d ds)
  have mem: "map_of r (def_key d) = None \<longleftrightarrow> def_key d \<notin> set (map fst r)" by (simp add: map_of_eq_None_iff)
  show ?case
  proof (cases "check_def d = None \<and> map_of r (def_key d) = None")
    case True
    with mem Cons.IH [of "AList.update (def_key d) d r"] show ?thesis
      unfolding keys_update by (simp add: Register_def)
  next
    case False
    with mem show ?thesis by (auto simp: Register_def split: option.splits)
  qed
qed simp

text \<open>A batch registration succeeds exactly when registering its tools one by one does, with the same registry, and changes nothing otherwise.\<close>

theorem RegisterAll_each:
  "(case RegisterAll r ds of Inl _ \<Rightarrow> None | Inr r' \<Rightarrow> Some r') = register_each r ds"
  unfolding register_each_iff by (simp add: RegisterAll_def split: option.splits)

lemma registry_ok_each: "registry_ok r \<Longrightarrow> register_each r ds = Some r' \<Longrightarrow> registry_ok r'"
  by (induction ds arbitrary: r) (auto split: sum.splits intro: registry_ok_Register)

lemma registry_ok_RegisterAll: "registry_ok r \<Longrightarrow> RegisterAll r ds = Inr r' \<Longrightarrow> registry_ok r'"
  using RegisterAll_each [of r ds] registry_ok_each [of r ds r'] by simp

inductive registry_reachable :: "('p, 'r) ToolRegistry \<Rightarrow> bool" where
  fresh: "registry_reachable NewToolRegistry"
| one: "registry_reachable r \<Longrightarrow> Register r d = Inr r' \<Longrightarrow> registry_reachable r'"
| batch: "registry_reachable r \<Longrightarrow> RegisterAll r ds = Inr r' \<Longrightarrow> registry_reachable r'"

lemma reachable_ok: "registry_reachable r \<Longrightarrow> registry_ok r"
  by (induction rule: registry_reachable.induct)
    (auto intro: registry_ok_New registry_ok_Register registry_ok_RegisterAll)

lemma collectAllTools_subset: "set (collectAllTools r) \<subseteq> snd ` set r"
  by (auto simp: collectAllTools_def ListTools_def split: if_splits)

lemma key_determines_tool:
  assumes "registry_ok r" "d \<in> snd ` set r" "d' \<in> snd ` set r" "def_key d = def_key d'"
  shows "d = d'"
proof -
  from assms(1,2,3) have "(def_key d, d) \<in> set r" "(def_key d', d') \<in> set r" by (auto simp: registry_ok_def)
  with assms(1,4) show ?thesis by (metis eq_key_imp_eq_value registry_ok_def)
qed

lemma Get_registered: "registry_ok r \<Longrightarrow> d \<in> snd ` set r \<Longrightarrow> Get r (td_Category d) (td_Name d) = Some d"
  by (auto simp: registry_ok_def Get_def)

text \<open>The key does not separate the two parts when a category contains a colon.\<close>

lemma toolKey_collision: "toolKey ''a:b'' ''c'' = toolKey ''a'' ''b:c''"
  by (simp add: toolKey_def)

lemma toolKey_inj:
  assumes "CHR '':'' \<notin> set c" "CHR '':'' \<notin> set c'" "toolKey c n = toolKey c' n'"
  shows "c = c' \<and> n = n'"
  using assms(3) Split_append_sep [OF assms(1), of n] Split_append_sep [OF assms(2), of n']
  by (auto simp: toolKey_def)

end
