(* ===== verification/Suggestion.thy ===== *)
theory Suggestion
  imports Tool_Registry Complex_Main "HOL-Library.Multiset"
begin

text \<open>
  Tool suggestions, \<^verbatim>\<open>internal/suggestion\<close>: the cache of embeddings (\<^verbatim>\<open>cache.go\<close>), usage counts (\<^verbatim>\<open>usage.go\<close>), the ranking
  (\<^verbatim>\<open>ranker.go\<close>) and the engine (\<^verbatim>\<open>engine.go\<close>).

  Embeddings and scores are exact reals. The embedder is a parameter; it is a client of a service, so what it answers depends on the number of the call,
  and every call may fail. A parameter, too, is the sorting of \<^verbatim>\<open>sort.Slice\<close>, which leaves the order of
  equal scores open. The map of the cache is an association list with distinct keys.
\<close>

section \<open>The cache\<close>

type_synonym embedding = "real list"

record embedCache =
  entries :: "(string \<times> embedding) list"
  order :: "string list"
  maxSize :: nat

definition newEmbedCache :: "int \<Rightarrow> embedCache" where
  "newEmbedCache n = \<lparr>entries = [], order = [], maxSize = nat (if n \<le> 0 then 100 else n)\<rparr>"

definition cache_get :: "embedCache \<Rightarrow> string \<Rightarrow> embedding option" where
  "cache_get c key = map_of (entries c) key"

fun evict :: "nat \<Rightarrow> (string \<times> embedding) list \<Rightarrow> string list \<Rightarrow> (string \<times> embedding) list \<times> string list" where
  "evict n es [] = (es, [])"
| "evict n es (oldest # ks) = (if length es \<ge> n then evict n (AList.delete oldest es) ks else (es, oldest # ks))"

definition cache_put :: "embedCache \<Rightarrow> string \<Rightarrow> embedding \<Rightarrow> embedCache" where
  "cache_put c key emb =
    (if map_of (entries c) key \<noteq> None then
       c\<lparr>entries := AList.update key emb (entries c), order := remove1 key (order c) @ [key]\<rparr>
     else
       (let (es, ks) = evict (maxSize c) (entries c) (order c) in
        c\<lparr>entries := AList.update key emb es, order := ks @ [key]\<rparr>))"

definition cache_size :: "embedCache \<Rightarrow> nat" where
  "cache_size c = length (entries c)"

text \<open>Keys and order agree, and the size bound holds.\<close>

definition cache_ok :: "embedCache \<Rightarrow> bool" where
  "cache_ok c \<longleftrightarrow> distinct (map fst (entries c)) \<and> distinct (order c) \<and> set (order c) = fst ` set (entries c) \<and>
     0 < maxSize c \<and> length (entries c) \<le> maxSize c"

section \<open>What the engine relies on\<close>

text \<open>
  \<open>get_or_compute\<close> is the use of a cache in \<^verbatim>\<open>getOrComputeEmbedding\<close>; the locale states what it needs: a stored value is found, and storing one
  value changes no other, except that others may be dropped.
\<close>

definition get_or_compute ::
  "('c \<Rightarrow> string \<Rightarrow> 'e option) \<Rightarrow> ('c \<Rightarrow> string \<Rightarrow> 'e \<Rightarrow> 'c) \<Rightarrow> (nat \<Rightarrow> string \<Rightarrow> 'e option) \<Rightarrow> 'c \<Rightarrow> nat \<Rightarrow> string \<Rightarrow> string
    \<Rightarrow> 'e option \<times> 'c \<times> nat" where
  "get_or_compute get put Embed c q key text =
    (case get c key of
       Some e \<Rightarrow> (Some e, c, q)
     | None \<Rightarrow> (case Embed q text of None \<Rightarrow> (None, c, Suc q) | Some e \<Rightarrow> (Some e, put c key e, Suc q)))"

text \<open>A store is faithful if it is well-formed and what it holds under a key has the given property.\<close>

definition faithful :: "('c \<Rightarrow> string \<Rightarrow> 'e option) \<Rightarrow> ('c \<Rightarrow> bool) \<Rightarrow> (string \<Rightarrow> 'e \<Rightarrow> bool) \<Rightarrow> 'c \<Rightarrow> bool" where
  "faithful get ok holds c \<longleftrightarrow> ok c \<and> (\<forall>k e. get c k = Some e \<longrightarrow> holds k e)"

lemma faithful_mono: "faithful get ok holds c \<Longrightarrow> (\<And>k e. holds k e \<Longrightarrow> holds' k e) \<Longrightarrow> faithful get ok holds' c"
  by (simp add: faithful_def)

locale lossy_store =
  fixes get :: "'c \<Rightarrow> string \<Rightarrow> 'e option"
    and put :: "'c \<Rightarrow> string \<Rightarrow> 'e \<Rightarrow> 'c"
    and ok :: "'c \<Rightarrow> bool"
  assumes put_ok: "ok c \<Longrightarrow> ok (put c k e)"
    and get_put: "ok c \<Longrightarrow> get (put c k e) k = Some e"
    and get_put_other: "ok c \<Longrightarrow> k' \<noteq> k \<Longrightarrow> get (put c k e) k' = Some e' \<Longrightarrow> get c k' = Some e'"
begin

lemma faithful_put:
  assumes "faithful get ok holds c" "holds key e"
  shows "faithful get ok holds (put c key e)"
  unfolding faithful_def
proof (intro conjI allI impI)
  show "ok (put c key e)" using assms put_ok by (simp add: faithful_def)
  fix k e' assume g: "get (put c key e) k = Some e'"
  show "holds k e'"
  proof (cases "k = key")
    case True
    with assms g get_put [of c key e] show ?thesis by (simp add: faithful_def)
  next
    case False
    from assms(1) have "ok c" by (simp add: faithful_def)
    from get_put_other [OF this False g] assms(1) show ?thesis by (simp add: faithful_def)
  qed
qed

lemma faithful_get_or_compute:
  assumes "faithful get ok holds c" "\<And>e. Embed q text = Some e \<Longrightarrow> holds key e" "get_or_compute get put Embed c q key text = (r, c', q')"
  shows "faithful get ok holds c' \<and> q \<le> q' \<and>
    (case r of Some e \<Rightarrow> holds key e | None \<Rightarrow> Embed q text = None \<and> q' = Suc q)"
proof (cases "get c key")
  case (Some e)
  then have "r = Some e" "c' = c" "q' = q" using assms(3) by (auto simp: get_or_compute_def)
  with Some assms(1) show ?thesis by (simp add: faithful_def)
next
  case None
  with assms faithful_put [OF assms(1)] show ?thesis by (auto simp: get_or_compute_def split: option.splits)
qed

end

section \<open>The cache provides it\<close>

definition keys_agree :: "(string \<times> embedding) list \<Rightarrow> string list \<Rightarrow> bool" where
  "keys_agree es ks \<longleftrightarrow> distinct (map fst es) \<and> distinct ks \<and> set ks = set (map fst es)"

lemma cache_ok_iff: "cache_ok c \<longleftrightarrow> keys_agree (entries c) (order c) \<and> 0 < maxSize c \<and> length (entries c) \<le> maxSize c"
  by (auto simp: cache_ok_def keys_agree_def)

lemma keys_agree_delete: "keys_agree es (k # ks) \<Longrightarrow> keys_agree (AList.delete k es) ks"
  by (auto simp: keys_agree_def AList.delete_keys distinct_removeAll)

lemma keys_agree_update:
  "keys_agree es ks \<Longrightarrow> map_of es k = None \<Longrightarrow> keys_agree (AList.update k e es) (ks @ [k])"
  by (auto simp: keys_agree_def AList.update_keys map_of_eq_None_iff)

lemma keys_agree_touch:
  "keys_agree es ks \<Longrightarrow> map_of es k \<noteq> None \<Longrightarrow> keys_agree (AList.update k e es) (remove1 k ks @ [k])"
  by (auto simp: keys_agree_def AList.update_keys map_of_eq_None_iff)

lemma length_update: "length (AList.update k e es) = (if map_of es k = None then Suc (length es) else length es)"
  using arg_cong [OF AList.update_keys [of k e es], of length] by (auto simp: map_of_eq_None_iff)

lemma evict_facts:
  "evict n es ks = (es', ks') \<Longrightarrow> keys_agree es ks \<Longrightarrow> 0 < n \<Longrightarrow>
     keys_agree es' ks' \<and> length es' < n \<and> (\<forall>k e. map_of es' k = Some e \<longrightarrow> map_of es k = Some e)"
proof (induction ks arbitrary: es)
  case Nil
  then show ?case by (auto simp: keys_agree_def)
next
  case (Cons oldest ks)
  show ?case
  proof (cases "n \<le> length es")
    case True
    with Cons.prems have "keys_agree es' ks' \<and> length es' < n \<and> (\<forall>k e. map_of es' k = Some e \<longrightarrow> map_of (AList.delete oldest es) k = Some e)"
      by (intro Cons.IH) (simp_all add: keys_agree_delete)
    moreover have "map_of (AList.delete oldest es) k = Some e \<Longrightarrow> map_of es k = Some e" for k e
      by (simp add: AList.delete_conv' split: if_splits)
    ultimately show ?thesis by blast
  qed (use Cons.prems in auto)
qed

lemma cache_put_facts:
  assumes "cache_ok c"
  shows "cache_ok (cache_put c key e)" "cache_get (cache_put c key e) key = Some e"
    "k' \<noteq> key \<Longrightarrow> cache_get (cache_put c key e) k' = Some e' \<Longrightarrow> cache_get c k' = Some e'"
proof -
  obtain es ks where ev: "evict (maxSize c) (entries c) (order c) = (es, ks)" by force
  from evict_facts [OF this] assms have es: "keys_agree es ks" "length es < maxSize c"
    "map_of es k = Some x \<Longrightarrow> map_of (entries c) k = Some x" for k x
    by (auto simp: cache_ok_iff)
  from es(3) have none: "map_of (entries c) key = None \<Longrightarrow> map_of es key = None" by (cases "map_of es key") auto
  show "cache_ok (cache_put c key e)"
    using assms es none
    by (auto simp: cache_ok_iff cache_put_def ev keys_agree_update keys_agree_touch length_update)
  show "cache_get (cache_put c key e) key = Some e"
    by (simp add: cache_get_def cache_put_def ev AList.update_conv')
  show "k' \<noteq> key \<Longrightarrow> cache_get (cache_put c key e) k' = Some e' \<Longrightarrow> cache_get c k' = Some e'"
    using es(3) by (auto simp: cache_get_def cache_put_def ev AList.update_conv' split: if_splits)
qed

interpretation embeds: lossy_store cache_get cache_put cache_ok
  by unfold_locales (fact cache_put_facts)+

lemma newEmbedCache_ok: "faithful cache_get cache_ok holds (newEmbedCache n)"
  by (simp add: faithful_def cache_ok_def newEmbedCache_def cache_get_def)

section \<open>Usage counts\<close>

type_synonym usage_stats = "(string \<times> nat) list"

definition toolKeyStr :: "string \<Rightarrow> string \<Rightarrow> string" where
  "toolKeyStr category name = category @ '':'' @ name"

definition usage_of :: "usage_stats \<Rightarrow> string \<Rightarrow> nat" where
  "usage_of stats key = (case map_of stats key of Some n \<Rightarrow> n | None \<Rightarrow> 0)"

definition TrackUsage :: "usage_stats \<Rightarrow> string \<Rightarrow> string \<Rightarrow> usage_stats" where
  "TrackUsage stats category name =
    (let key = toolKeyStr category name in AList.update key (Suc (usage_of stats key)) stats)"

definition maxUsage :: "usage_stats \<Rightarrow> nat" where
  "maxUsage stats = foldl (\<lambda>high (_, v). if v > high then v else high) 0 stats"

section \<open>Ranking\<close>

record ToolEmbed =
  te_Name :: string
  te_Category :: string
  te_Description :: string
  te_Embedding :: embedding

record Suggestion =
  ToolName :: string
  sg_Category :: string
  sg_Description :: string
  Score :: real
  Similarity :: real
  UsageScore :: real
  Reason :: string

definition cosineSimilarity :: "embedding \<Rightarrow> embedding \<Rightarrow> real" where
  "cosineSimilarity a b =
    (if length a \<noteq> length b \<or> length a = 0 then 0
     else
       (let dot = sum_list (map2 (*) a b); normA = sum_list (map2 (*) a a); normB = sum_list (map2 (*) b b) in
        if normA = 0 \<or> normB = 0 then 0
        else (let sim = dot / sqrt (normA * normB) in if sim < 0 then 0 else sim)))"

definition buildReason :: "real \<Rightarrow> real \<Rightarrow> string" where
  "buildReason similarity usageScore =
    (if usageScore > 1 / 2 \<and> similarity > 1 / 2 then ''Similar to tools you'' @ [SQ] @ ''ve used before''
     else if similarity > 7 / 10 then ''Strong semantic match with your request''
     else if usageScore > 1 / 2 then ''Frequently used tool that may help''
     else if similarity > 3 / 10 then ''Partial semantic match with your request''
     else ''Available tool that may be relevant'')"

definition normalizeScores :: "Suggestion list \<Rightarrow> Suggestion list" where
  "normalizeScores suggestions =
    (case suggestions of
       [] \<Rightarrow> []
     | s0 # _ \<Rightarrow>
         (let minScore = foldl (\<lambda>m s. if Score s < m then Score s else m) (Score s0) suggestions;
              maxScore = foldl (\<lambda>m s. if Score s > m then Score s else m) (Score s0) suggestions;
              scoreRange = maxScore - minScore in
          map (\<lambda>s. s\<lparr>Score := if scoreRange = 0 then 1 else (Score s - minScore) / scoreRange\<rparr>) suggestions))"

definition rank_one :: "embedding \<Rightarrow> usage_stats \<Rightarrow> ToolEmbed \<Rightarrow> Suggestion" where
  "rank_one userEmbedding stats td =
    (let sim = cosineSimilarity userEmbedding (te_Embedding td);
         maxUse = maxUsage stats;
         usageScore = (if maxUse > 0 then real (usage_of stats (toolKeyStr (te_Category td) (te_Name td))) / real maxUse else 0) in
     \<lparr>ToolName = te_Name td, sg_Category = te_Category td, sg_Description = te_Description td,
      Score = 7 / 10 * sim + 3 / 10 * usageScore, Similarity = sim, UsageScore = usageScore,
      Reason = buildReason sim usageScore\<rparr>)"

definition Rank ::
  "(Suggestion list \<Rightarrow> Suggestion list) \<Rightarrow> ToolEmbed list \<Rightarrow> embedding \<Rightarrow> usage_stats \<Rightarrow> Suggestion list" where
  "Rank sortSlice toolDefs userEmbedding stats =
    (if toolDefs = [] then [] else sortSlice (normalizeScores (map (rank_one userEmbedding stats) toolDefs)))"

section \<open>The engine\<close>

definition tool_text :: "('p, 'r) RegistryTool \<Rightarrow> string" where
  "tool_text t = td_Name t @ '': '' @ td_Description t"

abbreviation tool_key :: "('p, 'r) RegistryTool \<Rightarrow> string" where
  "tool_key t \<equiv> toolKeyStr (td_Category t) (td_Name t)"

definition getOrComputeEmbedding ::
  "(nat \<Rightarrow> string \<Rightarrow> embedding option) \<Rightarrow> embedCache \<Rightarrow> nat \<Rightarrow> string \<Rightarrow> string \<Rightarrow> embedding option \<times> embedCache \<times> nat" where
  "getOrComputeEmbedding Embed c q key text = get_or_compute cache_get cache_put Embed c q key text"

definition tool_embed :: "('p, 'r) RegistryTool \<Rightarrow> embedding \<Rightarrow> ToolEmbed" where
  "tool_embed t e = \<lparr>te_Name = td_Name t, te_Category = td_Category t, te_Description = td_Description t, te_Embedding = e\<rparr>"

fun embed_tools ::
  "(nat \<Rightarrow> string \<Rightarrow> embedding option) \<Rightarrow> embedCache \<Rightarrow> nat \<Rightarrow> ('p, 'r) RegistryTool list \<Rightarrow> ToolEmbed list \<times> embedCache \<times> nat" where
  "embed_tools Embed c q [] = ([], c, q)"
| "embed_tools Embed c q (t # ts) =
    (let (r, c1, q1) = getOrComputeEmbedding Embed c q (tool_key t) (tool_text t);
         (rest, c2, q2) = embed_tools Embed c1 q1 ts in
     (case r of None \<Rightarrow> rest | Some e \<Rightarrow> tool_embed t e # rest, c2, q2))"

text \<open>The end of \<^verbatim>\<open>Suggest\<close>, once the tools have their embeddings.\<close>

definition top_suggestions ::
  "(Suggestion list \<Rightarrow> Suggestion list) \<Rightarrow> ToolEmbed list \<Rightarrow> embedding \<Rightarrow> usage_stats \<Rightarrow> int \<Rightarrow> Suggestion list" where
  "top_suggestions sortSlice toolEmbeds userEmbedding stats topN =
    (if toolEmbeds = [] then []
     else
       (let suggestions = Rank sortSlice toolEmbeds userEmbedding stats;
            top = (if topN > 0 \<and> int (length suggestions) > topN then take (nat topN) suggestions else suggestions) in
        sortSlice top))"

text \<open>\<open>None\<close> is the error for the user's message; \<open>q\<close> counts the calls of the embedder.\<close>

definition Suggest ::
  "(Suggestion list \<Rightarrow> Suggestion list) \<Rightarrow> (nat \<Rightarrow> string \<Rightarrow> embedding option) option \<Rightarrow> ('p, 'r) RegistryTool list \<Rightarrow> usage_stats \<Rightarrow> embedCache \<Rightarrow> nat
    \<Rightarrow> string \<Rightarrow> int \<Rightarrow> Suggestion list option \<times> embedCache \<times> nat" where
  "Suggest sortSlice embedder allTools stats c q userMessage topN =
    (case embedder of
       None \<Rightarrow> (Some [], c, q)
     | Some Embed \<Rightarrow>
         if userMessage = [] then (Some [], c, q)
         else case Embed q userMessage of
           None \<Rightarrow> (None, c, Suc q)
         | Some userEmbedding \<Rightarrow>
             if allTools = [] then (Some [], c, Suc q)
             else
               (let (toolEmbeds, c1, q1) = embed_tools Embed c (Suc q) allTools in
                (Some (top_suggestions sortSlice toolEmbeds userEmbedding stats topN), c1, q1)))"

section \<open>What the cache may change\<close>

text \<open>The embedder answered a text so before call \<open>q\<close>.\<close>

definition answered :: "(nat \<Rightarrow> string \<Rightarrow> embedding option) \<Rightarrow> nat \<Rightarrow> string \<Rightarrow> embedding \<Rightarrow> bool" where
  "answered Embed q text e \<longleftrightarrow> (\<exists>j < q. Embed j text = Some e)"

lemma answered_mono: "answered Embed q text e \<Longrightarrow> q \<le> q' \<Longrightarrow> answered Embed q' text e"
  by (auto simp: answered_def intro: less_le_trans)

text \<open>The cache holds for the tools of \<open>T\<close> only what the embedder answered for their texts.\<close>

definition holds_answers :: "('p, 'r) RegistryTool set \<Rightarrow> (nat \<Rightarrow> string \<Rightarrow> embedding option) \<Rightarrow> nat \<Rightarrow> embedCache \<Rightarrow> bool" where
  "holds_answers T Embed q = faithful cache_get cache_ok (\<lambda>k e. \<forall>t \<in> T. tool_key t = k \<longrightarrow> answered Embed q (tool_text t) e)"

lemma holds_answers_mono: "holds_answers T Embed q c \<Longrightarrow> q \<le> q' \<Longrightarrow> holds_answers T Embed q' c"
  unfolding holds_answers_def by (erule faithful_mono) (blast intro: answered_mono)

lemma getOrComputeEmbedding_facts:
  assumes "holds_answers T Embed q c" "t \<in> T" "inj_on tool_key T" "getOrComputeEmbedding Embed c q (tool_key t) (tool_text t) = (r, c', q')"
  shows "holds_answers T Embed q' c' \<and> q \<le> q' \<and>
    (case r of Some e \<Rightarrow> answered Embed q' (tool_text t) e | None \<Rightarrow> Embed q (tool_text t) = None \<and> q' = Suc q)"
proof -
  have le: "q \<le> q'" "q' \<le> Suc q"
    using assms(4) by (auto simp: getOrComputeEmbedding_def get_or_compute_def split: option.splits)
  show ?thesis
  proof (cases "cache_get c (tool_key t)")
    case (Some e)
    then have "c' = c" "q' = q" "r = Some e" using assms(4) by (auto simp: getOrComputeEmbedding_def get_or_compute_def)
    with Some assms(1,2) show ?thesis by (auto simp: holds_answers_def faithful_def)
  next
    case None
    then have q': "q' = Suc q" using assms(4) by (auto simp: getOrComputeEmbedding_def get_or_compute_def split: option.splits)
    have h: "holds_answers T Embed q' c" by (rule holds_answers_mono [OF assms(1) le(1)])
    have e: "\<forall>t' \<in> T. tool_key t' = tool_key t \<longrightarrow> answered Embed q' (tool_text t') e" if "Embed q (tool_text t) = Some e" for e
      using that assms(2,3) q' by (auto simp: answered_def dest: inj_onD)
    from embeds.faithful_get_or_compute [OF h [unfolded holds_answers_def] e assms(4) [unfolded getOrComputeEmbedding_def]] assms(2)
    show ?thesis by (auto simp: holds_answers_def split: option.splits)
  qed
qed

lemma embed_tools_facts:
  assumes "inj_on tool_key T"
  shows "set ts \<subseteq> T \<Longrightarrow> holds_answers T Embed q c \<Longrightarrow> embed_tools Embed c q ts = (embeds, c', q') \<Longrightarrow>
    holds_answers T Embed q' c' \<and> q \<le> q' \<and>
    (\<exists>us es. us \<in> set (subseqs ts) \<and> list_all2 (\<lambda>t. answered Embed q' (tool_text t)) us es \<and> embeds = map2 tool_embed us es \<and>
       (\<forall>t \<in> set ts - set us. \<exists>j. q \<le> j \<and> j < q' \<and> Embed j (tool_text t) = None) \<and>
       ((\<forall>j \<ge> q. \<forall>t \<in> set ts. Embed j (tool_text t) \<noteq> None) \<longrightarrow> us = ts))"
proof (induction ts arbitrary: c q embeds)
  case (Cons t ts)
  obtain r c1 q1 where g: "getOrComputeEmbedding Embed c q (tool_key t) (tool_text t) = (r, c1, q1)" by (metis prod_cases3)
  obtain rest where m: "embed_tools Embed c1 q1 ts = (rest, c', q')" and emb: "embeds = (case r of None \<Rightarrow> rest | Some e \<Rightarrow> tool_embed t e # rest)"
    using Cons.prems(3) g by (auto split: prod.splits)
  have t: "t \<in> T" "set ts \<subseteq> T" using Cons.prems(1) by auto
  note one = getOrComputeEmbedding_facts [OF Cons.prems(2) t(1) assms g]
  from Cons.IH [OF t(2) conjunct1 [OF one] m] obtain us es where more: "holds_answers T Embed q' c'" "q1 \<le> q'"
    "us \<in> set (subseqs ts)" "list_all2 (\<lambda>t. answered Embed q' (tool_text t)) us es" "rest = map2 tool_embed us es"
    "\<forall>t \<in> set ts - set us. \<exists>j. q1 \<le> j \<and> j < q' \<and> Embed j (tool_text t) = None"
    "(\<forall>j \<ge> q1. \<forall>t \<in> set ts. Embed j (tool_text t) \<noteq> None) \<longrightarrow> us = ts" by blast
  have le: "q \<le> q1" using one by blast
  have later: "\<forall>t \<in> set ts - set us. \<exists>j. q \<le> j \<and> j < q' \<and> Embed j (tool_text t) = None"
    using more(6) le by (meson order_trans)
  have all: "us = ts" if "\<forall>j \<ge> q. \<forall>x \<in> set (t # ts). Embed j (tool_text x) \<noteq> None"
    using more(7) that le by auto
  show ?case
  proof (cases r)
    case None
    with one have f: "Embed q (tool_text t) = None" "q1 = Suc q" by auto
    then have "\<exists>j. q \<le> j \<and> j < q' \<and> Embed j (tool_text t) = None" using more(2) by (intro exI [of _ q]) auto
    with later have miss: "\<forall>x \<in> set (t # ts) - set us. \<exists>j. q \<le> j \<and> j < q' \<and> Embed j (tool_text x) = None" by auto
    have "(\<forall>j \<ge> q. \<forall>x \<in> set (t # ts). Embed j (tool_text x) \<noteq> None) \<longrightarrow> us = t # ts" using f(1) by auto
    moreover have "us \<in> set (subseqs (t # ts))" using more(3) by (simp add: Let_def)
    moreover have "embeds = map2 tool_embed us es" using None emb more(5) by simp
    ultimately show ?thesis using more(1,2,4) le miss by (intro conjI exI [of _ us] exI [of _ es]) (blast | linarith)+
  next
    case (Some e)
    with one have "answered Embed q' (tool_text t) e" using more(2) by (auto intro: answered_mono)
    then have "list_all2 (\<lambda>t. answered Embed q' (tool_text t)) (t # us) (e # es)" using more(4) by simp
    moreover have "t # us \<in> set (subseqs (t # ts))" using more(3) by (simp add: Let_def)
    moreover have "embeds = map2 tool_embed (t # us) (e # es)" using Some emb more(5) by simp
    moreover have "\<forall>x \<in> set (t # ts) - set (t # us). \<exists>j. q \<le> j \<and> j < q' \<and> Embed j (tool_text x) = None" using later by auto
    moreover have "(\<forall>j \<ge> q. \<forall>x \<in> set (t # ts). Embed j (tool_text x) \<noteq> None) \<longrightarrow> t # us = t # ts" using all by blast
    ultimately show ?thesis using more(1,2) le by (intro conjI exI [of _ "t # us"] exI [of _ "e # es"]) auto
  qed
qed simp

lemma Suggest_facts:
  assumes "inj_on tool_key T" "set allTools \<subseteq> T" "holds_answers T Embed q c" "Suggest sortSlice (Some Embed) allTools stats c q m n = (r, c', q')"
  shows "holds_answers T Embed q' c'" "m \<noteq> [] \<Longrightarrow> Embed q m = Some ue \<Longrightarrow>
    (\<exists>us es. us \<in> set (subseqs allTools) \<and> list_all2 (\<lambda>t. answered Embed q' (tool_text t)) us es \<and>
       r = Some (top_suggestions sortSlice (map2 tool_embed us es) ue stats n) \<and>
       (\<forall>t \<in> set allTools - set us. \<exists>j. q < j \<and> j < q' \<and> Embed j (tool_text t) = None) \<and>
       ((\<forall>j > q. \<forall>t \<in> set allTools. Embed j (tool_text t) \<noteq> None) \<longrightarrow> us = allTools))"
proof -
  obtain embeds c1 q1 where m: "embed_tools Embed c (Suc q) allTools = (embeds, c1, q1)" by (metis prod_cases3)
  have h: "holds_answers T Embed (Suc q) c" by (rule holds_answers_mono [OF assms(3)]) simp
  note facts = embed_tools_facts [OF assms(1,2) h m, unfolded Suc_le_eq]
  show "holds_answers T Embed q' c'"
    using assms(3,4) h facts by (auto simp: Suggest_def m split: if_splits option.splits)
  assume run: "m \<noteq> []" "Embed q m = Some ue"
  show "\<exists>us es. us \<in> set (subseqs allTools) \<and> list_all2 (\<lambda>t. answered Embed q' (tool_text t)) us es \<and>
       r = Some (top_suggestions sortSlice (map2 tool_embed us es) ue stats n) \<and>
       (\<forall>t \<in> set allTools - set us. \<exists>j. q < j \<and> j < q' \<and> Embed j (tool_text t) = None) \<and>
       ((\<forall>j > q. \<forall>t \<in> set allTools. Embed j (tool_text t) \<noteq> None) \<longrightarrow> us = allTools)"
  proof (cases "allTools = []")
    case True
    with run assms(4) show ?thesis by (intro exI [of _ "[]"]) (auto simp: Suggest_def top_suggestions_def)
  next
    case False
    with run assms(4) have "r = Some (top_suggestions sortSlice embeds ue stats n)" "q' = q1" by (auto simp: Suggest_def m)
    with facts show ?thesis by blast
  qed
qed

text \<open>A sequence of requests; each has its own usage counts and its own order of the tools, since the registry is a map.\<close>

type_synonym ('p, 'r) suggest_request = "usage_stats \<times> ('p, 'r) RegistryTool list \<times> string \<times> int"

fun suggest_after ::
  "(Suggestion list \<Rightarrow> Suggestion list) \<Rightarrow> (nat \<Rightarrow> string \<Rightarrow> embedding option) \<Rightarrow> embedCache \<Rightarrow> nat \<Rightarrow> ('p, 'r) suggest_request list \<Rightarrow> embedCache \<times> nat" where
  "suggest_after sortSlice Embed c q [] = (c, q)"
| "suggest_after sortSlice Embed c q ((stats, allTools, m, n) # reqs) =
    (let (_, c', q') = Suggest sortSlice (Some Embed) allTools stats c q m n in suggest_after sortSlice Embed c' q' reqs)"

lemma suggest_after_holds:
  assumes "inj_on tool_key T"
  shows "holds_answers T Embed q c \<Longrightarrow> \<forall>(stats, allTools, m, n) \<in> set reqs. set allTools \<subseteq> T \<Longrightarrow>
    suggest_after sortSlice Embed c q reqs = (c', q') \<Longrightarrow> holds_answers T Embed q' c'"
proof (induction reqs arbitrary: c q)
  case (Cons req reqs)
  obtain stats allTools m n where req: "req = (stats, allTools, m, n)" by (cases req)
  obtain r c1 q1 where s: "Suggest sortSlice (Some Embed) allTools stats c q m n = (r, c1, q1)" by (metis prod_cases3)
  have "holds_answers T Embed q1 c1" by (rule Suggest_facts(1) [OF assms _ Cons.prems(1) s]) (use Cons.prems(2) req in auto)
  with Cons.IH Cons.prems(2,3) req s show ?case by auto
qed simp

lemma registry_keys: "registry_reachable reg \<Longrightarrow> inj_on tool_key (set (ListTools reg []))"
  using key_determines_tool [OF reachable_ok] by (fastforce intro: inj_onI simp: ListTools_def toolKeyStr_def toolKey_def)

lemma answered_vec: "\<forall>j text e. Embed j text = Some e \<longrightarrow> e = vec text \<Longrightarrow> answered Embed q text e \<Longrightarrow> e = vec text"
  by (auto simp: answered_def)

lemma answers_vec:
  assumes "\<forall>j text e. Embed j text = Some e \<longrightarrow> e = vec text"
  shows "list_all2 (\<lambda>t. answered Embed q (tool_text t)) us es \<Longrightarrow> es = map (\<lambda>t. vec (tool_text t)) us"
  by (induction rule: list_all2_induct) (auto dest: answered_vec [OF assms])

text \<open>C16. However the tools were registered, and after any sequence of requests with whatever usage counts and in whatever order the
  registry lists its tools, a request is answered from what the embedder answered: if the embedding of the message fails the request does;
  otherwise the suggestions are the ranking of tools in the order of the list, each with an embedding that the embedder gave for that tool's text in this request or an
  earlier one, and a tool is missing only if the embedder failed for its text in this request. If the embedder does not fail in this request
  and always answers a text in the same way, the answer is that of an engine with an empty cache.\<close>

theorem Suggest_from_answers:
  assumes "registry_reachable reg" "\<forall>(stats, allTools, m, n) \<in> set reqs. set allTools \<subseteq> set (ListTools reg [])"
    "suggest_after sortSlice Embed (newEmbedCache cap) 0 reqs = (c, q)" "set allTools \<subseteq> set (ListTools reg [])"
    "Suggest sortSlice (Some Embed) allTools stats c q m n = (r, c', q')" "m \<noteq> []"
  shows "(case Embed q m of
       None \<Rightarrow> r = None
     | Some ue \<Rightarrow>
         (\<exists>us es. us \<in> set (subseqs allTools) \<and> list_all2 (\<lambda>t e. \<exists>j < q'. Embed j (tool_text t) = Some e) us es \<and>
            r = Some (top_suggestions sortSlice (map2 tool_embed us es) ue stats n) \<and>
            (\<forall>t \<in> set allTools - set us. \<exists>j. q < j \<and> j < q' \<and> Embed j (tool_text t) = None))) \<and>
    ((\<forall>j > q. \<forall>t \<in> set allTools. Embed j (tool_text t) \<noteq> None) \<and> (\<forall>j text e. Embed j text = Some e \<longrightarrow> e = vec text) \<longrightarrow>
       r = fst (Suggest sortSlice (Some Embed) allTools stats (newEmbedCache cap) q m n))"
proof (cases "Embed q m")
  case None
  with assms(5,6) show ?thesis by (simp add: Suggest_def)
next
  case (Some ue)
  let ?T = "set (ListTools reg [])"
  note inj = registry_keys [OF assms(1)]
  have fresh: "holds_answers ?T Embed i (newEmbedCache cap)" for i unfolding holds_answers_def by (rule newEmbedCache_ok)
  have c: "holds_answers ?T Embed q c" by (rule suggest_after_holds [OF inj fresh assms(2,3)])
  obtain us es where ans: "us \<in> set (subseqs allTools)" "list_all2 (\<lambda>t. answered Embed q' (tool_text t)) us es"
    "r = Some (top_suggestions sortSlice (map2 tool_embed us es) ue stats n)"
    "\<forall>t \<in> set allTools - set us. \<exists>j. q < j \<and> j < q' \<and> Embed j (tool_text t) = None"
    "(\<forall>j > q. \<forall>t \<in> set allTools. Embed j (tool_text t) \<noteq> None) \<longrightarrow> us = allTools"
    using Suggest_facts(2) [OF inj assms(4) c assms(5,6) Some] by blast
  have same: "r = fst (Suggest sortSlice (Some Embed) allTools stats (newEmbedCache cap) q m n)"
    if up: "\<forall>j > q. \<forall>t \<in> set allTools. Embed j (tool_text t) \<noteq> None" and vec: "\<forall>j text e. Embed j text = Some e \<longrightarrow> e = vec text"
  proof -
    obtain r2 c2 q2 where s2: "Suggest sortSlice (Some Embed) allTools stats (newEmbedCache cap) q m n = (r2, c2, q2)" by (metis prod_cases3)
    obtain us2 es2 where ans2: "list_all2 (\<lambda>t. answered Embed q2 (tool_text t)) us2 es2"
      "r2 = Some (top_suggestions sortSlice (map2 tool_embed us2 es2) ue stats n)" "us2 = allTools"
      using Suggest_facts(2) [OF inj assms(4) fresh s2 assms(6) Some] up by blast
    have "us = allTools" using ans(5) up by blast
    with ans(2,3) ans2 show ?thesis using answers_vec [OF vec, of q' us es] answers_vec [OF vec, of q2 us2 es2] by (simp add: s2)
  qed
  show ?thesis using ans(1-4) same unfolding answered_def [abs_def] by (auto simp: Some)
qed

definition sample_tool :: "string \<Rightarrow> (unit, unit) RegistryTool" where
  "sample_tool name = \<lparr>td_Name = name, td_Category = ''osint'', td_Description = ''a tool'', td_Execute = Some (\<lambda>_. Inr ())\<rparr>"

definition sample_registry :: "(unit, unit) ToolRegistry" where
  "sample_registry = [(''osint:scan'', sample_tool ''scan''), (''osint:whois'', sample_tool ''whois'')]"

lemma sample_registry_reachable: "registry_reachable sample_registry"
  by (rule registry_reachable.batch [OF registry_reachable.fresh, of "[sample_tool ''scan'', sample_tool ''whois'']"])
    (simp add: RegisterAll_def NewToolRegistry_def check_def_def sample_registry_def sample_tool_def toolKey_def)

definition sample_requests :: "(unit, unit) suggest_request list" where
  "sample_requests = [([], [sample_tool ''scan'', sample_tool ''whois''], ''scan'', 1), ([], [sample_tool ''whois'', sample_tool ''scan''], ''who'', 1)]"

text \<open>An embedder that fails at its third call.\<close>

definition sample_embedder :: "nat \<Rightarrow> string \<Rightarrow> embedding option" where
  "sample_embedder j text = (if j = 2 then None else Some [real (length text), 1])"

theorem Suggest_from_answers_witness:
  "fst (Suggest (\<lambda>s. s) (Some sample_embedder) [sample_tool ''whois''] []
       (fst (suggest_after (\<lambda>s. s) sample_embedder (newEmbedCache 1) 0 sample_requests)) 6 ''who'' 1) =
    fst (Suggest (\<lambda>s. s) (Some sample_embedder) [sample_tool ''whois''] [] (newEmbedCache 1) 6 ''who'' 1)"
proof -
  obtain c q where after: "suggest_after (\<lambda>s. s) sample_embedder (newEmbedCache 1) 0 sample_requests = (c, q)" by fastforce
  have q: "q = 6"
  proof -
    have "snd (suggest_after (\<lambda>s. s) sample_embedder (newEmbedCache 1) 0 sample_requests) = 6"
      by (simp add: sample_requests_def Suggest_def getOrComputeEmbedding_def get_or_compute_def sample_embedder_def newEmbedCache_def cache_get_def
          cache_put_def sample_tool_def toolKeyStr_def tool_text_def numeral_eq_Suc)
    then show ?thesis by (simp add: after)
  qed
  obtain r c' q' where run: "Suggest (\<lambda>s. s) (Some sample_embedder) [sample_tool ''whois''] [] c q ''who'' 1 = (r, c', q')" by (metis prod_cases3)
  have tools: "\<forall>(stats, allTools, m, n) \<in> set sample_requests. set allTools \<subseteq> set (ListTools sample_registry [])"
    "set [sample_tool ''whois''] \<subseteq> set (ListTools sample_registry [])"
    by (simp_all add: sample_requests_def sample_registry_def ListTools_def)
  from Suggest_from_answers [OF sample_registry_reachable tools(1) after tools(2) run, of "\<lambda>text. [real (length text), 1]"] q run
  show ?thesis by (simp add: after sample_embedder_def)
qed

section \<open>Ranking facts\<close>

definition low_of :: "('a \<Rightarrow> real) \<Rightarrow> real \<Rightarrow> 'a \<Rightarrow> real" where
  "low_of f m s = (if f s < m then f s else m)"

lemma low_of_le: "low_of f m s \<le> m" "low_of f m s \<le> f s"
  by (auto simp: low_of_def)

lemma fold_low_start: "foldl (low_of f) a xs \<le> a"
proof (induction xs arbitrary: a)
  case (Cons z zs)
  from Cons.IH [of "low_of f a z"] low_of_le(1) [of f a z] show ?case by simp
qed simp

lemma fold_low: "x \<in> set xs \<Longrightarrow> foldl (low_of f) a xs \<le> f x"
proof (induction xs arbitrary: a)
  case (Cons z zs)
  then show ?case
    using fold_low_start [of f "low_of f a z" zs] low_of_le(2) [of f a z] by (cases "x = z") auto
qed simp

lemma fold_high: "foldl (\<lambda>m s. if f s > m then f s else m) a xs = - foldl (low_of (\<lambda>s. - f s)) (- a) xs"
proof (induction xs arbitrary: a)
  case (Cons z zs)
  have "- (if a < f z then f z else a) = low_of (\<lambda>s. - f s) (- a) z" by (simp add: low_of_def)
  with Cons.IH [of "if a < f z then f z else a"] show ?case by simp
qed simp

lemma normalizeScores_bounds:
  assumes "s \<in> set (normalizeScores xs)"
  shows "0 \<le> Score s \<and> Score s \<le> 1"
proof (cases xs)
  case (Cons s0 rest)
  define lo where "lo = foldl (\<lambda>m s. if Score s < m then Score s else m) (Score s0) xs"
  define hi where "hi = foldl (\<lambda>m s. if Score s > m then Score s else m) (Score s0) xs"
  have bounds: "lo \<le> Score x" "Score x \<le> hi" if "x \<in> set xs" for x
    using fold_low [OF that, of Score "Score s0"] fold_low [OF that, of "\<lambda>s. - Score s" "- Score s0"]
    unfolding lo_def hi_def fold_high by (simp_all add: low_of_def [abs_def])
  have "normalizeScores xs = map (\<lambda>s. s\<lparr>Score := if hi - lo = 0 then 1 else (Score s - lo) / (hi - lo)\<rparr>) xs"
    unfolding normalizeScores_def lo_def hi_def using Cons by (simp add: Let_def)
  with assms obtain x where x: "x \<in> set xs" "Score s = (if hi - lo = 0 then 1 else (Score x - lo) / (hi - lo))" by auto
  from bounds [OF x(1)] have "0 \<le> Score x - lo" "Score x - lo \<le> hi - lo" by simp_all
  then show ?thesis unfolding x(2) by (auto simp: divide_le_eq_1)
qed (use assms in \<open>simp add: normalizeScores_def\<close>)

text \<open>Whatever permutation the sorting is, the scores of a ranking lie between 0 and 1 and one suggestion is given per tool.\<close>

theorem Rank_scores:
  assumes "\<And>xs. mset (sortSlice xs) = mset xs"
  shows "(\<forall>s \<in> set (Rank sortSlice defs user stats). 0 \<le> Score s \<and> Score s \<le> 1) \<and> length (Rank sortSlice defs user stats) = length defs"
proof -
  have "set (sortSlice xs) = set xs" "length (sortSlice xs) = length xs" for xs
    using assms [of xs] by (metis set_mset_mset, metis size_mset)
  moreover have "length (normalizeScores xs) = length xs" for xs
    by (simp add: normalizeScores_def Let_def split: list.splits)
  ultimately show ?thesis by (simp add: Rank_def normalizeScores_bounds)
qed

end
