(* ===== verification/Monitors.thy ===== *)
theory Monitors
  imports Aleph_Prelude Complex_Main
begin

text \<open>
  Supervision of tools: the health history and the periodic checker (\<^verbatim>\<open>internal/health\<close>), the monitor of tool subprocesses
  (\<^verbatim>\<open>internal/mcp/health.go\<close>) and the registry of suggestions that await approval (\<^verbatim>\<open>internal/genesis\<close>). Time stamps of records are
  left out where nothing depends on them; alerts, which the code writes to its log, are outputs of the model.
\<close>

section \<open>Health history\<close>

definition StatusHealthy :: string where "StatusHealthy = ''healthy''"
definition StatusDegraded :: string where "StatusDegraded = ''degraded''"
definition StatusDown :: string where "StatusDown = ''down''"
definition StatusUnknown :: string where "StatusUnknown = ''unknown''"

lemmas health_status = StatusHealthy_def StatusDegraded_def StatusDown_def StatusUnknown_def

record HealthRecord =
  hr_ToolID :: string
  hr_Status :: string
  hr_Error :: string

record HistoryStore =
  hs_records :: "(string, HealthRecord list) gomap"
  hs_maxLen :: nat

definition NewHistoryStore :: "int \<Rightarrow> HistoryStore" where
  "NewHistoryStore n = \<lparr>hs_records = Map.empty, hs_maxLen = nat (if n \<le> 0 then 10 else n)\<rparr>"

definition tool_records :: "HistoryStore \<Rightarrow> string \<Rightarrow> HealthRecord list" where
  "tool_records s toolID = (case hs_records s toolID of Some rs \<Rightarrow> rs | None \<Rightarrow> [])"

definition Add :: "HistoryStore \<Rightarrow> string \<Rightarrow> HealthRecord \<Rightarrow> HistoryStore" where
  "Add s toolID r =
    (let rs = tool_records s toolID @ [r\<lparr>hr_ToolID := toolID\<rparr>];
         kept = (if length rs > hs_maxLen s then drop (length rs - hs_maxLen s) rs else rs) in
     s\<lparr>hs_records := (hs_records s)(toolID \<mapsto> kept)\<rparr>)"

definition health_GetHistory :: "HistoryStore \<Rightarrow> string \<Rightarrow> HealthRecord list" where
  "health_GetHistory s toolID = tool_records s toolID"

definition ConsecutiveFailures :: "HistoryStore \<Rightarrow> string \<Rightarrow> nat" where
  "ConsecutiveFailures s toolID =
    length (takeWhile (\<lambda>r. hr_Status r = StatusDown \<or> hr_Status r = StatusDegraded) (rev (tool_records s toolID)))"

definition UptimePercentage :: "HistoryStore \<Rightarrow> string \<Rightarrow> real" where
  "UptimePercentage s toolID =
    (let rs = tool_records s toolID in
     if rs = [] then 0
     else real (length (filter (\<lambda>r. hr_Status r = StatusHealthy) rs)) / real (length rs) * 100)"

definition GetLatestStatus :: "HistoryStore \<Rightarrow> string \<Rightarrow> string" where
  "GetLatestStatus s toolID =
    (let rs = health_GetHistory s toolID in if rs = [] then StatusUnknown else hr_Status (last rs))"

section \<open>The periodic checker\<close>

text \<open>\<open>ctxErr\<close> tells whether the context has ended; \<open>Inl\<close> is an error of the lookup.\<close>

definition CheckToolHealth :: "(string \<Rightarrow> string + string) \<Rightarrow> bool \<Rightarrow> string \<Rightarrow> HealthRecord" where
  "CheckToolHealth GetToolCode ctxErr toolID =
    (let found = GetToolCode toolID in
     if ctxErr then \<lparr>hr_ToolID = toolID, hr_Status = StatusDown, hr_Error = ''context cancelled''\<rparr>
     else case found of
       Inl err \<Rightarrow> \<lparr>hr_ToolID = toolID, hr_Status = StatusDown, hr_Error = err\<rparr>
     | Inr src \<Rightarrow>
         if src = [] then \<lparr>hr_ToolID = toolID, hr_Status = StatusDegraded, hr_Error = ''tool code is empty''\<rparr>
         else \<lparr>hr_ToolID = toolID, hr_Status = StatusHealthy, hr_Error = []\<rparr>)"

record MCPToolHealth =
  mh_Name :: string
  mh_Status :: string
  mh_LastError :: string

definition mcp_status :: "string \<Rightarrow> string" where
  "mcp_status st =
    (if st = ''down'' then StatusDown else if st = ''unknown'' then StatusUnknown
     else if st = ''up'' then StatusHealthy else StatusUnknown)"

text \<open>The second component lists the tools an alert was written for, with their consecutive failures.\<close>

fun checkMCPHealth :: "nat \<Rightarrow> HistoryStore \<Rightarrow> MCPToolHealth list \<Rightarrow> HistoryStore \<times> (string \<times> nat) list" where
  "checkMCPHealth alertCount s [] = (s, [])"
| "checkMCPHealth alertCount s (t # ts) =
    (if mh_Name t = [] then checkMCPHealth alertCount s ts
     else
       (let status = mcp_status (mh_Status t);
            s' = Add s (mh_Name t) \<lparr>hr_ToolID = mh_Name t, hr_Status = status, hr_Error = mh_LastError t\<rparr>;
            consecutive = ConsecutiveFailures s' (mh_Name t);
            alert = (status = StatusDown \<and> consecutive \<ge> alertCount \<and> consecutive mod alertCount = 0);
            (s'', alerts) = checkMCPHealth alertCount s' ts in
        (s'', if alert then (mh_Name t, consecutive) # alerts else alerts)))"

fun check_tools ::
  "(string \<Rightarrow> HealthRecord) \<Rightarrow> nat \<Rightarrow> HistoryStore \<Rightarrow> string list \<Rightarrow> HistoryStore \<times> (string \<times> string) list \<times> (string \<times> nat) list" where
  "check_tools check alertCount s [] = (s, [], [])"
| "check_tools check alertCount s (toolID # ids) =
    (if toolID = [] then check_tools check alertCount s ids
     else
       (let record = check toolID;
            s' = Add s toolID record;
            consecutive = ConsecutiveFailures s' toolID;
            (s'', updates, alerts) = check_tools check alertCount s' ids in
        (s'', (toolID, hr_Status record) # updates, if consecutive \<ge> alertCount then (toolID, consecutive) # alerts else alerts)))"

text \<open>One round: the subprocess monitor if there is one, then all tools of the repository (\<open>None\<close> where it cannot list them). The result has the status
  updates written to the repository and the alerts.\<close>

definition checkAll ::
  "(string \<Rightarrow> HealthRecord) \<Rightarrow> nat \<Rightarrow> MCPToolHealth list option \<Rightarrow> string list option \<Rightarrow> HistoryStore
    \<Rightarrow> HistoryStore \<times> (string \<times> string) list \<times> (string \<times> nat) list" where
  "checkAll check alertCount mcpHealth tools s =
    (let (s1, mcpAlerts) = (case mcpHealth of Some ts \<Rightarrow> checkMCPHealth alertCount s ts | None \<Rightarrow> (s, [])) in
     case tools of
       None \<Rightarrow> (s1, [], mcpAlerts)
     | Some ids \<Rightarrow>
         (let (s2, updates, alerts) = check_tools check alertCount s1 ids in (s2, updates, mcpAlerts @ alerts)))"

section \<open>Subprocess monitor\<close>

datatype ToolHealthStatus = ToolStatusUp | ToolStatusDown | ToolStatusUnknown

record ToolHealth =
  th_Name :: string
  th_Status :: ToolHealthStatus
  th_LastError :: string
  th_RestartCount :: nat

record ToolHealthMonitor =
  tm_tool :: ToolHealth
  tm_consecutive :: nat
  tm_toolFailCount :: nat

definition NewToolHealthMonitor :: "string \<Rightarrow> ToolHealthMonitor" where
  "NewToolHealthMonitor toolName =
    \<lparr>tm_tool = \<lparr>th_Name = toolName, th_Status = ToolStatusUnknown, th_LastError = [], th_RestartCount = 0\<rparr>,
     tm_consecutive = 3, tm_toolFailCount = 0\<rparr>"

text \<open>
  One check of the monitor of a single tool: \<open>ping\<close> is the error of the probe, \<open>restart\<close> the transport's restart (\<open>None\<close> where it has none), with its error. A
  monitor to which further names are added picks the tool it reports on in map order, and is left out.
\<close>

definition checkOnce :: "string option \<Rightarrow> string option option \<Rightarrow> ToolHealthMonitor \<Rightarrow> ToolHealthMonitor" where
  "checkOnce ping restart m =
    (let th = tm_tool m in
     if th_Name th = [] then m
     else case ping of
       None \<Rightarrow> m\<lparr>tm_tool := th\<lparr>th_Status := ToolStatusUp, th_LastError := []\<rparr>, tm_toolFailCount := 0\<rparr>
     | Some err \<Rightarrow>
         (let failures = tm_toolFailCount m + 1; th1 = th\<lparr>th_LastError := err\<rparr> in
          if failures < tm_consecutive m
          then m\<lparr>tm_tool := th1\<lparr>th_Status := ToolStatusDown\<rparr>, tm_toolFailCount := failures\<rparr>
          else
            (let th2 = th1\<lparr>th_Status := ToolStatusDown, th_RestartCount := th_RestartCount th + 1\<rparr> in
             case restart of
               Some None \<Rightarrow> m\<lparr>tm_tool := th2\<lparr>th_Status := ToolStatusUnknown\<rparr>, tm_toolFailCount := 0\<rparr>
             | Some (Some restErr) \<Rightarrow>
                 m\<lparr>tm_tool := th2\<lparr>th_LastError := ''restart failed: '' @ restErr\<rparr>, tm_toolFailCount := failures\<rparr>
             | None \<Rightarrow>
                 m\<lparr>tm_tool := th2\<lparr>th_LastError := ''subprocess down after '' @ show_nat failures @ '' consecutive failures''\<rparr>,
                   tm_toolFailCount := failures\<rparr>)))"

section \<open>Suggestions awaiting approval\<close>

record GenesisSuggestion =
  sug_ID :: string
  sug_Status :: string
  sug_CreatedAt :: nanos
  sug_ExpiresAt :: nanos

record VetoRegistry =
  suggestions :: "(string, GenesisSuggestion) gomap"
  veto_ttl :: nanos

definition NewVetoRegistry :: "nanos \<Rightarrow> VetoRegistry" where
  "NewVetoRegistry ttl = \<lparr>suggestions = Map.empty, veto_ttl = ttl\<rparr>"

definition veto_cleanup :: "nanos \<Rightarrow> VetoRegistry \<Rightarrow> VetoRegistry" where
  "veto_cleanup now v =
    v\<lparr>suggestions := (\<lambda>i. case suggestions v i of Some s \<Rightarrow> if now > sug_ExpiresAt s then None else Some s | None \<Rightarrow> None)\<rparr>"

definition veto_Register :: "nanos \<Rightarrow> VetoRegistry \<Rightarrow> GenesisSuggestion \<Rightarrow> VetoRegistry" where
  "veto_Register now v s =
    (let s' = s\<lparr>sug_CreatedAt := now, sug_ExpiresAt := now + veto_ttl v, sug_Status := if sug_Status s = [] then ''pending'' else sug_Status s\<rparr> in
     v\<lparr>suggestions := (suggestions v)(sug_ID s \<mapsto> s')\<rparr>)"

definition set_status :: "string \<Rightarrow> VetoRegistry \<Rightarrow> string \<Rightarrow> VetoRegistry option" where
  "set_status status v i =
    (case suggestions v i of
       None \<Rightarrow> None
     | Some s \<Rightarrow> Some (v\<lparr>suggestions := (suggestions v)(i \<mapsto> s\<lparr>sug_Status := status\<rparr>)\<rparr>))"

definition Approve :: "VetoRegistry \<Rightarrow> string \<Rightarrow> VetoRegistry option" where
  "Approve v i = set_status ''approved'' v i"

definition Reject :: "VetoRegistry \<Rightarrow> string \<Rightarrow> VetoRegistry option" where
  "Reject v i = set_status ''rejected'' v i"

definition is_pending :: "nanos \<Rightarrow> VetoRegistry \<Rightarrow> string \<Rightarrow> bool" where
  "is_pending now v i = (case suggestions v i of Some s \<Rightarrow> sug_Status s = ''pending'' \<and> now < sug_ExpiresAt s | None \<Rightarrow> False)"

text \<open>The engine keeps what its sandbox accepts; \<open>Validate\<close> tells whether it does.\<close>

definition genesis_Suggest :: "nanos \<Rightarrow> (GenesisSuggestion \<Rightarrow> bool) \<Rightarrow> GenesisSuggestion list \<Rightarrow> VetoRegistry \<Rightarrow> GenesisSuggestion list \<times> VetoRegistry" where
  "genesis_Suggest now Validate found v =
    (let marked = map (\<lambda>s. s\<lparr>sug_Status := if Validate s then ''pending'' else ''invalid''\<rparr>) found in
     (marked, foldl (veto_Register now) v (filter (\<lambda>s. sug_Status s = ''pending'') marked)))"

section \<open>Facts\<close>

text \<open>The history of a tool is the end of everything recorded for it.\<close>

lemma tool_records_Add:
  "tool_records (Add s toolID r) i =
    (if i = toolID then (let rs = tool_records s toolID @ [r\<lparr>hr_ToolID := toolID\<rparr>] in drop (length rs - hs_maxLen s) rs)
     else tool_records s i)"
  by (simp add: Add_def tool_records_def Let_def)

lemma maxLen_Add [simp]: "hs_maxLen (Add s toolID r) = hs_maxLen s"
  by (simp add: Add_def Let_def)

theorem history_is_recent_log:
  "tool_records (foldl (\<lambda>s r. Add s toolID r) (NewHistoryStore n) recs) toolID =
    drop (length recs - hs_maxLen (NewHistoryStore n)) (map (\<lambda>r. r\<lparr>hr_ToolID := toolID\<rparr>) recs)"
proof (induction recs rule: rev_induct)
  case (snoc r recs)
  have "hs_maxLen (foldl (\<lambda>s r. Add s toolID r) s rs) = hs_maxLen s" for s rs
    by (induction rs arbitrary: s) simp_all
  moreover have "Suc l - (l - m + m) + (l - m) = Suc l - m" for l m :: nat by arith
  ultimately show ?case using snoc by (simp add: tool_records_Add Let_def)
qed (simp add: NewHistoryStore_def tool_records_def)

text \<open>A tool whose subprocess is reported down in every round.\<close>

definition down_rounds :: "nat \<Rightarrow> MCPToolHealth \<Rightarrow> nat \<Rightarrow> HistoryStore \<Rightarrow> HistoryStore" where
  "down_rounds alertCount t n s = ((\<lambda>s. fst (checkMCPHealth alertCount s [t])) ^^ n) s"

lemma checkMCPHealth_one:
  assumes "mh_Name t \<noteq> []" "mh_Status t = ''down''"
  shows "checkMCPHealth alertCount s [t] =
    (let s' = Add s (mh_Name t) \<lparr>hr_ToolID = mh_Name t, hr_Status = StatusDown, hr_Error = mh_LastError t\<rparr>;
         k = ConsecutiveFailures s' (mh_Name t) in
     (s', if alertCount \<le> k \<and> k mod alertCount = 0 then [(mh_Name t, k)] else []))"
  using assms by (simp add: mcp_status_def Let_def)

lemma down_rounds_records:
  assumes "mh_Name t \<noteq> []" "mh_Status t = ''down''"
  shows "hs_maxLen (down_rounds a t n s) = hs_maxLen s \<and>
    (tool_records s (mh_Name t) = [] \<longrightarrow> 0 < hs_maxLen s \<longrightarrow>
      length (tool_records (down_rounds a t n s) (mh_Name t)) = min n (hs_maxLen s) \<and>
      list_all (\<lambda>r. hr_Status r = StatusDown) (tool_records (down_rounds a t n s) (mh_Name t)))"
proof (induction n)
  case (Suc n)
  have step: "down_rounds a t (Suc n) s =
      Add (down_rounds a t n s) (mh_Name t) \<lparr>hr_ToolID = mh_Name t, hr_Status = StatusDown, hr_Error = mh_LastError t\<rparr>"
    unfolding down_rounds_def by (simp add: checkMCPHealth_one [OF assms] Let_def del: checkMCPHealth.simps)
  from Suc.IH show ?case
    unfolding step by (auto simp: tool_records_Add Let_def list_all_iff dest: in_set_dropD)
qed (simp add: down_rounds_def)

lemma all_down_failures:
  "list_all (\<lambda>r. hr_Status r = StatusDown) (tool_records s i) \<Longrightarrow> ConsecutiveFailures s i = length (tool_records s i)"
proof -
  assume "list_all (\<lambda>r. hr_Status r = StatusDown) (tool_records s i)"
  then have "takeWhile (\<lambda>r. hr_Status r = StatusDown \<or> hr_Status r = StatusDegraded) (rev (tool_records s i)) = rev (tool_records s i)"
    by (auto simp: list_all_iff)
  then show ?thesis unfolding ConsecutiveFailures_def by (simp only: length_rev)
qed

text \<open>When a tool's subprocess is down in every round, the alert of a round depends on the number of rounds only up to the length of
  the history: the failures counted never exceed it, so unless the length is a multiple of the alert count, a
  permanent failure raises alerts in the first rounds and never again. With the default length 10 and count 3 the last
  alert is the one of round 9.\<close>

theorem down_alerts:
  assumes "mh_Name t \<noteq> []" "mh_Status t = ''down''" "0 < len" "0 < alertCount"
  shows "snd (checkMCPHealth alertCount (down_rounds alertCount t n (NewHistoryStore (int len))) [t]) =
    (let k = min (Suc n) len in if alertCount \<le> k \<and> k mod alertCount = 0 then [(mh_Name t, k)] else [])"
proof -
  let ?s = "NewHistoryStore (int len)" and ?i = "mh_Name t"
  let ?s' = "down_rounds alertCount t (Suc n) ?s"
  have "hs_maxLen ?s = len" "tool_records ?s ?i = []"
    using assms(3) by (simp_all add: NewHistoryStore_def tool_records_def)
  with down_rounds_records [OF assms(1,2), of alertCount "Suc n" ?s] assms(3)
  have "ConsecutiveFailures ?s' ?i = min (Suc n) len" by (simp add: all_down_failures)
  moreover have "?s' = fst (checkMCPHealth alertCount (down_rounds alertCount t n ?s) [t])"
    by (simp add: down_rounds_def)
  ultimately show ?thesis
    by (simp add: checkMCPHealth_one [OF assms(1,2)] Let_def del: checkMCPHealth.simps)
qed

theorem down_alerts_witness:
  "snd (checkMCPHealth 3 (down_rounds 3 \<lparr>mh_Name = ''t'', mh_Status = ''down'', mh_LastError = []\<rparr> 99 (NewHistoryStore (int 10)))
     [\<lparr>mh_Name = ''t'', mh_Status = ''down'', mh_LastError = []\<rparr>]) = []"
  using down_alerts [of "\<lparr>mh_Name = ''t'', mh_Status = ''down'', mh_LastError = []\<rparr>" 10 3 99] by simp

text \<open>A subprocess that can be restarted is restarted with the third failed probe in a row, and the count starts again.\<close>

theorem restart_after_three:
  assumes "th_Name (tm_tool m) \<noteq> []" "tm_consecutive m = 3" "tm_toolFailCount m = 0"
  shows "let run = (\<lambda>n. (checkOnce (Some err) (Some None) ^^ n) m) in
    th_Status (tm_tool (run 2)) = ToolStatusDown \<and> th_RestartCount (tm_tool (run 2)) = th_RestartCount (tm_tool m) \<and>
    th_Status (tm_tool (run 3)) = ToolStatusUnknown \<and> th_RestartCount (tm_tool (run 3)) = th_RestartCount (tm_tool m) + 1 \<and>
    tm_toolFailCount (run 3) = 0"
  using assms by (simp add: checkOnce_def Let_def numeral_2_eq_2 numeral_3_eq_3)

text \<open>A rejection is not final: whatever the time, a rejected suggestion that is still stored can be approved.\<close>

theorem rejected_then_approved:
  assumes "Reject v i = Some v'"
  shows "\<exists>v'' s. Approve v' i = Some v'' \<and> suggestions v'' i = Some s \<and> sug_Status s = ''approved''"
  using assms by (auto simp: Reject_def Approve_def set_status_def split: option.splits)

end
