(* ===== verification/Diagnostic.thy ===== *)
theory Diagnostic
  imports Aleph_Prelude "HOL-Library.AList"
begin

text \<open>
  The error diagnosis, \<^verbatim>\<open>internal/diagnostic/patterns.go\<close>: classification and severity of errors, the monitor that counts them per pattern and
  component, and its summaries. The map of patterns is an association list with distinct keys, in whatever order the code
  iterates over it. The times of the first and the last error are left out.
\<close>

section \<open>Classification\<close>

definition PatternTimeout :: string where "PatternTimeout = ''timeout''"
definition PatternAuth :: string where "PatternAuth = ''auth_failure''"
definition PatternDataIntegrity :: string where "PatternDataIntegrity = ''data_integrity''"
definition PatternResourceExhaustion :: string where "PatternResourceExhaustion = ''resource_exhaustion''"
definition PatternDependencyFailure :: string where "PatternDependencyFailure = ''dependency_failure''"
definition PatternConfiguration :: string where "PatternConfiguration = ''configuration''"

definition SeverityLow :: string where "SeverityLow = ''low''"
definition SeverityMedium :: string where "SeverityMedium = ''medium''"
definition SeverityHigh :: string where "SeverityHigh = ''high''"
definition SeverityCritical :: string where "SeverityCritical = ''critical''"

lemmas severities = SeverityLow_def SeverityMedium_def SeverityHigh_def SeverityCritical_def
lemmas diagnostic_patterns = PatternTimeout_def PatternAuth_def PatternDataIntegrity_def PatternResourceExhaustion_def
  PatternDependencyFailure_def PatternConfiguration_def

definition containsAnyFold :: "string \<Rightarrow> string list \<Rightarrow> bool" where
  "containsAnyFold s substrs \<longleftrightarrow> (let lower = ToLower s in list_ex (\<lambda>sub. Contains lower (ToLower sub)) substrs)"

definition ClassifyError :: "string \<Rightarrow> string \<Rightarrow> string" where
  "ClassifyError errCode errMsg =
    (if errCode = ''ERR_DEADLINE_EXCEEDED'' \<or> errCode = ''ERR_UNAVAILABLE'' then PatternTimeout
     else if errCode = ''ERR_UNAUTHORIZED'' \<or> errCode = ''ERR_FORBIDDEN'' then PatternAuth
     else if errCode = ''ERR_NOT_FOUND'' \<or> errCode = ''ERR_VALIDATION'' then PatternDataIntegrity
     else if containsAnyFold errMsg [''timeout'', ''deadline'', ''context canceled'', ''TIMED OUT''] then PatternTimeout
     else if containsAnyFold errMsg [''auth'', ''unauthorized'', ''forbidden'', ''permission'', ''token''] then PatternAuth
     else if containsAnyFold errMsg [''checksum'', ''corrupt'', ''not found'', ''missing'', ''invalid data''] then PatternDataIntegrity
     else if containsAnyFold errMsg [''OOM'', ''memory'', ''connection refused'', ''too many'', ''resource''] then PatternResourceExhaustion
     else if containsAnyFold errMsg [''NLP'', ''grpc'', ''upstream'', ''dependency'', ''external''] then PatternDependencyFailure
     else if containsAnyFold errMsg [''config'', ''env'', ''invalid argument'', ''misconfig''] then PatternConfiguration
     else PatternTimeout)"

definition AssessSeverity :: "string \<Rightarrow> nat \<Rightarrow> string \<Rightarrow> string" where
  "AssessSeverity patternType n impact =
    (let highImpact = containsAnyFold impact [''user'', ''data'', ''production'', ''critical''];
         general =
           (if highImpact then (if n \<ge> 2 then SeverityHigh else SeverityMedium)
            else if n \<ge> 5 then SeverityMedium else SeverityLow) in
     if patternType = PatternAuth \<and> n \<ge> 5 then SeverityCritical
     else if patternType = PatternAuth \<and> n \<ge> 3 then SeverityHigh
     else if patternType = PatternDataIntegrity \<and> n \<ge> 3 then SeverityCritical
     else if patternType = PatternResourceExhaustion \<and> n \<ge> 3 then SeverityHigh
     else if patternType = PatternDependencyFailure \<and> n \<ge> 5 then SeverityHigh
     else if patternType = PatternTimeout \<and> n \<ge> 10 then SeverityHigh
     else general)"

definition severityRank :: "string \<Rightarrow> nat" where
  "severityRank s =
    (if s = SeverityCritical then 4 else if s = SeverityHigh then 3 else if s = SeverityMedium then 2
     else if s = SeverityLow then 1 else 0)"

definition truncate_msg :: "string \<Rightarrow> nat \<Rightarrow> string" where
  "truncate_msg s maxLen = (if length s \<le> maxLen then s else take (maxLen - 3) s @ ''...'')"

definition describePattern :: "string \<Rightarrow> string \<Rightarrow> string \<Rightarrow> string" where
  "describePattern patternType component errMsg =
    (if patternType = PatternTimeout then ''Timeout: '' @ component @ '' - '' @ truncate_msg errMsg 80
     else if patternType = PatternAuth then ''Authentication failed: '' @ component
     else if patternType = PatternDataIntegrity then ''Data integrity: '' @ component @ '' - '' @ truncate_msg errMsg 80
     else if patternType = PatternResourceExhaustion then ''Resources exhausted: '' @ component
     else if patternType = PatternDependencyFailure then ''Dependent service unavailable: '' @ component
     else if patternType = PatternConfiguration then ''Configuration error: '' @ component
     else ''Error: '' @ component @ '' - '' @ truncate_msg errMsg 80)"

record ErrorPattern =
  ep_ID :: string
  ep_Type :: string
  ep_Description :: string
  ep_Severity :: string
  ep_Component :: string
  ep_Count :: nat
  ep_RootCause :: string
  ep_Suggestion :: string

definition RootCauseAnalysis :: "ErrorPattern \<Rightarrow> string" where
  "RootCauseAnalysis p =
    (if ep_Type p = PatternTimeout then
       (if ep_Component p = ''nlp'' then ''NLP service not responding within timeout. Possible overload or network issue.''
        else ''Operation timed out. Possible system overload or increased network latency.'')
     else if ep_Type p = PatternAuth then
       ''Repeated authentication failures. Possible expired token, invalid credentials, or unauthorized access attempt.''
     else if ep_Type p = PatternDataIntegrity then
       (if ep_Component p = ''ingestion''
        then ''Corrupted or incomplete data during ingestion. Possible checksum issue or invalid data format.''
        else ''Data integrity compromised. Possible data corruption or missing records.'')
     else if ep_Type p = PatternResourceExhaustion then
       ''System resources exhausted. Possible memory leak, too many open connections, or CPU overload.''
     else if ep_Type p = PatternDependencyFailure then
       ''External service unavailable. Check the status of dependent services (NLP, storage, MCP).''
     else if ep_Type p = PatternConfiguration then
       ''Configuration error or missing. Check environment variables and configuration parameters.''
     else ''Root cause undetermined. Manual analysis recommended.'')"

definition SuggestFix :: "ErrorPattern \<Rightarrow> string" where
  "SuggestFix p =
    (if ep_Type p = PatternTimeout then ''Increase timeouts, check network connection, reduce service load.''
     else if ep_Type p = PatternAuth then ''Check credentials, renew tokens, verify user permissions.''
     else if ep_Type p = PatternDataIntegrity then ''Run checksum verification, restore from backup, check input data formats.''
     else if ep_Type p = PatternResourceExhaustion then
       ''Increase resources (memory/CPU), implement rate limiting, close unused connections.''
     else if ep_Type p = PatternDependencyFailure then
       ''Check external service status, implement circuit breaker, add retry with backoff.''
     else if ep_Type p = PatternConfiguration then
       ''Check environment variables, verify configuration files, validate parameters at startup.''
     else ''Manual analysis recommended.'')"

section \<open>The monitor\<close>

record DiagnosticMonitor =
  dm_patterns :: "(string \<times> ErrorPattern) list"
  dm_alertCount :: nat

definition NewDiagnosticMonitor :: "int \<Rightarrow> DiagnosticMonitor" where
  "NewDiagnosticMonitor n = \<lparr>dm_patterns = [], dm_alertCount = nat (if n \<le> 0 then 3 else n)\<rparr>"

definition explained :: "ErrorPattern \<Rightarrow> ErrorPattern" where
  "explained p = p\<lparr>ep_RootCause := RootCauseAnalysis p, ep_Suggestion := SuggestFix p\<rparr>"

definition RecordError ::
  "DiagnosticMonitor \<Rightarrow> string \<Rightarrow> string \<Rightarrow> string \<Rightarrow> string \<Rightarrow> DiagnosticMonitor \<times> ErrorPattern" where
  "RecordError dm errCode errMsg component impact =
    (let patternType = ClassifyError errCode errMsg;
         key = patternType @ '':'' @ component;
         p = (case map_of (dm_patterns dm) key of
           Some existing \<Rightarrow>
             explained (existing\<lparr>ep_Count := ep_Count existing + 1,
               ep_Severity := AssessSeverity patternType (ep_Count existing + 1) impact\<rparr>)
         | None \<Rightarrow>
             explained \<lparr>ep_ID = key, ep_Type = patternType, ep_Description = describePattern patternType component errMsg,
               ep_Severity = AssessSeverity patternType 1 impact, ep_Component = component, ep_Count = 1,
               ep_RootCause = [], ep_Suggestion = []\<rparr>) in
     (dm\<lparr>dm_patterns := AList.update key p (dm_patterns dm)\<rparr>, p))"

definition GetPatterns :: "DiagnosticMonitor \<Rightarrow> ErrorPattern list" where
  "GetPatterns dm = map snd (dm_patterns dm)"

definition GetCriticalPatterns :: "DiagnosticMonitor \<Rightarrow> ErrorPattern list" where
  "GetCriticalPatterns dm = filter (\<lambda>p. ep_Severity p = SeverityHigh \<or> ep_Severity p = SeverityCritical) (map snd (dm_patterns dm))"

definition ShouldAlert :: "DiagnosticMonitor \<Rightarrow> ErrorPattern \<Rightarrow> bool" where
  "ShouldAlert dm p \<longleftrightarrow>
    ep_Count p \<ge> dm_alertCount dm \<and> (ep_Severity p = SeverityHigh \<or> ep_Severity p = SeverityCritical)"

text \<open>\<open>health\<close> is the integration with the health checker: consecutive failures and latest status of a component.\<close>

definition CorrelateWithHealth :: "(string \<Rightarrow> nat \<times> string) option \<Rightarrow> DiagnosticMonitor \<Rightarrow> ErrorPattern \<Rightarrow> bool" where
  "CorrelateWithHealth health dm p =
    (case health of
       None \<Rightarrow> False
     | Some h \<Rightarrow>
         if ep_Component p = [] then False
         else
           (let (consecutive, status) = h (ep_Component p) in
            consecutive \<ge> dm_alertCount dm \<or> status = ''down'' \<or> status = ''degraded''))"

record SubsystemSummary =
  ss_Subsystem :: string
  ss_TotalErrors :: nat
  ss_Patterns :: nat
  ss_HighestSeverity :: string

fun summarise :: "(string \<times> SubsystemSummary) list \<Rightarrow> ErrorPattern list \<Rightarrow> (string \<times> SubsystemSummary) list" where
  "summarise bySubsystem [] = bySubsystem"
| "summarise bySubsystem (p # ps) =
    (let comp = (if ep_Component p = [] then ''unknown'' else ep_Component p);
         ss = (case map_of bySubsystem comp of
           Some ss \<Rightarrow> ss
         | None \<Rightarrow> \<lparr>ss_Subsystem = comp, ss_TotalErrors = 0, ss_Patterns = 0, ss_HighestSeverity = SeverityLow\<rparr>);
         ss' = ss\<lparr>ss_TotalErrors := ss_TotalErrors ss + ep_Count p, ss_Patterns := ss_Patterns ss + 1,
           ss_HighestSeverity := if severityRank (ss_HighestSeverity ss) < severityRank (ep_Severity p) then ep_Severity p
             else ss_HighestSeverity ss\<rparr> in
     summarise (AList.update comp ss' bySubsystem) ps)"

definition CorrelateWithSubsystem :: "DiagnosticMonitor \<Rightarrow> SubsystemSummary list" where
  "CorrelateWithSubsystem dm = map snd (summarise [] (map snd (dm_patterns dm)))"

section \<open>Facts\<close>

text \<open>More errors of a pattern never lower its severity, for one kind of impact.\<close>

theorem AssessSeverity_mono:
  assumes "m \<le> n"
  shows "severityRank (AssessSeverity p m impact) \<le> severityRank (AssessSeverity p n impact)"
proof -
  have ranks: "severityRank SeverityLow = 1" "severityRank SeverityMedium = 2" "severityRank SeverityHigh = 3" "severityRank SeverityCritical = 4"
    by (simp_all add: severityRank_def severities)
  have distinct: "PatternAuth \<noteq> PatternDataIntegrity" "PatternAuth \<noteq> PatternResourceExhaustion" "PatternAuth \<noteq> PatternDependencyFailure"
    "PatternAuth \<noteq> PatternTimeout" by (simp_all add: diagnostic_patterns)
  show ?thesis
    using assms distinct unfolding AssessSeverity_def Let_def by (auto simp: ranks)
qed

lemma sum_update:
  assumes "distinct (map fst al)"
  shows "sum_list (map (f \<circ> snd) (AList.update k v al)) + (case map_of al k of Some w \<Rightarrow> f w | None \<Rightarrow> 0) =
    sum_list (map (f \<circ> snd) al) + (f v :: nat)"
  using assms by (induction al) (auto split: option.splits simp: map_of_eq_None_iff)

lemma summarise_total:
  "distinct (map fst tab) \<Longrightarrow>
    sum_list (map (ss_TotalErrors \<circ> snd) (summarise tab ps)) = sum_list (map (ss_TotalErrors \<circ> snd) tab) + sum_list (map ep_Count ps)"
proof (induction ps arbitrary: tab)
  case (Cons p ps)
  let ?comp = "if ep_Component p = [] then ''unknown'' else ep_Component p"
  have upd: "sum_list (map (ss_TotalErrors \<circ> snd) (AList.update ?comp v tab)) =
      sum_list (map (ss_TotalErrors \<circ> snd) tab) + ep_Count p"
    if "ss_TotalErrors v = (case map_of tab ?comp of Some w \<Rightarrow> ss_TotalErrors w | None \<Rightarrow> 0) + ep_Count p" for v
    using sum_update [OF Cons.prems, of ss_TotalErrors ?comp v] that by (simp split: option.splits)
  show ?case
    unfolding summarise.simps Let_def
    by (subst Cons.IH) (simp add: AList.distinct_update Cons.prems, subst upd, simp_all split: option.splits)
qed simp

fun record_errors :: "DiagnosticMonitor \<Rightarrow> (string \<times> string \<times> string \<times> string) list \<Rightarrow> DiagnosticMonitor" where
  "record_errors dm [] = dm"
| "record_errors dm ((errCode, errMsg, component, impact) # errs) = record_errors (fst (RecordError dm errCode errMsg component impact)) errs"

lemma explained_count [simp]: "ep_Count (explained p) = ep_Count p"
  by (simp add: explained_def)

lemma RecordError_total:
  assumes "distinct (map fst (dm_patterns dm))"
  shows "distinct (map fst (dm_patterns (fst (RecordError dm a b c d)))) \<and>
    sum_list (map (ep_Count \<circ> snd) (dm_patterns (fst (RecordError dm a b c d)))) = Suc (sum_list (map (ep_Count \<circ> snd) (dm_patterns dm)))"
proof -
  let ?key = "ClassifyError a b @ '':'' @ c"
  obtain p where p: "fst (RecordError dm a b c d) = dm\<lparr>dm_patterns := AList.update ?key p (dm_patterns dm)\<rparr>"
    "ep_Count p = Suc (case map_of (dm_patterns dm) ?key of Some e \<Rightarrow> ep_Count e | None \<Rightarrow> 0)"
    by (cases "map_of (dm_patterns dm) ?key") (auto simp: RecordError_def Let_def)
  with assms sum_update [OF assms, of ep_Count ?key p] show ?thesis
    by (simp add: AList.distinct_update)
qed

lemma record_errors_total:
  "distinct (map fst (dm_patterns dm)) \<Longrightarrow>
    sum_list (map (ep_Count \<circ> snd) (dm_patterns (record_errors dm errs))) = sum_list (map (ep_Count \<circ> snd) (dm_patterns dm)) + length errs"
proof (induction errs arbitrary: dm)
  case (Cons err errs)
  obtain a b c d where "err = (a, b, c, d)" by (cases err)
  with RecordError_total [OF Cons.prems, of a b c d] Cons.IH show ?case by (simp add: comp_def)
qed simp

text \<open>The summaries of the subsystems account for every recorded error exactly once.\<close>

theorem summaries_count_every_error:
  "sum_list (map ss_TotalErrors (CorrelateWithSubsystem (record_errors (NewDiagnosticMonitor n) errs))) = length errs"
proof -
  let ?dm = "record_errors (NewDiagnosticMonitor n) errs"
  have "sum_list (map ss_TotalErrors (CorrelateWithSubsystem ?dm)) = sum_list (map ep_Count (map snd (dm_patterns ?dm)))"
    using summarise_total [of "[]" "map snd (dm_patterns ?dm)"] by (simp add: CorrelateWithSubsystem_def comp_def)
  also have "\<dots> = length errs"
    using record_errors_total [of "NewDiagnosticMonitor n" errs] by (simp add: NewDiagnosticMonitor_def comp_def)
  finally show ?thesis .
qed

end
