(* ===== verification/Tool_Compiler_Facts.thy ===== *)
theory Tool_Compiler_Facts
  imports Tool_Compiler Sandbox_Facts
begin

text \<open>
  What a generated tool contains and how the rest of the program takes it. No marker spans a line, so a template is filled in line by
  line; everything that is said about all definitions follows from where a line stands among the lines of the templates.
\<close>

section \<open>Replacement by lines\<close>

lemma HasPrefix_cut: "c \<notin> set p \<Longrightarrow> HasPrefix (s @ c # t) p = HasPrefix s p"
proof (induction s arbitrary: p)
  case Nil
  then show ?case by (cases p) (auto simp: HasPrefix_def)
next
  case (Cons d s)
  then show ?case by (cases p) (auto simp: HasPrefix_def)
qed

lemma HasPrefix_length: "HasPrefix s p \<Longrightarrow> length p \<le> length s"
  by (metis HasPrefix_def length_take min.cobounded1)

lemma replacer_from_cut:
  assumes "\<And>old new. (old, new) \<in> set ps \<Longrightarrow> old \<noteq> [] \<and> c \<notin> set old"
  shows "k \<le> length s \<Longrightarrow> replacer_from ps k (s @ c # t) = replacer_from ps k s @ c # replacer_from ps 0 t"
proof (induction s arbitrary: k)
  case Nil
  have "find (\<lambda>(old, new). HasPrefix (c # t) old) ps = None"
    using assms HasPrefix_cut [of c _ "[]" t] by (fastforce simp: find_None_iff HasPrefix_def)
  with Nil show ?case by simp
next
  case (Cons d s)
  show ?case
  proof (cases k)
    case 0
    have eq: "find (\<lambda>(old, new). HasPrefix (d # s @ c # t) old) ps = find (\<lambda>(old, new). HasPrefix (d # s) old) ps"
      using assms HasPrefix_cut [of c _ "d # s" t] by (intro find_cong) auto
    show ?thesis
    proof (cases "find (\<lambda>(old, new). HasPrefix (d # s) old) ps")
      case (Some on)
      obtain old new where on: "on = (old, new)" by (cases on)
      with Some have "HasPrefix (d # s) old" by (auto simp: find_Some_iff)
      then have "length old - 1 \<le> length s" using HasPrefix_length by fastforce
      with Cons.IH Some on eq 0 show ?thesis by simp
    qed (use Cons.IH eq 0 in simp)
  qed (use Cons in simp)
qed

lemma Replacer_Join:
  assumes "\<And>old new. (old, new) \<in> set ps \<Longrightarrow> old \<noteq> [] \<and> NL \<notin> set old"
  shows "Replacer ps (Join lines [NL]) = Join (map (Replacer ps) lines) [NL]"
proof (induction lines rule: induct_list012)
  case (3 x y zs)
  then show ?case using replacer_from_cut [of ps NL 0 x, OF assms] by (simp add: Replacer_def)
qed (simp_all add: Replacer_def)

section \<open>Lines of a trimmed text\<close>

definition visible :: "string \<Rightarrow> bool" where
  "visible s \<longleftrightarrow> list_ex (\<lambda>c. \<not> is_space c) s"

lemma visible_Cons [simp]: "visible (c # s) \<longleftrightarrow> \<not> is_space c \<or> visible s"
  by (simp add: visible_def)

lemma visible_append [simp]: "visible (s @ t) \<longleftrightarrow> visible s \<or> visible t"
  by (simp add: visible_def)

lemma TrimLeft_visible: "visible a \<Longrightarrow> TrimLeftFunc is_space (a @ s) = TrimLeftFunc is_space a @ s"
  by (simp add: visible_def TrimLeftFunc_def list_ex_iff) (metis dropWhile_append1)

lemma TrimRight_visible: "visible b \<Longrightarrow> TrimRightFunc is_space (s @ b) = s @ TrimRightFunc is_space b"
  by (simp add: visible_def TrimRightFunc_def list_ex_iff) (metis dropWhile_append1 rev_append rev_rev_ident set_rev)

lemma TrimSpace_visible:
  "visible a \<Longrightarrow> visible b \<Longrightarrow> TrimSpace (a @ s @ b) = TrimLeftFunc is_space a @ s @ TrimRightFunc is_space b"
  using TrimRight_visible [of b "TrimLeftFunc is_space a @ s"] by (simp add: TrimSpace_def TrimLeft_visible)

lemma Split_at_sep: "Split (a @ sep # b) sep = Split a sep @ Split b sep"
  by (induction a) (auto split: list.splits)

lemma Split_inner_line:
  "NL \<notin> set line \<Longrightarrow> line \<in> set (Split (a @ [NL] @ line @ [NL] @ b) NL)"
  by (simp add: Split_at_sep Split_id)

lemma visible_Join: "w \<in> set ws \<Longrightarrow> visible w \<Longrightarrow> visible (Join ws sep)"
  by (induction ws sep rule: Join.induct) auto

text \<open>A line between two others of which each has something visible.\<close>

definition interior :: "string \<Rightarrow> string \<Rightarrow> string \<Rightarrow> string list \<Rightarrow> bool" where
  "interior v l w lines \<longleftrightarrow>
    v \<in> set (takeWhile (\<lambda>x. x \<noteq> l) lines) \<and> (case dropWhile (\<lambda>x. x \<noteq> l) lines of [] \<Rightarrow> False | _ # rest \<Rightarrow> w \<in> set rest)"

lemma interior_text:
  assumes "interior v l w lines" "visible (r v)" "visible (r w)"
  obtains a b where "TrimSpace (Join (map r lines) [NL]) = a @ r l @ b"
proof -
  define xs where "xs = takeWhile (\<lambda>x. x \<noteq> l) lines"
  obtain ys where d: "dropWhile (\<lambda>x. x \<noteq> l) lines = l # ys" "w \<in> set ys"
    using assms(1) hd_dropWhile [of "\<lambda>x. x \<noteq> l" lines]
    by (cases "dropWhile (\<lambda>x. x \<noteq> l) lines") (auto simp: interior_def)
  have lines: "lines = xs @ l # ys" using takeWhile_dropWhile_id [of "\<lambda>x. x \<noteq> l" lines] d(1) by (simp add: xs_def)
  have v: "v \<in> set xs" using assms(1) by (simp add: interior_def xs_def)
  let ?a = "Join (map r xs) [NL] @ [NL]" and ?b = "[NL] @ Join (map r ys) [NL]"
  have "xs \<noteq> []" "ys \<noteq> []" using v d(2) by auto
  then have "Join (map r lines) [NL] = ?a @ r l @ ?b"
    using Join_append [of "[r l]" "map r ys"] by (simp add: lines Join_append)
  moreover have "visible ?a" "visible ?b"
    using visible_Join [of "r v" "map r xs"] visible_Join [of "r w" "map r ys"] v d(2) assms(2,3) by auto
  ultimately have "TrimSpace (Join (map r lines) [NL]) = TrimLeftFunc is_space ?a @ r l @ TrimRightFunc is_space ?b"
    using TrimSpace_visible [of ?a ?b "r l"] by (simp only:)
  then show thesis by (rule that)
qed

section \<open>The templates\<close>

definition go_substitution :: "DslToolDefinition \<Rightarrow> (string \<times> string) list" where
  "go_substitution def =
    [(''__NAME__'', def_Name def),
     (''__NAME_TITLE__'', title (def_Name def)),
     (''__INPUT_FIELDS__'', Join (map go_field (def_Inputs def)) [NL]),
     (''__OUTPUT_FIELDS__'', Join (map go_field (def_Outputs def)) [NL]),
     (''__OUTPUT_INIT__'', Join (map (\<lambda>p. [TAB, TAB, TAB] @ ''// '' @ title (param_Name p) @ '': zero value, TODO: implement'')
        (def_Outputs def)) [NL]),
     (''__DESCRIPTION__'', def_Description def)]"

definition python_substitution :: "DslToolDefinition \<Rightarrow> (string \<times> string) list" where
  "python_substitution def =
    [(''__NAME__'', def_Name def),
     (''__INPUT_PARAMS__'', Join (map (\<lambda>p. [TAB] @ param_Name p @ '': '' @ pythonType (param_Type p) @ python_default p)
        (def_Inputs def)) ('','' @ [NL])),
     (''__OUTPUT_FIELDS__'', Join (map (\<lambda>p. [TAB, TAB, DQ] @ param_Name p @ [DQ] @ '': None,'') (def_Outputs def)) [NL]),
     (''__DESCRIPTION__'', def_Description def)]"

definition go_lines :: "string list \<Rightarrow> bool" where
  "go_lines lines \<longleftrightarrow> interior ''package tools'' ''// __DESCRIPTION__'' ''}'' lines \<and> interior ''package tools'' ''import ('' ''}'' lines"

definition docstring_line :: string where
  "docstring_line = [BACKSLASH, DQ, BACKSLASH, DQ, BACKSLASH, DQ] @ ''__DESCRIPTION__'' @ [BACKSLASH, DQ, BACKSLASH, DQ, BACKSLASH, DQ]"

definition python_lines :: "string list \<Rightarrow> bool" where
  "python_lines lines \<longleftrightarrow> interior ''# python'' docstring_line ''import json'' lines \<and> take 2 lines = [''# python'', docstring_line]"

lemma go_template_lines: "\<exists>lines. go_template tmpl = Join lines [NL] \<and> go_lines lines"
proof (cases tmpl)
  case TemplateDataProcessor
  then show ?thesis unfolding go_template_def dataProcessorGoTemplate_def
    by (simp only: ToolTemplate.distinct if_False refl) (rule exI, rule conjI, rule refl, code_simp)
next
  case TemplateAPIConnector
  then show ?thesis unfolding go_template_def apiConnectorGoTemplate_def
    by (simp only: if_True refl) (rule exI, rule conjI, rule refl, code_simp)
next
  case TemplateAnalyzer
  then show ?thesis unfolding go_template_def analyzerGoTemplate_def
    by (simp only: ToolTemplate.distinct if_False if_True refl) (rule exI, rule conjI, rule refl, code_simp)
qed

lemma python_template_lines: "\<exists>lines. python_template tmpl = Join lines [NL] \<and> python_lines lines"
proof (cases tmpl)
  case TemplateDataProcessor
  then show ?thesis unfolding python_template_def dataProcessorPythonTemplate_def
    by (simp only: ToolTemplate.distinct if_False refl) (rule exI, rule conjI, rule refl, code_simp)
next
  case TemplateAPIConnector
  then show ?thesis unfolding python_template_def apiConnectorPythonTemplate_def
    by (simp only: if_True refl) (rule exI, rule conjI, rule refl, code_simp)
next
  case TemplateAnalyzer
  then show ?thesis unfolding python_template_def analyzerPythonTemplate_def
    by (simp only: ToolTemplate.distinct if_False if_True refl) (rule exI, rule conjI, rule refl, code_simp)
qed

lemma go_rendered: "Replacer (go_substitution def) (Join lines [NL]) = Join (map (Replacer (go_substitution def)) lines) [NL]"
  and python_rendered: "Replacer (python_substitution def) (Join lines [NL]) = Join (map (Replacer (python_substitution def)) lines) [NL]"
  by (rule Replacer_Join; auto simp: go_substitution_def python_substitution_def)+

lemma go_line_simps [simp]:
  "Replacer (go_substitution def) ''package tools'' = ''package tools''"
  "Replacer (go_substitution def) ''import ('' = ''import (''"
  "Replacer (go_substitution def) ''}'' = ''}''"
  "Replacer (go_substitution def) ''// __DESCRIPTION__'' = ''// '' @ def_Description def"
  by (simp_all add: go_substitution_def Replacer_def HasPrefix_def)

lemma python_line_simps [simp]:
  "Replacer (python_substitution def) ''# python'' = ''# python''"
  "Replacer (python_substitution def) ''import json'' = ''import json''"
  "Replacer (python_substitution def) docstring_line =
    [BACKSLASH, DQ, BACKSLASH, DQ, BACKSLASH, DQ] @ def_Description def @ [BACKSLASH, DQ, BACKSLASH, DQ, BACKSLASH, DQ]"
  by (simp_all add: python_substitution_def docstring_line_def Replacer_def HasPrefix_def)

lemma visible_marks [simp]:
  "visible ''package tools''" "visible ''}''" "visible ''# python''" "visible ''import json''"
  by (simp_all add: is_space_def code_def)

lemma renderGoHandler_text:
  obtains a b c d where
    "renderGoHandler def tmpl = a @ ''// '' @ def_Description def @ b"
    "renderGoHandler def tmpl = c @ ''import ('' @ d"
proof -
  obtain lines where lines: "go_template tmpl = Join lines [NL]" "go_lines lines" using go_template_lines by blast
  have r: "renderGoHandler def tmpl = TrimSpace (Join (map (Replacer (go_substitution def)) lines) [NL])"
    by (simp only: renderGoHandler_def Let_def go_substitution_def [symmetric] lines(1) go_rendered)
  obtain a b where ab: "renderGoHandler def tmpl = a @ Replacer (go_substitution def) ''// __DESCRIPTION__'' @ b"
    using interior_text [of _ _ _ lines "Replacer (go_substitution def)"] lines(2) unfolding r go_lines_def
    by (metis go_line_simps(1,3) visible_marks(1,2))
  obtain c d where cd: "renderGoHandler def tmpl = c @ Replacer (go_substitution def) ''import ('' @ d"
    using interior_text [of _ _ _ lines "Replacer (go_substitution def)"] lines(2) unfolding r go_lines_def
    by (metis go_line_simps(1,3) visible_marks(1,2))
  show thesis using ab cd unfolding go_line_simps append_assoc by (rule that)
qed

lemma renderPythonTool_text:
  obtains a b c where
    "renderPythonTool def tmpl = a @ def_Description def @ b"
    "renderPythonTool def tmpl = ''# python'' @ [NL, BACKSLASH, DQ, BACKSLASH, DQ, BACKSLASH, DQ] @ c"
proof -
  obtain lines where lines: "python_template tmpl = Join lines [NL]" "python_lines lines" using python_template_lines by blast
  let ?r = "Replacer (python_substitution def)"
  have r: "renderPythonTool def tmpl = TrimSpace (Join (map ?r lines) [NL])"
    by (simp only: renderPythonTool_def Let_def python_substitution_def [symmetric] lines(1) python_rendered)
  obtain a b where ab: "renderPythonTool def tmpl = a @ ?r docstring_line @ b"
    using interior_text [of _ _ _ lines ?r] lines(2) unfolding r python_lines_def
    by (metis python_line_simps(1,2) visible_marks(3,4))
  obtain rest where rest: "lines = ''# python'' # docstring_line # rest" "''import json'' \<in> set rest"
  proof -
    have "lines = take 2 lines @ drop 2 lines" by simp
    with lines(2) obtain rest where l: "lines = ''# python'' # docstring_line # rest"
      by (metis append_Cons append_Nil python_lines_def)
    moreover have "''import json'' \<in> set rest" using lines(2) by (simp add: l python_lines_def interior_def docstring_line_def)
    ultimately show thesis by (rule that)
  qed
  let ?b = "Join (map ?r rest) [NL]" and ?p = "''# python'' @ [NL, BACKSLASH, DQ, BACKSLASH, DQ, BACKSLASH, DQ]"
  have "visible (?r ''import json'')" by (simp only: python_line_simps visible_marks)
  then have "visible ?b" using rest(2) by (intro visible_Join) (auto intro: imageI)
  moreover have "Join (map ?r lines) [NL] = ?p @ (def_Description def @ [BACKSLASH, DQ, BACKSLASH, DQ, BACKSLASH, DQ, NL]) @ ?b"
    using rest by (cases rest) (simp_all add: python_line_simps)
  moreover have "TrimLeftFunc is_space ?p = ?p" "visible ?p" by (simp_all add: TrimLeftFunc_def is_space_def code_def)
  ultimately have "renderPythonTool def tmpl =
      ?p @ (def_Description def @ [BACKSLASH, DQ, BACKSLASH, DQ, BACKSLASH, DQ, NL]) @ TrimRightFunc is_space ?b"
    unfolding r by (metis TrimSpace_visible)
  with ab show thesis using that by (metis append_assoc python_line_simps(3))
qed

section \<open>Accepted definitions\<close>

lemma check_params_nil:
  "check_params unsupported duplicate seen ps = [] \<longleftrightarrow>
    (\<forall>p \<in> set ps. param_Type p \<in> set ValidToolTypes) \<and> distinct (map param_Name ps) \<and> set seen \<inter> param_Name ` set ps = {}"
  by (induction ps arbitrary: seen) auto

text \<open>A definition is valid if and only if its name is an identifier, its parameters have known types and different names, its handler
  is complete and it does not depend on itself. Names of parameters and the description are free.\<close>

theorem ValidateTool_accepts:
  "ValidateTool def = [] \<longleftrightarrow>
    def_Name def \<noteq> [] \<and> MatchString validNameRegex (def_Name def) \<and>
    (\<forall>p \<in> set (def_Inputs def) \<union> set (def_Outputs def). param_Type p \<in> set ValidToolTypes) \<and>
    distinct (map param_Name (def_Inputs def)) \<and> distinct (map param_Name (def_Outputs def)) \<and>
    (\<exists>h. def_Handler def = Some h \<and> ToLower (handler_Language h) \<in> {''go'', ''python''} \<and> handler_EntryPoint h \<noteq> []) \<and>
    def_Name def \<notin> dep_Name ` set (def_Deps def)"
proof -
  define n where "n \<longleftrightarrow> def_Name def \<noteq> [] \<and> MatchString validNameRegex (def_Name def)"
  define h where "h \<longleftrightarrow> (\<exists>h. def_Handler def = Some h \<and> ToLower (handler_Language h) \<in> {''go'', ''python''} \<and> handler_EntryPoint h \<noteq> [])"
  have "(case def_Handler def of
       Some h \<Rightarrow>
         (let lang = ToLower (handler_Language h) in
          (if lang \<noteq> ''go'' \<and> lang \<noteq> ''python'' then [InvalidHandlerLanguage (handler_Language h)] else []) @
          (if handler_EntryPoint h = [] then [EmptyEntryPoint] else []))
     | None \<Rightarrow> [MissingHandler]) = [] \<longleftrightarrow> h"
    by (auto simp: h_def Let_def split: option.split)
  moreover have "(if def_Name def = [] then [EmptyToolName]
     else if \<not> MatchString validNameRegex (def_Name def) then [InvalidToolName (def_Name def)] else []) = [] \<longleftrightarrow> n"
    by (simp add: n_def)
  moreover have "concat (map (\<lambda>dep. if dep_Name dep = def_Name def then [SelfDependency (dep_Name dep)] else []) deps) = [] \<longleftrightarrow>
      def_Name def \<notin> dep_Name ` set deps" for deps :: "ToolDep list"
    by (induction deps) auto
  ultimately have "ValidateTool def = [] \<longleftrightarrow>
      n \<and> check_params UnsupportedInputType DuplicateInput [] (def_Inputs def) = [] \<and>
      check_params UnsupportedOutputType DuplicateOutput [] (def_Outputs def) = [] \<and> h \<and> def_Name def \<notin> dep_Name ` set (def_Deps def)"
    unfolding ValidateTool_def append_is_Nil_conv by (simp only:)
  then show ?thesis unfolding check_params_nil by (auto simp: n_def h_def)
qed

section \<open>What generated tools are\<close>

lemma CompileToolDefinition_code:
  assumes "CompileToolDefinition (Some def) = Inr gen"
  shows "GoCode gen = renderGoHandler def (selectTemplate (def_Name def))"
    "PythonCode gen = renderPythonTool def (selectTemplate (def_Name def))"
  using assms by (auto simp: CompileToolDefinition_def Let_def)

lemma checks_ignore_description:
  "ValidateTool (def\<lparr>def_Description := other\<rparr>) = ValidateTool def"
  "SecurityScan (def\<lparr>def_Description := other\<rparr>) = SecurityScan def"
  by (simp_all add: ValidateTool_def SecurityScan_def cong: option.case_cong)

text \<open>C29. Whatever stands on a line of its own in the description of a tool stands on a line of its own in the generated Go code and in the
  generated Python code, while neither the validation nor the security scan looks at the description: a description is a way to put code into a
  tool.\<close>

theorem description_becomes_code:
  assumes "CompileToolDefinition (Some def) = Inr gen"
    "def_Description def = a @ [NL] @ payload @ [NL] @ b" "NL \<notin> set payload"
  shows "payload \<in> set (Split (GoCode gen) NL) \<and> payload \<in> set (Split (PythonCode gen) NL) \<and>
    ValidateTool (def\<lparr>def_Description := other\<rparr>) = ValidateTool def \<and>
    SecurityScan (def\<lparr>def_Description := other\<rparr>) = SecurityScan def"
proof -
  obtain p q where "GoCode gen = (p @ ''// '' @ a) @ [NL] @ payload @ [NL] @ (b @ q)"
    using renderGoHandler_text [of def "selectTemplate (def_Name def)"]
    unfolding CompileToolDefinition_code(1) [OF assms(1), symmetric] assms(2) append_assoc by metis
  moreover obtain u v where "PythonCode gen = (u @ a) @ [NL] @ payload @ [NL] @ (b @ v)"
    using renderPythonTool_text [of def "selectTemplate (def_Name def)"]
    unfolding CompileToolDefinition_code(2) [OF assms(1), symmetric] assms(2) append_assoc by metis
  ultimately show ?thesis
    using Split_inner_line [OF assms(3)] checks_ignore_description by (simp only: simp_thms)
qed

definition sample_definition :: DslToolDefinition where
  "sample_definition = \<lparr>def_Name = ''sum'', def_Description = ''Adds.'' @ [NL] @ ''func init() { run() }'' @ [NL] @ ''More.'',
     def_Inputs = [\<lparr>param_Name = ''x'', param_Type = ''int'', param_Required = True\<rparr>], def_Outputs = [],
     def_Handler = Some \<lparr>handler_Language = ''go'', handler_EntryPoint = ''Handle''\<rparr>, def_Deps = []\<rparr>"

definition sample_generated :: GeneratedTool where
  "sample_generated = projr (CompileToolDefinition (Some sample_definition))"

lemma sample_compiled: "CompileToolDefinition (Some sample_definition) = Inr sample_generated"
  by (simp add: sample_generated_def CompileToolDefinition_def Let_def)

lemma sample_definition_valid: "ValidateTool sample_definition = []"
  by code_simp

theorem description_becomes_code_witness:
  "''func init() { run() }'' \<in> set (Split (GoCode sample_generated) NL) \<and> ValidateTool sample_definition = []"
  using description_becomes_code [OF sample_compiled, of "''Adds.''" "''func init() { run() }''" "''More.''"] sample_definition_valid
  by (simp add: sample_definition_def)

text \<open>The quotation marks that open the documentation of a generated Python tool are escaped: its second line begins with a backslash.\<close>

theorem generated_python_starts_with_backslash:
  assumes "CompileToolDefinition (Some def) = Inr gen"
  shows "\<exists>rest. PythonCode gen = ''# python'' @ [NL, BACKSLASH, DQ] @ rest"
  using renderPythonTool_text [of def "selectTemplate (def_Name def)"]
  unfolding CompileToolDefinition_code(2) [OF assms, symmetric] by (metis append_Cons append_Nil)

lemma Contains_middle: "Contains (a @ s @ b) s"
proof (induction a)
  case Nil
  have "HasPrefix (s @ b) s" by (simp add: HasPrefix_def)
  then show ?case by (cases "s @ b") (auto simp: Contains_def HasPrefix_def)
qed (auto simp: Contains_def)

text \<open>C34. A generated Go tool is taken for Python everywhere: the verifier applies the Python rules to it whatever the Go parser says, and the only
  command a container runs for it is the Python interpreter on a file \<^verbatim>\<open>tool.py\<close> with the Go text.\<close>

theorem generated_go_run_as_python:
  assumes "CompileToolDefinition (Some def) = Inr gen" "toolCode s = Some get" "get toolID = Inr (GoCode gen)"
  shows "VerifyToolCode ParseImports (GoCode gen) = VerifyToolCode ParseImports' (GoCode gen) \<and>
    list_all (\<lambda>cmd. cmd_files cmd = [(''tool.py'', GoCode gen)] \<and> last (cmd_argv cmd) = ''python /workspace/tool.py'')
      (snd (snd (container_ExecuteTool ParseImports fmt2 os s filters toolID inputJSON)))"
proof -
  obtain c d where "GoCode gen = c @ ''import '' @ ''('' @ d"
    using renderGoHandler_text [of def "selectTemplate (def_Name def)"]
    unfolding CompileToolDefinition_code(1) [OF assms(1), symmetric] by (metis append_Cons append_Nil)
  then have py: "IsPythonCode (GoCode gen)" unfolding IsPythonCode_def by (metis Contains_middle)
  then have "list_all (\<lambda>cmd. cmd_files cmd = [(''tool.py'', GoCode gen)] \<and> last (cmd_argv cmd) = ''python /workspace/tool.py'')
      (snd (snd (container_ExecuteTool ParseImports fmt2 os s filters toolID inputJSON)))"
    using assms(2,3)
    by (auto simp: container_ExecuteTool_def executeInContainer_def docker_args_def Let_def split: sum.splits option.splits)
  with py show ?thesis by (simp add: VerifyToolCode_def validate_tool_code_def)
qed

definition generated_container :: ContainerSandbox where
  "generated_container = sample_container\<lparr>toolCode := Some (\<lambda>_. Inr (GoCode sample_generated))\<rparr>"

theorem generated_go_run_as_python_witness:
  "VerifyToolCode (\<lambda>_. None) (GoCode sample_generated) = VerifyToolCode (\<lambda>_. Some []) (GoCode sample_generated) \<and>
    list_all (\<lambda>cmd. cmd_files cmd = [(''tool.py'', GoCode sample_generated)] \<and> last (cmd_argv cmd) = ''python /workspace/tool.py'')
      (snd (snd (container_ExecuteTool (\<lambda>_. None) (\<lambda>_. ''0.50'') sample_os generated_container [] ''t'' ''{}'')))"
  by (rule generated_go_run_as_python [OF sample_compiled]) (simp_all add: generated_container_def)

end
