(* ===== verification/Tool_Cache.thy ===== *)
theory Tool_Cache
  imports Suggestion
begin

text \<open>
  The two caches with a time limit: \<^verbatim>\<open>internal/repository/cache.go\<close> (the list of tools) and
  \<^verbatim>\<open>internal/api/handler/program_cache.go\<close> (parsed ontologies). Both drop the entry with the oldest time stamp when they are full.

  The maps are association lists with distinct keys in the order of iteration; the theorems hold for any such list, hence for any order.
  The clock is an argument; an operation takes no time. A goroutine that removes expired entries is the operation \<open>cleanup\<close>. Each operation is
  atomic.
\<close>

section \<open>The cache of the tool list\<close>

record 'v toolCacheEntry =
  value_of_entry :: 'v
  expiresAt :: nanos
  accessed :: nanos

record 'v ToolCache =
  tc_cache :: "(string \<times> 'v toolCacheEntry) list"
  tc_ttl :: nanos
  tc_maxSize :: int

definition defaultToolCacheTTL :: nanos where "defaultToolCacheTTL = 5 * minute"
definition defaultMaxSize :: int where "defaultMaxSize = 500"

definition NewToolCache :: "'v ToolCache" where
  "NewToolCache = \<lparr>tc_cache = [], tc_ttl = defaultToolCacheTTL, tc_maxSize = defaultMaxSize\<rparr>"

definition tc_Get :: "nanos \<Rightarrow> 'v ToolCache \<Rightarrow> string \<Rightarrow> 'v option \<times> 'v ToolCache" where
  "tc_Get now tc key =
    (case map_of (tc_cache tc) key of
       None \<Rightarrow> (None, tc)
     | Some e \<Rightarrow>
         if now > expiresAt e then (None, tc\<lparr>tc_cache := AList.delete key (tc_cache tc)\<rparr>)
         else (Some (value_of_entry e), tc\<lparr>tc_cache := AList.update key (e\<lparr>accessed := now\<rparr>) (tc_cache tc)\<rparr>))"

definition tc_len :: "'v ToolCache \<Rightarrow> nat" where
  "tc_len tc = length (tc_cache tc)"

text \<open>The loop of \<^verbatim>\<open>evictLRU\<close> over the entries: the key and the time found so far, if any.\<close>

fun oldest :: "('e \<Rightarrow> nanos) \<Rightarrow> (string \<times> nanos) option \<Rightarrow> (string \<times> 'e) list \<Rightarrow> (string \<times> nanos) option" where
  "oldest time_of found [] = found"
| "oldest time_of found ((k, e) # es) =
    oldest time_of
      (case found of
         None \<Rightarrow> Some (k, time_of e)
       | Some (k', t) \<Rightarrow> if time_of e < t then Some (k, time_of e) else Some (k', t)) es"

definition evictLRU :: "'v ToolCache \<Rightarrow> 'v ToolCache" where
  "evictLRU tc =
    (let oldestKey = (case oldest accessed None (tc_cache tc) of None \<Rightarrow> [] | Some (k, t) \<Rightarrow> k) in
     if oldestKey \<noteq> [] then tc\<lparr>tc_cache := AList.delete oldestKey (tc_cache tc)\<rparr> else tc)"

definition tc_Set :: "nanos \<Rightarrow> 'v ToolCache \<Rightarrow> string \<Rightarrow> 'v \<Rightarrow> 'v ToolCache" where
  "tc_Set now tc key v =
    (let tc' = (if int (tc_len tc) \<ge> tc_maxSize tc then evictLRU tc else tc) in
     tc'\<lparr>tc_cache := AList.update key \<lparr>value_of_entry = v, expiresAt = now + tc_ttl tc, accessed = now\<rparr> (tc_cache tc')\<rparr>)"

definition Invalidate :: "'v ToolCache \<Rightarrow> string \<Rightarrow> 'v ToolCache" where
  "Invalidate tc key = tc\<lparr>tc_cache := AList.delete key (tc_cache tc)\<rparr>"

definition SetMaxSize :: "'v ToolCache \<Rightarrow> int \<Rightarrow> 'v ToolCache" where
  "SetMaxSize tc n =
    (let tc' = (if n > 0 then tc\<lparr>tc_maxSize := n\<rparr> else tc) in
     if int (tc_len tc') > tc_maxSize tc' then evictLRU tc' else tc')"

definition cleanupExpired :: "nanos \<Rightarrow> 'v ToolCache \<Rightarrow> 'v ToolCache" where
  "cleanupExpired now tc = tc\<lparr>tc_cache := filter (\<lambda>(k, e). \<not> now > expiresAt e) (tc_cache tc)\<rparr>"

section \<open>The cache of programs\<close>

record 'p programEntry =
  entry_program :: 'p
  createdAt :: nanos

record 'p programCache =
  pc_entries :: "(string \<times> 'p programEntry) list"
  pc_maxEntries :: int
  pc_ttl :: nanos

definition newProgramCache :: "'p programCache" where
  "newProgramCache = \<lparr>pc_entries = [], pc_maxEntries = 64, pc_ttl = 30 * minute\<rparr>"

definition pc_Get :: "nanos \<Rightarrow> 'p programCache \<Rightarrow> string \<Rightarrow> 'p option \<times> 'p programCache" where
  "pc_Get now c key =
    (case map_of (pc_entries c) key of
       None \<Rightarrow> (None, c)
     | Some e \<Rightarrow>
         if now - createdAt e > pc_ttl c then (None, c\<lparr>pc_entries := AList.delete key (pc_entries c)\<rparr>)
         else (Some (entry_program e), c))"

text \<open>Here an empty key counts as none found yet.\<close>

fun oldest_named :: "string \<Rightarrow> nanos \<Rightarrow> (string \<times> 'p programEntry) list \<Rightarrow> string" where
  "oldest_named oldestKey oldestTime [] = oldestKey"
| "oldest_named oldestKey oldestTime ((k, v) # es) =
    (if oldestKey = [] \<or> createdAt v < oldestTime then oldest_named k (createdAt v) es
     else oldest_named oldestKey oldestTime es)"

definition pc_Set :: "nanos \<Rightarrow> 'p programCache \<Rightarrow> string \<Rightarrow> 'p \<Rightarrow> 'p programCache" where
  "pc_Set now c key program =
    (let es = (if int (length (pc_entries c)) \<ge> pc_maxEntries c then
                 (let oldestKey = oldest_named [] 0 (pc_entries c) in
                  if oldestKey \<noteq> [] then AList.delete oldestKey (pc_entries c) else pc_entries c)
               else pc_entries c) in
     c\<lparr>pc_entries := AList.update key \<lparr>entry_program = program, createdAt = now\<rparr> es\<rparr>)"

section \<open>Eviction\<close>

lemma oldest_found: "oldest f (Some kt) es \<noteq> None"
  by (induction es arbitrary: kt) (auto split: prod.splits)

lemma oldest_key:
  "oldest f found es = Some (k, t) \<Longrightarrow> (found = Some (k, t) \<or> (\<exists>e. (k, e) \<in> set es \<and> t = f e))"
proof (induction es arbitrary: found)
  case (Cons x es)
  obtain k' e where x: "x = (k', e)" by (cases x)
  from Cons.prems have "oldest f (case found of None \<Rightarrow> Some (k', f e)
       | Some (k'', t') \<Rightarrow> if f e < t' then Some (k', f e) else Some (k'', t')) es = Some (k, t)" by (simp add: x)
  from Cons.IH [OF this] show ?case by (auto simp: x split: option.splits if_splits)
qed simp

lemma oldest_least:
  "oldest f found es = Some (k, t) \<Longrightarrow> (\<forall>(k', e) \<in> set es. t \<le> f e) \<and> (\<forall>k' t'. found = Some (k', t') \<longrightarrow> t \<le> t')"
proof (induction es arbitrary: found)
  case (Cons x es)
  obtain k' e where x: "x = (k', e)" by (cases x)
  from Cons.prems have "oldest f (case found of None \<Rightarrow> Some (k', f e)
       | Some (k'', t') \<Rightarrow> if f e < t' then Some (k', f e) else Some (k'', t')) es = Some (k, t)" by (simp add: x)
  from Cons.IH [OF this] show ?case by (auto simp: x split: option.splits if_splits)
qed simp

lemma oldest_None: "oldest f None es = None \<longleftrightarrow> es = []"
proof (cases es)
  case (Cons x es')
  then show ?thesis using oldest_found [of f "(fst x, f (snd x))" es'] by (cases x) simp
qed simp

lemma oldest_named_key: "oldest_named k t es = k \<or> oldest_named k t es \<in> fst ` set es"
proof (induction es arbitrary: k t)
  case (Cons x es)
  obtain k' e where x: "x = (k', e)" by (cases x)
  show ?case using Cons.IH [of k' "createdAt e"] Cons.IH [of k t] by (auto simp: x)
qed simp

lemma length_delete_less: "k \<in> fst ` set es \<Longrightarrow> length (AList.delete k es) < length es"
  by (auto simp: AList.delete_eq intro: length_filter_less)

lemma length_delete_one: "distinct (map fst es) \<Longrightarrow> length es \<le> Suc (length (AList.delete k es))"
proof (induction es)
  case (Cons x es)
  then show ?case using AList.delete_id [of k es] by (cases x) (auto simp: AList.delete_eq)
qed simp

lemma length_update_le: "length (AList.update k v es) \<le> Suc (length es)"
  by (induction es) auto

lemma length_update_mem: "k \<in> fst ` set es \<Longrightarrow> length (AList.update k v es) = length es"
  by (induction es) auto

section \<open>What the caches provide\<close>

definition tc_ok :: "'v ToolCache \<Rightarrow> bool" where
  "tc_ok tc \<longleftrightarrow> distinct (map fst (tc_cache tc)) \<and> 0 \<le> tc_ttl tc \<and> 0 < tc_maxSize tc"

definition pc_ok :: "'p programCache \<Rightarrow> bool" where
  "pc_ok c \<longleftrightarrow> distinct (map fst (pc_entries c)) \<and> 0 \<le> pc_ttl c \<and> 0 < pc_maxEntries c"

lemma NewToolCache_ok [simp]: "tc_ok NewToolCache"
  by (simp add: tc_ok_def NewToolCache_def defaultToolCacheTTL_def defaultMaxSize_def minute_def second_def)

lemma newProgramCache_ok [simp]: "pc_ok newProgramCache"
  by (simp add: pc_ok_def newProgramCache_def minute_def second_def)

lemma evictLRU_fields [simp]: "tc_ttl (evictLRU tc) = tc_ttl tc" "tc_maxSize (evictLRU tc) = tc_maxSize tc"
  by (simp_all add: evictLRU_def Let_def)

lemma evictLRU_cache: "tc_cache (evictLRU tc) = tc_cache tc \<or> (\<exists>k. tc_cache (evictLRU tc) = AList.delete k (tc_cache tc))"
  by (auto simp: evictLRU_def Let_def)

lemma evictLRU_ok [simp]: "tc_ok tc \<Longrightarrow> tc_ok (evictLRU tc)"
  using evictLRU_cache [of tc] by (auto simp: tc_ok_def AList.distinct_delete)

lemma map_of_delete_SomeD: "map_of (AList.delete k es) k' = Some e \<Longrightarrow> map_of es k' = Some e"
  by (auto simp: AList.delete_conv' split: if_splits)

lemma evictLRU_lookup: "map_of (tc_cache (evictLRU tc)) k = Some e \<Longrightarrow> map_of (tc_cache tc) k = Some e"
  using evictLRU_cache [of tc] by (auto dest: map_of_delete_SomeD)

interpretation tool_cache: lossy_store "\<lambda>c k. fst (tc_Get now c k)" "tc_Set now" tc_ok for now
proof
  fix c :: "'v ToolCache" and k k' :: string and e e' :: 'v
  assume ok: "tc_ok c"
  define c' where "c' = (if int (tc_len c) \<ge> tc_maxSize c then evictLRU c else c)"
  have c': "tc_ok c'" "tc_ttl c' = tc_ttl c" "map_of (tc_cache c') k = Some x \<Longrightarrow> map_of (tc_cache c) k = Some x" for k x
    using ok evictLRU_lookup [of c] by (auto simp: c'_def split: if_splits)
  have s: "tc_Set now c k e = c'\<lparr>tc_cache := AList.update k \<lparr>value_of_entry = e, expiresAt = now + tc_ttl c, accessed = now\<rparr> (tc_cache c')\<rparr>"
    by (simp add: tc_Set_def c'_def Let_def)
  show "tc_ok (tc_Set now c k e)" using c'(1) by (simp add: s tc_ok_def AList.distinct_update)
  show "fst (tc_Get now (tc_Set now c k e) k) = Some e"
    using ok by (simp add: s tc_Get_def AList.update_conv' tc_ok_def)
  show "fst (tc_Get now c k') = Some e'" if "k' \<noteq> k" "fst (tc_Get now (tc_Set now c k e) k') = Some e'"
    using that c'(3) [of k'] by (auto simp: s tc_Get_def AList.update_conv' split: option.splits if_splits)
qed

interpretation program_cache: lossy_store "\<lambda>c k. fst (pc_Get now c k)" "pc_Set now" pc_ok for now
proof
  fix c :: "'p programCache" and k k' :: string and e e' :: 'p
  assume ok: "pc_ok c"
  define es where "es = (if int (length (pc_entries c)) \<ge> pc_maxEntries c then
     (let oldestKey = oldest_named [] 0 (pc_entries c) in
      if oldestKey \<noteq> [] then AList.delete oldestKey (pc_entries c) else pc_entries c) else pc_entries c)"
  have es: "distinct (map fst es)" "map_of es k = Some x \<Longrightarrow> map_of (pc_entries c) k = Some x" for k x
    using ok map_of_delete_SomeD [of _ "pc_entries c" k x]
    by (simp_all add: es_def Let_def pc_ok_def AList.distinct_delete split: if_splits)
  have s: "pc_Set now c k e = c\<lparr>pc_entries := AList.update k \<lparr>entry_program = e, createdAt = now\<rparr> es\<rparr>"
    by (simp add: pc_Set_def es_def Let_def)
  show "pc_ok (pc_Set now c k e)" using ok es(1) by (simp add: s pc_ok_def AList.distinct_update)
  show "fst (pc_Get now (pc_Set now c k e) k) = Some e"
    using ok by (simp add: s pc_Get_def AList.update_conv' pc_ok_def)
  show "fst (pc_Get now c k') = Some e'" if "k' \<noteq> k" "fst (pc_Get now (pc_Set now c k e) k') = Some e'"
    using that es(2) [of k'] by (auto simp: s pc_Get_def AList.update_conv' split: option.splits if_splits)
qed

section \<open>Sizes\<close>

text \<open>The bound needs that no key is empty: an empty key that is the oldest is never dropped.\<close>

definition tc_bounded :: "'v ToolCache \<Rightarrow> bool" where
  "tc_bounded tc \<longleftrightarrow> tc_ok tc \<and> [] \<notin> fst ` set (tc_cache tc) \<and> int (tc_len tc) \<le> tc_maxSize tc"

lemma evictLRU_shrinks:
  assumes "[] \<notin> fst ` set (tc_cache tc)" "tc_cache tc \<noteq> []"
  shows "tc_len (evictLRU tc) < tc_len tc"
proof -
  obtain k t where kt: "oldest accessed None (tc_cache tc) = Some (k, t)"
    using assms(2) oldest_None [of accessed "tc_cache tc"] by (cases "oldest accessed None (tc_cache tc)") auto
  have "k \<in> fst ` set (tc_cache tc)" using oldest_key [OF kt] by force
  moreover from this assms(1) have "k \<noteq> []" by metis
  ultimately show ?thesis using kt length_delete_less [of k "tc_cache tc"] by (simp add: evictLRU_def tc_len_def)
qed

lemma tc_Set_bounded:
  assumes "tc_bounded tc" "key \<noteq> []"
  shows "tc_bounded (tc_Set now tc key v)"
proof -
  define tc' where "tc' = (if int (tc_len tc) \<ge> tc_maxSize tc then evictLRU tc else tc)"
  have "int (tc_len tc') < tc_maxSize tc"
    using assms(1) evictLRU_shrinks [of tc]
    by (cases "tc_cache tc = []") (auto simp: tc'_def tc_bounded_def tc_ok_def tc_len_def)
  moreover have "[] \<notin> fst ` set (tc_cache tc')"
    using assms(1) evictLRU_cache [of tc] by (auto simp: tc'_def tc_bounded_def AList.delete_eq)
  moreover have "tc_ok tc'" "tc_maxSize tc' = tc_maxSize tc" using assms(1) by (simp_all add: tc'_def tc_bounded_def)
  moreover have "tc_Set now tc key v =
      tc'\<lparr>tc_cache := AList.update key \<lparr>value_of_entry = v, expiresAt = now + tc_ttl tc, accessed = now\<rparr> (tc_cache tc')\<rparr>"
    by (simp add: tc_Set_def tc'_def Let_def)
  ultimately show ?thesis
    using assms(2) length_update_le [of key "\<lparr>value_of_entry = v, expiresAt = now + tc_ttl tc, accessed = now\<rparr>" "tc_cache tc'"]
    by (simp add: tc_bounded_def tc_ok_def tc_len_def AList.distinct_update AList.dom_update)
qed

lemma keys_delete: "fst ` set (AList.delete k es) = fst ` set es - {k}"
  by (auto simp: AList.delete_eq)

lemma Invalidate_bounded:
  assumes "tc_bounded tc"
  shows "tc_bounded (Invalidate tc key)"
proof -
  have "int (length (AList.delete key (tc_cache tc))) \<le> tc_maxSize tc"
    using assms AList.length_delete_le [of key "tc_cache tc"] by (simp add: tc_bounded_def tc_len_def)
  with assms show ?thesis
    by (simp add: Invalidate_def tc_bounded_def tc_ok_def tc_len_def AList.distinct_delete keys_delete)
qed

lemma tc_Get_bounded:
  assumes "tc_bounded tc"
  shows "tc_bounded (snd (tc_Get now tc key))"
proof (cases "map_of (tc_cache tc) key")
  case (Some e)
  then have "key \<in> fst ` set (tc_cache tc)" by (metis domI dom_map_of_conv_image_fst)
  then show ?thesis
    using assms Invalidate_bounded [OF assms, of key] Some length_update_mem [of key "tc_cache tc"]
    by (auto simp: tc_Get_def Invalidate_def tc_bounded_def tc_ok_def tc_len_def AList.distinct_update AList.dom_update)
qed (use assms in \<open>simp add: tc_Get_def\<close>)

text \<open>Lowering the bound drops one entry only: the cache stays as large as it was, less one, whatever the new bound is.\<close>

theorem SetMaxSize_drops_one: "tc_ok tc \<Longrightarrow> tc_len tc \<le> Suc (tc_len (SetMaxSize tc n))"
  using length_delete_one [of "tc_cache tc"]
  by (auto simp: SetMaxSize_def evictLRU_def tc_len_def Let_def tc_ok_def)

end
