(* ===== verification/Key_Encryption.thy ===== *)
theory Key_Encryption
  imports Auth
begin

text \<open>
  Encryption of stored keys, \<^verbatim>\<open>internal/crypto/aesgcm.go\<close>, with the hexadecimal encoding of \<^verbatim>\<open>encoding/hex\<close>. AES-GCM is a parameter:
  \<open>Seal\<close> and \<open>Open\<close>, of a key and a nonce, with the one law that the code relies on, \<open>gcm_law\<close>. The random bytes of the nonce are an
  argument, \<open>None\<close> if they cannot be read.
\<close>

section \<open>Hexadecimal text\<close>

definition hex_EncodeToString :: "string \<Rightarrow> string" where
  "hex_EncodeToString s = concat (map (\<lambda>c. [hex_digit (code c div 16), hex_digit (code c mod 16)]) s)"

fun hex_DecodeString :: "string \<Rightarrow> string option" where
  "hex_DecodeString [] = Some []"
| "hex_DecodeString [c] = None"
| "hex_DecodeString (a # b # s) =
    (if is_hex a \<and> is_hex b then map_option ((#) (char_of (16 * Go_Net.hex_val a + Go_Net.hex_val b))) (hex_DecodeString s) else None)"

lemma hex_digit_val: "n < 16 \<Longrightarrow> is_hex (hex_digit n) \<and> Go_Net.hex_val (hex_digit n) = n"
  by (auto simp: hex_digit_def is_hex_def Go_Net.hex_val_def is_digit_def code_char_of)

lemma hex_round_trip [simp]: "hex_DecodeString (hex_EncodeToString s) = Some s"
proof (induction s)
  case (Cons c s)
  have "code c div 16 < 16" using code_less [of c] by linarith
  moreover have "16 * (code c div 16) + code c mod 16 = code c" by simp
  ultimately show ?case
    using Cons hex_digit_val [of "code c div 16"] hex_digit_val [of "code c mod 16"]
    by (simp add: hex_EncodeToString_def char_of_code)
qed (simp add: hex_EncodeToString_def)

lemma length_hex [simp]: "length (hex_EncodeToString s) = 2 * length s"
  by (induction s) (simp_all add: hex_EncodeToString_def)

section \<open>Encryption\<close>

datatype crypto_error =
    ErrInvalidKey
  | ErrInvalidCipher
  | ErrDecryptFailed
  | ErrKeyNotSet
  | NonceGeneration
  | HexDecode

type_synonym gcm_seal = "string \<Rightarrow> string \<Rightarrow> string \<Rightarrow> string"
type_synonym gcm_open = "string \<Rightarrow> string \<Rightarrow> string \<Rightarrow> string option"

definition KeyLength :: nat where "KeyLength = 32"
definition NonceSize :: nat where "NonceSize = 12"

definition Encrypt :: "gcm_seal \<Rightarrow> string option \<Rightarrow> string \<Rightarrow> string \<Rightarrow> crypto_error + string" where
  "Encrypt Seal entropy plaintext key =
    (if length key = 0 then Inl ErrKeyNotSet
     else if length key \<noteq> KeyLength then Inl ErrInvalidKey
     else case entropy of
       None \<Rightarrow> Inl NonceGeneration
     | Some nonce \<Rightarrow> Inr (hex_EncodeToString (nonce @ Seal key nonce plaintext)))"

definition Decrypt :: "gcm_open \<Rightarrow> string \<Rightarrow> string \<Rightarrow> crypto_error + string" where
  "Decrypt Open cipherHex key =
    (if length key = 0 then Inl ErrKeyNotSet
     else if length key \<noteq> KeyLength then Inl ErrInvalidKey
     else case hex_DecodeString cipherHex of
       None \<Rightarrow> Inl HexDecode
     | Some ciphertext \<Rightarrow>
         if length ciphertext < NonceSize then Inl ErrInvalidCipher
         else case Open key (take NonceSize ciphertext) (drop NonceSize ciphertext) of
           None \<Rightarrow> Inl ErrDecryptFailed
         | Some plaintext \<Rightarrow> Inr plaintext)"

definition LoadEncryptionKey :: "string \<Rightarrow> crypto_error + string" where
  "LoadEncryptionKey encodedKey =
    (if encodedKey = [] then Inl ErrKeyNotSet
     else case hex_DecodeString encodedKey of
       None \<Rightarrow> Inl HexDecode
     | Some key \<Rightarrow> if length key \<noteq> KeyLength then Inl ErrInvalidKey else Inr key)"

definition gcm_law :: "gcm_seal \<Rightarrow> gcm_open \<Rightarrow> bool" where
  "gcm_law Seal Open \<longleftrightarrow> (\<forall>key nonce plaintext. length key = KeyLength \<longrightarrow> length nonce = NonceSize \<longrightarrow>
     Open key nonce (Seal key nonce plaintext) = Some plaintext)"

lemma Decrypt_Encrypt:
  assumes "gcm_law Seal Open" "Encrypt Seal entropy plaintext key = Inr c" "\<And>nonce. entropy = Some nonce \<Longrightarrow> length nonce = NonceSize"
  shows "Decrypt Open c key = Inr plaintext"
  using assms
  by (auto simp: Encrypt_def Decrypt_def gcm_law_def split: if_splits option.splits)

text \<open>Only a loaded key encrypts: every key that passes \<open>LoadEncryptionKey\<close> is long enough, and no other key encrypts anything.\<close>

lemma Encrypt_total:
  "(\<exists>c. Encrypt Seal (Some nonce) plaintext key = Inr c) \<longleftrightarrow> LoadEncryptionKey (hex_EncodeToString key) = Inr key"
proof -
  have "hex_EncodeToString key = [] \<longleftrightarrow> key = []" by (metis length_0_conv length_hex mult_is_0 zero_neq_numeral)
  then show ?thesis by (auto simp: Encrypt_def LoadEncryptionKey_def KeyLength_def)
qed

text \<open>A stand-in for the cipher that obeys the law, for the examples: the plaintext itself.\<close>

lemma gcm_law_example: "gcm_law (\<lambda>key nonce plaintext. plaintext) (\<lambda>key nonce ciphertext. Some ciphertext)"
  by (simp add: gcm_law_def)

end
