(* ===== verification/Storage.thy ===== *)
theory Storage
  imports Dsl_Compiler
begin

text \<open>
  The DuckDB layer, \<^verbatim>\<open>internal/storage/context.go\<close> and \<^verbatim>\<open>duckdb.go\<close>: schema identities, the statements that name a schema, queries scoped
  to a schema over a pool of connections, and write transactions with their lock, retries and rollback.

  What DuckDB does with a statement is a parameter. The current schema is a property of a connection: \<^verbatim>\<open>SET schema\<close> changes it until the next such
  statement on the same connection. Slow query logging is left out.
\<close>

section \<open>Schema identities\<close>

definition validProjectID :: re where
  "validProjectID = Seqs [Bol, Cls (\<lambda>c. is_alpha c \<or> c = CHR ''_''), Star (Cls (\<lambda>c. is_word_char c \<or> c = CHR ''-'')), Eol]"

datatype project_id_error = ProjectIDTooLong nat | ProjectIDInvalid

definition SanitizeProjectID :: "string \<Rightarrow> project_id_error option" where
  "SanitizeProjectID projectID =
    (if length projectID > 128 then Some (ProjectIDTooLong (length projectID))
     else if \<not> MatchString validProjectID projectID then Some ProjectIDInvalid
     else None)"

definition NewSchemaIdentity :: "string \<Rightarrow> project_id_error + string" where
  "NewSchemaIdentity schema = (case SanitizeProjectID schema of Some e \<Rightarrow> Inl e | None \<Rightarrow> Inr schema)"

definition Quoted :: "string \<Rightarrow> string" where
  "Quoted si = QuoteIdentifier si"

definition create_schema_statement :: "string \<Rightarrow> string" where
  "create_schema_statement si = ''CREATE SCHEMA IF NOT EXISTS '' @ Quoted si"

definition drop_schema_statement :: "string \<Rightarrow> string" where
  "drop_schema_statement si = ''DROP SCHEMA IF EXISTS '' @ Quoted si @ '' CASCADE''"

text \<open>The schemas of the database are a list of names; the driver may report an error.\<close>

definition EnsureProjectSchema :: "string option \<Rightarrow> string list \<Rightarrow> string \<Rightarrow> string option \<times> string list" where
  "EnsureProjectSchema fault schemas si =
    (case fault of
       Some e \<Rightarrow> (Some (''ensureProjectSchema: '' @ e), schemas)
     | None \<Rightarrow> (None, if si \<in> set schemas then schemas else schemas @ [si]))"

definition DropProjectSchema :: "string option \<Rightarrow> string list \<Rightarrow> string \<Rightarrow> string option \<times> string list" where
  "DropProjectSchema fault schemas si =
    (case fault of
       Some e \<Rightarrow> (Some (''dropProjectSchema: '' @ e), schemas)
     | None \<Rightarrow> (None, filter (\<lambda>s. s \<noteq> si) schemas))"

section \<open>Scoped queries\<close>

definition scopeQuery :: "string option \<Rightarrow> string \<Rightarrow> string" where
  "scopeQuery context_schema query =
    (case context_schema of
       None \<Rightarrow> query
     | Some schema \<Rightarrow>
         if schema = [] then query
         else if SanitizeProjectID schema \<noteq> None then query
         else ''SET schema = '' @ QuoteIdentifier schema @ ''; '' @ query)"

definition txScopeQuery :: "string \<Rightarrow> string \<Rightarrow> string" where
  "txScopeQuery schema query = (if schema = [] then query else ''SET schema = '' @ QuoteIdentifier schema @ ''; '' @ query)"

text \<open>
  A pool holds the current schema of each of its connections. \<open>run_on\<close> is a text sent on a connection: the schema it leaves and the schema the
  query itself runs in. The texts are those of \<^verbatim>\<open>QueryContext\<close>, \<^verbatim>\<open>ExecContext\<close> (both scoped) and \<^verbatim>\<open>Query\<close>, \<^verbatim>\<open>Exec\<close> (not scoped).
\<close>

definition schema_set_by :: "string option \<Rightarrow> string option" where
  "schema_set_by context_schema =
    (case context_schema of
       None \<Rightarrow> None
     | Some schema \<Rightarrow> if schema = [] \<or> SanitizeProjectID schema \<noteq> None then None else Some schema)"

definition QueryContext :: "(nat \<Rightarrow> string) \<Rightarrow> nat \<Rightarrow> string option \<Rightarrow> (nat \<Rightarrow> string) \<times> string" where
  "QueryContext pool conn context_schema =
    (case schema_set_by context_schema of
       Some schema \<Rightarrow> (pool(conn := schema), schema)
     | None \<Rightarrow> (pool, pool conn))"

definition Query_unscoped :: "(nat \<Rightarrow> string) \<Rightarrow> nat \<Rightarrow> (nat \<Rightarrow> string) \<times> string" where
  "Query_unscoped pool conn = (pool, pool conn)"

section \<open>Transactions\<close>

text \<open>
  A transaction runs a function of the caller on the data. The faults of an attempt are those of the driver at its begin, its \<^verbatim>\<open>SET schema\<close>, its
  commit and its rollback; a commit that fails and a rollback leave the stored data as they are. \<open>db_locked\<close> is the state of \<^verbatim>\<open>writeMu\<close>: unlocking it
  when it is free is a fatal error of the runtime (\<open>db_fatal\<close>). A handle has a copy of the data that its statements change, and its \<^verbatim>\<open>done\<close> flag.
\<close>

datatype 'd fn_outcome = FnReturns "string option" 'd | FnPanics

record tx_faults =
  begin_fault :: "string option"
  schema_fault :: "string option"
  commit_fault :: "string option"
  rollback_fault :: "string option"

record 'd duckdb =
  db_data :: 'd
  db_locked :: bool
  db_fatal :: bool

record 'd TX =
  tx_data :: 'd
  tx_writeMu :: bool
  tx_schema :: string
  tx_done :: bool

datatype tx_result = TxDone | TxFails string | TxPanics | TxBlocks

definition isSerializationError :: "string \<Rightarrow> bool" where
  "isSerializationError err =
    (let errStr = ToLower err in
     Contains errStr ''serialization'' \<or> Contains errStr ''sqlite_busy'' \<or> Contains errStr ''could not serialize'')"

definition maxRetries :: nat where "maxRetries = 3"

definition Unlock :: "'d duckdb \<Rightarrow> 'd duckdb" where
  "Unlock db = (if db_locked db then db\<lparr>db_locked := False\<rparr> else db\<lparr>db_fatal := True\<rparr>)"

text \<open>\<^verbatim>\<open>BeginTX\<close> once it has the lock, and \<^verbatim>\<open>BeginReadTX\<close>, which takes none.\<close>

definition BeginTX :: "tx_faults \<Rightarrow> string \<Rightarrow> 'd duckdb \<Rightarrow> (string + 'd TX) \<times> 'd duckdb" where
  "BeginTX f schema db =
    (let db1 = db\<lparr>db_locked := True\<rparr> in
     case begin_fault f of
       Some e \<Rightarrow> (Inl (''begin tx: '' @ e), Unlock db1)
     | None \<Rightarrow>
         (case (if schema = [] then None else schema_fault f) of
            Some e \<Rightarrow> (Inl (''set schema in tx: '' @ e), Unlock db1)
          | None \<Rightarrow> (Inr \<lparr>tx_data = db_data db1, tx_writeMu = True, tx_schema = schema, tx_done = False\<rparr>, db1)))"

definition BeginReadTX :: "tx_faults \<Rightarrow> string \<Rightarrow> 'd duckdb \<Rightarrow> string + 'd TX" where
  "BeginReadTX f schema db =
    (case begin_fault f of
       Some e \<Rightarrow> Inl (''begin read tx: '' @ e)
     | None \<Rightarrow>
         (case (if schema = [] then None else schema_fault f) of
            Some e \<Rightarrow> Inl (''set schema in read tx: '' @ e)
          | None \<Rightarrow> Inr \<lparr>tx_data = db_data db, tx_writeMu = False, tx_schema = schema, tx_done = False\<rparr>))"

definition Commit :: "tx_faults \<Rightarrow> 'd TX \<Rightarrow> 'd duckdb \<Rightarrow> string option \<times> 'd TX \<times> 'd duckdb" where
  "Commit f t db =
    (if tx_done t then (None, t, db)
     else
       (let t1 = t\<lparr>tx_done := True\<rparr>;
            db1 = (case commit_fault f of None \<Rightarrow> db\<lparr>db_data := tx_data t\<rparr> | Some _ \<Rightarrow> db);
            db2 = (if tx_writeMu t then Unlock db1 else db1) in
        (case commit_fault f of None \<Rightarrow> None | Some e \<Rightarrow> Some (''txCommit: '' @ e), t1, db2)))"

definition Rollback :: "tx_faults \<Rightarrow> 'd TX \<Rightarrow> 'd duckdb \<Rightarrow> string option \<times> 'd TX \<times> 'd duckdb" where
  "Rollback f t db =
    (if tx_done t then (None, t, db)
     else
       (let t1 = t\<lparr>tx_done := True\<rparr>;
            db1 = (if tx_writeMu t then Unlock db else db) in
        (case rollback_fault f of None \<Rightarrow> None | Some e \<Rightarrow> Some (''txRollback: '' @ e), t1, db1)))"

text \<open>
  The loop of \<^verbatim>\<open>ExecTx\<close> from attempt \<open>i\<close>: the result, the store, and how often the function ran. The lock is free between two attempts, so \<open>others i\<close>
  is what other writers make of the data before attempt \<open>i\<close> has the lock.
\<close>

function exec_tx ::
  "(nat \<Rightarrow> tx_faults) \<Rightarrow> string \<Rightarrow> (nat \<Rightarrow> 'd \<Rightarrow> 'd fn_outcome) \<Rightarrow> (nat \<Rightarrow> 'd \<Rightarrow> 'd) \<Rightarrow> nat \<Rightarrow> 'd duckdb \<Rightarrow> tx_result \<times> 'd duckdb \<times> nat"
  where
  "exec_tx faults schema fn others i db =
    (if i > maxRetries then (TxFails ''exec tx: exhausted all retries'', db, 0)
     else if db_locked db then (TxBlocks, db, 0)
     else
       (case BeginTX (faults i) schema (db\<lparr>db_data := others i (db_data db)\<rparr>) of
          (Inl e, db1) \<Rightarrow> (TxFails (''begin tx: '' @ e), db1, 0)
        | (Inr t, db1) \<Rightarrow>
            (case fn i (tx_data t) of
               FnPanics \<Rightarrow> (TxPanics, db1, 1)
             | FnReturns err d' \<Rightarrow>
                 (let t1 = t\<lparr>tx_data := d'\<rparr>;
                      (err1, t2, db2) = (case err of None \<Rightarrow> Commit (faults i) t1 db1 | Some e \<Rightarrow> (Some e, t1, db1)) in
                  case err1 of
                    None \<Rightarrow> (TxDone, db2, 1)
                  | Some e \<Rightarrow>
                      (let (rerr, t3, db3) = Rollback (faults i) t2 db2 in
                       if \<not> isSerializationError e \<or> i = maxRetries then (TxFails e, db3, 1)
                       else (let (res, db4, n) = exec_tx faults schema fn others (Suc i) db3 in (res, db4, Suc n)))))))"
  by pat_completeness auto

termination
  by (relation "measure (\<lambda>(faults, schema, fn, others, i, db). Suc maxRetries - i)") auto

definition ExecTx ::
  "(nat \<Rightarrow> tx_faults) \<Rightarrow> string \<Rightarrow> (nat \<Rightarrow> 'd \<Rightarrow> 'd fn_outcome) \<Rightarrow> (nat \<Rightarrow> 'd \<Rightarrow> 'd) \<Rightarrow> 'd duckdb \<Rightarrow> tx_result \<times> 'd duckdb \<times> nat" where
  "ExecTx faults schema fn others db = exec_tx faults schema fn others 0 db"

declare exec_tx.simps [simp del]

text \<open>\<^verbatim>\<open>ExecWithRetry\<close> from attempt \<open>i\<close>, for a statement whose attempts have the given errors: the error returned and the number of attempts.\<close>

function exec_retry :: "(nat \<Rightarrow> string option) \<Rightarrow> nat \<Rightarrow> string option \<times> nat" where
  "exec_retry exec i =
    (if i > maxRetries then (Some ''exec with retry: exhausted all retries'', 0)
     else case exec i of
       None \<Rightarrow> (None, 1)
     | Some e \<Rightarrow>
         if \<not> isSerializationError e \<or> i = maxRetries then (Some e, 1)
         else (let (res, n) = exec_retry exec (Suc i) in (res, Suc n)))"
  by pat_completeness auto

termination
  by (relation "measure (\<lambda>(exec, i). Suc maxRetries - i)") auto

declare exec_retry.simps [simp del]

definition ExecWithRetry :: "(nat \<Rightarrow> string option) \<Rightarrow> string option \<times> nat" where
  "ExecWithRetry exec = exec_retry exec 0"

section \<open>Statements that name a schema\<close>

lemma lexes0_schema_lits:
  "lexes0 ''CREATE SCHEMA IF NOT EXISTS '' [TWord ''CREATE'', TWord ''SCHEMA'', TWord ''IF'', TWord ''NOT'', TWord ''EXISTS'']"
  "lexes0 ''DROP SCHEMA IF EXISTS '' [TWord ''DROP'', TWord ''SCHEMA'', TWord ''IF'', TWord ''EXISTS'']"
  "lexes0 ''SET schema = '' [TWord ''SET'', TWord ''schema'', TSym (CHR ''='')]"
  by (simp_all add: lexes0_def lex.simps(2) lit_char_simps)

lemma lexes_CASCADE: "lexes '' CASCADE'' [TWord ''CASCADE'']"
  unfolding lexes_def
proof (intro allI impI)
  fix rest assume "at_sep rest"
  then have "rest = [] \<or> \<not> word_or_dot (hd rest)" using sep_char_facts(1) by (cases rest) auto
  from lex_word [OF _ _ this, of "''CASCADE''"] show "lex ('' CASCADE'' @ rest) = [TWord ''CASCADE''] @ lex rest"
    by (simp add: lit_char_simps)
qed

lemma drop_schema_tokens:
  "lex (drop_schema_statement si) = [TWord ''DROP'', TWord ''SCHEMA'', TWord ''IF'', TWord ''EXISTS'', TIdent si, TWord ''CASCADE'']"
  unfolding drop_schema_statement_def Quoted_def
  by (rule lexes_lex, rule lexes0_cat [OF lexes0_schema_lits(2)], rule lexes_cat [OF lexes_ident lexes_CASCADE]) simp_all

lemma create_schema_tokens:
  "lex (create_schema_statement si) =
    [TWord ''CREATE'', TWord ''SCHEMA'', TWord ''IF'', TWord ''NOT'', TWord ''EXISTS'', TIdent si]"
  unfolding create_schema_statement_def Quoted_def
  by (rule lexes_lex, rule lexes0_cat [OF lexes0_schema_lits(1) lexes_ident]) simp_all

text \<open>A scoped query is read as one statement that sets the schema of the context, and the query; any other context leaves the query as it is.\<close>

theorem scopeQuery_tokens:
  "lex (scopeQuery context_schema query) =
    (case schema_set_by context_schema of
       None \<Rightarrow> lex query
     | Some schema \<Rightarrow> [TWord ''SET'', TWord ''schema'', TSym (CHR ''=''), TIdent schema, TSym (CHR '';'')] @ lex query)"
proof (cases "schema_set_by context_schema")
  case (Some schema)
  then have q: "scopeQuery context_schema query = ''SET schema = '' @ QuoteIdentifier schema @ CHR '';'' # CHR '' '' # query"
    by (auto simp: schema_set_by_def scopeQuery_def split: option.splits if_splits)
  have "lex (QuoteIdentifier schema @ CHR '';'' # CHR '' '' # query) = TIdent schema # lex (CHR '';'' # CHR '' '' # query)"
    using lexes_ident [of schema] by (simp add: lexes_def)
  moreover have "lex (CHR '';'' # CHR '' '' # query) = TSym (CHR '';'') # lex query"
    by (simp add: lex.simps(2) lit_char_simps)
  ultimately show ?thesis using lexes0_schema_lits(3) Some by (simp add: q lexes0_def)
next
  case None
  then show ?thesis by (auto simp: schema_set_by_def scopeQuery_def split: option.splits if_splits)
qed

text \<open>The schema of a scoped query stays with the connection: a later query without a schema in its context, or one of the functions that do not
  scope, runs in the schema of whoever used the connection before.\<close>

theorem schema_stays_with_connection:
  "schema_set_by (Some schema) = Some schema \<Longrightarrow>
    snd (QueryContext (fst (QueryContext pool conn (Some schema))) conn None) = schema \<and>
    snd (Query_unscoped (fst (QueryContext pool conn (Some schema))) conn) = schema"
  by (simp add: QueryContext_def Query_unscoped_def schema_set_by_def)

section \<open>What a transaction does\<close>

text \<open>A store nobody has locked, the data as attempt \<open>k\<close> counted from \<open>i\<close> finds them, and the failures of a begin and of an attempt, read off the faults
  and the result of the function.\<close>

definition unlocked :: "'d \<Rightarrow> 'd duckdb" where
  "unlocked d = \<lparr>db_data = d, db_locked = False, db_fatal = False\<rparr>"

primrec seen :: "(nat \<Rightarrow> 'd \<Rightarrow> 'd) \<Rightarrow> nat \<Rightarrow> 'd \<Rightarrow> nat \<Rightarrow> 'd" where
  "seen others i d 0 = others i d"
| "seen others i d (Suc k) = others (i + Suc k) (seen others i d k)"

definition begin_error :: "tx_faults \<Rightarrow> string \<Rightarrow> string option" where
  "begin_error f schema =
    (if begin_fault f \<noteq> None then Some (''begin tx: '' @ the (begin_fault f))
     else if schema \<noteq> [] \<and> schema_fault f \<noteq> None then Some (''set schema in tx: '' @ the (schema_fault f))
     else None)"

definition attempt_error :: "tx_faults \<Rightarrow> 'd fn_outcome \<Rightarrow> string option" where
  "attempt_error f out =
    (case out of
       FnPanics \<Rightarrow> None
     | FnReturns (Some e) _ \<Rightarrow> Some e
     | FnReturns None _ \<Rightarrow> map_option (\<lambda>e. ''txCommit: '' @ e) (commit_fault f))"

definition retried :: "(nat \<Rightarrow> tx_faults) \<Rightarrow> string \<Rightarrow> (nat \<Rightarrow> 'd \<Rightarrow> 'd fn_outcome) \<Rightarrow> (nat \<Rightarrow> 'd \<Rightarrow> 'd) \<Rightarrow> nat \<Rightarrow> 'd \<Rightarrow> nat \<Rightarrow> bool" where
  "retried faults schema fn others i d k =
    (begin_error (faults (i + k)) schema = None \<and>
     (\<exists>e. attempt_error (faults (i + k)) (fn (i + k) (seen others i d k)) = Some e \<and> isSerializationError e))"

definition tx_outcome ::
  "(nat \<Rightarrow> tx_faults) \<Rightarrow> string \<Rightarrow> (nat \<Rightarrow> 'd \<Rightarrow> 'd fn_outcome) \<Rightarrow> (nat \<Rightarrow> 'd \<Rightarrow> 'd) \<Rightarrow> nat \<Rightarrow> 'd \<Rightarrow> tx_result \<times> 'd duckdb \<times> nat \<Rightarrow> bool" where
  "tx_outcome faults schema fn others i d r =
    (case r of (res, db, runs) \<Rightarrow>
       i + runs \<le> Suc maxRetries \<and> \<not> db_fatal db \<and>
       (case res of
          TxDone \<Rightarrow> \<not> db_locked db \<and>
            (\<exists>k. runs = Suc k \<and> (\<forall>j < k. retried faults schema fn others i d j) \<and> begin_error (faults (i + k)) schema = None \<and>
                 fn (i + k) (seen others i d k) = FnReturns None (db_data db) \<and> commit_fault (faults (i + k)) = None)
        | TxFails e \<Rightarrow> \<not> db_locked db \<and>
            ((\<forall>j < runs. retried faults schema fn others i d j) \<and> db_data db = seen others i d runs \<and>
               (\<exists>b. begin_error (faults (i + runs)) schema = Some b \<and> e = ''begin tx: '' @ b) \<or>
             (\<exists>k. runs = Suc k \<and> (\<forall>j < k. retried faults schema fn others i d j) \<and> db_data db = seen others i d k \<and>
                 attempt_error (faults (i + k)) (fn (i + k) (seen others i d k)) = Some e \<and>
                 (\<not> isSerializationError e \<or> i + k = maxRetries)))
        | TxPanics \<Rightarrow> db_locked db \<and>
            (\<exists>k. runs = Suc k \<and> (\<forall>j < k. retried faults schema fn others i d j) \<and> db_data db = seen others i d k \<and>
                 fn (i + k) (seen others i d k) = FnPanics)
        | TxBlocks \<Rightarrow> False))"

lemma unlocked_fields [simp]: "db_data (unlocked d) = d" "\<not> db_locked (unlocked d)" "\<not> db_fatal (unlocked d)"
  by (simp_all add: unlocked_def)

lemma seen_Suc: "seen others i d (Suc k) = seen others (Suc i) (others i d) k"
  by (induction k) auto

lemma retried_Suc: "retried faults schema fn others i d (Suc k) = retried faults schema fn others (Suc i) (others i d) k"
  unfolding retried_def seen_Suc by simp

lemma all_less_Suc_shift: "(\<forall>j < Suc k. P j) \<longleftrightarrow> P 0 \<and> (\<forall>j < k. P (Suc j))"
  using less_Suc_eq_0_disj by auto

text \<open>One turn of the loop on a store nobody has locked.\<close>

lemma exec_tx_unlocked:
  "i \<le> maxRetries \<Longrightarrow>
   exec_tx faults schema fn others i (unlocked d) =
    (case begin_error (faults i) schema of
       Some e \<Rightarrow> (TxFails (''begin tx: '' @ e), unlocked (others i d), 0)
     | None \<Rightarrow>
         (case fn i (others i d) of
            FnPanics \<Rightarrow> (TxPanics, (unlocked (others i d))\<lparr>db_locked := True\<rparr>, 1)
          | FnReturns err d' \<Rightarrow>
              (case attempt_error (faults i) (fn i (others i d)) of
                 None \<Rightarrow> (TxDone, unlocked d', 1)
               | Some e \<Rightarrow>
                   if \<not> isSerializationError e \<or> i = maxRetries then (TxFails e, unlocked (others i d), 1)
                   else map_prod id (map_prod id Suc) (exec_tx faults schema fn others (Suc i) (unlocked (others i d))))))"
  by (subst exec_tx.simps)
    (auto simp: unlocked_def BeginTX_def Commit_def Rollback_def Unlock_def begin_error_def attempt_error_def Let_def map_prod_def
      split: option.splits fn_outcome.splits prod.splits)

lemma tx_outcome_step:
  assumes "retried faults schema fn others i d 0" "tx_outcome faults schema fn others (Suc i) (others i d) r"
  shows "tx_outcome faults schema fn others i d (map_prod id (map_prod id Suc) r)"
proof -
  obtain res db runs where r: "r = (res, db, runs)" by (metis prod_cases3)
  have shift: "(\<forall>j < Suc k. retried faults schema fn others i d j) \<longleftrightarrow> (\<forall>j < k. retried faults schema fn others (Suc i) (others i d) j)" for k
    unfolding all_less_Suc_shift retried_Suc using assms(1) by simp
  have last: "(\<exists>k. Suc runs = Suc k \<and> P k) \<longleftrightarrow> P runs" for P by auto
  show ?thesis
    using assms(2)
    by (cases res; cases runs)
      (auto simp: r tx_outcome_def last shift seen_Suc assms(1) simp del: seen.simps(2))
qed

lemma attempt_error_panic: "attempt_error f FnPanics = None"
  by (simp add: attempt_error_def)

lemma attempt_error_returns:
  "attempt_error f (FnReturns err d') = None \<longleftrightarrow> err = None \<and> commit_fault f = None"
  by (auto simp: attempt_error_def split: option.splits)

lemma exec_tx_retried:
  assumes "i \<le> maxRetries" "retried faults schema fn others i d 0" "i \<noteq> maxRetries"
  shows "exec_tx faults schema fn others i (unlocked d) =
    map_prod id (map_prod id Suc) (exec_tx faults schema fn others (Suc i) (unlocked (others i d)))"
proof -
  from assms(2) obtain e where e: "begin_error (faults i) schema = None" "attempt_error (faults i) (fn i (others i d)) = Some e"
    "isSerializationError e" by (auto simp: retried_def)
  then obtain err d' where "fn i (others i d) = FnReturns err d'" by (cases "fn i (others i d)") (auto simp: attempt_error_panic)
  with e assms(1,3) show ?thesis by (simp add: exec_tx_unlocked)
qed

lemma exec_tx_last:
  assumes "i \<le> maxRetries" "\<not> (retried faults schema fn others i d 0 \<and> i \<noteq> maxRetries)"
  shows "tx_outcome faults schema fn others i d (exec_tx faults schema fn others i (unlocked d))"
proof (cases "begin_error (faults i) schema")
  case (Some e)
  with assms(1) show ?thesis by (simp add: exec_tx_unlocked tx_outcome_def)
next
  case begun: None
  show ?thesis
  proof (cases "fn i (others i d)")
    case FnPanics
    with begun assms(1) show ?thesis by (simp add: exec_tx_unlocked tx_outcome_def)
  next
    case (FnReturns err d')
    show ?thesis
    proof (cases "attempt_error (faults i) (fn i (others i d))")
      case None
      then have "err = None" "commit_fault (faults i) = None" using FnReturns attempt_error_returns by metis+
      with None begun FnReturns assms(1) show ?thesis by (simp add: exec_tx_unlocked tx_outcome_def)
    next
      case (Some e)
      with begun assms(2) have "\<not> isSerializationError e \<or> i = maxRetries" by (auto simp: retried_def)
      with Some begun FnReturns assms(1) show ?thesis by (simp add: exec_tx_unlocked tx_outcome_def)
    qed
  qed
qed

lemma exec_tx_outcome: "i \<le> maxRetries \<Longrightarrow> tx_outcome faults schema fn others i d (exec_tx faults schema fn others i (unlocked d))"
proof (induction "maxRetries - i" arbitrary: i d rule: less_induct)
  case less
  show ?case
  proof (cases "retried faults schema fn others i d 0 \<and> i \<noteq> maxRetries")
    case True
    then have "tx_outcome faults schema fn others (Suc i) (others i d) (exec_tx faults schema fn others (Suc i) (unlocked (others i d)))"
      using less.prems by (intro less.hyps) auto
    then have "tx_outcome faults schema fn others i d
        (map_prod id (map_prod id Suc) (exec_tx faults schema fn others (Suc i) (unlocked (others i d))))"
      using True by (intro tx_outcome_step) auto
    moreover have "exec_tx faults schema fn others i (unlocked d) =
        map_prod id (map_prod id Suc) (exec_tx faults schema fn others (Suc i) (unlocked (others i d)))"
      using True by (intro exec_tx_retried less.prems) auto
    ultimately show ?thesis by simp
  next
    case False
    then show ?thesis by (rule exec_tx_last [OF less.prems])
  qed
qed

text \<open>A statement is tried at most four times, and its result is that of the last attempt: the error after the loop is never returned.\<close>

lemma exec_retry_last:
  "i \<le> maxRetries \<Longrightarrow> \<exists>n. exec_retry exec i = (exec (i + n), Suc n) \<and> i + n \<le> maxRetries"
proof (induction "maxRetries - i" arbitrary: i rule: less_induct)
  case less
  show ?case
  proof (cases "\<exists>e. exec i = Some e \<and> isSerializationError e \<and> i \<noteq> maxRetries")
    case True
    with less.prems have "Suc i \<le> maxRetries" "maxRetries - Suc i < maxRetries - i" by auto
    then obtain n where "exec_retry exec (Suc i) = (exec (Suc i + n), Suc n)" "Suc i + n \<le> maxRetries"
      using less.hyps by blast
    with True less.prems show ?thesis
      by (intro exI [of _ "Suc n"]) (auto simp: exec_retry.simps [of exec i])
  next
    case False
    with less.prems show ?thesis
      by (intro exI [of _ 0]) (auto simp: exec_retry.simps [of exec i] split: option.splits)
  qed
qed

theorem ExecWithRetry_last: "\<exists>n < 4. ExecWithRetry exec = (exec n, Suc n)"
  using exec_retry_last [of 0 exec] by (auto simp: ExecWithRetry_def maxRetries_def less_Suc_eq_le)

text \<open>C6. Retries of a write transaction end, and the transaction is atomic, whatever other writers do between the attempts. The function runs at
  most four times, and every run but the last ended in a serialization error. When \<open>ExecTx\<close> reports success, the last run returned no error, its
  commit succeeded, and the data are what that run made of the data it found. When it reports an error, that is the error of the last begin, run or
  commit, no further retry was due, and the data are those the last attempt found. In both cases the write lock is free again and was never unlocked
  twice. If the function panics the lock stays held, and every later transaction blocks.\<close>

theorem ExecTx_atomic:
  "case ExecTx faults schema fn others (unlocked d) of (res, db, runs) \<Rightarrow>
     runs \<le> 4 \<and> \<not> db_fatal db \<and>
     (case res of
        TxDone \<Rightarrow> \<not> db_locked db \<and>
          (\<exists>k. runs = Suc k \<and> (\<forall>j < k. retried faults schema fn others 0 d j) \<and> begin_error (faults k) schema = None \<and>
               fn k (seen others 0 d k) = FnReturns None (db_data db) \<and> commit_fault (faults k) = None)
      | TxFails e \<Rightarrow> \<not> db_locked db \<and>
          ((\<forall>j < runs. retried faults schema fn others 0 d j) \<and> db_data db = seen others 0 d runs \<and>
             (\<exists>b. begin_error (faults runs) schema = Some b \<and> e = ''begin tx: '' @ b) \<or>
           (\<exists>k. runs = Suc k \<and> (\<forall>j < k. retried faults schema fn others 0 d j) \<and> db_data db = seen others 0 d k \<and>
               attempt_error (faults k) (fn k (seen others 0 d k)) = Some e \<and> (\<not> isSerializationError e \<or> k = 3)))
      | TxPanics \<Rightarrow> db_locked db \<and>
          (\<exists>k. runs = Suc k \<and> (\<forall>j < k. retried faults schema fn others 0 d j) \<and> db_data db = seen others 0 d k \<and>
               fn k (seen others 0 d k) = FnPanics) \<and>
          (\<forall>faults2 schema2 fn2 others2. ExecTx faults2 schema2 fn2 others2 db = (TxBlocks, db, 0))
      | TxBlocks \<Rightarrow> False)"
proof -
  have blocks: "ExecTx faults2 schema2 fn2 others2 db = (TxBlocks, db, 0)" if "db_locked db"
    for faults2 schema2 fn2 others2 and db :: "'a duckdb"
    using that by (simp add: ExecTx_def exec_tx.simps)
  obtain res db runs where r: "ExecTx faults schema fn others (unlocked d) = (res, db, runs)" by (metis prod_cases3)
  have "tx_outcome faults schema fn others 0 d (res, db, runs)"
    using exec_tx_outcome [of 0 faults schema fn others d] r by (simp add: ExecTx_def)
  with r blocks show ?thesis by (cases res) (auto simp: tx_outcome_def maxRetries_def)
qed

definition no_faults :: tx_faults where
  "no_faults = \<lparr>begin_fault = None, schema_fault = None, commit_fault = None, rollback_fault = None\<rparr>"

definition busy_commit :: tx_faults where
  "busy_commit = no_faults\<lparr>commit_fault := Some ''could not serialize''\<rparr>"

lemma busy_commit_serialization: "isSerializationError (''txCommit: '' @ ''could not serialize'')"
  by code_simp

text \<open>The commit of the first attempt meets another writer, who adds ten before the second attempt has the lock; the second one commits.\<close>

theorem ExecTx_atomic_witness:
  "ExecTx (\<lambda>i. if i = 0 then busy_commit else no_faults) [] (\<lambda>i d. FnReturns None (d + 1)) (\<lambda>i d. if i = 0 then d else d + 10)
      (unlocked (0 :: nat)) = (TxDone, unlocked 11, 2) \<and>
   retried (\<lambda>i. if i = 0 then busy_commit else no_faults) [] (\<lambda>i d. FnReturns None (d + 1)) (\<lambda>i d. if i = 0 then d else d + 10) 0 (0 :: nat) 0"
proof -
  have e: "ExecTx (\<lambda>i. if i = 0 then busy_commit else no_faults) [] (\<lambda>i d. FnReturns None (d + 1)) (\<lambda>i d. if i = 0 then d else d + 10)
      (unlocked (0 :: nat)) = (TxDone, unlocked 11, 2)"
    using busy_commit_serialization
    by (simp add: ExecTx_def exec_tx_unlocked maxRetries_def begin_error_def attempt_error_def busy_commit_def no_faults_def)
  from e ExecTx_atomic [of "\<lambda>i. if i = 0 then busy_commit else no_faults" "[]" "\<lambda>i d. FnReturns None (d + 1)"
      "\<lambda>i d. if i = 0 then d else d + 10" "0 :: nat"]
  show ?thesis by simp
qed

end
