(* ===== verification/Metadata.thy ===== *)
theory Metadata
  imports Tool_Cache Key_Encryption Tool_Compiler Storage
begin

text \<open>
  The metadata repository, \<^verbatim>\<open>internal/repository/metadata.go\<close> and \<^verbatim>\<open>ontology.go\<close>, over the PostgreSQL schema of
  \<^verbatim>\<open>migrations/postgres\<close>.

  A table is the list of its rows. A row of a tool has the names of its columns that are null: such a row is skipped by the lists, whose
  \<^verbatim>\<open>Scan\<close> fails on it. The other tables are written by the repository alone, without nulls where a list would skip a row; a null skill list
  reads as the empty text. Each statement is
  translated by what it says: the rows it selects, inserts, changes or removes, with primary keys, the foreign keys of migration
  9 and their cascades. A statement fails if the driver reports an error (the argument \<open>fault\<close>) or if its relation does not exist. A list
  that breaks off after some rows (\<open>BrokenAfter\<close>) is returned as it is, since \<^verbatim>\<open>rows.Err\<close> is never asked.
  The order of texts in \<^verbatim>\<open>ORDER BY id\<close> is that of the database's collation, the argument \<open>before\<close>. Each operation is given as it runs alone; the
  statement and the change of the cache, which no lock holds together, are also given apart, for what may happen between them.
\<close>

section \<open>Rows\<close>

record NotificationChannel =
  nc_ID :: string
  nc_ProjectID :: string
  nc_Name :: string
  nc_Type :: string
  nc_ConfigJSON :: string

record IngestionTaskRecord =
  it_ID :: string
  it_ProjectID :: string
  it_Name :: string
  it_SourceType :: string
  it_ConfigJSON :: string
  it_Schedule :: string
  it_Status :: string
  it_Progress :: int

record ChatMessage =
  msg_Role :: string
  msg_Content :: string
  msg_ToolCall :: string
  msg_CreatedAt :: nanos

record chat_row = ChatMessage +
  chat_project :: string
  chat_agent :: string

record AgentRecord =
  ag_ID :: string
  ag_ProjectID :: string
  ag_Name :: string
  ag_Provider :: string
  ag_Model :: string
  ag_ApiKey :: string
  ag_SystemPrompt :: string
  ag_SkillIDsJSON :: string
  ag_BaseURL :: string

record SkillRecord =
  sk_ID :: string
  sk_ProjectID :: string
  sk_Name :: string
  sk_Description :: string
  sk_ToolIDsJSON :: string

record APIKeyRecord =
  ak_ID :: string
  ak_ProjectID :: string
  ak_Label :: string
  ak_Key :: string
  ak_CreatedAt :: nanos

record api_key_row = APIKeyRecord +
  ak_role :: string

record ProjectRecord =
  pr_ID :: string
  pr_Name :: string
  pr_CreatedAt :: nanos

record session_row =
  se_ID :: string
  se_ProjectID :: string

text \<open>Tables with a project column that the repository never names, or only to append to.\<close>

record simulation_row =
  sim_ID :: string
  sim_ProjectID :: string

record proposal_row =
  prop_ID :: string
  prop_ProjectID :: string

record audit_row =
  audit_ID :: int
  audit_ProjectID :: string

record tool_row = ToolRecord +
  tool_nulls :: "string list"

record OntologyVersionRecord =
  ov_VersionID :: string
  ov_ProjectID :: string
  ov_ParentVersionID :: string
  ov_DiffJSON :: string
  ov_CoreAlephSnapshot :: string
  ov_Status :: string
  ov_SourceDescription :: string
  ov_Rationale :: string
  ov_Confidence :: real
  ov_CreatedAt :: nanos
  ov_ModifiedAt :: "nanos option"

record database =
  relations :: "string list"
  system_projects :: "ProjectRecord list"
  system_agents :: "AgentRecord list"
  system_skills :: "SkillRecord list"
  system_tasks :: "IngestionTaskRecord list"
  system_api_keys :: "api_key_row list"
  system_notification_channels :: "NotificationChannel list"
  system_chat_history :: "chat_row list"
  system_chat_sessions :: "session_row list"
  ontology_versions :: "OntologyVersionRecord list"
  system_tools :: "tool_row list"
  system_simulations :: "simulation_row list"
  system_proposals :: "proposal_row list"
  audit_log :: "audit_row list"

section \<open>Statements\<close>

datatype db_error =
    DriverError string
  | UndefinedTable string
  | UniqueViolation string
  | ForeignKeyViolation string
  | NegativeLimit
  | NoRows
  | ScanError string
  | BrokenAfter nat

datatype repo_error =
    RepoError string db_error
  | RepoCrypto string crypto_error
  | SchemaIdentityError
  | SchemaDropError string

definition statement :: "db_error option \<Rightarrow> database \<Rightarrow> string \<Rightarrow> db_error option" where
  "statement fault d table =
    (case fault of Some e \<Rightarrow> Some e | None \<Rightarrow> if table \<in> set (relations d) then None else Some (UndefinedTable table))"

text \<open>A query returns rows, a statement of the second kind a changed database.\<close>

definition select_rows :: "db_error option \<Rightarrow> database \<Rightarrow> string \<Rightarrow> 'r list \<Rightarrow> db_error + 'r list" where
  "select_rows fault d table rows = (case statement fault d table of Some e \<Rightarrow> Inl e | None \<Rightarrow> Inr rows)"

text \<open>The rows that a loop over a query reads.\<close>

definition query_rows :: "db_error option \<Rightarrow> database \<Rightarrow> string \<Rightarrow> 'r list \<Rightarrow> db_error + 'r list" where
  "query_rows fault d table rows =
    (case fault of Some (BrokenAfter n) \<Rightarrow> select_rows None d table (take n rows) | _ \<Rightarrow> select_rows fault d table rows)"

lemma query_rows_None [simp]: "query_rows None d table rows = select_rows None d table rows"
  by (simp add: query_rows_def)

definition first_row :: "db_error + 'r list \<Rightarrow> db_error + 'r" where
  "first_row res = (case res of Inl e \<Rightarrow> Inl e | Inr [] \<Rightarrow> Inl NoRows | Inr (r # _) \<Rightarrow> Inr r)"

definition execute_in :: "db_error option \<Rightarrow> database \<Rightarrow> string \<Rightarrow> db_error option \<Rightarrow> database \<Rightarrow> db_error option \<times> database" where
  "execute_in fault d table violation d' =
    (case statement fault d table of
       Some e \<Rightarrow> (Some e, d)
     | None \<Rightarrow> (case violation of Some e \<Rightarrow> (Some e, d) | None \<Rightarrow> (None, d')))"

text \<open>A unique key is violated by a row with the same value, a foreign key by a value that is missing.\<close>

definition unique_in :: "string \<Rightarrow> string list \<Rightarrow> db_error option" where
  "unique_in k ks = (if k \<in> set ks then Some (UniqueViolation k) else None)"

definition refers_to :: "string \<Rightarrow> string list \<Rightarrow> db_error option" where
  "refers_to k ks = (if k \<in> set ks then None else Some (ForeignKeyViolation k))"

definition both :: "db_error option \<Rightarrow> db_error option \<Rightarrow> db_error option" where
  "both a b = (case a of Some e \<Rightarrow> Some e | None \<Rightarrow> b)"

fun insert_before :: "('r \<Rightarrow> 'r \<Rightarrow> bool) \<Rightarrow> 'r \<Rightarrow> 'r list \<Rightarrow> 'r list" where
  "insert_before lt r [] = [r]"
| "insert_before lt r (x # xs) = (if lt x r then x # insert_before lt r xs else r # x # xs)"

definition order_by :: "('r \<Rightarrow> 'r \<Rightarrow> bool) \<Rightarrow> 'r list \<Rightarrow> 'r list" where
  "order_by lt rows = foldr (insert_before lt) rows []"

definition limit_rows :: "int \<Rightarrow> db_error + 'r list \<Rightarrow> db_error + 'r list" where
  "limit_rows n res = (case res of Inl e \<Rightarrow> Inl e | Inr rows \<Rightarrow> if n < 0 then Inl NegativeLimit else Inr (take (nat n) rows))"

definition named :: "string \<Rightarrow> db_error option \<Rightarrow> repo_error option" where
  "named operation e = map_option (RepoError operation) e"

section \<open>The repository\<close>

record MetadataRepository =
  repo_db :: database
  toolCache :: "ToolRecord list ToolCache"
  encryptionKey :: "string option"

definition NewMetadataRepository :: "database \<Rightarrow> MetadataRepository" where
  "NewMetadataRepository d = \<lparr>repo_db = d, toolCache = NewToolCache, encryptionKey = None\<rparr>"

definition SetEncryptionKey :: "MetadataRepository \<Rightarrow> string option \<Rightarrow> MetadataRepository" where
  "SetEncryptionKey r key = r\<lparr>encryptionKey := key\<rparr>"

definition written :: "string \<Rightarrow> MetadataRepository \<Rightarrow> db_error option \<times> database \<Rightarrow> repo_error option \<times> MetadataRepository" where
  "written operation r res = (named operation (fst res), r\<lparr>repo_db := snd res\<rparr>)"

subsection \<open>Notification channels\<close>

definition ListNotificationChannels :: "db_error option \<Rightarrow> MetadataRepository \<Rightarrow> string \<Rightarrow> db_error + NotificationChannel list" where
  "ListNotificationChannels fault r projectID =
    (let d = repo_db r in
     query_rows fault d ''system_notification_channels''
       (filter (\<lambda>c. nc_ProjectID c = projectID) (system_notification_channels d)))"

subsection \<open>Tasks\<close>

definition UpdateTaskProgress ::
  "db_error option \<Rightarrow> MetadataRepository \<Rightarrow> string \<Rightarrow> int \<Rightarrow> string \<Rightarrow> repo_error option \<times> MetadataRepository" where
  "UpdateTaskProgress fault r taskID progress status =
    (let d = repo_db r in
     written ''updateTaskProgress'' r (execute_in fault d ''system_tasks'' None
       (d\<lparr>system_tasks := map (\<lambda>t. if it_ID t = taskID then t\<lparr>it_Progress := progress, it_Status := status\<rparr> else t) (system_tasks d)\<rparr>)))"

definition GetTaskProgress :: "db_error option \<Rightarrow> MetadataRepository \<Rightarrow> string \<Rightarrow> db_error + int" where
  "GetTaskProgress fault r taskID =
    (let d = repo_db r in
     first_row (select_rows fault d ''system_tasks'' (map it_Progress (filter (\<lambda>t. it_ID t = taskID) (system_tasks d)))))"

definition ListTasks :: "db_error option \<Rightarrow> MetadataRepository \<Rightarrow> string \<Rightarrow> db_error + IngestionTaskRecord list" where
  "ListTasks fault r projectID =
    (let d = repo_db r in
     query_rows fault d ''system_tasks'' (filter (\<lambda>t. it_ProjectID t = projectID) (system_tasks d)))"

definition CreateTask ::
  "db_error option \<Rightarrow> MetadataRepository \<Rightarrow> IngestionTaskRecord \<Rightarrow> repo_error option \<times> MetadataRepository" where
  "CreateTask fault r t =
    (let d = repo_db r in
     written ''createTask'' r (execute_in fault d ''system_tasks''
       (both (unique_in (it_ID t) (map it_ID (system_tasks d))) (refers_to (it_ProjectID t) (map pr_ID (system_projects d))))
       (d\<lparr>system_tasks := system_tasks d @ [t]\<rparr>)))"

text \<open>Only four columns are read; the others have their zero values.\<close>

definition GetTaskByID :: "db_error option \<Rightarrow> MetadataRepository \<Rightarrow> string \<Rightarrow> db_error + IngestionTaskRecord" where
  "GetTaskByID fault r taskID =
    (let d = repo_db r in
     first_row (select_rows fault d ''system_tasks''
       (map (\<lambda>t. t\<lparr>it_ProjectID := [], it_Schedule := [], it_Status := [], it_Progress := 0\<rparr>)
         (filter (\<lambda>t. it_ID t = taskID) (system_tasks d)))))"

definition DeleteTask :: "db_error option \<Rightarrow> MetadataRepository \<Rightarrow> string \<Rightarrow> string \<Rightarrow> repo_error option \<times> MetadataRepository" where
  "DeleteTask fault r taskID projectID =
    (let d = repo_db r in
     written ''deleteTask'' r (execute_in fault d ''system_tasks'' None
       (d\<lparr>system_tasks := filter (\<lambda>t. \<not> (it_ProjectID t = projectID \<and> it_ID t = taskID)) (system_tasks d)\<rparr>)))"

subsection \<open>Chat messages\<close>

definition SaveChatMessage ::
  "db_error option \<Rightarrow> nanos \<Rightarrow> MetadataRepository \<Rightarrow> string \<Rightarrow> string \<Rightarrow> string \<Rightarrow> string \<Rightarrow> string
    \<Rightarrow> repo_error option \<times> MetadataRepository" where
  "SaveChatMessage fault now r projectID agentID role content toolCall =
    (let d = repo_db r in
     written ''saveChatMessage'' r (execute_in fault d ''system_chat_history''
       (both (refers_to agentID (map ag_ID (system_agents d))) (refers_to projectID (map pr_ID (system_projects d))))
       (d\<lparr>system_chat_history := system_chat_history d @
           [\<lparr>msg_Role = role, msg_Content = content, msg_ToolCall = toolCall, msg_CreatedAt = now,
             chat_project = projectID, chat_agent = agentID\<rparr>]\<rparr>)))"

definition GetChatMessages :: "db_error option \<Rightarrow> MetadataRepository \<Rightarrow> string \<Rightarrow> string \<Rightarrow> db_error + ChatMessage list" where
  "GetChatMessages fault r projectID agentID =
    (let d = repo_db r in
     limit_rows 20 (query_rows fault d ''system_chat_history''
       (map ChatMessage.truncate (order_by (\<lambda>a b. msg_CreatedAt a < msg_CreatedAt b)
         (filter (\<lambda>m. chat_project m = projectID \<and> chat_agent m = agentID) (system_chat_history d))))))"

definition GetChatHistory :: "db_error option \<Rightarrow> MetadataRepository \<Rightarrow> string \<Rightarrow> string \<Rightarrow> db_error + ChatMessage list" where
  "GetChatHistory fault r projectID agentID = GetChatMessages fault r projectID agentID"

subsection \<open>Agents\<close>

definition ConfirmAgentInProject :: "db_error option \<Rightarrow> MetadataRepository \<Rightarrow> string \<Rightarrow> string \<Rightarrow> db_error + bool" where
  "ConfirmAgentInProject fault r agentID projectID =
    (let d = repo_db r in
     case first_row (select_rows fault d ''system_agents''
       (filter (\<lambda>a. ag_ID a = agentID \<and> ag_ProjectID a = projectID) (system_agents d))) of
       Inl NoRows \<Rightarrow> Inr False
     | Inl e \<Rightarrow> Inl e
     | Inr _ \<Rightarrow> Inr True)"

definition decrypted :: "gcm_open \<Rightarrow> MetadataRepository \<Rightarrow> string \<Rightarrow> crypto_error + string" where
  "decrypted Open r apiKey =
    (case encryptionKey r of
       Some key \<Rightarrow> if apiKey \<noteq> [] then Decrypt Open apiKey key else Inr apiKey
     | None \<Rightarrow> Inr apiKey)"

definition encrypted :: "gcm_seal \<Rightarrow> string option \<Rightarrow> MetadataRepository \<Rightarrow> string \<Rightarrow> crypto_error + string" where
  "encrypted Seal entropy r apiKey =
    (case encryptionKey r of
       Some key \<Rightarrow> if apiKey \<noteq> [] then Encrypt Seal entropy apiKey key else Inr apiKey
     | None \<Rightarrow> Inr apiKey)"

definition GetAgentForChat ::
  "gcm_open \<Rightarrow> db_error option \<Rightarrow> MetadataRepository \<Rightarrow> string \<Rightarrow> repo_error + AgentRecord" where
  "GetAgentForChat Open fault r agentID =
    (let d = repo_db r in
     case first_row (select_rows fault d ''system_agents'' (filter (\<lambda>a. ag_ID a = agentID) (system_agents d))) of
       Inl e \<Rightarrow> Inl (RepoError [] e)
     | Inr a \<Rightarrow>
         (case decrypted Open r (ag_ApiKey a) of
            Inl e \<Rightarrow> Inl (RepoCrypto ''decrypt agent api_key'' e)
          | Inr apiKey \<Rightarrow> Inr (a\<lparr>ag_ProjectID := [], ag_Name := [], ag_ApiKey := apiKey\<rparr>)))"

text \<open>A key that cannot be decrypted is listed as it is stored.\<close>

definition listed_agent :: "gcm_open \<Rightarrow> MetadataRepository \<Rightarrow> AgentRecord \<Rightarrow> AgentRecord" where
  "listed_agent Open r a = (case decrypted Open r (ag_ApiKey a) of Inl _ \<Rightarrow> a | Inr apiKey \<Rightarrow> a\<lparr>ag_ApiKey := apiKey\<rparr>)"

definition ListAgents :: "gcm_open \<Rightarrow> db_error option \<Rightarrow> MetadataRepository \<Rightarrow> string \<Rightarrow> db_error + AgentRecord list" where
  "ListAgents Open fault r projectID =
    (let d = repo_db r in
     query_rows fault d ''system_agents''
       (map (listed_agent Open r) (filter (\<lambda>a. ag_ProjectID a = projectID) (system_agents d))))"

definition ListAgentsCursor ::
  "gcm_open \<Rightarrow> (string \<Rightarrow> string \<Rightarrow> bool) \<Rightarrow> db_error option \<Rightarrow> MetadataRepository \<Rightarrow> string \<Rightarrow> string \<Rightarrow> int \<Rightarrow> db_error + AgentRecord list" where
  "ListAgentsCursor Open before fault r projectID cursor n =
    (let d = repo_db r;
         rows = order_by (\<lambda>a b. before (ag_ID a) (ag_ID b)) (filter (\<lambda>a. ag_ProjectID a = projectID) (system_agents d)) in
     map_sum (\<lambda>e. e) (map (listed_agent Open r))
       (if cursor \<noteq> [] then limit_rows n (query_rows fault d ''system_agents'' (filter (\<lambda>a. before cursor (ag_ID a)) rows))
        else limit_rows n (query_rows fault d ''system_agents'' rows)))"

definition CreateAgent ::
  "gcm_seal \<Rightarrow> string option \<Rightarrow> db_error option \<Rightarrow> MetadataRepository \<Rightarrow> AgentRecord \<Rightarrow> repo_error option \<times> MetadataRepository" where
  "CreateAgent Seal entropy fault r a =
    (case encrypted Seal entropy r (ag_ApiKey a) of
       Inl e \<Rightarrow> (Some (RepoCrypto ''createAgent encrypt api_key'' e), r)
     | Inr apiKey \<Rightarrow>
         (let d = repo_db r in
          written ''createAgent'' r (execute_in fault d ''system_agents''
            (both (unique_in (ag_ID a) (map ag_ID (system_agents d))) (refers_to (ag_ProjectID a) (map pr_ID (system_projects d))))
            (d\<lparr>system_agents := system_agents d @ [a\<lparr>ag_ApiKey := apiKey\<rparr>]\<rparr>))))"

text \<open>Removing agents removes the chat messages that refer to them.\<close>

definition remove_agents :: "(AgentRecord \<Rightarrow> bool) \<Rightarrow> database \<Rightarrow> database" where
  "remove_agents gone d =
    d\<lparr>system_agents := filter (\<lambda>a. \<not> gone a) (system_agents d),
      system_chat_history := filter (\<lambda>m. chat_agent m \<notin> ag_ID ` set (filter gone (system_agents d))) (system_chat_history d)\<rparr>"

definition DeleteAgent :: "db_error option \<Rightarrow> MetadataRepository \<Rightarrow> string \<Rightarrow> string \<Rightarrow> repo_error option \<times> MetadataRepository" where
  "DeleteAgent fault r agentID projectID =
    (let d = repo_db r in
     written ''deleteAgent'' r (execute_in fault d ''system_agents'' None
       (remove_agents (\<lambda>a. ag_ProjectID a = projectID \<and> ag_ID a = agentID) d)))"

definition UpdateAgent ::
  "gcm_seal \<Rightarrow> string option \<Rightarrow> db_error option \<Rightarrow> MetadataRepository \<Rightarrow> AgentRecord \<Rightarrow> repo_error option \<times> MetadataRepository" where
  "UpdateAgent Seal entropy fault r a =
    (case encrypted Seal entropy r (ag_ApiKey a) of
       Inl e \<Rightarrow> (Some (RepoCrypto ''updateAgent encrypt api_key'' e), r)
     | Inr apiKey \<Rightarrow>
         (let d = repo_db r in
          written ''updateAgent'' r (execute_in fault d ''system_agents'' None
            (d\<lparr>system_agents :=
                map (\<lambda>x. if ag_ID x = ag_ID a \<and> ag_ProjectID x = ag_ProjectID a then a\<lparr>ag_ApiKey := apiKey\<rparr> else x) (system_agents d)\<rparr>))))"

subsection \<open>Tools\<close>

definition list_tools_key :: string where "list_tools_key = ''list_tools''"

text \<open>A row is read unless one of its columns is null. The two halves of \<^verbatim>\<open>ListTools\<close> around the query, and the whole.\<close>

definition scan_tools :: "tool_row list \<Rightarrow> ToolRecord list" where
  "scan_tools rows = map ToolRecord.truncate (filter (\<lambda>row. tool_nulls row = []) rows)"

definition query_tools :: "db_error option \<Rightarrow> database \<Rightarrow> db_error + ToolRecord list" where
  "query_tools fault d = map_sum (\<lambda>e. e) scan_tools (query_rows fault d ''system_tools'' (system_tools d))"

definition store_tools :: "nanos \<Rightarrow> MetadataRepository \<Rightarrow> ToolRecord list \<Rightarrow> MetadataRepository" where
  "store_tools now r ts = r\<lparr>toolCache := tc_Set now (toolCache r) list_tools_key ts\<rparr>"

definition meta_ListTools ::
  "db_error option \<Rightarrow> nanos \<Rightarrow> MetadataRepository \<Rightarrow> (db_error + ToolRecord list) \<times> MetadataRepository" where
  "meta_ListTools fault now r =
    (let (v, tc) = tc_Get now (toolCache r) list_tools_key; r1 = r\<lparr>toolCache := tc\<rparr> in
     case v of
       Some ts \<Rightarrow> (Inr ts, r1)
     | None \<Rightarrow>
         (case query_tools fault (repo_db r1) of
            Inl e \<Rightarrow> (Inl e, r1)
          | Inr ts \<Rightarrow> (Inr ts, store_tools now r1 ts)))"

definition ListToolsCursor ::
  "(string \<Rightarrow> string \<Rightarrow> bool) \<Rightarrow> db_error option \<Rightarrow> MetadataRepository \<Rightarrow> string \<Rightarrow> int \<Rightarrow> db_error + ToolRecord list" where
  "ListToolsCursor before fault r cursor n =
    (let d = repo_db r; rows = order_by (\<lambda>a b. before (rec_tool_ID a) (rec_tool_ID b)) (system_tools d) in
     map_sum (\<lambda>e. e) scan_tools
       (if cursor \<noteq> [] then limit_rows n (query_rows fault d ''system_tools'' (filter (\<lambda>t. before cursor (rec_tool_ID t)) rows))
        else limit_rows n (query_rows fault d ''system_tools'' rows)))"

definition GetToolByCategory :: "db_error option \<Rightarrow> MetadataRepository \<Rightarrow> string \<Rightarrow> db_error + ToolRecord list" where
  "GetToolByCategory fault r category =
    (let d = repo_db r in
     map_sum (\<lambda>e. e) scan_tools
       (query_rows fault d ''system_tools'' (filter (\<lambda>t. rec_Category t = category) (system_tools d))))"

text \<open>The statements that write tools, each with its error and the database after it.\<close>

definition tool_row_of :: "ToolRecord \<Rightarrow> tool_row" where
  "tool_row_of t = ToolRecord.extend t \<lparr>tool_nulls = []\<rparr>"

definition update_tool :: "string \<Rightarrow> (tool_row \<Rightarrow> tool_row) \<Rightarrow> database \<Rightarrow> database" where
  "update_tool toolID f d = d\<lparr>system_tools := map (\<lambda>x. if rec_tool_ID x = toolID then f x else x) (system_tools d)\<rparr>"

definition insert_tool :: "db_error option \<Rightarrow> database \<Rightarrow> ToolRecord \<Rightarrow> db_error option \<times> database" where
  "insert_tool fault d t =
    execute_in fault d ''system_tools'' (unique_in (rec_tool_ID t) (map rec_tool_ID (system_tools d)))
      (d\<lparr>system_tools := system_tools d @ [tool_row_of t]\<rparr>)"

definition set_tool :: "db_error option \<Rightarrow> database \<Rightarrow> ToolRecord \<Rightarrow> db_error option \<times> database" where
  "set_tool fault d t = execute_in fault d ''system_tools'' None (update_tool (rec_tool_ID t) (\<lambda>_. tool_row_of t) d)"

definition set_tool_code :: "db_error option \<Rightarrow> database \<Rightarrow> string \<Rightarrow> string \<Rightarrow> db_error option \<times> database" where
  "set_tool_code fault d toolID src =
    execute_in fault d ''system_tools'' None
      (update_tool toolID (\<lambda>x. x\<lparr>rec_Code := src, tool_nulls := removeAll ''code'' (tool_nulls x)\<rparr>) d)"

definition set_tool_health :: "db_error option \<Rightarrow> database \<Rightarrow> string \<Rightarrow> string \<Rightarrow> db_error option \<times> database" where
  "set_tool_health fault d toolID status =
    execute_in fault d ''system_tools'' None (update_tool toolID (\<lambda>x. x\<lparr>rec_HealthStatus := status\<rparr>) d)"

definition remove_tool :: "db_error option \<Rightarrow> database \<Rightarrow> string \<Rightarrow> db_error option \<times> database" where
  "remove_tool fault d toolID =
    execute_in fault d ''system_tools'' None (d\<lparr>system_tools := filter (\<lambda>t. rec_tool_ID t \<noteq> toolID) (system_tools d)\<rparr>)"

text \<open>A write of tools: the cached list is dropped when it succeeds.\<close>

definition drop_list :: "MetadataRepository \<Rightarrow> MetadataRepository" where
  "drop_list r = r\<lparr>toolCache := Invalidate (toolCache r) list_tools_key\<rparr>"

definition write_tools :: "string \<Rightarrow> MetadataRepository \<Rightarrow> db_error option \<times> database \<Rightarrow> repo_error option \<times> MetadataRepository" where
  "write_tools operation r res =
    (let r1 = r\<lparr>repo_db := snd res\<rparr> in
     case fst res of None \<Rightarrow> (None, drop_list r1) | Some e \<Rightarrow> (Some (RepoError operation e), r1))"

definition CreateTool :: "db_error option \<Rightarrow> MetadataRepository \<Rightarrow> ToolRecord \<Rightarrow> repo_error option \<times> MetadataRepository" where
  "CreateTool fault r t = write_tools ''createTool'' r (insert_tool fault (repo_db r) t)"

definition UpdateTool :: "db_error option \<Rightarrow> MetadataRepository \<Rightarrow> ToolRecord \<Rightarrow> repo_error option \<times> MetadataRepository" where
  "UpdateTool fault r t = write_tools ''updateTool'' r (set_tool fault (repo_db r) t)"

definition meta_UpdateToolCode :: "db_error option \<Rightarrow> MetadataRepository \<Rightarrow> string \<Rightarrow> string \<Rightarrow> repo_error option \<times> MetadataRepository" where
  "meta_UpdateToolCode fault r toolID src = write_tools ''updateToolCode'' r (set_tool_code fault (repo_db r) toolID src)"

definition UpdateHealthStatus :: "db_error option \<Rightarrow> MetadataRepository \<Rightarrow> string \<Rightarrow> string \<Rightarrow> repo_error option \<times> MetadataRepository" where
  "UpdateHealthStatus fault r toolID status = write_tools ''updateHealthStatus'' r (set_tool_health fault (repo_db r) toolID status)"

definition meta_GetToolCode :: "db_error option \<Rightarrow> MetadataRepository \<Rightarrow> string \<Rightarrow> db_error + string" where
  "meta_GetToolCode fault r toolID =
    (let d = repo_db r in
     case first_row (select_rows fault d ''system_tools'' (filter (\<lambda>t. rec_tool_ID t = toolID) (system_tools d))) of
       Inl e \<Rightarrow> Inl e
     | Inr row \<Rightarrow> if ''code'' \<in> set (tool_nulls row) then Inl (ScanError ''code'') else Inr (rec_Code row))"

definition DeleteTool :: "db_error option \<Rightarrow> MetadataRepository \<Rightarrow> string \<Rightarrow> repo_error option \<times> MetadataRepository" where
  "DeleteTool fault r toolID = write_tools ''deleteTool'' r (remove_tool fault (repo_db r) toolID)"

subsection \<open>Skills\<close>

definition ListSkills :: "db_error option \<Rightarrow> MetadataRepository \<Rightarrow> string \<Rightarrow> db_error + SkillRecord list" where
  "ListSkills fault r projectID =
    (let d = repo_db r in
     query_rows fault d ''system_skills'' (filter (\<lambda>s. sk_ProjectID s = projectID) (system_skills d)))"

definition ListSkillsCursor ::
  "(string \<Rightarrow> string \<Rightarrow> bool) \<Rightarrow> db_error option \<Rightarrow> MetadataRepository \<Rightarrow> string \<Rightarrow> string \<Rightarrow> int \<Rightarrow> db_error + SkillRecord list" where
  "ListSkillsCursor before fault r projectID cursor n =
    (let d = repo_db r;
         rows = order_by (\<lambda>a b. before (sk_ID a) (sk_ID b)) (filter (\<lambda>s. sk_ProjectID s = projectID) (system_skills d)) in
     if cursor \<noteq> [] then limit_rows n (query_rows fault d ''system_skills'' (filter (\<lambda>s. before cursor (sk_ID s)) rows))
     else limit_rows n (query_rows fault d ''system_skills'' rows))"

definition CreateSkill :: "db_error option \<Rightarrow> MetadataRepository \<Rightarrow> SkillRecord \<Rightarrow> repo_error option \<times> MetadataRepository" where
  "CreateSkill fault r s =
    (let d = repo_db r in
     written ''createSkill'' r (execute_in fault d ''system_skills''
       (both (unique_in (sk_ID s) (map sk_ID (system_skills d))) (refers_to (sk_ProjectID s) (map pr_ID (system_projects d))))
       (d\<lparr>system_skills := system_skills d @ [s]\<rparr>)))"

definition UpdateSkill :: "db_error option \<Rightarrow> MetadataRepository \<Rightarrow> SkillRecord \<Rightarrow> repo_error option \<times> MetadataRepository" where
  "UpdateSkill fault r s =
    (let d = repo_db r in
     written ''updateSkill'' r (execute_in fault d ''system_skills'' None
       (d\<lparr>system_skills := map (\<lambda>x. if sk_ProjectID x = sk_ProjectID s \<and> sk_ID x = sk_ID s then s else x) (system_skills d)\<rparr>)))"

definition GetSkillToolIDs :: "db_error option \<Rightarrow> MetadataRepository \<Rightarrow> string \<Rightarrow> db_error + string" where
  "GetSkillToolIDs fault r skillID =
    (let d = repo_db r in
     first_row (select_rows fault d ''system_skills'' (map sk_ToolIDsJSON (filter (\<lambda>s. sk_ID s = skillID) (system_skills d)))))"

definition DeleteSkill :: "db_error option \<Rightarrow> MetadataRepository \<Rightarrow> string \<Rightarrow> string \<Rightarrow> repo_error option \<times> MetadataRepository" where
  "DeleteSkill fault r skillID projectID =
    (let d = repo_db r in
     written ''deleteSkill'' r (execute_in fault d ''system_skills'' None
       (d\<lparr>system_skills := filter (\<lambda>s. \<not> (sk_ProjectID s = projectID \<and> sk_ID s = skillID)) (system_skills d)\<rparr>)))"

subsection \<open>API keys\<close>

definition ListAPIKeys :: "db_error option \<Rightarrow> MetadataRepository \<Rightarrow> string \<Rightarrow> db_error + APIKeyRecord list" where
  "ListAPIKeys fault r projectID =
    (let d = repo_db r in
     query_rows fault d ''system_api_keys''
       (map APIKeyRecord.truncate (filter (\<lambda>k. ak_ProjectID k = projectID) (system_api_keys d))))"

text \<open>The role is the default of its column.\<close>

definition CreateAPIKey ::
  "db_error option \<Rightarrow> nanos \<Rightarrow> MetadataRepository \<Rightarrow> string \<Rightarrow> string \<Rightarrow> string \<Rightarrow> string \<Rightarrow> repo_error option \<times> MetadataRepository" where
  "CreateAPIKey fault now r keyID projectID label hashedKey =
    (let d = repo_db r in
     written ''createAPIKey'' r (execute_in fault d ''system_api_keys''
       (unique_in keyID (map ak_ID (system_api_keys d)))
       (d\<lparr>system_api_keys := system_api_keys d @
           [\<lparr>ak_ID = keyID, ak_ProjectID = projectID, ak_Label = label, ak_Key = hashedKey, ak_CreatedAt = now, ak_role = ''user''\<rparr>]\<rparr>)))"

definition meta_ValidateAPIKey :: "db_error option \<Rightarrow> MetadataRepository \<Rightarrow> string \<Rightarrow> db_error + string" where
  "meta_ValidateAPIKey fault r hashedKey =
    (let d = repo_db r in
     first_row (select_rows fault d ''system_api_keys'' (map ak_ProjectID (filter (\<lambda>k. ak_Key k = hashedKey) (system_api_keys d)))))"

definition GetAPIKeyByID :: "db_error option \<Rightarrow> MetadataRepository \<Rightarrow> string \<Rightarrow> repo_error + string \<times> string \<times> string" where
  "GetAPIKeyByID fault r keyID =
    (let d = repo_db r in
     map_sum (RepoError ''getAPIKeyByID'') (\<lambda>k. (ak_Key k, ak_ProjectID k, ak_role k))
       (first_row (select_rows fault d ''system_api_keys'' (filter (\<lambda>k. ak_ID k = keyID) (system_api_keys d)))))"

definition DeleteAPIKey :: "db_error option \<Rightarrow> MetadataRepository \<Rightarrow> string \<Rightarrow> string \<Rightarrow> repo_error option \<times> MetadataRepository" where
  "DeleteAPIKey fault r keyID projectID =
    (let d = repo_db r in
     written ''deleteAPIKey'' r (execute_in fault d ''system_api_keys'' None
       (d\<lparr>system_api_keys := filter (\<lambda>k. \<not> (ak_ProjectID k = projectID \<and> ak_ID k = keyID)) (system_api_keys d)\<rparr>)))"

subsection \<open>Projects\<close>

definition CreateProjectRecord ::
  "db_error option \<Rightarrow> nanos \<Rightarrow> MetadataRepository \<Rightarrow> string \<Rightarrow> string \<Rightarrow> repo_error option \<times> MetadataRepository" where
  "CreateProjectRecord fault now r projectID name =
    (let d = repo_db r in
     written ''createProjectRecord'' r (execute_in fault d ''system_projects'' None
       (if projectID \<in> pr_ID ` set (system_projects d) then d
        else d\<lparr>system_projects := system_projects d @ [\<lparr>pr_ID = projectID, pr_Name = name, pr_CreatedAt = now\<rparr>]\<rparr>)))"

definition CountProjects :: "db_error option \<Rightarrow> MetadataRepository \<Rightarrow> repo_error + nat" where
  "CountProjects fault r =
    map_sum (RepoError ''countProjects'') length (select_rows fault (repo_db r) ''system_projects'' (system_projects (repo_db r)))"

definition CountProjectAgents :: "db_error option \<Rightarrow> MetadataRepository \<Rightarrow> string \<Rightarrow> repo_error + nat" where
  "CountProjectAgents fault r projectID =
    map_sum (RepoError ''countProjectAgents'') length
      (select_rows fault (repo_db r) ''system_agents'' (filter (\<lambda>a. ag_ProjectID a = projectID) (system_agents (repo_db r))))"

section \<open>Deletion of a project\<close>

definition safeTables :: "string list" where
  "safeTables =
    [''system_agents'', ''system_skills'', ''system_tasks'', ''system_api_keys'', ''system_notification_channels'',
     ''system_chat_history'', ''system_chat_sessions'', ''ontology_versions'']"

text \<open>\<^verbatim>\<open>DELETE FROM table WHERE project_id = $1\<close>.\<close>

definition delete_project_rows :: "string \<Rightarrow> string \<Rightarrow> database \<Rightarrow> database" where
  "delete_project_rows table projectID d =
    (if table = ''system_agents'' then remove_agents (\<lambda>a. ag_ProjectID a = projectID) d
     else if table = ''system_skills'' then d\<lparr>system_skills := filter (\<lambda>x. sk_ProjectID x \<noteq> projectID) (system_skills d)\<rparr>
     else if table = ''system_tasks'' then d\<lparr>system_tasks := filter (\<lambda>x. it_ProjectID x \<noteq> projectID) (system_tasks d)\<rparr>
     else if table = ''system_api_keys'' then d\<lparr>system_api_keys := filter (\<lambda>x. ak_ProjectID x \<noteq> projectID) (system_api_keys d)\<rparr>
     else if table = ''system_notification_channels''
     then d\<lparr>system_notification_channels := filter (\<lambda>x. nc_ProjectID x \<noteq> projectID) (system_notification_channels d)\<rparr>
     else if table = ''system_chat_history''
     then d\<lparr>system_chat_history := filter (\<lambda>x. chat_project x \<noteq> projectID) (system_chat_history d)\<rparr>
     else if table = ''system_chat_sessions''
     then d\<lparr>system_chat_sessions := filter (\<lambda>x. se_ProjectID x \<noteq> projectID) (system_chat_sessions d)\<rparr>
     else if table = ''ontology_versions''
     then d\<lparr>ontology_versions := filter (\<lambda>x. ov_ProjectID x \<noteq> projectID) (ontology_versions d)\<rparr>
     else d)"

text \<open>The loop over the tables inside the transaction, and the last statement of it. Statement \<open>i\<close> has the fault \<open>faults i\<close>.\<close>

fun cascade_tables :: "(nat \<Rightarrow> db_error option) \<Rightarrow> nat \<Rightarrow> string \<Rightarrow> string list \<Rightarrow> database \<Rightarrow> repo_error + database" where
  "cascade_tables faults i projectID [] d = Inr d"
| "cascade_tables faults i projectID (table # ts) d =
    (case statement (faults i) d table of
       Some e \<Rightarrow> Inl (RepoError (''deleteProjectCascade cleanup '' @ table) e)
     | None \<Rightarrow> cascade_tables faults (Suc i) projectID ts (delete_project_rows table projectID d))"

text \<open>Removing the project removes, by the foreign keys, what is left of it.\<close>

definition remove_project :: "string \<Rightarrow> database \<Rightarrow> database" where
  "remove_project projectID d =
    foldl (\<lambda>d table. delete_project_rows table projectID d)
      (d\<lparr>system_projects := filter (\<lambda>p. pr_ID p \<noteq> projectID) (system_projects d)\<rparr>)
      [''system_agents'', ''system_skills'', ''system_tasks'', ''system_chat_history'', ''system_chat_sessions'']"

record cascade_faults =
  tx_begin :: "db_error option"
  tx_statement :: "nat \<Rightarrow> db_error option"
  tx_commit :: "db_error option"

definition DeleteProjectCascade :: "cascade_faults \<Rightarrow> MetadataRepository \<Rightarrow> string \<Rightarrow> repo_error option \<times> MetadataRepository" where
  "DeleteProjectCascade f r projectID =
    (case tx_begin f of
       Some e \<Rightarrow> (Some (RepoError ''deleteProjectCascade begin tx'' e), r)
     | None \<Rightarrow>
         (case cascade_tables (tx_statement f) 0 projectID safeTables (repo_db r) of
            Inl e \<Rightarrow> (Some e, r)
          | Inr d \<Rightarrow>
              (case statement (tx_statement f (length safeTables)) d ''system_projects'' of
                 Some e \<Rightarrow> (Some (RepoError ''deleteProjectCascade cleanup system_projects'' e), r)
               | None \<Rightarrow>
                   (case tx_commit f of
                      Some e \<Rightarrow> (Some (RepoError ''deleteProjectCascade commit'' e), r)
                    | None \<Rightarrow> (None, r\<lparr>repo_db := remove_project projectID d\<rparr>)))))"

text \<open>The queue of projects whose schema is still to be dropped.\<close>

definition ScheduleSchemaCleanup :: "string list \<Rightarrow> string \<Rightarrow> string list" where
  "ScheduleSchemaCleanup ids projectID = ids @ [projectID]"

definition DrainSchemaCleanupQueue :: "string list \<Rightarrow> string list \<times> string list" where
  "DrainSchemaCleanupQueue ids = (ids, [])"

record project_stores =
  ps_repo :: "MetadataRepository option"
  ps_schemas :: "string list"
  ps_cleanup :: "string list"

definition DeleteProjectCascadeWithDB ::
  "cascade_faults \<Rightarrow> string option \<Rightarrow> project_stores \<Rightarrow> string \<Rightarrow> repo_error option \<times> project_stores" where
  "DeleteProjectCascadeWithDB f drop_fault s projectID =
    (let (err, s1) =
       (case ps_repo s of
          None \<Rightarrow> (None, s)
        | Some r \<Rightarrow> (let (e, r') = DeleteProjectCascade f r projectID in (e, s\<lparr>ps_repo := Some r'\<rparr>))) in
     case err of
       Some e \<Rightarrow> (Some e, s1)
     | None \<Rightarrow>
         (case NewSchemaIdentity projectID of
            Inl _ \<Rightarrow> (Some SchemaIdentityError, s1\<lparr>ps_cleanup := ScheduleSchemaCleanup (ps_cleanup s1) projectID\<rparr>)
          | Inr si \<Rightarrow>
              (let (derr, schemas) = DropProjectSchema drop_fault (ps_schemas s1) si in
               case derr of
                 Some e \<Rightarrow> (Some (SchemaDropError e), s1\<lparr>ps_cleanup := ScheduleSchemaCleanup (ps_cleanup s1) projectID\<rparr>)
               | None \<Rightarrow> (None, s1\<lparr>ps_schemas := schemas\<rparr>))))"

section \<open>Versions of an ontology\<close>

definition ProposeOntologyDiff ::
  "db_error option \<Rightarrow> nanos \<Rightarrow> string \<Rightarrow> database \<Rightarrow> string \<Rightarrow> string \<Rightarrow> string \<Rightarrow> string \<Rightarrow> string \<Rightarrow> string \<Rightarrow> real
    \<Rightarrow> (repo_error + string) \<times> database" where
  "ProposeOntologyDiff fault now versionID d projectID parentVersionID diffJSON snapshot sourceDesc rationale confidence =
    (case execute_in fault d ''ontology_versions'' (unique_in versionID (map ov_VersionID (ontology_versions d)))
       (d\<lparr>ontology_versions := ontology_versions d @
           [\<lparr>ov_VersionID = versionID, ov_ProjectID = projectID, ov_ParentVersionID = parentVersionID, ov_DiffJSON = diffJSON,
             ov_CoreAlephSnapshot = snapshot, ov_Status = ''pending'', ov_SourceDescription = sourceDesc, ov_Rationale = rationale,
             ov_Confidence = confidence, ov_CreatedAt = now, ov_ModifiedAt = None\<rparr>]\<rparr>) of
       (Some e, d') \<Rightarrow> (Inl (RepoError ''proposeOntologyDiff'' e), d')
     | (None, d') \<Rightarrow> (Inr versionID, d'))"

definition update_version :: "string \<Rightarrow> (OntologyVersionRecord \<Rightarrow> OntologyVersionRecord) \<Rightarrow> database \<Rightarrow> database" where
  "update_version versionID f d =
    d\<lparr>ontology_versions := map (\<lambda>v. if ov_VersionID v = versionID then f v else v) (ontology_versions d)\<rparr>"

definition AcceptDiff :: "db_error option \<Rightarrow> nanos \<Rightarrow> database \<Rightarrow> string \<Rightarrow> repo_error option \<times> database" where
  "AcceptDiff fault now d versionID =
    map_prod (named ''acceptDiff'') (\<lambda>x. x) (execute_in fault d ''ontology_versions'' None
      (update_version versionID (\<lambda>v. v\<lparr>ov_Status := ''accepted'', ov_ModifiedAt := Some now\<rparr>) d))"

definition RejectDiff :: "db_error option \<Rightarrow> nanos \<Rightarrow> database \<Rightarrow> string \<Rightarrow> string \<Rightarrow> repo_error option \<times> database" where
  "RejectDiff fault now d versionID reason =
    map_prod (named ''rejectDiff'') (\<lambda>x. x) (execute_in fault d ''ontology_versions'' None
      (update_version versionID (\<lambda>v. v\<lparr>ov_Status := ''rejected'', ov_Rationale := reason, ov_ModifiedAt := Some now\<rparr>) d))"

definition ListVersions :: "db_error option \<Rightarrow> database \<Rightarrow> string \<Rightarrow> int \<Rightarrow> repo_error + OntologyVersionRecord list" where
  "ListVersions fault d projectID n =
    (let n' = (if n \<le> 0 then 20 else n) in
     map_sum (RepoError ''listVersions'') (\<lambda>vs. vs)
       (limit_rows n' (query_rows fault d ''ontology_versions''
         (order_by (\<lambda>a b. ov_CreatedAt b < ov_CreatedAt a) (filter (\<lambda>v. ov_ProjectID v = projectID) (ontology_versions d))))))"

end
