(* ===== verification/Migrate.thy ===== *)
theory Migrate
  imports Metadata
begin

text \<open>
  Schema migrations, \<^verbatim>\<open>internal/migrate/migrate.go\<close>, and the relations that the files of \<^verbatim>\<open>migrations/postgres\<close> create.

  The files of the directory are names in the order of \<^verbatim>\<open>os.ReadDir\<close>; reading one and executing its statements are parameters, as are the faults of
  the driver. A transaction that fails leaves the data as they were. The loop counts in 64 bits; versions stay below its largest value, where it would
  wrap around.
\<close>

section \<open>Versions\<close>

text \<open>\<^verbatim>\<open>fmt.Sscanf\<close> with \<^verbatim>\<open>%d\<close> into a 64-bit integer: blanks, a sign, digits, and the rest is ignored.\<close>

definition Sscanf_d :: "string \<Rightarrow> int option" where
  "Sscanf_d s =
    (let t = dropWhile is_space s;
         neg = (t \<noteq> [] \<and> hd t = CHR ''-'');
         u = (if t \<noteq> [] \<and> (hd t = CHR ''-'' \<or> hd t = CHR ''+'') then tl t else t);
         digits = takeWhile is_digit u;
         v = (if neg then - int (read_nat digits) else int (read_nat digits)) in
     if digits = [] \<or> v < int64_min \<or> v > int64_max then None else Some v)"

definition migration_version :: "string \<Rightarrow> int option" where
  "migration_version name =
    (if HasSuffix name ''.up.sql'' then Sscanf_d (hd (Split name (CHR ''_''))) else None)"

text \<open>The files to apply: the last one of a version counts.\<close>

definition up_files :: "int \<Rightarrow> string list \<Rightarrow> (int, string) gomap" where
  "up_files currentVersion names =
    foldl (\<lambda>m name. case migration_version name of
        Some v \<Rightarrow> if v > currentVersion then m(v \<mapsto> name) else m
      | None \<Rightarrow> m) Map.empty names"

definition highest_version :: "int \<Rightarrow> string list \<Rightarrow> int" where
  "highest_version currentVersion names =
    foldl (\<lambda>h name. case migration_version name of
        Some v \<Rightarrow> if v > currentVersion \<and> v > h then v else h
      | None \<Rightarrow> h) 0 names"

section \<open>The engine\<close>

text \<open>The rows of \<^verbatim>\<open>schema_migrations\<close> are a version and whether it is dirty.\<close>

record 'd migration_db =
  mig_data :: 'd
  mig_versions :: "(int \<times> bool) list"

record 'd migration_env =
  read_file :: "string \<Rightarrow> string option"
  exec_sql :: "string \<Rightarrow> 'd \<Rightarrow> 'd option"
  mig_query_fault :: "string option"
  mig_begin_fault :: "int \<Rightarrow> string option"
  mig_record_fault :: "int \<Rightarrow> string option"
  mig_commit_fault :: "int \<Rightarrow> string option"

datatype migration_error =
    CreateTableFailed string
  | ReadDirectoryFailed string
  | ReadMigrationFailed string
  | BeginFailed int
  | ExecuteFailed int
  | RecordFailed int
  | CommitFailed int

definition apply_migration :: "'d migration_env \<Rightarrow> int \<Rightarrow> string \<Rightarrow> 'd migration_db \<Rightarrow> migration_error + 'd migration_db" where
  "apply_migration env version upFile s =
    (case read_file env upFile of
       None \<Rightarrow> Inl (ReadMigrationFailed upFile)
     | Some content \<Rightarrow>
         if mig_begin_fault env version \<noteq> None then Inl (BeginFailed version)
         else case exec_sql env content (mig_data s) of
           None \<Rightarrow> Inl (ExecuteFailed version)
         | Some d \<Rightarrow>
             if version \<in> fst ` set (mig_versions s) \<or> mig_record_fault env version \<noteq> None then Inl (RecordFailed version)
             else if mig_commit_fault env version \<noteq> None then Inl (CommitFailed version)
             else Inr (s\<lparr>mig_data := d, mig_versions := mig_versions s @ [(version, False)]\<rparr>))"

text \<open>The loop over the version numbers.\<close>

fun apply_versions ::
  "'d migration_env \<Rightarrow> (int, string) gomap \<Rightarrow> int list \<Rightarrow> 'd migration_db \<Rightarrow> migration_error option \<times> 'd migration_db" where
  "apply_versions env upFiles [] s = (None, s)"
| "apply_versions env upFiles (version # vs) s =
    (case upFiles version of
       None \<Rightarrow> apply_versions env upFiles vs s
     | Some upFile \<Rightarrow>
         (case apply_migration env version upFile s of
            Inl e \<Rightarrow> (Some e, s)
          | Inr s' \<Rightarrow> apply_versions env upFiles vs s'))"

text \<open>\<^verbatim>\<open>SELECT COALESCE(MAX(version), 0) ... WHERE NOT dirty\<close>; a query that fails counts as version 0.\<close>

definition recorded_version :: "(int \<times> bool) list \<Rightarrow> int" where
  "recorded_version rows =
    (case map fst (filter (\<lambda>(version, dirty). \<not> dirty) rows) of [] \<Rightarrow> 0 | v # vs \<Rightarrow> foldl max v vs)"

definition current_version :: "'d migration_env \<Rightarrow> 'd migration_db \<Rightarrow> int" where
  "current_version env s = (if mig_query_fault env \<noteq> None then 0 else recorded_version (mig_versions s))"

definition runMigrations ::
  "'d migration_env \<Rightarrow> string option \<Rightarrow> string + string list \<Rightarrow> 'd migration_db \<Rightarrow> migration_error option \<times> 'd migration_db" where
  "runMigrations env create_fault directory s =
    (case create_fault of
       Some e \<Rightarrow> (Some (CreateTableFailed e), s)
     | None \<Rightarrow>
         (let currentVersion = current_version env s in
          case directory of
            Inl e \<Rightarrow> (Some (ReadDirectoryFailed e), s)
          | Inr names \<Rightarrow>
              apply_versions env (up_files currentVersion names) [currentVersion + 1..highest_version currentVersion names] s))"

text \<open>Errors of either database are logged only.\<close>

definition RunAllMigrations ::
  "('s \<Rightarrow> migration_error option \<times> 's) \<Rightarrow> ('t \<Rightarrow> migration_error option \<times> 't) \<Rightarrow> 's \<Rightarrow> 't \<Rightarrow> migration_error option \<times> 's \<times> 't" where
  "RunAllMigrations duckdb postgres s t = (None, snd (duckdb s), snd (postgres t))"

section \<open>Facts\<close>

definition wanted :: "int \<Rightarrow> string list \<Rightarrow> int list" where
  "wanted currentVersion names =
    filter (\<lambda>v. up_files currentVersion names v \<noteq> None) [currentVersion + 1..highest_version currentVersion names]"

text \<open>Executing files one after the other, without transactions or records.\<close>

fun run_files :: "'d migration_env \<Rightarrow> string list \<Rightarrow> 'd \<Rightarrow> 'd option" where
  "run_files env [] d = Some d"
| "run_files env (f # fs) d =
    (case read_file env f of
       None \<Rightarrow> None
     | Some content \<Rightarrow> (case exec_sql env content d of None \<Rightarrow> None | Some d' \<Rightarrow> run_files env fs d'))"

lemma apply_migration_Inr:
  assumes "apply_migration env v f s = Inr t"
  shows "mig_versions t = mig_versions s @ [(v, False)]" "run_files env (f # fs) (mig_data s) = run_files env fs (mig_data t)"
  using assms by (auto simp: apply_migration_def split: option.splits if_splits)

lemma apply_versions_result:
  "apply_versions env upFiles vs s = (err, s') \<Longrightarrow>
    \<exists>n. mig_versions s' = mig_versions s @ map (\<lambda>v. (v, False)) (take n (filter (\<lambda>v. upFiles v \<noteq> None) vs)) \<and>
      run_files env (map (\<lambda>v. the (upFiles v)) (take n (filter (\<lambda>v. upFiles v \<noteq> None) vs))) (mig_data s) = Some (mig_data s') \<and>
      (err = None \<longrightarrow> length (filter (\<lambda>v. upFiles v \<noteq> None) vs) \<le> n)"
proof (induction vs arbitrary: s)
  case (Cons v vs)
  show ?case
  proof (cases "upFiles v")
    case None
    with Cons show ?thesis by simp
  next
    case (Some f)
    show ?thesis
    proof (cases "apply_migration env v f s")
      case (Inl e)
      with Some Cons.prems show ?thesis by (intro exI [of _ 0]) auto
    next
      case (Inr t)
      from Some Inr Cons.prems have "apply_versions env upFiles vs t = (err, s')" by simp
      from Cons.IH [OF this] obtain n where
        "mig_versions s' = mig_versions t @ map (\<lambda>v. (v, False)) (take n (filter (\<lambda>v. upFiles v \<noteq> None) vs))"
        "run_files env (map (\<lambda>v. the (upFiles v)) (take n (filter (\<lambda>v. upFiles v \<noteq> None) vs))) (mig_data t) = Some (mig_data s')"
        "err = None \<longrightarrow> length (filter (\<lambda>v. upFiles v \<noteq> None) vs) \<le> n" by blast
      with Some apply_migration_Inr [OF Inr] show ?thesis by (intro exI [of _ "Suc n"]) (simp del: run_files.simps(2))
    qed
  qed
qed simp

lemma apply_versions_none: "(\<And>v. v \<in> set vs \<Longrightarrow> upFiles v = None) \<Longrightarrow> apply_versions env upFiles vs s = (None, s)"
  by (induction vs) simp_all

lemma foldl_max_ge: "h \<le> foldl max h vs \<and> (\<forall>v \<in> set vs. v \<le> foldl max h vs)" for h :: int
proof (induction vs arbitrary: h)
  case (Cons v vs)
  from Cons [of "max h v"] show ?case by auto
qed simp

lemma up_files_eq:
  "up_files c names v \<noteq> None \<longleftrightarrow> v > c \<and> v \<in> (\<lambda>name. the (migration_version name)) ` {name \<in> set names. migration_version name \<noteq> None}"
proof -
  have "foldl (\<lambda>m name. case migration_version name of Some v \<Rightarrow> if v > c then m(v \<mapsto> name) else m | None \<Rightarrow> m) m names v \<noteq> None \<longleftrightarrow>
      m v \<noteq> None \<or> v > c \<and> (\<exists>name \<in> set names. migration_version name = Some v)" for m
    by (induction names arbitrary: m) (auto split: option.splits)
  from this [of Map.empty] show ?thesis unfolding up_files_def by force
qed

lemma highest_version_ge:
  "migration_version name = Some v \<Longrightarrow> name \<in> set names \<Longrightarrow> v > c \<Longrightarrow> v \<le> highest_version c names"
proof -
  define f where "f = (\<lambda>h name. case migration_version name of Some v \<Rightarrow> if v > c \<and> v > h then v else h | None \<Rightarrow> h)"
  have mono: "h \<le> foldl f h ns" for h ns
  proof (induction ns arbitrary: h)
    case (Cons n ns)
    have "h \<le> f h n" by (auto simp: f_def split: option.splits)
    with Cons [of "f h n"] show ?case by simp
  qed simp
  have "v \<le> foldl f h ns" if "migration_version name = Some v" "name \<in> set ns" "v > c" for h ns
    using that(2)
  proof (induction ns arbitrary: h)
    case (Cons n ns)
    show ?case
    proof (cases "n = name")
      case True
      have "v \<le> f h n" using that True by (auto simp: f_def)
      with mono [of "f h n" ns] show ?thesis by simp
    qed (use Cons in simp)
  qed simp
  then show "migration_version name = Some v \<Longrightarrow> name \<in> set names \<Longrightarrow> v > c \<Longrightarrow> v \<le> highest_version c names"
    unfolding highest_version_def f_def by blast
qed

lemma set_wanted:
  "set (wanted c names) = {v. v > c \<and> (\<exists>name \<in> set names. migration_version name = Some v)}"
proof -
  have "v \<in> set (wanted c names) \<longleftrightarrow> v > c \<and> (\<exists>name \<in> set names. migration_version name = Some v)" for v
    using up_files_eq [of c names v] highest_version_ge [of _ v names c] by (force simp: wanted_def)
  then show ?thesis by blast
qed

lemma up_files_file:
  assumes "up_files c names v = Some f"
  shows "f \<in> set names \<and> migration_version f = Some v"
proof -
  have "foldl (\<lambda>m name. case migration_version name of Some v \<Rightarrow> if v > c then m(v \<mapsto> name) else m | None \<Rightarrow> m) m ns v = Some f \<Longrightarrow>
      m v = Some f \<or> f \<in> set ns \<and> migration_version f = Some v" for m ns
  proof (induction ns arbitrary: m)
    case (Cons n ns)
    from Cons.IH [OF Cons.prems [unfolded foldl_Cons]] show ?case by (auto split: option.splits if_splits)
  qed simp
  from this [of Map.empty names] assms show ?thesis by (simp add: up_files_def)
qed

lemma recorded_version_snoc:
  "recorded_version (rows @ map (\<lambda>v. (v, False)) (v # vs)) \<ge> v'" if "v' \<in> set (v # vs)"
proof -
  define L where "L = map fst (filter (\<lambda>(version, dirty). \<not> dirty) (rows @ map (\<lambda>v. (v, False)) (v # vs)))"
  have L: "L = map fst (filter (\<lambda>(version, dirty). \<not> dirty) rows) @ v # vs" by (simp add: L_def comp_def)
  then have "v' \<in> set L" using that by auto
  then obtain x xs where x: "L = x # xs" "v' \<in> set (x # xs)" by (cases L) auto
  from x(2) foldl_max_ge [of x xs] have "v' \<le> foldl max x xs" by auto
  with x(1) show ?thesis unfolding recorded_version_def L_def [symmetric] by simp
qed

lemma recorded_version_mono:
  "vs = [] \<or> recorded_version rows < hd vs \<Longrightarrow> recorded_version rows \<le> recorded_version (rows @ map (\<lambda>v. (v, False)) vs)"
  using recorded_version_snoc [of "hd vs" "hd vs" "tl vs" rows] by (cases vs) auto

lemma runMigrations_idempotent:
  assumes "\<And>name v. name \<in> set names \<Longrightarrow> migration_version name = Some v \<Longrightarrow> v \<le> current_version env s"
  shows "runMigrations env None (Inr names) s = (None, s)"
proof -
  have "up_files (current_version env s) names v = None" for v
    using up_files_eq [of "current_version env s" names v] assms by fastforce
  then show ?thesis by (simp add: runMigrations_def Let_def apply_versions_none)
qed

text \<open>C33. Migrations are applied in increasing order of their versions, up to the first that fails: with \<open>vs\<close> the first few of the versions above
  the current one that have a file, the versions recorded afterwards are those before followed by \<open>vs\<close>, and the data are what the files of
  \<open>vs\<close> make of them, one after the other. So nothing of a migration that fails is left, and no version is recorded whose statements were not
  executed. If no error is reported \<open>vs\<close> are all of them; and if the current version could be read, running again changes nothing.\<close>

theorem runMigrations_in_order:
  assumes "runMigrations env None (Inr names) s = (err, s')"
  shows "let c = current_version env s in
    \<exists>vs fs. (\<exists>n. vs = take n (wanted c names)) \<and> sorted_wrt (<) vs \<and>
      mig_versions s' = mig_versions s @ map (\<lambda>v. (v, False)) vs \<and> run_files env fs (mig_data s) = Some (mig_data s') \<and>
      list_all2 (\<lambda>v f. v > c \<and> f \<in> set names \<and> migration_version f = Some v) vs fs \<and>
      (err = None \<longrightarrow>
        (\<forall>name \<in> set names. \<forall>v. migration_version name = Some v \<longrightarrow> v > c \<longrightarrow> v \<in> set vs) \<and>
        (\<forall>env2. mig_query_fault env = None \<longrightarrow> mig_query_fault env2 = None \<longrightarrow> runMigrations env2 None (Inr names) s' = (None, s')))"
proof -
  define c where "c = current_version env s"
  obtain n where n: "mig_versions s' = mig_versions s @ map (\<lambda>v. (v, False)) (take n (wanted c names))"
      "run_files env (map (\<lambda>v. the (up_files c names v)) (take n (wanted c names))) (mig_data s) = Some (mig_data s')"
      "err = None \<longrightarrow> length (wanted c names) \<le> n"
    using apply_versions_result [of env "up_files c names" "[c + 1..highest_version c names]" s err s'] assms
    by (auto simp: runMigrations_def Let_def wanted_def c_def)
  define vs where "vs = take n (wanted c names)"
  have "sorted_wrt (<) [c + 1..highest_version c names]" by simp
  then have "sorted_wrt (<) (wanted c names)" unfolding wanted_def by (rule sorted_wrt_filter)
  then have sorted: "sorted_wrt (<) vs" by (simp add: vs_def sorted_wrt_take)
  have vs: "v > c" "up_files c names v \<noteq> None" if "v \<in> set vs" for v
    using in_set_takeD [OF that [unfolded vs_def]] set_wanted [of c names] by (auto simp: wanted_def)
  have files: "list_all2 (\<lambda>v f. v > c \<and> f \<in> set names \<and> migration_version f = Some v) vs (map (\<lambda>v. the (up_files c names v)) vs)"
    using vs up_files_file [of c names] by (auto simp: list_all2_map2 intro!: list.rel_refl_strong)
  have all: "vs = wanted c names" if "err = None" using n(3) that by (simp add: vs_def)
  have recorded: "v \<in> set vs" if "err = None" "name \<in> set names" "migration_version name = Some v" "v > c" for name v
    using all [OF that(1)] set_wanted [of c names] that(2-4) by auto
  have again: "runMigrations env2 None (Inr names) s' = (None, s')"
    if e: "err = None" "mig_query_fault env = None" "mig_query_fault env2 = None" for env2
  proof (rule runMigrations_idempotent)
    fix name v assume nv: "name \<in> set names" "migration_version name = Some v"
    have c: "c = recorded_version (mig_versions s)" using e(2) by (simp add: c_def current_version_def)
    have "v \<le> recorded_version (mig_versions s')"
    proof (cases "v > c")
      case True
      with recorded [OF e(1) nv] show ?thesis
        using recorded_version_snoc [of v "hd vs" "tl vs" "mig_versions s"] n(1) by (cases vs) (auto simp: vs_def)
    next
      case False
      have "vs = [] \<or> c < hd vs" using vs(1) by (cases vs) auto
      from recorded_version_mono [OF this [unfolded c]] False c n(1) show ?thesis by (simp add: vs_def)
    qed
    then show "v \<le> current_version env2 s'" using e(3) by (simp add: current_version_def)
  qed
  show ?thesis
    unfolding Let_def c_def [symmetric]
    by (intro exI [of _ vs] exI [of _ "map (\<lambda>v. the (up_files c names v)) vs"] conjI impI ballI allI exI [of _ n])
      (use n(1,2) sorted files recorded again in \<open>auto simp: vs_def\<close>)
qed

definition sample_migration_env :: "string list migration_env" where
  "sample_migration_env = \<lparr>read_file = (\<lambda>name. Some name), exec_sql = (\<lambda>content before. Some (before @ [content])),
     mig_query_fault = None, mig_begin_fault = (\<lambda>_. None), mig_record_fault = (\<lambda>_. None), mig_commit_fault = (\<lambda>_. None)\<rparr>"

definition sample_names :: "string list" where
  "sample_names = [''000001_init.down.sql'', ''000001_init.up.sql'', ''000003_audit_log.up.sql'']"

definition sample_migrated :: "string list migration_db" where
  "sample_migrated = \<lparr>mig_data = [''000001_init.up.sql'', ''000003_audit_log.up.sql''], mig_versions = [(1, False), (3, False)]\<rparr>"

lemma sample_run:
  "runMigrations sample_migration_env None (Inr sample_names) \<lparr>mig_data = [], mig_versions = []\<rparr> = (None, sample_migrated)"
  by code_simp

theorem runMigrations_in_order_witness:
  "runMigrations sample_migration_env None (Inr sample_names) sample_migrated = (None, sample_migrated)"
proof -
  have "mig_query_fault sample_migration_env = None" by code_simp
  with runMigrations_in_order [OF sample_run] show ?thesis unfolding Let_def by blast
qed

section \<open>The relations of the schema\<close>

text \<open>The tables that the files of \<^verbatim>\<open>migrations/postgres\<close> create, in their order.\<close>

definition postgres_relations :: "string list" where
  "postgres_relations =
    [''system_tasks'', ''system_simulations'', ''system_proposals'', ''system_chat_history'', ''system_agents'', ''system_skills'',
     ''system_tools'', ''system_api_keys'', ''system_notification_channels'', ''audit_log'', ''system_projects'',
     ''data_retention_policy'', ''system_chat_sessions'', ''schema_migrations'']"

lemma cascade_tables_missing:
  "table \<in> set ts \<Longrightarrow> table \<notin> set (relations d) \<Longrightarrow> \<exists>e. cascade_tables faults i projectID ts d = Inl e"
proof (induction ts arbitrary: i d)
  case (Cons t ts)
  have rel: "relations (delete_project_rows t projectID d) = relations d"
    by (simp add: delete_project_rows_def remove_agents_def)
  show ?case
  proof (cases "statement (faults i) d t")
    case None
    then have "t \<in> set (relations d)" by (auto simp: statement_def split: option.splits if_splits)
    with Cons.prems have "table \<in> set ts" by auto
    with Cons.IH [of "delete_project_rows t projectID d" "Suc i"] Cons.prems rel None show ?thesis by simp
  qed simp
qed simp

text \<open>C34. No migration of PostgreSQL creates the table \<^verbatim>\<open>ontology_versions\<close>, which the deletion of a project clears: on a database set up by the
  migrations no project can be deleted. Every deletion ends with an error and leaves the metadata, the schemas and the cleanup queue as they
  were.\<close>

theorem project_deletion_fails:
  assumes "relations (repo_db r) = postgres_relations" "ps_repo s = Some r"
  shows "\<exists>e. DeleteProjectCascadeWithDB f drop_fault s projectID = (Some e, s)"
proof -
  have "''ontology_versions'' \<notin> set (relations (repo_db r))" "''ontology_versions'' \<in> set safeTables"
    by (simp_all add: assms(1) postgres_relations_def safeTables_def)
  then obtain e where "cascade_tables (tx_statement f) 0 projectID safeTables (repo_db r) = Inl e"
    using cascade_tables_missing by blast
  then have "\<exists>e. DeleteProjectCascade f r projectID = (Some e, r)"
    by (cases "tx_begin f") (simp_all add: DeleteProjectCascade_def)
  then obtain e' where "DeleteProjectCascade f r projectID = (Some e', r)" by blast
  moreover have "s\<lparr>ps_repo := Some r\<rparr> = s" using assms(2) by (metis project_stores.surjective project_stores.update_convs(1))
  ultimately show ?thesis using assms(2) by (simp add: DeleteProjectCascadeWithDB_def)
qed

definition empty_database :: "string list \<Rightarrow> database" where
  "empty_database rels = \<lparr>relations = rels, system_projects = [], system_agents = [], system_skills = [], system_tasks = [],
     system_api_keys = [], system_notification_channels = [], system_chat_history = [], system_chat_sessions = [],
     ontology_versions = [], system_tools = [], system_simulations = [], system_proposals = [], audit_log = []\<rparr>"

definition sample_stores :: project_stores where
  "sample_stores = \<lparr>ps_repo = Some (NewMetadataRepository (empty_database postgres_relations)), ps_schemas = [''p''], ps_cleanup = []\<rparr>"

theorem project_deletion_fails_witness:
  "\<exists>e. DeleteProjectCascadeWithDB \<lparr>tx_begin = None, tx_statement = (\<lambda>_. None), tx_commit = None\<rparr> None sample_stores ''p'' = (Some e, sample_stores)"
  by (rule project_deletion_fails [where r = "NewMetadataRepository (empty_database postgres_relations)"])
    (simp_all add: sample_stores_def NewMetadataRepository_def empty_database_def)

end
