(* ===== verification/Metadata_Facts.thy ===== *)
theory Metadata_Facts
  imports Migrate
begin

text \<open>
  What the metadata repository guarantees: what its cached list of tools may hold while calls interleave, that keys come back decrypted, that pages
  cover the rows, what a deleted project leaves behind; and what chat histories are cut to.
\<close>

section \<open>The cached list of tools\<close>









lemma delete_project_rows_same [simp]:
  "system_tools (delete_project_rows table projectID d) = system_tools d"
  "relations (delete_project_rows table projectID d) = relations d"
  by (simp_all add: delete_project_rows_def remove_agents_def)


lemma remove_project_same [simp]:
  "system_tools (remove_project projectID d) = system_tools d" "relations (remove_project projectID d) = relations d"
  by (simp_all add: remove_project_def)






lemma query_rows_subset: "query_rows fault d table rows = Inr xs \<Longrightarrow> set xs \<subseteq> set rows"
  by (auto simp: query_rows_def select_rows_def dest: in_set_takeD split: option.splits db_error.splits)

























definition table_tool :: "string \<Rightarrow> ToolRecord" where
  "table_tool toolID = \<lparr>rec_tool_ID = toolID, rec_Name = ''t'', rec_Description = [], rec_Code = ''x'', rec_Category = ''c'', rec_Version = ''1'',
     rec_HealthStatus = ''ok'', rec_SourceType = ''user''\<rparr>"

definition sample_repo :: MetadataRepository where
  "sample_repo = NewMetadataRepository (empty_database postgres_relations)"

definition sample_listed :: MetadataRepository where
  "sample_listed = snd (CreateTool None (snd (meta_ListTools None 0 sample_repo)) (table_tool ''a''))"


text \<open>Between the query and the store of one call another call may run: then the list without its tool is stored after the tool was created, and
  served until it expires.\<close>

theorem ListTools_race:
  "case query_tools None (repo_db sample_repo) of
     Inr ts \<Rightarrow> fst (meta_ListTools None (4 * minute) (store_tools 0 (snd (CreateTool None sample_repo (table_tool ''a''))) ts)) = Inr []
   | Inl _ \<Rightarrow> False"
  by code_simp

text \<open>A list that broke off is stored and served as if it were the table.\<close>

theorem ListTools_broken:
  "fst (meta_ListTools None 1 (snd (meta_ListTools (Some (BrokenAfter 0)) 0 sample_listed))) = Inr []"
  by code_simp

section \<open>Keys of agents\<close>

lemma decrypted_encrypted:
  assumes "gcm_law Seal Open" "length nonce = NonceSize" "encrypted Seal (Some nonce) r apiKey = Inr c" "encryptionKey r' = encryptionKey r"
  shows "decrypted Open r' c = Inr apiKey"
proof (cases "encryptionKey r")
  case None
  with assms show ?thesis by (simp add: encrypted_def decrypted_def)
next
  case (Some key)
  show ?thesis
  proof (cases "apiKey = []")
    case False
    with Some assms(3) have e: "Encrypt Seal (Some nonce) apiKey key = Inr c" by (simp add: encrypted_def)
    then have "c \<noteq> []" using assms(2) by (auto simp: Encrypt_def NonceSize_def hex_EncodeToString_def split: if_splits)
    moreover have "Decrypt Open c key = Inr apiKey" using Decrypt_Encrypt [OF assms(1) e] assms(2) by simp
    ultimately show ?thesis using Some assms(4) by (simp add: decrypted_def)
  qed (use Some assms in \<open>simp add: encrypted_def decrypted_def\<close>)
qed

lemma written_None:
  assumes "written operation r (execute_in fault (repo_db r) table violation d') = (None, r')"
  shows "r' = r\<lparr>repo_db := d'\<rparr>" "violation = None" "table \<in> set (relations (repo_db r))"
  using assms by (auto simp: written_def execute_in_def named_def statement_def split: option.splits if_splits)

text \<open>C30. The key of an agent that was created is returned for a chat as it was given, whether the repository encrypts keys or not, and with it all
  that the chat needs of the agent.\<close>

theorem agent_key_round_trip:
  assumes "gcm_law Seal Open" "length nonce = NonceSize" "CreateAgent Seal (Some nonce) fault r a = (None, r')"
  shows "GetAgentForChat Open None r' (ag_ID a) = Inr (a\<lparr>ag_ProjectID := [], ag_Name := []\<rparr>)"
proof -
  obtain c where c: "encrypted Seal (Some nonce) r (ag_ApiKey a) = Inr c"
    using assms(3) by (cases "encrypted Seal (Some nonce) r (ag_ApiKey a)") (auto simp: CreateAgent_def)
  define d' where "d' = (repo_db r)\<lparr>system_agents := system_agents (repo_db r) @ [a\<lparr>ag_ApiKey := c\<rparr>]\<rparr>"
  have w: "written ''createAgent'' r (execute_in fault (repo_db r) ''system_agents''
      (both (unique_in (ag_ID a) (map ag_ID (system_agents (repo_db r)))) (refers_to (ag_ProjectID a) (map pr_ID (system_projects (repo_db r))))) d') =
      (None, r')"
    using assms(3) c by (simp add: CreateAgent_def d'_def Let_def)
  have r': "r' = r\<lparr>repo_db := d'\<rparr>" using written_None(1) [OF w] .
  have new: "ag_ID a \<notin> set (map ag_ID (system_agents (repo_db r)))"
    using written_None(2) [OF w] by (auto simp: both_def unique_in_def split: option.splits if_splits)
  have table: "''system_agents'' \<in> set (relations (repo_db r))" using written_None(3) [OF w] .
  have rel: "relations (repo_db r') = relations (repo_db r)" by (simp add: r' d'_def)
  have none: "filter (\<lambda>x. ag_ID x = ag_ID a) (system_agents (repo_db r)) = []" using new unfolding filter_empty_conv by (metis image_eqI list.set_map)
  have "filter (\<lambda>x. ag_ID x = ag_ID a) (system_agents (repo_db r')) = [a\<lparr>ag_ApiKey := c\<rparr>]" by (simp add: r' d'_def none)
  moreover have "statement None (repo_db r') ''system_agents'' = None" using table rel by (simp only: statement_def option.case if_True)
  ultimately have "first_row (select_rows None (repo_db r') ''system_agents'' (filter (\<lambda>x. ag_ID x = ag_ID a) (system_agents (repo_db r')))) =
      Inr (a\<lparr>ag_ApiKey := c\<rparr>)"
    by (simp add: first_row_def select_rows_def)
  moreover have "decrypted Open r' c = Inr (ag_ApiKey a)"
    using decrypted_encrypted [OF assms(1,2) c, of r'] by (simp add: r')
  ultimately show ?thesis by (simp add: GetAgentForChat_def Let_def)
qed

definition sample_agent :: AgentRecord where
  "sample_agent = \<lparr>ag_ID = ''a'', ag_ProjectID = ''p'', ag_Name = ''n'', ag_Provider = ''openai'', ag_Model = ''m'', ag_ApiKey = ''sk-secret'',
     ag_SystemPrompt = [], ag_SkillIDsJSON = ''[]'', ag_BaseURL = []\<rparr>"

definition sample_project :: MetadataRepository where
  "sample_project = snd (CreateProjectRecord None 0 (SetEncryptionKey sample_repo (Some (replicate 32 (CHR ''k'')))) ''p'' ''P'')"

definition sample_with_agent :: MetadataRepository where
  "sample_with_agent = snd (CreateAgent (\<lambda>key nonce plaintext. plaintext) (Some (replicate 12 (CHR ''n''))) None sample_project sample_agent)"

lemma sample_agent_created:
  "CreateAgent (\<lambda>key nonce plaintext. plaintext) (Some (replicate 12 (CHR ''n''))) None sample_project sample_agent = (None, sample_with_agent)"
proof -
  have "fst (CreateAgent (\<lambda>key nonce plaintext. plaintext) (Some (replicate 12 (CHR ''n''))) None sample_project sample_agent) = None"
    by code_simp
  then show ?thesis unfolding sample_with_agent_def by (metis prod.collapse)
qed

theorem agent_key_round_trip_witness:
  "GetAgentForChat (\<lambda>key nonce ciphertext. Some ciphertext) None sample_with_agent ''a'' =
    Inr (sample_agent\<lparr>ag_ProjectID := [], ag_Name := []\<rparr>)"
  using agent_key_round_trip [OF gcm_law_example _ sample_agent_created] by (simp add: NonceSize_def sample_agent_def)

section \<open>Chat histories\<close>

lemma insert_before_snoc: "\<not> lt m r \<Longrightarrow> lt r m \<Longrightarrow> insert_before lt r (xs @ [m]) = insert_before lt r xs @ [m]"
  by (induction xs) auto

lemma order_by_snoc:
  assumes "\<And>x. x \<in> set rows \<Longrightarrow> lt x m \<and> \<not> lt m x"
  shows "order_by lt (rows @ [m]) = order_by lt rows @ [m]"
  using assms
proof (induction rows)
  case (Cons x rows)
  then show ?case using insert_before_snoc [of lt m x] by (simp add: order_by_def)
qed (simp add: order_by_def)

text \<open>The history of a chat that is read back is its beginning: once twenty messages are stored, every further message changes nothing of what is
  read.\<close>

theorem chat_history_keeps_first:
  assumes "GetChatMessages None r projectID agentID = Inr ms" "length ms = 20"
    "\<forall>m \<in> set (system_chat_history (repo_db r)). msg_CreatedAt m < now"
  shows "GetChatMessages None (snd (SaveChatMessage fault now r projectID agentID role content toolCall)) projectID agentID = Inr ms"
proof -
  let ?d = "repo_db r" and ?lt = "\<lambda>a b. msg_CreatedAt a < msg_CreatedAt b"
  let ?P = "\<lambda>m. chat_project m = projectID \<and> chat_agent m = agentID"
  define m where "m = \<lparr>msg_Role = role, msg_Content = content, msg_ToolCall = toolCall, msg_CreatedAt = now, chat_project = projectID, chat_agent = agentID\<rparr>"
  define d' where "d' = ?d\<lparr>system_chat_history := system_chat_history ?d @ [m]\<rparr>"
  have "repo_db (snd (SaveChatMessage fault now r projectID agentID role content toolCall)) \<in> {?d, d'}"
    by (auto simp: SaveChatMessage_def written_def execute_in_def Let_def d'_def m_def split: option.splits)
  moreover have "GetChatMessages None r' projectID agentID = Inr ms" if "repo_db r' = ?d" for r'
    using assms(1) that by (simp add: GetChatMessages_def)
  moreover have "GetChatMessages None r' projectID agentID = Inr ms" if "repo_db r' = d'" for r'
  proof -
    let ?rows = "filter ?P (system_chat_history ?d)"
    have "order_by ?lt (?rows @ [m]) = order_by ?lt ?rows @ [m]"
      by (rule order_by_snoc) (use assms(3) in \<open>auto simp: m_def\<close>)
    moreover have "filter ?P (system_chat_history d') = ?rows @ [m]" by (simp add: d'_def m_def)
    moreover have "statement None ?d ''system_chat_history'' = None" "ms = take 20 (map ChatMessage.truncate (order_by ?lt ?rows))"
      using assms(1) by (auto simp: GetChatMessages_def limit_rows_def select_rows_def Let_def split: option.splits)
    moreover have "statement None d' ''system_chat_history'' = statement None ?d ''system_chat_history''" by (simp add: d'_def statement_def)
    ultimately show ?thesis
      using assms(2) that by (simp add: GetChatMessages_def limit_rows_def select_rows_def Let_def)
  qed
  ultimately show ?thesis by auto
qed

definition sample_chat :: MetadataRepository where
  "sample_chat = sample_repo\<lparr>repo_db := (repo_db sample_repo)\<lparr>system_chat_history :=
     map (\<lambda>n. \<lparr>msg_Role = ''user'', msg_Content = [], msg_ToolCall = [], msg_CreatedAt = int n, chat_project = ''p'', chat_agent = ''a''\<rparr>) [0..<20]\<rparr>\<rparr>"

theorem chat_history_keeps_first_witness:
  "GetChatMessages None (snd (SaveChatMessage None 50 sample_chat ''p'' ''a'' ''user'' ''new'' [])) ''p'' ''a'' =
    GetChatMessages None sample_chat ''p'' ''a''"
proof -
  define ms where "ms = projr (GetChatMessages None sample_chat ''p'' ''a'')"
  have "GetChatMessages None sample_chat ''p'' ''a'' = Inr ms \<and> length ms = 20" unfolding ms_def by code_simp
  moreover have "\<forall>m \<in> set (system_chat_history (repo_db sample_chat)). msg_CreatedAt m < 50" by (simp add: sample_chat_def)
  ultimately show ?thesis using chat_history_keeps_first [of sample_chat "''p''" "''a''" ms 50] by simp
qed

section \<open>Deleting a project\<close>

lemma cascade_tables_Inr:
  "cascade_tables faults i projectID ts d = Inr d' \<Longrightarrow> d' = foldl (\<lambda>d table. delete_project_rows table projectID d) d ts"
  by (induction ts arbitrary: i d) (auto split: option.splits)

lemma DeleteProjectCascade_None:
  assumes "DeleteProjectCascade f r projectID = (None, r')"
  shows "repo_db r' = remove_project projectID (foldl (\<lambda>d table. delete_project_rows table projectID d) (repo_db r) safeTables)"
  using assms by (auto simp: DeleteProjectCascade_def dest: cascade_tables_Inr split: option.splits sum.splits)

text \<open>C31. A project whose deletion succeeds leaves no row in the nine tables that the deletion names: each is filtered by the project, and a chat is
  dropped also with the agent it was held with. The rows of other projects stay. Left behind are the rows of the project in the tables that the
  deletion does not name, the simulations, the proposals and the audit log, which no foreign key ties to the project.\<close>

theorem deleted_project_is_gone:
  assumes "DeleteProjectCascade f r projectID = (None, r')"
  shows "let d = repo_db r; d' = repo_db r' in
    system_projects d' = filter (\<lambda>x. pr_ID x \<noteq> projectID) (system_projects d) \<and>
    system_agents d' = filter (\<lambda>x. ag_ProjectID x \<noteq> projectID) (system_agents d) \<and>
    system_skills d' = filter (\<lambda>x. sk_ProjectID x \<noteq> projectID) (system_skills d) \<and>
    system_tasks d' = filter (\<lambda>x. it_ProjectID x \<noteq> projectID) (system_tasks d) \<and>
    system_api_keys d' = filter (\<lambda>x. ak_ProjectID x \<noteq> projectID) (system_api_keys d) \<and>
    system_notification_channels d' = filter (\<lambda>x. nc_ProjectID x \<noteq> projectID) (system_notification_channels d) \<and>
    system_chat_sessions d' = filter (\<lambda>x. se_ProjectID x \<noteq> projectID) (system_chat_sessions d) \<and>
    ontology_versions d' = filter (\<lambda>x. ov_ProjectID x \<noteq> projectID) (ontology_versions d) \<and>
    system_chat_history d' =
      filter (\<lambda>m. chat_project m \<noteq> projectID \<and> (\<forall>a \<in> set (system_agents d). ag_ProjectID a = projectID \<longrightarrow> chat_agent m \<noteq> ag_ID a))
        (system_chat_history d) \<and>
    system_tools d' = system_tools d \<and> system_simulations d' = system_simulations d \<and> system_proposals d' = system_proposals d \<and>
    audit_log d' = audit_log d"
proof -
  have agents: "m \<notin> ag_ID ` {x. ag_ProjectID x = projectID \<and> x \<in> set as} \<longleftrightarrow> (\<forall>a \<in> set as. ag_ProjectID a = projectID \<longrightarrow> m \<noteq> ag_ID a)"
    for m as by auto
  show ?thesis
    unfolding DeleteProjectCascade_None [OF assms]
    by (simp add: Let_def remove_project_def safeTables_def delete_project_rows_def remove_agents_def conj_commute)
      (simp only: agents)
qed

definition sample_complete :: MetadataRepository where
  "sample_complete = NewMetadataRepository ((empty_database (''ontology_versions'' # postgres_relations))
     \<lparr>system_projects := [\<lparr>pr_ID = ''p'', pr_Name = ''P'', pr_CreatedAt = 0\<rparr>], system_agents := [sample_agent]\<rparr>)"

definition sample_deleted :: MetadataRepository where
  "sample_deleted = snd (DeleteProjectCascade \<lparr>tx_begin = None, tx_statement = \<lambda>i. None, tx_commit = None\<rparr> sample_complete ''p'')"

theorem deleted_project_is_gone_witness:
  "length (system_agents (repo_db sample_complete)) = 1 \<and> system_agents (repo_db sample_deleted) = [] \<and> system_projects (repo_db sample_deleted) = []"
proof -
  let ?f = "\<lparr>tx_begin = None, tx_statement = \<lambda>i. None, tx_commit = None\<rparr>"
  have "fst (DeleteProjectCascade ?f sample_complete ''p'') = None" by code_simp
  then have "DeleteProjectCascade ?f sample_complete ''p'' = (None, sample_deleted)" unfolding sample_deleted_def by (metis prod.collapse)
  note gone = deleted_project_is_gone [OF this, unfolded Let_def]
  have "length (system_agents (repo_db sample_complete)) = 1 \<and>
      filter (\<lambda>x. ag_ProjectID x \<noteq> ''p'') (system_agents (repo_db sample_complete)) = [] \<and>
      filter (\<lambda>x. pr_ID x \<noteq> ''p'') (system_projects (repo_db sample_complete)) = []" by code_simp
  with gone show ?thesis by simp
qed

section \<open>Walking the pages of a listing\<close>

text \<open>What a client does with the cursor: it asks for pages, each after the last identifier it was given, until a page is empty.\<close>

fun walk_pages :: "nat \<Rightarrow> (string \<Rightarrow> db_error + 'r list) \<Rightarrow> ('r \<Rightarrow> string) \<Rightarrow> string \<Rightarrow> (db_error + 'r list) option" where
  "walk_pages 0 page key cursor = None"
| "walk_pages (Suc fuel) page key cursor =
    (case page cursor of
       Inl e \<Rightarrow> Some (Inl e)
     | Inr [] \<Rightarrow> Some (Inr [])
     | Inr (r # rs) \<Rightarrow> map_option (map_sum (\<lambda>e. e) (\<lambda>rest. r # rs @ rest)) (walk_pages fuel page key (key (last (r # rs)))))"

text \<open>The order in which a database compares texts.\<close>

definition collation :: "(string \<Rightarrow> string \<Rightarrow> bool) \<Rightarrow> bool" where
  "collation before \<longleftrightarrow>
    (\<forall>x y. before x y \<longrightarrow> \<not> before y x) \<and> (\<forall>x y z. before x y \<and> before y z \<longrightarrow> before x z) \<and> (\<forall>x y. x = y \<or> before x y \<or> before y x)"

lemma mset_insert_before [simp]: "mset (insert_before lt r xs) = add_mset r (mset xs)"
  by (induction xs) auto

lemma set_insert_before [simp]: "set (insert_before lt r xs) = insert r (set xs)"
  by (induction xs) auto

lemma mset_order_by [simp]: "mset (order_by lt rows) = mset rows"
  by (induction rows) (auto simp: order_by_def)

lemma set_order_by [simp]: "set (order_by lt rows) = set rows"
  by (rule mset_eq_setD) simp

lemma length_order_by [simp]: "length (order_by lt rows) = length rows"
  by (rule mset_eq_length) simp

lemma insert_before_sorted:
  assumes "collation before" "sorted_wrt (\<lambda>a b. before (key a) (key b)) xs" "key r \<notin> key ` set xs"
  shows "sorted_wrt (\<lambda>a b. before (key a) (key b)) (insert_before (\<lambda>a b. before (key a) (key b)) r xs)"
  using assms(2,3)
proof (induction xs)
  case (Cons x xs)
  have tot: "before (key x) (key r) \<or> before (key r) (key x)" using assms(1) Cons.prems(2) unfolding collation_def by (metis image_eqI list.set_intros(1))
  have tr: "before a b \<Longrightarrow> before b c \<Longrightarrow> before a c" for a b c using assms(1) unfolding collation_def by blast
  show ?case using Cons tot by (auto intro: tr)
qed simp

lemma order_by_sorted:
  assumes "collation before" "distinct (map key rows)"
  shows "sorted_wrt (\<lambda>a b. before (key a) (key b)) (order_by (\<lambda>a b. before (key a) (key b)) rows)"
  using assms(2)
proof (induction rows)
  case (Cons r rows)
  then show ?case
    using insert_before_sorted [OF assms(1), of key "order_by (\<lambda>a b. before (key a) (key b)) rows" r] set_order_by [of _ rows]
    by (simp add: order_by_def)
qed (simp add: order_by_def)

lemma filter_after:
  assumes "collation before" "sorted_wrt (\<lambda>a b. before (key a) (key b)) (xs @ x # ys)"
  shows "filter (\<lambda>r. before (key x) (key r)) (xs @ x # ys) = ys"
proof -
  have as: "before a b \<Longrightarrow> \<not> before b a" for a b using assms(1) unfolding collation_def by blast
  have "filter (\<lambda>r. before (key x) (key r)) xs = []" using assms(2) as by (auto simp: filter_empty_conv sorted_wrt_append)
  moreover have "filter (\<lambda>r. before (key x) (key r)) ys = ys" using assms(2) by (auto simp: sorted_wrt_append filter_id_conv)
  moreover have "\<not> before (key x) (key x)" using as by blast
  ultimately show ?thesis by simp
qed

text \<open>A listing that answers a cursor with the first rows after it is walked to its end.\<close>

lemma walk_pages_after:
  assumes "collation before" "sorted_wrt (\<lambda>a b. before (key a) (key b)) L" "n > 0"
    "\<And>c. c \<noteq> [] \<Longrightarrow> page c = Inr (take n (filter (\<lambda>r. before c (key r)) L))" "\<And>r. r \<in> set L \<Longrightarrow> key r \<noteq> []"
  shows "L = xs @ x # ys \<Longrightarrow> length ys < fuel \<Longrightarrow> walk_pages fuel page key (key x) = Some (Inr ys)"
proof (induction fuel arbitrary: xs x ys)
  case (Suc fuel)
  have f: "filter (\<lambda>r. before (key x) (key r)) L = ys" using filter_after [OF assms(1), of key xs x ys] assms(2) Suc.prems(1) by simp
  have "key x \<noteq> []" using assms(5) Suc.prems(1) by simp
  then have page: "page (key x) = Inr (take n ys)" using assms(4) f by simp
  show ?case
  proof (cases ys)
    case (Cons y zs)
    then obtain p where p: "take n ys = y # p" using assms(3) by (cases n) auto
    define l where "l = last (y # p)"
    have "ys = butlast (y # p) @ l # drop n ys"
      using append_take_drop_id [of n ys] append_butlast_last_id [of "y # p"] unfolding p l_def by (metis append.assoc append_Cons append_Nil list.distinct(1))
    then have split: "L = (xs @ x # butlast (y # p)) @ l # drop n ys" using Suc.prems(1) by simp
    have "length (drop n ys) < fuel" using Suc.prems(2) assms(3) Cons by simp
    then have "walk_pages fuel page key (key l) = Some (Inr (drop n ys))" using Suc.IH [OF split] by simp
    moreover have "walk_pages (Suc fuel) page key (key x) = map_option (map_sum (\<lambda>e. e) (\<lambda>rest. y # p @ rest)) (walk_pages fuel page key (key l))"
      using page p by (simp add: l_def)
    moreover have "(y # p) @ drop n ys = ys" using p append_take_drop_id [of n ys] by simp
    ultimately show ?thesis by simp
  qed (use page in simp)
qed simp

lemma walk_pages_all:
  assumes "collation before" "sorted_wrt (\<lambda>a b. before (key a) (key b)) L" "n > 0" "page [] = Inr (take n L)"
    "\<And>c. c \<noteq> [] \<Longrightarrow> page c = Inr (take n (filter (\<lambda>r. before c (key r)) L))" "\<And>r. r \<in> set L \<Longrightarrow> key r \<noteq> []"
  shows "walk_pages (Suc (length L)) page key [] = Some (Inr L)"
proof (cases L)
  case (Cons y zs)
  then obtain p where p: "take n L = y # p" using assms(3) by (cases n) auto
  define l where "l = last (y # p)"
  have split: "L = butlast (y # p) @ l # drop n L"
    using append_take_drop_id [of n L] append_butlast_last_id [of "y # p"] unfolding p l_def by (metis append.assoc append_Cons append_Nil list.distinct(1))
  have "length (drop n L) < length L" using assms(3) Cons by simp
  then have "walk_pages (length L) page key (key l) = Some (Inr (drop n L))"
    using walk_pages_after [OF assms(1-3) assms(5,6) split] by simp
  moreover have "walk_pages (Suc (length L)) page key [] = map_option (map_sum (\<lambda>e. e) (\<lambda>rest. y # p @ rest)) (walk_pages (length L) page key (key l))"
    using assms(4) p by (simp add: l_def)
  moreover have "(y # p) @ drop n L = L" using p append_take_drop_id [of n L] by simp
  ultimately show ?thesis by simp
qed (use assms(4) in simp)

lemma scan_tools_all:
  assumes "\<forall>t \<in> set rows. tool_nulls t = []"
  shows "scan_tools rows = map ToolRecord.truncate rows"
  using assms by (simp add: scan_tools_def filter_id_conv)

lemma truncate_ID [simp]: "rec_tool_ID (ToolRecord.truncate (x :: tool_row)) = rec_tool_ID x"
  by (simp add: ToolRecord.truncate_def)

text \<open>C32. Walking the tools by the cursor with a positive page size ends: if no row has a null and no identifier is empty, then after at most one page
  more than there are tools it has seen every tool exactly once, in the order of their identifiers. A page size of zero gives an empty page.\<close>

theorem ListToolsCursor_walk:
  assumes "collation before" "0 < n" "''system_tools'' \<in> set (relations (repo_db r))"
    "distinct (map rec_tool_ID (system_tools (repo_db r)))" "[] \<notin> rec_tool_ID ` set (system_tools (repo_db r))"
    "\<forall>t \<in> set (system_tools (repo_db r)). tool_nulls t = []"
  shows "(\<exists>ts. walk_pages (Suc (length (system_tools (repo_db r)))) (\<lambda>cursor. ListToolsCursor before None r cursor n) rec_tool_ID [] = Some (Inr ts) \<and>
      mset ts = mset (scan_tools (system_tools (repo_db r))) \<and> sorted_wrt (\<lambda>a b. before (rec_tool_ID a) (rec_tool_ID b)) ts \<and>
      length ts = length (system_tools (repo_db r))) \<and>
    ListToolsCursor before None r cursor 0 = Inr []"
proof -
  let ?lt = "\<lambda>a b. before (rec_tool_ID a) (rec_tool_ID b)"
  let ?rows = "order_by ?lt (system_tools (repo_db r))"
  define L where "L = map ToolRecord.truncate ?rows"
  have st: "statement None (repo_db r) ''system_tools'' = None" using assms(3) by (simp only: statement_def option.case if_True)
  have "sorted_wrt ?lt ?rows" by (rule order_by_sorted [OF assms(1,4)])
  then have sorted: "sorted_wrt (\<lambda>a b. before (rec_tool_ID a) (rec_tool_ID b)) L" by (simp add: L_def sorted_wrt_map)
  have scan: "scan_tools (take k (filter P ?rows)) = take k (map ToolRecord.truncate (filter P ?rows))" for k P
    using assms(6) by (subst scan_tools_all) (auto simp: take_map dest: in_set_takeD)
  have filt: "map ToolRecord.truncate (filter (\<lambda>t. before c (rec_tool_ID t)) ?rows) = filter (\<lambda>t. before c (rec_tool_ID t)) L" for c
    by (simp add: L_def filter_map comp_def)
  have "walk_pages (Suc (length L)) (\<lambda>cursor. ListToolsCursor before None r cursor n) rec_tool_ID [] = Some (Inr L)"
  proof (rule walk_pages_all [OF assms(1) sorted, of "nat n"])
    show "rec_tool_ID t \<noteq> []" if "t \<in> set L" for t using that assms(5) by (force simp: L_def)
  qed (use assms(2) st scan [of "nat n" "\<lambda>_. True"] scan filt in \<open>simp_all add: ListToolsCursor_def select_rows_def limit_rows_def L_def\<close>)
  moreover have "mset L = mset (scan_tools (system_tools (repo_db r)))" using scan_tools_all [OF assms(6)] by (simp add: L_def)
  moreover have "length L = length (system_tools (repo_db r))" by (simp add: L_def)
  moreover have "ListToolsCursor before None r cursor 0 = Inr []"
    using st by (simp add: ListToolsCursor_def Let_def select_rows_def limit_rows_def scan_tools_def)
  ultimately show ?thesis using sorted by metis
qed

lemma bytes_before_collation: "collation bytes_before"
  unfolding collation_def
proof (intro conjI allI impI)
  show "\<not> bytes_before y x" if "bytes_before x y" for x y
    using that by (induction x y rule: bytes_before.induct) (auto split: if_splits)
  show "x = y \<or> bytes_before x y \<or> bytes_before y x" for x y
  proof (induction x y rule: bytes_before.induct)
    case (1 x)
    then show ?case by (cases x) auto
  next
    case (3 x xs y ys)
    moreover have "x = y \<or> (of_char x :: nat) < of_char y \<or> (of_char y :: nat) < of_char x" by (metis of_char_eq_iff linorder_less_linear)
    ultimately show ?case by auto
  qed simp
  show "bytes_before x z" if "bytes_before x y \<and> bytes_before y z" for x y z
    using that
  proof (induction x y arbitrary: z rule: bytes_before.induct)
    case (2 y ys)
    then show ?case by (cases z) auto
  next
    case (3 x xs y ys)
    then show ?case by (cases z) (auto split: if_splits)
  qed simp
qed

definition sample_tools :: MetadataRepository where
  "sample_tools = sample_repo\<lparr>repo_db := (repo_db sample_repo)\<lparr>system_tools := map (\<lambda>c. tool_row_of (table_tool [c])) ''bca''\<rparr>\<rparr>"

theorem ListToolsCursor_walk_witness:
  "(\<exists>ts. walk_pages 4 (\<lambda>cursor. ListToolsCursor bytes_before None sample_tools cursor 2) rec_tool_ID [] = Some (Inr ts) \<and>
      mset ts = mset (scan_tools (system_tools (repo_db sample_tools))) \<and> sorted_wrt (\<lambda>a b. bytes_before (rec_tool_ID a) (rec_tool_ID b)) ts \<and>
      length ts = length (system_tools (repo_db sample_tools))) \<and>
    ListToolsCursor bytes_before None sample_tools ''a'' 0 = Inr []"
proof -
  have "''system_tools'' \<in> set (relations (repo_db sample_tools)) \<and> distinct (map rec_tool_ID (system_tools (repo_db sample_tools))) \<and>
      [] \<notin> rec_tool_ID ` set (system_tools (repo_db sample_tools)) \<and> (\<forall>t \<in> set (system_tools (repo_db sample_tools)). tool_nulls t = [])"
    by code_simp
  moreover have len: "Suc (length (system_tools (repo_db sample_tools))) = 4" by code_simp
  ultimately show ?thesis
    using ListToolsCursor_walk [OF bytes_before_collation zero_less_numeral [of "num.Bit0 num.One"], of sample_tools "''a''", unfolded len] by blast
qed

text \<open>A page whose rows all have a null is empty, and a client takes it for the end of the list although tools follow.\<close>

definition sample_null_tools :: MetadataRepository where
  "sample_null_tools = sample_repo\<lparr>repo_db := (repo_db sample_repo)\<lparr>system_tools :=
     [(tool_row_of (table_tool ''a''))\<lparr>tool_nulls := [''description'']\<rparr>, tool_row_of (table_tool ''b'')]\<rparr>\<rparr>"

theorem null_page_ends_walk:
  "walk_pages 3 (\<lambda>cursor. ListToolsCursor bytes_before None sample_null_tools cursor 1) rec_tool_ID [] = Some (Inr []) \<and>
   query_tools None (repo_db sample_null_tools) = Inr [table_tool ''b'']"
  by code_simp

end
