(* ===== verification/Files.thy ===== *)
theory Files
  imports Metadata_Facts
begin

text \<open>
  Paths and files: the functions \<^verbatim>\<open>Join\<close>, \<^verbatim>\<open>Abs\<close>, \<^verbatim>\<open>Base\<close> and \<^verbatim>\<open>Ext\<close> of package \<^verbatim>\<open>path/filepath\<close> on Unix, the operations of package
  \<^verbatim>\<open>os\<close> on a tree of directories and files, and \<^verbatim>\<open>sanitizePath\<close> of \<^verbatim>\<open>internal/api/handler/security.go\<close>. A place in the tree is the list of
  the components of its absolute path. There are no symbolic links; where the operating system refuses an operation is part of the
  state. The working directory is given, so \<^verbatim>\<open>filepath.Abs\<close> does not fail; the code returns its error where it does.
\<close>

section \<open>Paths\<close>

definition filepath_Join :: "string list \<Rightarrow> string" where
  "filepath_Join elems =
    (case dropWhile (\<lambda>e. e = []) elems of
       [] \<Rightarrow> []
     | e # es \<Rightarrow> Clean (Join (e # es) ''/''))"

definition filepath_Abs :: "string \<Rightarrow> string \<Rightarrow> string" where
  "filepath_Abs cwd path = (if HasPrefix path ''/'' then Clean path else filepath_Join [cwd, path])"

definition filepath_Base :: "string \<Rightarrow> string" where
  "filepath_Base path =
    (if path = [] then ''.''
     else (let p = rev (dropWhile (\<lambda>c. c = CHR ''/'') (rev path)) in
           if p = [] then ''/'' else last (Split p (CHR ''/''))))"

definition filepath_Ext :: "string \<Rightarrow> string" where
  "filepath_Ext path =
    (let name = last (Split path (CHR ''/'')) in
     if CHR ''.'' \<in> set name then CHR ''.'' # rev (takeWhile (\<lambda>c. c \<noteq> CHR ''.'') (rev name)) else [])"

text \<open>The place of an absolute path in the tree.\<close>

definition place :: "string \<Rightarrow> string list" where
  "place path = filter (\<lambda>w. w \<noteq> []) (Split path (CHR ''/''))"

section \<open>The tree\<close>

datatype node = Folder | File string

datatype os_error = NotExist | NotDirectory | IsDirectory | NotEmpty | Refused

record disk =
  nodes :: "(string list \<times> node) list"
  refuses :: "string list \<Rightarrow> bool"

definition node_at :: "disk \<Rightarrow> string list \<Rightarrow> node option" where
  "node_at d p = (if p = [] then Some Folder else map_of (nodes d) p)"

definition put_node :: "string list \<Rightarrow> node \<Rightarrow> disk \<Rightarrow> disk" where
  "put_node p n d = d\<lparr>nodes := AList.update p n (nodes d)\<rparr>"

fun make_folders :: "string list list \<Rightarrow> disk \<Rightarrow> os_error option \<times> disk" where
  "make_folders [] d = (None, d)"
| "make_folders (p # ps) d =
    (case node_at d p of
       Some Folder \<Rightarrow> make_folders ps d
     | Some (File _) \<Rightarrow> (Some NotDirectory, d)
     | None \<Rightarrow> if refuses d p then (Some Refused, d) else make_folders ps (put_node p Folder d))"

definition os_MkdirAll :: "string \<Rightarrow> disk \<Rightarrow> os_error option \<times> disk" where
  "os_MkdirAll path d = make_folders (map (\<lambda>n. take n (place path)) [0..<Suc (length (place path))]) d"

definition os_ReadFile :: "string \<Rightarrow> disk \<Rightarrow> os_error + string" where
  "os_ReadFile path d =
    (case node_at d (place path) of
       None \<Rightarrow> Inl NotExist
     | Some Folder \<Rightarrow> Inl IsDirectory
     | Some (File content) \<Rightarrow> if refuses d (place path) then Inl Refused else Inr content)"

definition os_Stat :: "string \<Rightarrow> disk \<Rightarrow> os_error + node" where
  "os_Stat path d = (case node_at d (place path) of None \<Rightarrow> Inl NotExist | Some n \<Rightarrow> Inr n)"

definition os_WriteFile :: "string \<Rightarrow> string \<Rightarrow> disk \<Rightarrow> os_error option \<times> disk" where
  "os_WriteFile path content d =
    (let p = place path in
     case node_at d p of
       Some Folder \<Rightarrow> (Some IsDirectory, d)
     | _ \<Rightarrow>
         (if node_at d (butlast p) \<noteq> Some Folder then (Some NotExist, d)
          else if refuses d p then (Some Refused, d)
          else (None, put_node p (File content) d)))"

definition children :: "disk \<Rightarrow> string list \<Rightarrow> (string list \<times> node) list" where
  "children d p = filter (\<lambda>(q, n). q \<noteq> [] \<and> butlast q = p) (nodes d)"

definition os_Remove :: "string \<Rightarrow> disk \<Rightarrow> os_error option \<times> disk" where
  "os_Remove path d =
    (let p = place path in
     case node_at d p of
       None \<Rightarrow> (Some NotExist, d)
     | Some n \<Rightarrow>
         (if n = Folder \<and> children d p \<noteq> [] then (Some NotEmpty, d)
          else if p = [] \<or> refuses d p then (Some Refused, d)
          else (None, d\<lparr>nodes := AList.delete p (nodes d)\<rparr>)))"

definition os_RemoveAll :: "string \<Rightarrow> disk \<Rightarrow> os_error option \<times> disk" where
  "os_RemoveAll path d =
    (let p = place path in
     if list_ex (\<lambda>(q, n). take (length p) q = p \<and> refuses d q) (nodes d) then (Some Refused, d)
     else (None, d\<lparr>nodes := filter (\<lambda>(q, n). take (length p) q \<noteq> p) (nodes d)\<rparr>))"

text \<open>Renaming a file within its directory.\<close>

definition os_Rename :: "string \<Rightarrow> string \<Rightarrow> disk \<Rightarrow> os_error option \<times> disk" where
  "os_Rename old new d =
    (case node_at d (place old) of
       None \<Rightarrow> (Some NotExist, d)
     | Some n \<Rightarrow>
         (if node_at d (place new) = Some Folder then (Some IsDirectory, d)
          else if node_at d (butlast (place new)) \<noteq> Some Folder then (Some NotExist, d)
          else if refuses d (place new) then (Some Refused, d)
          else (None, put_node (place new) n (d\<lparr>nodes := AList.delete (place old) (nodes d)\<rparr>))))"

text \<open>The entries of a directory, by name.\<close>

definition os_ReadDir :: "string \<Rightarrow> disk \<Rightarrow> os_error + (string \<times> node) list" where
  "os_ReadDir path d =
    (case node_at d (place path) of
       None \<Rightarrow> Inl NotExist
     | Some (File _) \<Rightarrow> Inl NotDirectory
     | Some Folder \<Rightarrow>
         (if refuses d (place path) then Inl Refused
          else Inr (order_by (\<lambda>a b. bytes_before (fst a) (fst b)) (map (\<lambda>(q, n). (last q, n)) (children d (place path))))))"

section \<open>Confining a path to a directory\<close>

datatype traversal_error = PathTraversal

definition sanitizePath :: "string \<Rightarrow> string \<Rightarrow> string list \<Rightarrow> traversal_error + string" where
  "sanitizePath cwd base parts =
    (let abs = filepath_Abs cwd (filepath_Join (base # parts));
         absBase = filepath_Abs cwd base in
     if \<not> HasPrefix abs (absBase @ ''/'') \<and> abs \<noteq> absBase then Inl PathTraversal else Inr abs)"

section \<open>Facts on paths\<close>

lemma Split_Join_parts:
  "es \<noteq> [] \<Longrightarrow> Split (Join es [sep]) sep = concat (map (\<lambda>e. Split e sep) es)"
proof (induction es rule: induct_list012)
  case (3 e e' es)
  have "Split (e @ sep # s) sep = Split e sep @ Split s sep" for s
    by (induction e) (auto split: list.split)
  with 3 show ?case by simp
qed auto

lemma clean_comps_append:
  "clean_comps r out (a @ b) = clean_comps r (rev (clean_comps r out a)) b"
  by (induction r out a rule: clean_comps.induct) (auto split: list.split)

lemma clean_comps_up:
  "list_all plain_comp ws \<Longrightarrow> clean_comps r (rev ws @ out) (replicate (length ws) ''..'' @ b) = clean_comps r out b"
proof (induction ws arbitrary: out b)
  case (Cons w ws)
  have "clean_comps r (rev ws @ w # out) (replicate (length ws) ''..'' @ ''..'' # b) = clean_comps r (w # out) (''..'' # b)"
    using Cons.IH [of "w # out" "''..'' # b"] Cons.prems by simp
  then show ?case using Cons.prems by (simp add: replicate_app_Cons_same plain_comp_def)
qed simp

lemma Split_plain: "list_all plain_comp ws \<Longrightarrow> ws \<noteq> [] \<Longrightarrow> Split (Join ws ''/'') (CHR ''/'') = ws"
  by (rule Split_Join) (auto simp: plain_comp_def list_all_iff)

text \<open>The absolute paths that the functions return.\<close>

definition absolute :: "string list \<Rightarrow> string" where
  "absolute ws = CHR ''/'' # Join ws ''/''"

lemma place_absolute [simp]: "list_all plain_comp ws \<Longrightarrow> place (absolute ws) = ws"
  by (cases "ws = []") (auto simp: place_def absolute_def Split_plain plain_comp_def list_all_iff filter_id_conv)

lemma Clean_absolute: "Clean (CHR ''/'' # s) = absolute (clean_comps True [] (Split s (CHR ''/'')))"
  by (simp add: Clean_def absolute_def)

lemma clean_comps_rooted: "list_all plain_comp (clean_comps True [] (Split s (CHR ''/'')))"
proof -
  have "clean_shape True (clean_comps True [] (Split s (CHR ''/'')))"
    by (rule clean_comps_shape) (auto simp: clean_shape_def list_all_iff dest: Split_no_sep)
  then show ?thesis by (auto simp: clean_shape_def)
qed

lemma clean_comps_out: "list_all plain_comp ws \<Longrightarrow> clean_comps True [] (ws @ b) = clean_comps True (rev ws) b"
  by (simp add: clean_comps_append clean_comps_plain)

text \<open>Joining elements to an absolute path, by components.\<close>

lemma filepath_Join_absolute:
  assumes "list_all plain_comp folder"
  shows "filepath_Join (absolute folder # parts) = absolute (clean_comps True (rev folder) (concat (map (\<lambda>e. Split e (CHR ''/'')) parts)))"
proof -
  have "Join (absolute folder # parts) ''/'' = CHR ''/'' # Join (Join folder ''/'' # parts) ''/''"
    by (cases parts) (simp_all add: absolute_def)
  then have "filepath_Join (absolute folder # parts) = absolute (clean_comps True [] (concat (map (\<lambda>e. Split e (CHR ''/'')) (Join folder ''/'' # parts))))"
    by (simp add: filepath_Join_def absolute_def [of folder] Clean_absolute Split_Join_parts)
  also have "\<dots> = absolute (clean_comps True (rev folder) (concat (map (\<lambda>e. Split e (CHR ''/'')) parts)))"
    using assms by (cases "folder = []") (simp_all add: Split_plain clean_comps_out)
  finally show ?thesis .
qed

lemma filepath_Abs_absolute [simp]: "list_all plain_comp ws \<Longrightarrow> filepath_Abs cwd (absolute ws) = absolute ws"
  using clean_comps_plain [of ws True "[]"]
  by (cases "ws = []") (simp_all add: filepath_Abs_def absolute_def HasPrefix_def Clean_absolute Split_plain)

lemma filepath_Abs_shape:
  assumes "list_all plain_comp cwd"
  shows "\<exists>ws. list_all plain_comp ws \<and> filepath_Abs (absolute cwd) path = absolute ws"
proof (cases "HasPrefix path ''/''")
  case True
  then obtain s where "path = CHR ''/'' # s" by (auto simp: HasPrefix_prefix prefix_def)
  then show ?thesis using clean_comps_rooted by (auto simp: filepath_Abs_def True Clean_absolute)
next
  case False
  have "filepath_Join [absolute cwd, path] = absolute (clean_comps True [] (Split (Join [Join cwd ''/'', path] ''/'') (CHR ''/'')))"
    by (simp add: filepath_Join_def absolute_def [of cwd] Clean_absolute)
  then show ?thesis using False clean_comps_rooted by (auto simp: filepath_Abs_def)
qed

lemma Join_plain_start: "list_all plain_comp vs \<Longrightarrow> Join vs ''/'' \<noteq> CHR ''/'' # t"
proof (cases vs)
  case (Cons w ws)
  assume "list_all plain_comp vs"
  with Cons obtain c w' where "w = c # w'" "c \<noteq> CHR ''/''" by (cases w) (auto simp: plain_comp_def)
  then show ?thesis using Cons by (cases ws) simp_all
qed simp

lemma Join_prefix:
  assumes "list_all plain_comp us" "list_all plain_comp vs" "HasPrefix (absolute vs) (absolute us @ ''/'')"
  shows "\<exists>ws. ws \<noteq> [] \<and> vs = us @ ws"
proof -
  obtain t where t: "absolute vs = absolute us @ CHR ''/'' # t" using assms(3) by (auto simp: HasPrefix_prefix prefix_def)
  then have e: "Join vs ''/'' = Join us ''/'' @ CHR ''/'' # t" by (simp add: absolute_def)
  have sp: "Split (a @ CHR ''/'' # s) (CHR ''/'') = Split a (CHR ''/'') @ Split s (CHR ''/'')" for a s
    by (induction a) (auto split: list.split)
  show ?thesis
  proof (cases "us = []")
    case True
    with e Join_plain_start [OF assms(2)] show ?thesis by simp
  next
    case False
    then have "vs \<noteq> []" using e by auto
    then have "vs = us @ Split t (CHR ''/'')" using e sp [of "Join us ''/''" t] Split_plain assms(1,2) False by metis
    then show ?thesis using Split_nonempty by blast
  qed
qed

lemma absolute_inj [simp]:
  assumes "list_all plain_comp us" "list_all plain_comp vs"
  shows "absolute us = absolute vs \<longleftrightarrow> us = vs"
  using assms place_absolute by metis

lemma HasPrefix_absolute:
  assumes "list_all plain_comp us" "list_all plain_comp vs"
  shows "HasPrefix (absolute vs) (absolute us @ ''/'') \<longleftrightarrow> us \<noteq> [] \<and> strict_prefix us vs"
proof
  assume h: "HasPrefix (absolute vs) (absolute us @ ''/'')"
  have "us \<noteq> []"
  proof
    assume "us = []"
    with h obtain t where "Join vs ''/'' = CHR ''/'' # t" by (auto simp: absolute_def HasPrefix_prefix prefix_def)
    with Join_plain_start [OF assms(2)] show False by blast
  qed
  with Join_prefix [OF assms h] show "us \<noteq> [] \<and> strict_prefix us vs" by (auto simp: strict_prefix_def)
next
  assume "us \<noteq> [] \<and> strict_prefix us vs"
  then obtain ws where "us \<noteq> []" "ws \<noteq> []" "vs = us @ ws" by (auto simp: strict_prefix_def prefix_def)
  then show "HasPrefix (absolute vs) (absolute us @ ''/'')"
    by (simp add: absolute_def HasPrefix_prefix Join_append)
qed

text \<open>C8. The comparison of texts in \<^verbatim>\<open>sanitizePath\<close> is one of components: a path is accepted exactly when it is the base directory or lies below it
  component by component, and what is accepted is the resolved path. Below the root directory itself nothing is accepted.\<close>

theorem sanitizePath_components:
  assumes "list_all plain_comp cwd"
  shows "let b = place (filepath_Abs (absolute cwd) base); v = place (filepath_Abs (absolute cwd) (filepath_Join (base # parts))) in
    sanitizePath (absolute cwd) base parts = (if v = b \<or> b \<noteq> [] \<and> prefix b v then Inr (absolute v) else Inl PathTraversal)"
proof -
  obtain us vs where "list_all plain_comp us" "filepath_Abs (absolute cwd) base = absolute us"
    "list_all plain_comp vs" "filepath_Abs (absolute cwd) (filepath_Join (base # parts)) = absolute vs"
    using filepath_Abs_shape [OF assms] by metis
  then show ?thesis using HasPrefix_absolute by (auto simp: sanitizePath_def Let_def strict_prefix_def)
qed

theorem sanitizePath_components_witness:
  "sanitizePath ''/srv'' ''projects'' [''p'', ''..'', ''q''] = Inr ''/srv/projects/q'' \<and> sanitizePath ''/srv'' ''projects'' [''..'', ''q''] = Inl PathTraversal"
proof -
  have "list_all plain_comp [''srv'']" "absolute [''srv''] = ''/srv''" "absolute [''srv'', ''projects'', ''q''] = ''/srv/projects/q''"
    "place (filepath_Abs ''/srv'' ''projects'') = [''srv'', ''projects'']"
    "place (filepath_Abs ''/srv'' (filepath_Join [''projects'', ''p'', ''..'', ''q''])) = [''srv'', ''projects'', ''q'']"
    "place (filepath_Abs ''/srv'' (filepath_Join [''projects'', ''..'', ''q''])) = [''srv'', ''q'']"
    by code_simp+
  then show ?thesis
    using sanitizePath_components [of "[''srv'']" "''projects''" "[''p'', ''..'', ''q'']"]
      sanitizePath_components [of "[''srv'']" "''projects''" "[''..'', ''q'']"] by (simp add: Let_def)
qed

section \<open>Facts on the tree\<close>

lemma node_at_Nil [simp]: "node_at d [] = Some Folder"
  by (simp add: node_at_def)

lemma node_at_put [simp]: "node_at (put_node p n d) q = (if q = [] then Some Folder else if q = p then Some n else node_at d q)"
  by (simp add: node_at_def put_node_def update_conv')

lemma refuses_put [simp]: "refuses (put_node p n d) = refuses d"
  by (simp add: put_node_def)

lemma os_WriteFile_None:
  assumes "os_WriteFile path content d = (None, d')"
  shows "d' = put_node (place path) (File content) d" "place path \<noteq> []" "\<not> refuses d (place path)"
  using assms by (auto simp: os_WriteFile_def Let_def node_at_def split: option.splits node.splits if_splits)

text \<open>What was written is read back.\<close>

lemma os_WriteFile_ReadFile: "os_WriteFile path content d = (None, d') \<Longrightarrow> os_ReadFile path d' = Inr content"
  using os_WriteFile_None [of path content d d'] by (simp add: os_ReadFile_def)

lemma make_folders_keeps: "make_folders ps d = (e, d') \<Longrightarrow> node_at d q = Some n \<Longrightarrow> node_at d' q = Some n"
proof (induction ps d arbitrary: e d' rule: make_folders.induct)
  case (2 p ps d)
  have "node_at (put_node p Folder d) q = Some n" if "node_at d p = None"
    using that 2(4) by (cases "q = []"; cases "q = p") auto
  then show ?case using 2 by (auto split: option.splits node.splits if_splits)
qed simp

lemma make_folders_all: "make_folders ps d = (None, d') \<Longrightarrow> p \<in> set ps \<Longrightarrow> node_at d' p = Some Folder"
proof (induction ps d rule: make_folders.induct)
  case (2 q ps d)
  then show ?case using make_folders_keeps by (fastforce split: option.splits node.splits if_splits)
qed simp

lemma os_MkdirAll_folder: "os_MkdirAll path d = (None, d') \<Longrightarrow> node_at d' (place path) = Some Folder"
  unfolding os_MkdirAll_def by (erule make_folders_all) (auto intro: image_eqI [of _ _ "length (place path)"])

end
