(* ===== verification/Handlers.thy ===== *)
theory Handlers
  imports Files Cursor
begin

text \<open>
  The procedures of agents, tools, skills, keys, tasks and channels, \<^verbatim>\<open>internal/api/handler/\<close> with the files \<^verbatim>\<open>agent.go\<close>, \<^verbatim>\<open>tool.go\<close>,
  \<^verbatim>\<open>skill.go\<close>, \<^verbatim>\<open>auth.go\<close>, \<^verbatim>\<open>ingestion.go\<close> and \<^verbatim>\<open>notification.go\<close>, over the metadata repository. A procedure takes the
  repository and returns it changed. The messages are records with the fields of the generated types. What a call takes from outside
  is a record: the cipher, random bytes, the clock, the JSON library on lists of strings, and the failure of each statement.
\<close>

section \<open>Results\<close>

datatype rpc_code = Internal | InvalidArgument | FailedPrecondition | NotFound | Unavailable

datatype rpc_error =
    RpcRepo repo_error
  | RpcDb db_error
  | RpcHash hash_error
  | RpcOs os_error
  | RpcPath traversal_error
  | RpcSchema string project_id_error
  | RpcText string
  | AgentLimit int
  | ProjectLimit int

datatype 'a rpc_result = Ok 'a | Err rpc_code rpc_error | Panics

record rpc_env =
  re_Seal :: gcm_seal
  re_Open :: gcm_open
  re_rand :: "string option"
  re_now :: nanos
  re_uuid :: string
  re_Marshal :: "string list \<Rightarrow> string"
  re_Unmarshal :: "string \<Rightarrow> string list"
  re_fault :: "nat \<Rightarrow> db_error option"

definition Unix :: "nanos \<Rightarrow> int" where
  "Unix t = t div second"

text \<open>A write whose error becomes an internal error.\<close>

definition after_write :: "repo_error option \<times> MetadataRepository \<Rightarrow> 'a \<Rightarrow> 'a rpc_result \<times> MetadataRepository" where
  "after_write res a = (case fst res of Some e \<Rightarrow> (Err Internal (RpcRepo e), snd res) | None \<Rightarrow> (Ok a, snd res))"

section \<open>Runes\<close>

text \<open>The conversion of a string to runes decodes UTF-8; a byte that starts no valid sequence becomes the replacement character. A rune is
  given here by its encoding.\<close>

definition in_range :: "nat \<Rightarrow> nat \<Rightarrow> char \<Rightarrow> bool" where
  "in_range lo hi c \<longleftrightarrow> lo \<le> code c \<and> code c \<le> hi"

fun rune_size :: "string \<Rightarrow> nat" where
  "rune_size [] = 0"
| "rune_size (c # s) =
    (if code c < 128 then 1
     else if in_range 194 223 c then (case s of d # _ \<Rightarrow> if in_range 128 191 d then 2 else 0 | _ \<Rightarrow> 0)
     else if in_range 224 239 c then
       (case s of
          d # e # _ \<Rightarrow>
            if in_range (if code c = 224 then 160 else 128) (if code c = 237 then 159 else 191) d \<and> in_range 128 191 e then 3 else 0
        | _ \<Rightarrow> 0)
     else if in_range 240 244 c then
       (case s of
          d # e # f # _ \<Rightarrow>
            if in_range (if code c = 240 then 144 else 128) (if code c = 244 then 143 else 191) d \<and> in_range 128 191 e \<and> in_range 128 191 f
            then 4 else 0
        | _ \<Rightarrow> 0)
     else 0)"

definition RuneError :: string where
  "RuneError = [CHR 0xEF, CHR 0xBF, CHR 0xBD]"

function runes :: "string \<Rightarrow> string list" where
  "runes [] = []"
| "runes (c # s) =
    (if rune_size (c # s) = 0 then RuneError # runes s
     else take (rune_size (c # s)) (c # s) # runes (drop (rune_size (c # s)) (c # s)))"
  by pat_completeness auto

termination
  by (relation "measure length") auto

text \<open>What a listing shows of a key.\<close>

definition masked_key :: "string \<Rightarrow> string" where
  "masked_key key =
    (if key = [] then []
     else (let rs = runes key in if length rs > 8 then concat (take 8 rs) @ ''****'' else ''****''))"

section \<open>Agents\<close>

record v1_Agent =
  va_Id :: string
  va_Name :: string
  va_Provider :: string
  va_Model :: string
  va_ApiKey :: string
  va_SystemPrompt :: string
  va_SkillIds :: "string list"
  va_BaseUrl :: string

record AgentHandler =
  ah_ollamaBaseURL :: string
  maxAgentsPerProject :: int

definition SetMaxAgentsPerProject :: "AgentHandler \<Rightarrow> int \<Rightarrow> AgentHandler" where
  "SetMaxAgentsPerProject h n = h\<lparr>maxAgentsPerProject := n\<rparr>"

text \<open>The project of the authenticated caller comes before the one in the request.\<close>

definition project_of :: "auth_ctx \<Rightarrow> string \<Rightarrow> string" where
  "project_of ctx requested = (let projectID = ProjectIDFromContext ctx in if projectID = [] then requested else projectID)"

definition agent_message :: "rpc_env \<Rightarrow> AgentRecord \<Rightarrow> v1_Agent" where
  "agent_message env a =
    \<lparr>va_Id = ag_ID a, va_Name = ag_Name a, va_Provider = ag_Provider a, va_Model = ag_Model a, va_ApiKey = masked_key (ag_ApiKey a),
     va_SystemPrompt = ag_SystemPrompt a, va_SkillIds = (if ag_SkillIDsJSON a \<noteq> [] then re_Unmarshal env (ag_SkillIDsJSON a) else []),
     va_BaseUrl = ag_BaseURL a\<rparr>"

definition rpc_ListAgents :: "rpc_env \<Rightarrow> auth_ctx \<Rightarrow> MetadataRepository \<Rightarrow> string \<Rightarrow> v1_Agent list rpc_result" where
  "rpc_ListAgents env ctx r reqProject =
    (case ListAgents (re_Open env) (re_fault env 0) r (project_of ctx reqProject) of
       Inl e \<Rightarrow> Err Internal (RpcDb e)
     | Inr recs \<Rightarrow> Ok (map (agent_message env) recs))"

definition agent_record :: "rpc_env \<Rightarrow> string \<Rightarrow> v1_Agent \<Rightarrow> AgentRecord" where
  "agent_record env projectID agent =
    \<lparr>ag_ID = va_Id agent, ag_ProjectID = projectID, ag_Name = va_Name agent, ag_Provider = va_Provider agent, ag_Model = va_Model agent,
     ag_ApiKey = va_ApiKey agent, ag_SystemPrompt = va_SystemPrompt agent, ag_SkillIDsJSON = re_Marshal env (va_SkillIds agent),
     ag_BaseURL = va_BaseUrl agent\<rparr>"

definition rpc_CreateAgent ::
  "rpc_env \<Rightarrow> auth_ctx \<Rightarrow> AgentHandler \<Rightarrow> MetadataRepository \<Rightarrow> string \<Rightarrow> v1_Agent option \<Rightarrow> v1_Agent rpc_result \<times> MetadataRepository" where
  "rpc_CreateAgent env ctx h r reqProject msg =
    (let projectID = project_of ctx reqProject;
         quota = (if maxAgentsPerProject h > 0 then
                    (case CountProjectAgents (re_fault env 0) r projectID of
                       Inl e \<Rightarrow> Some (Internal, RpcRepo e)
                     | Inr n \<Rightarrow>
                         if int n \<ge> maxAgentsPerProject h then Some (FailedPrecondition, AgentLimit (maxAgentsPerProject h)) else None)
                  else None) in
     case quota of
       Some (c, e) \<Rightarrow> (Err c e, r)
     | None \<Rightarrow>
         (case msg of
            None \<Rightarrow> (Err InvalidArgument (RpcText ''agent is required''), r)
          | Some agent0 \<Rightarrow>
              (let agent = (if va_Id agent0 = [] then agent0\<lparr>va_Id := ''agent-'' @ Itoa (re_now env)\<rparr> else agent0) in
               after_write (CreateAgent (re_Seal env) (re_rand env) (re_fault env 1) r (agent_record env projectID agent))
                 (agent\<lparr>va_ApiKey := masked_key (va_ApiKey agent)\<rparr>))))"

definition rpc_DeleteAgent :: "rpc_env \<Rightarrow> auth_ctx \<Rightarrow> MetadataRepository \<Rightarrow> string \<Rightarrow> string \<Rightarrow> unit rpc_result \<times> MetadataRepository" where
  "rpc_DeleteAgent env ctx r reqProject agentID = after_write (DeleteAgent (re_fault env 0) r agentID (project_of ctx reqProject)) ()"

definition rpc_UpdateAgent ::
  "rpc_env \<Rightarrow> auth_ctx \<Rightarrow> MetadataRepository \<Rightarrow> string \<Rightarrow> v1_Agent option \<Rightarrow> v1_Agent rpc_result \<times> MetadataRepository" where
  "rpc_UpdateAgent env ctx r reqProject msg =
    (case msg of
       None \<Rightarrow> (Err InvalidArgument (RpcText ''agent is required''), r)
     | Some agent \<Rightarrow>
         after_write (UpdateAgent (re_Seal env) (re_rand env) (re_fault env 0) r (agent_record env (project_of ctx reqProject) agent))
           (agent\<lparr>va_ApiKey := masked_key (va_ApiKey agent)\<rparr>))"

text \<open>The request to the model service and the decoding of its answer are arguments.\<close>

definition rpc_ListModels :: "(string \<Rightarrow> string option) \<Rightarrow> (string \<Rightarrow> string list option) \<Rightarrow> AgentHandler \<Rightarrow> string list rpc_result" where
  "rpc_ListModels fetch names h =
    (let baseURL = (if ah_ollamaBaseURL h = [] then ''http://localhost:11434'' else ah_ollamaBaseURL h) in
     case fetch (baseURL @ ''/api/tags'') of
       None \<Rightarrow> Err Unavailable (RpcText ''request failed'')
     | Some body \<Rightarrow> (case names body of None \<Rightarrow> Err Internal (RpcText ''decode failed'') | Some models \<Rightarrow> Ok models))"

section \<open>Tools\<close>

record v1_Tool =
  vt_Id :: string
  vt_Name :: string
  vt_Description :: string
  vt_Code :: string

definition tool_record :: "v1_Tool \<Rightarrow> ToolRecord" where
  "tool_record t =
    \<lparr>rec_tool_ID = vt_Id t, rec_Name = vt_Name t, rec_Description = vt_Description t, rec_Code = vt_Code t, rec_Category = [], rec_Version = [],
     rec_HealthStatus = [], rec_SourceType = []\<rparr>"

definition tool_message :: "ToolRecord \<Rightarrow> v1_Tool" where
  "tool_message t = \<lparr>vt_Id = rec_tool_ID t, vt_Name = rec_Name t, vt_Description = rec_Description t, vt_Code = rec_Code t\<rparr>"

definition rpc_ListTools :: "rpc_env \<Rightarrow> MetadataRepository \<Rightarrow> v1_Tool list rpc_result \<times> MetadataRepository" where
  "rpc_ListTools env r =
    (case meta_ListTools (re_fault env 0) (re_now env) r of
       (Inl e, r') \<Rightarrow> (Err Internal (RpcDb e), r')
     | (Inr tools, r') \<Rightarrow> (Ok (map tool_message tools), r'))"

definition rpc_CreateTool :: "rpc_env \<Rightarrow> MetadataRepository \<Rightarrow> v1_Tool option \<Rightarrow> v1_Tool rpc_result \<times> MetadataRepository" where
  "rpc_CreateTool env r msg =
    (case msg of
       None \<Rightarrow> (Err InvalidArgument (RpcText ''tool is required''), r)
     | Some t0 \<Rightarrow>
         (let t = (if vt_Id t0 = [] then t0\<lparr>vt_Id := re_uuid env\<rparr> else t0) in
          after_write (CreateTool (re_fault env 0) r (tool_record t)) t))"

definition rpc_UpdateTool :: "rpc_env \<Rightarrow> MetadataRepository \<Rightarrow> v1_Tool option \<Rightarrow> v1_Tool rpc_result \<times> MetadataRepository" where
  "rpc_UpdateTool env r msg =
    (case msg of
       None \<Rightarrow> (Err InvalidArgument (RpcText ''tool id is required''), r)
     | Some t \<Rightarrow>
         if vt_Id t = [] then (Err InvalidArgument (RpcText ''tool id is required''), r)
         else after_write (UpdateTool (re_fault env 0) r (tool_record t)) t)"

definition rpc_DeleteTool :: "rpc_env \<Rightarrow> MetadataRepository \<Rightarrow> string \<Rightarrow> unit rpc_result \<times> MetadataRepository" where
  "rpc_DeleteTool env r toolID = after_write (DeleteTool (re_fault env 0) r toolID) ()"

text \<open>The HTTP routes of tools. The response is the status and the value that is encoded.\<close>

datatype tool_body =
    ErrorBody string
  | ListError db_error
  | ToolList "ToolRecord list"
  | HealthList "(string \<times> string \<times> string) list"
  | Verified string "db_error option"
  | ToolHealth ToolRecord
  | ToolUnknown string

definition list_response :: "(ToolRecord list \<Rightarrow> tool_body) \<Rightarrow> (db_error + ToolRecord list) \<times> MetadataRepository \<Rightarrow> (nat \<times> tool_body) \<times> MetadataRepository" where
  "list_response f res = (case res of (Inl e, r) \<Rightarrow> ((500, ListError e), r) | (Inr tools, r) \<Rightarrow> ((200, f tools), r))"

definition HandleIntelligence :: "rpc_env \<Rightarrow> MetadataRepository \<Rightarrow> (nat \<times> tool_body) \<times> MetadataRepository" where
  "HandleIntelligence env r = list_response ToolList (meta_ListTools (re_fault env 0) (re_now env) r)"

definition HandleRecommendations :: "rpc_env \<Rightarrow> MetadataRepository \<Rightarrow> (nat \<times> tool_body) \<times> MetadataRepository" where
  "HandleRecommendations env r = list_response ToolList (meta_ListTools (re_fault env 0) (re_now env) r)"

definition HandleHealth :: "rpc_env \<Rightarrow> MetadataRepository \<Rightarrow> (nat \<times> tool_body) \<times> MetadataRepository" where
  "HandleHealth env r =
    list_response (\<lambda>tools. HealthList (map (\<lambda>t. (rec_tool_ID t, rec_Name t, rec_HealthStatus t)) tools)) (meta_ListTools (re_fault env 0) (re_now env) r)"

definition HandleListAll :: "(string \<Rightarrow> string \<Rightarrow> bool) \<Rightarrow> rpc_env \<Rightarrow> MetadataRepository \<Rightarrow> string \<Rightarrow> string \<Rightarrow> (nat \<times> tool_body) \<times> MetadataRepository" where
  "HandleListAll before env r page perPage =
    list_response ToolList (ListToolsCursor before (re_fault env 0) r [] (PerPage (ParsePagePagination page perPage)), r)"

definition tool_ServeHTTP ::
  "(string \<Rightarrow> string \<Rightarrow> bool) \<Rightarrow> rpc_env \<Rightarrow> MetadataRepository \<Rightarrow> string \<Rightarrow> string \<Rightarrow> string \<Rightarrow> string \<Rightarrow> (nat \<times> tool_body) \<times> MetadataRepository" where
  "tool_ServeHTTP before env r httpMethod path page perPage =
    (if httpMethod \<noteq> ''GET'' then ((405, ErrorBody ''method not allowed''), r)
     else if HasSuffix path ''/intelligence'' then HandleIntelligence env r
     else if HasSuffix path ''/recommendations'' then HandleRecommendations env r
     else if HasSuffix path ''/health'' then HandleHealth env r
     else HandleListAll before env r page perPage)"

text \<open>The body of a request is its \<^verbatim>\<open>tool_id\<close>, \<open>None\<close> when it does not decode.\<close>

definition HandleVerify :: "rpc_env \<Rightarrow> MetadataRepository \<Rightarrow> string \<Rightarrow> string option \<Rightarrow> nat \<times> tool_body" where
  "HandleVerify env r httpMethod body =
    (if httpMethod \<noteq> ''POST'' then (405, ErrorBody ''method not allowed'')
     else case body of
       None \<Rightarrow> (400, ErrorBody ''invalid JSON body'')
     | Some toolID \<Rightarrow>
         if toolID = [] then (400, ErrorBody ''tool_id is required'')
         else (case meta_GetToolCode (re_fault env 0) r toolID of
                 Inl e \<Rightarrow> (200, Verified toolID (Some e))
               | Inr _ \<Rightarrow> (200, Verified toolID None)))"

definition HandleHealthHistory ::
  "rpc_env \<Rightarrow> MetadataRepository \<Rightarrow> string \<Rightarrow> string option \<Rightarrow> string \<Rightarrow> (nat \<times> tool_body) \<times> MetadataRepository" where
  "HandleHealthHistory env r httpMethod body pathID =
    (case (if httpMethod = ''POST'' then body else Some pathID) of
       None \<Rightarrow> ((400, ErrorBody ''invalid JSON body''), r)
     | Some toolID \<Rightarrow>
         if toolID = [] then ((400, ErrorBody ''tool_id is required''), r)
         else list_response
                (\<lambda>tools. case find (\<lambda>t. rec_tool_ID t = toolID) tools of Some t \<Rightarrow> ToolHealth t | None \<Rightarrow> ToolUnknown toolID)
                (meta_ListTools (re_fault env 0) (re_now env) r))"

section \<open>Skills\<close>

record v1_Skill =
  vs_Id :: string
  vs_Name :: string
  vs_Description :: string
  vs_ToolIds :: "string list"

definition rpc_ListSkills :: "rpc_env \<Rightarrow> MetadataRepository \<Rightarrow> string \<Rightarrow> v1_Skill list rpc_result" where
  "rpc_ListSkills env r projectID =
    (case ListSkills (re_fault env 0) r projectID of
       Inl e \<Rightarrow> Err Internal (RpcDb e)
     | Inr skills \<Rightarrow>
         Ok (map (\<lambda>s. \<lparr>vs_Id = sk_ID s, vs_Name = sk_Name s, vs_Description = sk_Description s,
                        vs_ToolIds = (if sk_ToolIDsJSON s \<noteq> [] then re_Unmarshal env (sk_ToolIDsJSON s) else [])\<rparr>) skills))"

definition skill_record :: "rpc_env \<Rightarrow> string \<Rightarrow> v1_Skill \<Rightarrow> SkillRecord" where
  "skill_record env projectID s =
    \<lparr>sk_ID = vs_Id s, sk_ProjectID = projectID, sk_Name = vs_Name s, sk_Description = vs_Description s, sk_ToolIDsJSON = re_Marshal env (vs_ToolIds s)\<rparr>"

definition rpc_CreateSkill :: "rpc_env \<Rightarrow> MetadataRepository \<Rightarrow> string \<Rightarrow> v1_Skill option \<Rightarrow> v1_Skill rpc_result \<times> MetadataRepository" where
  "rpc_CreateSkill env r projectID msg =
    (case msg of
       None \<Rightarrow> (Err InvalidArgument (RpcText ''skill is required''), r)
     | Some s0 \<Rightarrow>
         (let s = (if vs_Id s0 = [] then s0\<lparr>vs_Id := re_uuid env\<rparr> else s0) in
          after_write (CreateSkill (re_fault env 0) r (skill_record env projectID s)) s))"

definition rpc_UpdateSkill :: "rpc_env \<Rightarrow> MetadataRepository \<Rightarrow> string \<Rightarrow> v1_Skill option \<Rightarrow> v1_Skill rpc_result \<times> MetadataRepository" where
  "rpc_UpdateSkill env r projectID msg =
    (case msg of
       None \<Rightarrow> (Err InvalidArgument (RpcText ''skill id is required''), r)
     | Some s \<Rightarrow>
         if vs_Id s = [] then (Err InvalidArgument (RpcText ''skill id is required''), r)
         else after_write (UpdateSkill (re_fault env 0) r (skill_record env projectID s)) s)"

definition rpc_DeleteSkill :: "rpc_env \<Rightarrow> MetadataRepository \<Rightarrow> string \<Rightarrow> string \<Rightarrow> unit rpc_result \<times> MetadataRepository" where
  "rpc_DeleteSkill env r skillID projectID = after_write (DeleteSkill (re_fault env 0) r skillID projectID) ()"

section \<open>Keys\<close>

record v1_ApiKey =
  vk_Id :: string
  vk_Label :: string
  vk_Key :: string
  vk_CreatedAt :: int

definition rpc_ListApiKeys :: "rpc_env \<Rightarrow> MetadataRepository \<Rightarrow> string \<Rightarrow> v1_ApiKey list rpc_result" where
  "rpc_ListApiKeys env r projectID =
    (case ListAPIKeys (re_fault env 0) r projectID of
       Inl e \<Rightarrow> Err Internal (RpcDb e)
     | Inr keys \<Rightarrow> Ok (map (\<lambda>k. \<lparr>vk_Id = ak_ID k, vk_Label = ak_Label k, vk_Key = ''********'', vk_CreatedAt = Unix (ak_CreatedAt k)\<rparr>) keys))"

text \<open>The random bytes are sixteen; the salt of the hash is drawn separately.\<close>

definition rpc_CreateApiKey ::
  "argon2 \<Rightarrow> string option \<Rightarrow> rpc_env \<Rightarrow> MetadataRepository \<Rightarrow> string \<Rightarrow> string \<Rightarrow> v1_ApiKey rpc_result \<times> MetadataRepository" where
  "rpc_CreateApiKey IDKey salt env r projectID label =
    (case re_rand env of
       None \<Rightarrow> (Err Internal (RpcText ''generate api key''), r)
     | Some b \<Rightarrow>
         (let key = hex_EncodeToString b; keyID = hex_EncodeToString (take 4 b) in
          case HashAPIKey IDKey salt key of
            Inl e \<Rightarrow> (Err Internal (RpcHash e), r)
          | Inr hashedKey \<Rightarrow>
              after_write (CreateAPIKey (re_fault env 0) (re_now env) r keyID projectID label hashedKey)
                \<lparr>vk_Id = keyID, vk_Label = label, vk_Key = key, vk_CreatedAt = Unix (re_now env)\<rparr>))"

definition rpc_DeleteApiKey :: "rpc_env \<Rightarrow> MetadataRepository \<Rightarrow> string \<Rightarrow> string \<Rightarrow> unit rpc_result \<times> MetadataRepository" where
  "rpc_DeleteApiKey env r keyID projectID = after_write (DeleteAPIKey (re_fault env 0) r keyID projectID) ()"

section \<open>Tasks and channels\<close>

record v1_IngestionTask =
  vi_Id :: string
  vi_Name :: string
  vi_SourceType :: string
  vi_ConfigJson :: string
  vi_Schedule :: string
  vi_Status :: string
  vi_Progress :: int

definition rpc_GetProgress :: "rpc_env \<Rightarrow> MetadataRepository \<Rightarrow> string \<Rightarrow> int rpc_result" where
  "rpc_GetProgress env r taskID =
    (case GetTaskProgress (re_fault env 0) r taskID of Inl e \<Rightarrow> Err NotFound (RpcDb e) | Inr progress \<Rightarrow> Ok progress)"

definition task_message :: "IngestionTaskRecord \<Rightarrow> v1_IngestionTask" where
  "task_message t =
    \<lparr>vi_Id = it_ID t, vi_Name = it_Name t, vi_SourceType = it_SourceType t, vi_ConfigJson = it_ConfigJSON t, vi_Schedule = it_Schedule t,
     vi_Status = it_Status t, vi_Progress = it_Progress t\<rparr>"

definition rpc_ListTasks :: "rpc_env \<Rightarrow> MetadataRepository \<Rightarrow> string \<Rightarrow> v1_IngestionTask list rpc_result" where
  "rpc_ListTasks env r projectID =
    (case ListTasks (re_fault env 0) r projectID of Inl e \<Rightarrow> Err Internal (RpcDb e) | Inr tasks \<Rightarrow> Ok (map task_message tasks))"

text \<open>The task of the request is used without a check, so a request without one panics. An error of the random source is ignored and
  leaves the bytes at zero.\<close>

definition rpc_CreateTask ::
  "rpc_env \<Rightarrow> MetadataRepository \<Rightarrow> string \<Rightarrow> v1_IngestionTask option \<Rightarrow> v1_IngestionTask rpc_result \<times> MetadataRepository" where
  "rpc_CreateTask env r projectID msg =
    (case msg of
       None \<Rightarrow> (Panics, r)
     | Some task0 \<Rightarrow>
         (let b = (case re_rand env of Some b \<Rightarrow> b | None \<Rightarrow> replicate 16 (CHR 0x00));
              task = (if vi_Id task0 = [] then task0\<lparr>vi_Id := hex_EncodeToString b\<rparr> else task0) in
          after_write
            (CreateTask (re_fault env 0) r
               \<lparr>it_ID = vi_Id task, it_ProjectID = projectID, it_Name = vi_Name task, it_SourceType = vi_SourceType task,
                it_ConfigJSON = vi_ConfigJson task, it_Schedule = vi_Schedule task, it_Status = ''idle'', it_Progress = 0\<rparr>)
            task))"

text \<open>The task that is started and the project it is started for; the run itself goes on in the background.\<close>

definition rpc_RunTask :: "rpc_env \<Rightarrow> MetadataRepository \<Rightarrow> string \<Rightarrow> string \<Rightarrow> (string \<times> v1_IngestionTask) rpc_result" where
  "rpc_RunTask env r projectID taskID =
    (case GetTaskByID (re_fault env 0) r taskID of
       Inl e \<Rightarrow> Err NotFound (RpcDb e)
     | Inr t \<Rightarrow>
         Ok (projectID, \<lparr>vi_Id = it_ID t, vi_Name = it_Name t, vi_SourceType = it_SourceType t, vi_ConfigJson = it_ConfigJSON t,
                         vi_Schedule = [], vi_Status = [], vi_Progress = 0\<rparr>))"

definition rpc_GetTaskLogs :: "string \<Rightarrow> string \<Rightarrow> disk \<Rightarrow> string \<Rightarrow> string \<Rightarrow> string rpc_result" where
  "rpc_GetTaskLogs cwd projectsRoot d projectID taskID =
    (case sanitizePath cwd projectsRoot [projectID, ''logs'', taskID @ ''.log''] of
       Inl e \<Rightarrow> Err InvalidArgument (RpcPath e)
     | Inr logPath \<Rightarrow> (case os_ReadFile logPath d of Inl _ \<Rightarrow> Ok ''No logs found.'' | Inr content \<Rightarrow> Ok content))"

definition rpc_DeleteTask :: "rpc_env \<Rightarrow> MetadataRepository \<Rightarrow> string \<Rightarrow> string \<Rightarrow> unit rpc_result \<times> MetadataRepository" where
  "rpc_DeleteTask env r taskID projectID = after_write (DeleteTask (re_fault env 0) r taskID projectID) ()"

definition webhook_payload :: "string \<Rightarrow> string \<Rightarrow> (string \<times> string) list" where
  "webhook_payload payloadJson secret = (''payload'', payloadJson) # (if secret \<noteq> [] then [(''secret'', secret)] else [])"

definition rpc_SendWebhook :: "(string \<Rightarrow> (string \<times> string) list \<Rightarrow> string option) \<Rightarrow> string \<Rightarrow> string \<Rightarrow> string \<Rightarrow> bool \<times> string" where
  "rpc_SendWebhook SendWebhook url payloadJson secret =
    (case SendWebhook url (webhook_payload payloadJson secret) of Some err \<Rightarrow> (False, err) | None \<Rightarrow> (True, []))"

definition rpc_ListChannels :: "rpc_env \<Rightarrow> MetadataRepository \<Rightarrow> string \<Rightarrow> (string \<times> string \<times> string \<times> string) list rpc_result" where
  "rpc_ListChannels env r projectID =
    (case ListNotificationChannels (re_fault env 0) r projectID of
       Inl e \<Rightarrow> Err Internal (RpcDb e)
     | Inr channels \<Rightarrow> Ok (map (\<lambda>c. (nc_ID c, nc_Name c, nc_Type c, nc_ConfigJSON c)) channels))"

end
