(* ===== verification/Projects.thy ===== *)
theory Projects
  imports Handlers
begin

text \<open>
  The procedures of projects, of their library and of sessions, \<^verbatim>\<open>internal/api/handler/\<close> with the files \<^verbatim>\<open>library.go\<close>, \<^verbatim>\<open>project.go\<close> and
  \<^verbatim>\<open>session.go\<close>. The state is the disk, the metadata repository and the DuckDB schemas. The working directory, the clock, the parser of
  the language, the PDF library, the language model and the answers of DuckDB are arguments.
\<close>

section \<open>The library of a project\<close>

record v1_Asset =
  as_Id :: string
  as_Name :: string
  as_Type :: string
  as_CreatedAt :: int

text \<open>A path given to the operating system is taken from the working directory.\<close>

definition library_path :: "string \<Rightarrow> string \<Rightarrow> string \<Rightarrow> string" where
  "library_path cwd projectsRoot projectID = filepath_Abs cwd (filepath_Join [projectsRoot, projectID, ''library''])"

definition asset_message :: "int \<Rightarrow> string \<Rightarrow> v1_Asset" where
  "asset_message t name = \<lparr>as_Id = name, as_Name = name, as_Type = filepath_Ext name, as_CreatedAt = t\<rparr>"

definition rpc_ListAssets :: "(string list \<Rightarrow> nanos) \<Rightarrow> string \<Rightarrow> string \<Rightarrow> disk \<Rightarrow> string \<Rightarrow> v1_Asset list rpc_result \<times> disk" where
  "rpc_ListAssets ModTime cwd projectsRoot d projectID =
    (let libPath = library_path cwd projectsRoot projectID;
         d' = snd (os_MkdirAll libPath d) in
     case os_ReadDir libPath d' of
       Inl e \<Rightarrow> (Err Internal (RpcOs e), d')
     | Inr listing \<Rightarrow>
         (Ok (map (\<lambda>(name, n). asset_message (Unix (ModTime (place libPath @ [name]))) name) (filter (\<lambda>(name, n). n \<noteq> Folder) listing)), d'))"

definition rpc_GetAssetContent :: "string \<Rightarrow> string \<Rightarrow> disk \<Rightarrow> string \<Rightarrow> string \<Rightarrow> string rpc_result" where
  "rpc_GetAssetContent cwd projectsRoot d projectID assetID =
    (case sanitizePath cwd projectsRoot [projectID, ''library'', assetID] of
       Inl e \<Rightarrow> Err InvalidArgument (RpcPath e)
     | Inr path \<Rightarrow> (case os_ReadFile path d of Inl e \<Rightarrow> Err NotFound (RpcOs e) | Inr content \<Rightarrow> Ok content))"

definition rpc_DeleteAsset :: "string \<Rightarrow> string \<Rightarrow> disk \<Rightarrow> string \<Rightarrow> string \<Rightarrow> unit rpc_result \<times> disk" where
  "rpc_DeleteAsset cwd projectsRoot d projectID assetID =
    (case sanitizePath cwd projectsRoot [projectID, ''library'', assetID] of
       Inl e \<Rightarrow> (Err InvalidArgument (RpcPath e), d)
     | Inr path \<Rightarrow> (case os_Remove path d of (Some e, d') \<Rightarrow> (Err Internal (RpcOs e), d') | (None, d') \<Rightarrow> (Ok (), d')))"

definition sanitizePdfString :: "string \<Rightarrow> string" where
  "sanitizePdfString s = Replacer [([CHR 0x5C], [CHR 0x5C, CHR 0x5C]), (''('', [CHR 0x5C, CHR ''('']), ('')'', [CHR 0x5C, CHR '')''])] s"

text \<open>\<^verbatim>\<open>strings.ToValidUTF8\<close> replaces each run of bytes that are not valid UTF-8.\<close>

function valid_from :: "bool \<Rightarrow> string \<Rightarrow> string \<Rightarrow> string" where
  "valid_from inRun rep [] = []"
| "valid_from inRun rep (c # s) =
    (if rune_size (c # s) = 0 then (if inRun then [] else rep) @ valid_from True rep s
     else take (rune_size (c # s)) (c # s) @ valid_from False rep (drop (rune_size (c # s)) (c # s)))"
  by pat_completeness auto

termination
  by (relation "measure (\<lambda>(b, rep, s). length s)") auto

definition ToValidUTF8 :: "string \<Rightarrow> string \<Rightarrow> string" where
  "ToValidUTF8 s rep = valid_from False rep s"

definition TrimSuffix :: "string \<Rightarrow> string \<Rightarrow> string" where
  "TrimSuffix s suf = (if HasSuffix s suf then take (length s - length suf) s else s)"

text \<open>What is drawn: the title, then one cell or one line break for each line of the asset.\<close>

datatype pdf_command = PdfTitle string | PdfLn | PdfCell string

definition pdf_commands :: "string \<Rightarrow> string \<Rightarrow> pdf_command list" where
  "pdf_commands assetID content =
    PdfTitle assetID # map (\<lambda>line. let escaped = ToValidUTF8 line ''?'' in if escaped = [] then PdfLn else PdfCell (sanitizePdfString escaped)) (Split content NL)"

definition rpc_GeneratePdf ::
  "(pdf_command list \<Rightarrow> string option) \<Rightarrow> string \<Rightarrow> string \<Rightarrow> disk \<Rightarrow> string \<Rightarrow> string \<Rightarrow> (string \<times> string) rpc_result" where
  "rpc_GeneratePdf Output cwd projectsRoot d projectID assetID =
    (case sanitizePath cwd projectsRoot [projectID, ''library'', assetID] of
       Inl e \<Rightarrow> Err InvalidArgument (RpcPath e)
     | Inr path \<Rightarrow>
         (case os_ReadFile path d of
            Inl e \<Rightarrow> Err NotFound (RpcOs e)
          | Inr content \<Rightarrow>
              (case Output (pdf_commands assetID content) of
                 None \<Rightarrow> Err Internal (RpcText ''pdf generation failed'')
               | Some pdf \<Rightarrow> Ok (pdf, TrimSuffix assetID (filepath_Ext assetID) @ ''.pdf''))))"

definition rpc_UploadAsset :: "nanos \<Rightarrow> string \<Rightarrow> string \<Rightarrow> disk \<Rightarrow> string \<Rightarrow> string \<Rightarrow> string \<Rightarrow> v1_Asset rpc_result \<times> disk" where
  "rpc_UploadAsset now cwd projectsRoot d projectID filename content =
    (if filename = [] then (Err InvalidArgument (RpcText ''filename is required''), d)
     else if content = [] then (Err InvalidArgument (RpcText ''content is required''), d)
     else
       (let d1 = snd (os_MkdirAll (library_path cwd projectsRoot projectID) d);
            safeName = filepath_Base filename in
        case sanitizePath cwd projectsRoot [projectID, ''library'', safeName] of
          Inl e \<Rightarrow> (Err InvalidArgument (RpcPath e), d1)
        | Inr safeDestPath \<Rightarrow>
            (case os_WriteFile safeDestPath content d1 of
               (Some e, d2) \<Rightarrow> (Err Internal (RpcOs e), d2)
             | (None, d2) \<Rightarrow> (Ok (asset_message (Unix now) safeName), d2))))"

section \<open>Projects\<close>

record ProjectHandler =
  ph_projectsRoot :: string
  ph_maxProjects :: int

record project_world = project_stores +
  pw_disk :: disk

record v1_Project =
  vp_Id :: string
  vp_Name :: string
  vp_CreatedAt :: int

definition rpc_ListProjects :: "(string list \<Rightarrow> nanos) \<Rightarrow> string \<Rightarrow> ProjectHandler \<Rightarrow> disk \<Rightarrow> v1_Project list rpc_result" where
  "rpc_ListProjects ModTime cwd h d =
    (let rootPath = filepath_Abs cwd (ph_projectsRoot h) in
     case os_ReadDir rootPath d of
       Inl e \<Rightarrow> Err Internal (RpcOs e)
     | Inr listing \<Rightarrow>
         Ok (map (\<lambda>(name, n). \<lparr>vp_Id = name, vp_Name = name, vp_CreatedAt = Unix (ModTime (place rootPath @ [name]))\<rparr>)
              (filter (\<lambda>(name, n). n = Folder) listing)))"

definition project_folders :: "string \<Rightarrow> string \<Rightarrow> string \<Rightarrow> string list" where
  "project_folders cwd projectsRoot projectID =
    (let path = filepath_Join [projectsRoot, projectID] in
     map (\<lambda>name. filepath_Abs cwd (filepath_Join [path, name])) [''raw'', ''ontologies'', ''agents'', ''skills''])"

fun make_all :: "string list \<Rightarrow> disk \<Rightarrow> os_error option \<times> disk" where
  "make_all [] d = (None, d)"
| "make_all (p # ps) d = (case os_MkdirAll p d of (Some e, d') \<Rightarrow> (Some e, d') | (None, d') \<Rightarrow> make_all ps d')"

definition over_project_limit :: "rpc_env \<Rightarrow> ProjectHandler \<Rightarrow> MetadataRepository option \<Rightarrow> (rpc_code \<times> rpc_error) option" where
  "over_project_limit env h repo =
    (case repo of
       None \<Rightarrow> None
     | Some r \<Rightarrow>
         if ph_maxProjects h > 0 then
           (case CountProjects (re_fault env 0) r of
              Inl e \<Rightarrow> Some (Internal, RpcRepo e)
            | Inr n \<Rightarrow> if int n \<ge> ph_maxProjects h then Some (FailedPrecondition, ProjectLimit (ph_maxProjects h)) else None)
         else None)"

definition placeholder :: string where
  "placeholder = ''// Define your ontology here'' @ [NL]"

definition rpc_CreateProject ::
  "rpc_env \<Rightarrow> string option \<Rightarrow> string \<Rightarrow> ProjectHandler \<Rightarrow> project_world \<Rightarrow> string \<Rightarrow> string \<Rightarrow> v1_Project rpc_result \<times> project_world" where
  "rpc_CreateProject env create_fault cwd h w projectID name =
    (if projectID = [] then (Err InvalidArgument (RpcText ''project id is required''), w)
     else case over_project_limit env h (ps_repo w) of
       Some (c, e) \<Rightarrow> (Err c e, w)
     | None \<Rightarrow>
         (case make_all (project_folders cwd (ph_projectsRoot h) projectID) (pw_disk w) of
            (Some e, d) \<Rightarrow> (Err Internal (RpcOs e), w\<lparr>pw_disk := d\<rparr>)
          | (None, d) \<Rightarrow>
              (let w1 = w\<lparr>pw_disk := d\<rparr> in
               case NewSchemaIdentity projectID of
                 Inl e \<Rightarrow> (Err InvalidArgument (RpcSchema ''invalid project id for schema'' e), w1)
               | Inr si \<Rightarrow>
                   (case EnsureProjectSchema create_fault (ps_schemas w1) si of
                      (Some e, schemas) \<Rightarrow> (Err Internal (RpcText e), w1\<lparr>ps_schemas := schemas\<rparr>)
                    | (None, schemas) \<Rightarrow>
                        (let w2 = w1\<lparr>ps_schemas := schemas\<rparr>;
                             (err, w3) = (case ps_repo w2 of
                               None \<Rightarrow> (None, w2)
                             | Some r \<Rightarrow> (let (e, r') = CreateProjectRecord (re_fault env 1) (re_now env) r projectID name in (e, w2\<lparr>ps_repo := Some r'\<rparr>))) in
                         case err of
                           Some e \<Rightarrow> (Err Internal (RpcRepo e), w3)
                         | None \<Rightarrow>
                             (let ontFile = filepath_Abs cwd (filepath_Join [filepath_Join [ph_projectsRoot h, projectID], ''ontologies'', ''core.aleph'']);
                                  d' = (if os_Stat ontFile d = Inl NotExist then snd (os_WriteFile ontFile placeholder d) else d) in
                              (Ok \<lparr>vp_Id = projectID, vp_Name = name, vp_CreatedAt = Unix (re_now env)\<rparr>, w3\<lparr>pw_disk := d'\<rparr>)))))))"

definition stores_of :: "project_world \<Rightarrow> project_stores" where
  "stores_of w = \<lparr>ps_repo = ps_repo w, ps_schemas = ps_schemas w, ps_cleanup = ps_cleanup w\<rparr>"

definition with_stores :: "project_world \<Rightarrow> project_stores \<Rightarrow> project_world" where
  "with_stores w s = w\<lparr>ps_repo := ps_repo s, ps_schemas := ps_schemas s, ps_cleanup := ps_cleanup s\<rparr>"

definition rpc_DeleteProject ::
  "cascade_faults \<Rightarrow> string option \<Rightarrow> string \<Rightarrow> ProjectHandler \<Rightarrow> project_world \<Rightarrow> string \<Rightarrow> unit rpc_result \<times> project_world" where
  "rpc_DeleteProject f drop_fault cwd h w projectID =
    (if projectID = [] then (Err InvalidArgument (RpcText ''project id is required''), w)
     else case sanitizePath cwd (ph_projectsRoot h) [projectID] of
       Inl e \<Rightarrow> (Err InvalidArgument (RpcPath e), w)
     | Inr path \<Rightarrow>
         (let (err, w1) =
            (case ps_repo w of
               None \<Rightarrow> (None, w)
             | Some _ \<Rightarrow> (let (e, s) = DeleteProjectCascadeWithDB f drop_fault (stores_of w) projectID in (e, with_stores w s))) in
          case err of
            Some e \<Rightarrow> (Err Internal (RpcRepo e), w1)
          | None \<Rightarrow>
              (case os_RemoveAll path (pw_disk w1) of
                 (Some e, d) \<Rightarrow> (Err Internal (RpcOs e), w1\<lparr>pw_disk := d\<rparr>)
               | (None, d) \<Rightarrow> (Ok (), w1\<lparr>pw_disk := d\<rparr>))))"

section \<open>Ontology files\<close>

definition ontology_names :: "Program \<Rightarrow> string list" where
  "ontology_names prog = concat (map (\<lambda>s. case st_Object s of Some obj \<Rightarrow> [obj_Name obj] | None \<Rightarrow> []) prog)"

definition rpc_GetOntology ::
  "(string \<Rightarrow> parse_failure + Program) \<Rightarrow> string list option \<Rightarrow> string \<Rightarrow> string \<Rightarrow> disk \<Rightarrow> string \<Rightarrow> (string \<times> string list) rpc_result" where
  "rpc_GetOntology parser tables cwd projectsRoot d projectID =
    (case sanitizePath cwd projectsRoot [projectID, ''ontologies'', ''core.aleph''] of
       Inl e \<Rightarrow> Err InvalidArgument (RpcPath e)
     | Inr ontPath \<Rightarrow>
         (case os_ReadFile ontPath d of
            Inl e \<Rightarrow> Err NotFound (RpcOs e)
          | Inr content \<Rightarrow>
              (let names = (case Parse parser content of Inr prog \<Rightarrow> ontology_names prog | Inl _ \<Rightarrow> []);
                   names' = (if names = [] then (case tables of Some ts \<Rightarrow> ts | None \<Rightarrow> []) else names) in
               Ok (content, names'))))"

definition rpc_SaveOntology :: "nanos \<Rightarrow> string \<Rightarrow> string \<Rightarrow> disk \<Rightarrow> string \<Rightarrow> string \<Rightarrow> unit rpc_result \<times> disk" where
  "rpc_SaveOntology now cwd projectsRoot d projectID definition_text =
    (case sanitizePath cwd projectsRoot [projectID, ''ontologies'', ''core.aleph''] of
       Inl e \<Rightarrow> (Err InvalidArgument (RpcPath e), d)
     | Inr ontPath \<Rightarrow>
         (let bakPath = ontPath @ ''.'' @ Itoa (Unix now) @ ''.bak'';
              tmpBak = bakPath @ ''.tmp'';
              d1 = (case os_Stat ontPath d of
                      Inl _ \<Rightarrow> d
                    | Inr _ \<Rightarrow>
                        (let content = (case os_ReadFile ontPath d of Inr s \<Rightarrow> s | Inl _ \<Rightarrow> []) in
                         snd (os_Rename tmpBak bakPath (snd (os_WriteFile tmpBak content d)))));
              tmpFile = ontPath @ ''.tmp'' in
          case os_WriteFile tmpFile definition_text d1 of
            (Some e, d2) \<Rightarrow> (Err Internal (RpcOs e), d2)
          | (None, d2) \<Rightarrow>
              (case os_Rename tmpFile ontPath d2 of
                 (Some e, d3) \<Rightarrow> (Err Internal (RpcOs e), d3)
               | (None, d3) \<Rightarrow> (Ok (), d3))))"

section \<open>Versions of an ontology over HTTP\<close>

record propose_request =
  pq_ProjectID :: string
  pq_ParentVersionID :: string
  pq_AlephDefinition :: string
  pq_DiffJSON :: string
  pq_SourceDescription :: string
  pq_Rationale :: string
  pq_Confidence :: real

datatype negotiate_body =
    NegotiateError string
  | NegotiateRepo repo_error
  | Proposed string string
  | StatusSet string string
  | Versions "OntologyVersionRecord list"

definition unavailable_repo :: "nat \<times> negotiate_body" where
  "unavailable_repo = (503, NegotiateError ''ontology repository not available'')"

text \<open>A request body that is not valid JSON is \<open>None\<close>; the database is \<open>None\<close> when there is no ontology repository.\<close>

definition NegotiatePropose ::
  "db_error option \<Rightarrow> nanos \<Rightarrow> string \<Rightarrow> database option \<Rightarrow> propose_request option \<Rightarrow> (nat \<times> negotiate_body) \<times> database option" where
  "NegotiatePropose fault now versionID db body =
    (case db of
       None \<Rightarrow> (unavailable_repo, None)
     | Some d \<Rightarrow>
         (case body of
            None \<Rightarrow> ((400, NegotiateError ''invalid JSON''), db)
          | Some q \<Rightarrow>
              if pq_ProjectID q = [] \<or> pq_AlephDefinition q = [] then ((400, NegotiateError ''project_id and aleph_definition are required''), db)
              else (case ProposeOntologyDiff fault now versionID d (pq_ProjectID q) (pq_ParentVersionID q) (pq_DiffJSON q) (pq_AlephDefinition q)
                           (pq_SourceDescription q) (pq_Rationale q) (pq_Confidence q) of
                      (Inl e, d') \<Rightarrow> ((500, NegotiateRepo e), Some d')
                    | (Inr v, d') \<Rightarrow> ((200, Proposed v (pq_AlephDefinition q)), Some d'))))"

definition NegotiateAccept :: "db_error option \<Rightarrow> nanos \<Rightarrow> database option \<Rightarrow> string option \<Rightarrow> (nat \<times> negotiate_body) \<times> database option" where
  "NegotiateAccept fault now db body =
    (case db of
       None \<Rightarrow> (unavailable_repo, None)
     | Some d \<Rightarrow>
         (case body of
            None \<Rightarrow> ((400, NegotiateError ''invalid JSON body''), db)
          | Some versionID \<Rightarrow>
              if versionID = [] then ((400, NegotiateError ''version_id is required''), db)
              else (case AcceptDiff fault now d versionID of
                      (Some e, d') \<Rightarrow> ((500, NegotiateRepo e), Some d')
                    | (None, d') \<Rightarrow> ((200, StatusSet versionID ''accepted''), Some d'))))"

definition NegotiateReject ::
  "db_error option \<Rightarrow> nanos \<Rightarrow> database option \<Rightarrow> (string \<times> string) option \<Rightarrow> (nat \<times> negotiate_body) \<times> database option" where
  "NegotiateReject fault now db body =
    (case db of
       None \<Rightarrow> (unavailable_repo, None)
     | Some d \<Rightarrow>
         (case body of
            None \<Rightarrow> ((400, NegotiateError ''invalid JSON body''), db)
          | Some (versionID, reason) \<Rightarrow>
              if versionID = [] then ((400, NegotiateError ''version_id is required''), db)
              else (case RejectDiff fault now d versionID reason of
                      (Some e, d') \<Rightarrow> ((500, NegotiateRepo e), Some d')
                    | (None, d') \<Rightarrow> ((200, StatusSet versionID ''rejected''), Some d'))))"

definition NegotiateList :: "db_error option \<Rightarrow> database option \<Rightarrow> string \<Rightarrow> nat \<times> negotiate_body" where
  "NegotiateList fault db projectID =
    (case db of
       None \<Rightarrow> unavailable_repo
     | Some d \<Rightarrow>
         if projectID = [] then (400, NegotiateError ''project_id is required'')
         else (case ListVersions fault d projectID 20 of Inl e \<Rightarrow> (500, NegotiateRepo e) | Inr vs \<Rightarrow> (200, Versions vs)))"

end
