(* ===== verification/Emergence.thy ===== *)
theory Emergence
  imports Projects
begin

text \<open>
  The ontology that a project gets from its tables, \<^verbatim>\<open>internal/api/handler/project.go\<close> from \<^verbatim>\<open>mapDuckDBType\<close> to \<^verbatim>\<open>EmergeOntology\<close>. The names and
  columns of the tables are answers of DuckDB and arguments here, as is the language model. The text that is generated is compared with
  the grammar of the language, which the structure tags of \<^verbatim>\<open>internal/dsl/ast.go\<close> give.
\<close>

section \<open>Tables and relationships\<close>

record columnInfo =
  col_Name :: string
  col_Type :: string

record tableSchema =
  ts_Name :: string
  ts_Columns :: "columnInfo list"

record detectedRelationship =
  dr_Name :: string
  dr_FromObject :: string
  dr_FromColumn :: string
  dr_ToObject :: string
  dr_ToColumn :: string
  dr_Type :: string
  dr_Confidence :: string

definition mapDuckDBType :: "string \<Rightarrow> string" where
  "mapDuckDBType rawType =
    (let upper = ToUpper rawType in
     if Contains upper ''INT'' \<or> Contains upper ''DOUBLE'' \<or> Contains upper ''FLOAT'' \<or> Contains upper ''DECIMAL'' then ''number''
     else if Contains upper ''TIMESTAMP'' \<or> Contains upper ''DATE'' \<or> Contains upper ''TIME'' then ''datetime''
     else if Contains upper ''BOOLEAN'' \<or> Contains upper ''BOOL'' then ''boolean''
     else ''text'')"

text \<open>The tables are \<open>None\<close> if they cannot be listed; a table whose columns cannot be read is left out.\<close>

definition collectTableSchemas :: "string list option \<Rightarrow> (string \<Rightarrow> columnInfo list option) \<Rightarrow> tableSchema list option" where
  "collectTableSchemas tables columns =
    map_option (\<lambda>names. concat (map (\<lambda>tn. case columns tn of None \<Rightarrow> [] | Some cols \<Rightarrow> [\<lparr>ts_Name = tn, ts_Columns = cols\<rparr>]) names)) tables"

text \<open>The map from lower-case names to names: a later table replaces an earlier one.\<close>

definition objLower :: "tableSchema list \<Rightarrow> string \<Rightarrow> string option" where
  "objLower schemas k = map_option ts_Name (find (\<lambda>s. ToLower (ts_Name s) = k) (rev schemas))"

definition fk_candidates :: "string \<Rightarrow> string list" where
  "fk_candidates refBase = [refBase, refBase @ ''s'', TrimSuffix refBase ''s'']"

definition fk_relationship :: "tableSchema \<Rightarrow> columnInfo \<Rightarrow> string \<Rightarrow> detectedRelationship" where
  "fk_relationship s c target =
    \<lparr>dr_Name = ts_Name s @ ''_has_'' @ target, dr_FromObject = ts_Name s, dr_FromColumn = col_Name c, dr_ToObject = target, dr_ToColumn = ''id'',
     dr_Type = ''fk'', dr_Confidence = ''high''\<rparr>"

definition name_relationship :: "tableSchema \<Rightarrow> columnInfo \<Rightarrow> string \<Rightarrow> detectedRelationship" where
  "name_relationship s c target =
    \<lparr>dr_Name = ts_Name s @ ''_references_'' @ target, dr_FromObject = ts_Name s, dr_FromColumn = col_Name c, dr_ToObject = target, dr_ToColumn = ''id'',
     dr_Type = ''name_match'', dr_Confidence = ''medium''\<rparr>"

text \<open>The loop over the map finds at most one name, the lower-case name of the column, so its order does not matter.\<close>

definition column_relationships :: "tableSchema list \<Rightarrow> tableSchema \<Rightarrow> columnInfo \<Rightarrow> detectedRelationship list" where
  "column_relationships schemas s c =
    (let lowCol = ToLower (col_Name c) in
     if HasSuffix lowCol ''_id'' then
       (if length lowCol > 3 then
          (case filter (\<lambda>t. t \<noteq> ToLower (ts_Name s))
                  (concat (map (\<lambda>cand. case objLower schemas cand of Some t \<Rightarrow> [t] | None \<Rightarrow> []) (fk_candidates (TrimSuffix lowCol ''_id'')))) of
             [] \<Rightarrow> []
           | t # _ \<Rightarrow> [fk_relationship s c t])
        else [])
     else
       (case objLower schemas lowCol of
          Some t \<Rightarrow> if lowCol \<noteq> ToLower (ts_Name s) then [name_relationship s c t] else []
        | None \<Rightarrow> []))"

definition detectFKRelationships :: "tableSchema list \<Rightarrow> detectedRelationship list" where
  "detectFKRelationships schemas = concat (map (\<lambda>s. concat (map (column_relationships schemas s) (ts_Columns s))) schemas)"

section \<open>The definition\<close>

definition EqualFold :: "string \<Rightarrow> string \<Rightarrow> bool" where
  "EqualFold s t \<longleftrightarrow> ToLower s = ToLower t"

fun column_lines :: "bool \<Rightarrow> columnInfo list \<Rightarrow> string" where
  "column_lines hasID [] = (if hasID then [] else ''  id id'' @ [NL])"
| "column_lines hasID (c # cs) =
    (if \<not> hasID \<and> EqualFold (col_Name c) ''id'' then ''  id id'' @ [NL] @ column_lines True cs
     else ''  property '' @ col_Name c @ '' type '' @ mapDuckDBType (col_Type c) @ '' from '' @ col_Name c @ [NL] @ column_lines hasID cs)"

definition object_text :: "tableSchema \<Rightarrow> string" where
  "object_text s = ''object '' @ ts_Name s @ [NL] @ ''  from dataset '' @ ts_Name s @ [NL] @ column_lines False (ts_Columns s) @ [NL]"

definition relation_text :: "detectedRelationship \<Rightarrow> string" where
  "relation_text r =
    ''relation '' @ dr_Name r @ '' from '' @ dr_FromObject r @ ''.'' @ dr_FromColumn r @ '' to '' @ dr_ToObject r @ ''.'' @ dr_ToColumn r
      @ '' equals '' @ dr_FromObject r @ ''.'' @ dr_FromColumn r @ [NL]
    @ ''  type '' @ dr_Type r @ [NL]
    @ ''  // confidence: '' @ dr_Confidence r @ [NL]"

definition buildAlephDefinition :: "tableSchema list \<Rightarrow> detectedRelationship list \<Rightarrow> string" where
  "buildAlephDefinition schemas rels = concat (map object_text schemas) @ concat (map relation_text rels)"

text \<open>The arrow of the prompt is three bytes in UTF-8.\<close>

definition arrow :: string where
  "arrow = [CHR 0xE2, CHR 0x86, CHR 0x92]"

definition emergePrompt :: "tableSchema list \<Rightarrow> detectedRelationship list \<Rightarrow> string" where
  "emergePrompt schemas rels =
    ''Sei un ontologo esperto. Analizzi sorgenti dati e produci un'' @ [SQ] @ ''ontologia strutturata nel formato DSL aleph.'' @ [NL, NL]
    @ ''Regole:'' @ [NL]
    @ ''- Ogni '' @ [DQ] @ ''source'' @ [DQ] @ '' (tabella) diventa un Object'' @ [NL]
    @ ''- Colonne con nomi simili tra sorgenti diverse potrebbero essere relazioni'' @ [NL]
    @ ''- Type inference: string '' @ arrow @ '' text, int/float '' @ arrow @ '' number, date/time '' @ arrow @ '' datetime, bool '' @ arrow @ '' boolean'' @ [NL]
    @ ''- Relazioni: FK naming (user_id '' @ arrow @ '' users.id), name overlap (customer_name '' @ arrow @ '' customer.name)'' @ [NL]
    @ ''- Output in formato DSL aleph (objects + relations)'' @ [NL, NL]
    @ ''Database tables and columns:'' @ [NL, NL]
    @ concat (map (\<lambda>s. ''Table: '' @ ts_Name s @ [NL]
        @ concat (map (\<lambda>c. ''  - '' @ col_Name c @ '' ('' @ col_Type c @ '')'' @ [NL]) (ts_Columns s)) @ [NL]) schemas)
    @ (if rels = [] then []
       else ''Automatically detected relationships (for reference):'' @ [NL]
         @ concat (map (\<lambda>r. ''  - '' @ dr_FromObject r @ ''.'' @ dr_FromColumn r @ '' '' @ arrow @ '' '' @ dr_ToObject r @ ''.'' @ dr_ToColumn r
             @ '' (confidence: '' @ dr_Confidence r @ '')'' @ [NL]) rels) @ [NL])
    @ ''Generate the full aleph DSL ontology definition for these tables. Include all objects, properties with correct types, and all detected relationships.'' @ [NL]"

text \<open>The language model is \<open>None\<close> when there is none; its answer is \<open>None\<close> when the call fails.\<close>

definition rpc_EmergeOntology ::
  "string list option \<Rightarrow> (string \<Rightarrow> columnInfo list option) \<Rightarrow> (string \<Rightarrow> string option) option \<Rightarrow> string rpc_result" where
  "rpc_EmergeOntology tables columns llm =
    (case collectTableSchemas tables columns of
       None \<Rightarrow> Err Internal (RpcText ''collect schemas'')
     | Some schemas \<Rightarrow>
         (let rels = detectFKRelationships schemas;
              alephDef = buildAlephDefinition schemas rels in
          case llm of
            None \<Rightarrow> Ok alephDef
          | Some ask \<Rightarrow>
              (case ask (emergePrompt schemas rels) of
                 Some content \<Rightarrow> if content \<noteq> [] then Ok content else Ok alephDef
               | None \<Rightarrow> Ok alephDef)))"

section \<open>Relationships connect tables\<close>

lemma objLower_Some: "objLower schemas k = Some t \<Longrightarrow> \<exists>s \<in> set schemas. ts_Name s = t \<and> ToLower t = k"
proof -
  assume "objLower schemas k = Some t"
  then obtain s where s: "find (\<lambda>s. ToLower (ts_Name s) = k) (rev schemas) = Some s" "t = ts_Name s" by (auto simp: objLower_def)
  then have "s \<in> set (rev schemas) \<and> ToLower (ts_Name s) = k" unfolding find_Some_iff using nth_mem by blast
  then show ?thesis using s(2) by auto
qed

lemma fk_candidates_target:
  assumes "t \<in> set (concat (map (\<lambda>cand. case objLower schemas cand of Some t \<Rightarrow> [t] | None \<Rightarrow> []) cands))"
  shows "\<exists>s \<in> set schemas. ts_Name s = t \<and> ToLower t \<in> set cands"
proof -
  obtain cand where "cand \<in> set cands" "objLower schemas cand = Some t" using assms by (auto split: option.splits)
  then show ?thesis using objLower_Some by blast
qed

text \<open>Every detected relationship leads from a column of a table to a table, and its type says how it was found.\<close>

theorem detected_relationship_connects:
  assumes "r \<in> set (detectFKRelationships schemas)"
  shows "\<exists>s \<in> set schemas. \<exists>c \<in> set (ts_Columns s). \<exists>s' \<in> set schemas.
    dr_FromObject r = ts_Name s \<and> dr_FromColumn r = col_Name c \<and> dr_ToObject r = ts_Name s' \<and>
    dr_Name r \<in> {ts_Name s @ ''_has_'' @ ts_Name s', ts_Name s @ ''_references_'' @ ts_Name s'} \<and>
    (dr_Type r = ''fk'' \<and> ToLower (ts_Name s') \<in> set (fk_candidates (TrimSuffix (ToLower (col_Name c)) ''_id'')) \<or>
     dr_Type r = ''name_match'' \<and> ToLower (ts_Name s') = ToLower (col_Name c) \<and> ToLower (ts_Name s') \<noteq> ToLower (ts_Name s))"
proof -
  obtain s c where sc: "s \<in> set schemas" "c \<in> set (ts_Columns s)" "r \<in> set (column_relationships schemas s c)"
    using assms by (auto simp: detectFKRelationships_def)
  show ?thesis
  proof (cases "HasSuffix (ToLower (col_Name c)) ''_id''")
    case True
    define cands where "cands = fk_candidates (TrimSuffix (ToLower (col_Name c)) ''_id'')"
    define targets where "targets = concat (map (\<lambda>cand. case objLower schemas cand of Some t \<Rightarrow> [t] | None \<Rightarrow> []) cands)"
    have "r \<in> set (case filter (\<lambda>t. t \<noteq> ToLower (ts_Name s)) targets of [] \<Rightarrow> [] | t # _ \<Rightarrow> [fk_relationship s c t])"
      using sc(3) True unfolding column_relationships_def Let_def targets_def cands_def by (simp only: if_True split: if_splits) simp_all
    then obtain t ts where t: "r = fk_relationship s c t" "filter (\<lambda>t. t \<noteq> ToLower (ts_Name s)) targets = t # ts"
      by (cases "filter (\<lambda>t. t \<noteq> ToLower (ts_Name s)) targets") auto
    then have "t \<in> set targets" by (auto simp: filter_eq_Cons_iff)
    then have "t \<in> set (concat (map (\<lambda>cand. case objLower schemas cand of Some t \<Rightarrow> [t] | None \<Rightarrow> [])
         (fk_candidates (TrimSuffix (ToLower (col_Name c)) ''_id''))))" by (simp only: targets_def cands_def)
    from fk_candidates_target [OF this] obtain s' where "s' \<in> set schemas" "ts_Name s' = t"
      "ToLower t \<in> set (fk_candidates (TrimSuffix (ToLower (col_Name c)) ''_id''))" by blast
    then show ?thesis using sc t(1) by (intro bexI [of _ s] bexI [of _ c] bexI [of _ s']) (simp_all add: fk_relationship_def)
  next
    case False
    with sc(3) obtain t where t: "objLower schemas (ToLower (col_Name c)) = Some t" "ToLower (col_Name c) \<noteq> ToLower (ts_Name s)"
      "r = name_relationship s c t"
      by (cases "objLower schemas (ToLower (col_Name c))") (auto simp: column_relationships_def Let_def split: if_splits)
    from objLower_Some [OF t(1)] obtain s' where "s' \<in> set schemas" "ts_Name s' = t" "ToLower t = ToLower (col_Name c)" by blast
    then show ?thesis using sc t by (intro bexI [of _ s] bexI [of _ c] bexI [of _ s']) (simp_all add: name_relationship_def)
  qed
qed

text \<open>A table whose name has a capital letter is not recognised as itself: the name found is compared with its lower-case form.\<close>

theorem table_related_to_itself:
  "detectFKRelationships [\<lparr>ts_Name = ''Users'', ts_Columns = [\<lparr>col_Name = ''user_id'', col_Type = ''INTEGER''\<rparr>]\<rparr>] =
     [\<lparr>dr_Name = ''Users_has_Users'', dr_FromObject = ''Users'', dr_FromColumn = ''user_id'', dr_ToObject = ''Users'', dr_ToColumn = ''id'',
       dr_Type = ''fk'', dr_Confidence = ''high''\<rparr>]"
  by code_simp

section \<open>The grammar of the language\<close>

text \<open>The tokens of the default lexer of the parser, and the token sequences that the structure tags of \<^verbatim>\<open>ast.go\<close> admit. Keywords are identifiers.\<close>

datatype dsl_token = Ident string | StringTok string | IntTok string | FloatTok string | CharTok char

definition filter_operators :: "string list" where
  "filter_operators = [''eq'', ''neq'', ''gt'', ''gte'', ''lt'', ''lte'', ''like'']"

definition aggregate_functions :: "string list" where
  "aggregate_functions = [''count'', ''sum'', ''avg'', ''min'', ''max'']"

inductive grammar_param :: "dsl_token list \<Rightarrow> bool" where
  "req \<in> {[], [Ident ''required'']} \<Longrightarrow> grammar_param ([Ident n, Ident ''type'', Ident t] @ req @ [StringTok d])"

inductive grammar_property :: "dsl_token list \<Rightarrow> bool" where
  "src \<in> {[], [Ident ''from'', Ident f]} \<Longrightarrow> pred \<in> {[], [Ident ''predict'']} \<Longrightarrow>
    list_all (\<lambda>m. \<exists>a b. m = [Ident ''map'', StringTok a, Ident ''to'', StringTok b]) maps \<Longrightarrow>
    grammar_property ([Ident ''property'', Ident n, Ident ''type'', Ident t] @ src @ pred @ concat maps)"

inductive object_rule :: "dsl_token list \<Rightarrow> bool" where
  "list_all grammar_property props \<Longrightarrow>
    list_all (\<lambda>x. \<exists>n t f. x = [Ident ''factor'', Ident n, Ident ''type'', Ident t, Ident ''from'', Ident f]) factors \<Longrightarrow>
    list_all (\<lambda>x. \<exists>f q v. x = [Ident ''filter'', Ident f, Ident q, v] \<and> q \<in> set filter_operators \<and>
       (\<exists>s. v \<in> {StringTok s, Ident s, IntTok s, FloatTok s})) filters \<Longrightarrow>
    list_all (\<lambda>x. \<exists>g f a. x = [Ident ''aggregate'', Ident g, CharTok (CHR ''(''), Ident f, CharTok (CHR '')''), Ident ''as'', Ident a] \<and>
       g \<in> set aggregate_functions) aggregates \<Longrightarrow>
    object_rule ([Ident ''object'', Ident n, Ident ''from'', Ident ''dataset'', Ident src, Ident ''id'', Ident i]
      @ concat props @ concat factors @ concat filters @ concat aggregates)"

inductive grammar_statement :: "dsl_token list \<Rightarrow> bool" where
  "object_rule ts \<Longrightarrow> grammar_statement ts"
| "grammar_statement [Ident ''relation'', Ident n, Ident ''from'', Ident a, Ident ''to'', Ident b, Ident ''on'', Ident l, Ident ''equals'', Ident r]"
| "v = IntTok k \<or> v = Ident ''auto'' \<Longrightarrow> grammar_statement [Ident ''dataset'', Ident n, Ident ''version'', v, Ident ''from'', Ident f]"
| "list_all grammar_property ps \<Longrightarrow> grammar_statement ([Ident ''action'', Ident n, Ident ''on'', Ident obj] @ concat ps)"
| "list_all grammar_param ins \<Longrightarrow> list_all grammar_param outs \<Longrightarrow>
    grammar_statement ([Ident ''tool'', Ident n, CharTok (CHR ''{''), Ident ''name'', StringTok d, Ident ''inputs'', CharTok (CHR ''{'')] @ concat ins
      @ [CharTok (CHR ''}''), Ident ''outputs'', CharTok (CHR ''{'')] @ concat outs
      @ [CharTok (CHR ''}''), Ident ''handler'', CharTok (CHR ''{''), Ident ''language'', Ident l, Ident ''entry'', StringTok e, CharTok (CHR ''}''), CharTok (CHR ''}'')])"

definition grammar_program :: "dsl_token list \<Rightarrow> bool" where
  "grammar_program ts \<longleftrightarrow> (\<exists>stmts. list_all grammar_statement stmts \<and> ts = concat stmts)"

text \<open>No rule has a full stop.\<close>

definition no_stop :: "dsl_token list \<Rightarrow> bool" where
  "no_stop ts \<longleftrightarrow> CharTok (CHR ''.'') \<notin> set ts"

lemma no_stop_concat: "(\<And>x. x \<in> set xs \<Longrightarrow> no_stop x) \<Longrightarrow> no_stop (concat xs)"
  by (auto simp: no_stop_def)

lemma grammar_param_no_stop: "grammar_param ts \<Longrightarrow> no_stop ts"
  by (erule grammar_param.cases) (auto simp: no_stop_def)

lemma grammar_property_no_stop: "grammar_property ts \<Longrightarrow> no_stop ts"
  by (erule grammar_property.cases) (auto simp: no_stop_def list_all_iff)

lemma object_rule_no_stop: "object_rule ts \<Longrightarrow> no_stop ts"
proof (erule object_rule.cases)
  fix props factors filters aggregates n src i
  assume ts: "ts = [Ident ''object'', Ident n, Ident ''from'', Ident ''dataset'', Ident src, Ident ''id'', Ident i]
      @ concat props @ concat factors @ concat filters @ concat aggregates"
    and props: "list_all grammar_property props"
    and rest: "list_all (\<lambda>x. \<exists>n t f. x = [Ident ''factor'', Ident n, Ident ''type'', Ident t, Ident ''from'', Ident f]) factors"
      "list_all (\<lambda>x. \<exists>f q v. x = [Ident ''filter'', Ident f, Ident q, v] \<and> q \<in> set filter_operators \<and>
         (\<exists>s. v \<in> {StringTok s, Ident s, IntTok s, FloatTok s})) filters"
      "list_all (\<lambda>x. \<exists>g f a. x = [Ident ''aggregate'', Ident g, CharTok (CHR ''(''), Ident f, CharTok (CHR '')''), Ident ''as'', Ident a] \<and>
         g \<in> set aggregate_functions) aggregates"
  have "no_stop (concat props)" using props grammar_property_no_stop by (intro no_stop_concat) (auto simp: list_all_iff)
  moreover have "no_stop (concat factors)" using rest(1) by (intro no_stop_concat) (auto simp: list_all_iff no_stop_def)
  moreover have "no_stop (concat filters)"
  proof (rule no_stop_concat)
    fix x assume x: "x \<in> set filters"
    show "no_stop x" using bspec [OF rest(2) [unfolded list_all_iff] x] by (elim exE conjE) (auto simp: no_stop_def)
  qed
  moreover have "no_stop (concat aggregates)"
  proof (rule no_stop_concat)
    fix x assume x: "x \<in> set aggregates"
    show "no_stop x" using bspec [OF rest(3) [unfolded list_all_iff] x] by (elim exE conjE) (simp add: no_stop_def)
  qed
  ultimately show ?thesis unfolding ts by (auto simp: no_stop_def)
qed

lemma grammar_statement_no_stop: "grammar_statement ts \<Longrightarrow> no_stop ts"
proof (induction rule: grammar_statement.induct)
  case (4 ps n obj)
  then have "no_stop (concat ps)" using grammar_property_no_stop by (intro no_stop_concat) (auto simp: list_all_iff)
  then show ?case by (auto simp: no_stop_def)
next
  case (5 ins outs n d l e)
  then have "no_stop (concat ins)" "no_stop (concat outs)" using grammar_param_no_stop by (auto intro!: no_stop_concat simp: list_all_iff)
  then show ?case by (auto simp: no_stop_def)
qed (auto simp: object_rule_no_stop, auto simp: no_stop_def)

lemma grammar_program_no_stop:
  assumes "grammar_program ts"
  shows "no_stop ts"
proof -
  obtain stmts where "list_all grammar_statement stmts" "ts = concat stmts" using assms by (auto simp: grammar_program_def)
  then show ?thesis using no_stop_concat [of stmts] grammar_statement_no_stop by (simp add: list_all_iff)
qed

section \<open>Emerged definitions are not programs\<close>

definition ident_char :: "char \<Rightarrow> bool" where
  "ident_char c \<longleftrightarrow> is_alpha c \<or> c = CHR ''_'' \<or> is_digit c"

definition ident_word :: "string \<Rightarrow> bool" where
  "ident_word w \<longleftrightarrow> w \<noteq> [] \<and> list_all ident_char w \<and> \<not> is_digit (hd w)"

definition blank :: "char \<Rightarrow> bool" where
  "blank c \<longleftrightarrow> c = CHR '' '' \<or> c = NL"

text \<open>What is used of the lexer: an identifier ends before a blank or a full stop, blanks are skipped, and a full stop that no digit
  follows is a token.\<close>

definition scanner_laws :: "(string \<Rightarrow> dsl_token list) \<Rightarrow> bool" where
  "scanner_laws scan \<longleftrightarrow>
    (\<forall>w c s. ident_word w \<and> (blank c \<or> c = CHR ''.'') \<longrightarrow> scan (w @ c # s) = Ident w # scan (c # s)) \<and>
    (\<forall>c s. blank c \<longrightarrow> scan (c # s) = scan s) \<and>
    (\<forall>c s. \<not> is_digit c \<longrightarrow> scan (CHR ''.'' # c # s) = CharTok (CHR ''.'') # scan (c # s))"

definition accepts_grammar :: "(string \<Rightarrow> dsl_token list) \<Rightarrow> (string \<Rightarrow> parse_failure + Program) \<Rightarrow> bool" where
  "accepts_grammar scan parser \<longleftrightarrow> (\<forall>input prog. parser input = Inr prog \<longrightarrow> grammar_program (scan input))"

text \<open>Text made of identifiers and blanks only adds tokens in front.\<close>

inductive spaced :: "string \<Rightarrow> bool" where
  spaced_Nil: "spaced []"
| spaced_blank: "blank c \<Longrightarrow> spaced p \<Longrightarrow> spaced (c # p)"
| spaced_word: "ident_word w \<Longrightarrow> blank c \<Longrightarrow> spaced p \<Longrightarrow> spaced (w @ c # p)"

lemma scan_spaced:
  assumes "scanner_laws scan" "spaced p"
  shows "set (scan s) \<subseteq> set (scan (p @ s))"
  using assms(2)
proof induction
  case (spaced_blank c p)
  then show ?case using assms(1) by (simp add: scanner_laws_def)
next
  case (spaced_word w c p)
  then have "scan (w @ c # p @ s) = Ident w # scan (p @ s)" using assms(1) by (simp add: scanner_laws_def)
  then show ?case using spaced_word.IH by auto
qed simp

lemma spaced_append: "spaced p \<Longrightarrow> spaced q \<Longrightarrow> spaced (p @ q)"
  by (induction rule: spaced.induct) (auto intro: spaced.intros)

lemma spaced_concat: "(\<And>x. x \<in> set xs \<Longrightarrow> spaced x) \<Longrightarrow> spaced (concat xs)"
  by (induction xs) (auto intro: spaced_append spaced_Nil)

text \<open>The literals of the text are read word by word.\<close>

fun spaced_text :: "string \<Rightarrow> string \<Rightarrow> bool" where
  "spaced_text w [] \<longleftrightarrow> w = []"
| "spaced_text w (c # s) \<longleftrightarrow> (if blank c then (w = [] \<or> ident_word (rev w)) \<and> spaced_text [] s else spaced_text (c # w) s)"

lemma spaced_text_spaced: "spaced_text w s \<Longrightarrow> spaced (rev w @ s)"
proof (induction w s rule: spaced_text.induct)
  case (2 w c s)
  then show ?case using spaced_blank [of c s] spaced_word [of "rev w" c s] by (auto split: if_splits)
qed (simp add: spaced_Nil)

lemmas spaced_literal = spaced_text_spaced [of "[]", simplified]

lemma literals_spaced:
  "spaced ''object ''" "spaced ''  from dataset ''" "spaced ''  property ''" "spaced ''type ''" "spaced ''from ''"
  "spaced (''  id id'' @ [NL])" "spaced ''relation ''" "spaced [NL]"
  by (rule spaced_literal, code_simp)+

lemma spaced_line: "ident_word w \<Longrightarrow> spaced (w @ [NL])" "ident_word w \<Longrightarrow> spaced p \<Longrightarrow> spaced (w @ CHR '' '' # p)"
  using spaced_word [of w NL "[]"] spaced_word [of w "CHR '' ''"] by (simp_all add: blank_def spaced_Nil)

lemma mapDuckDBType_word: "ident_word (mapDuckDBType t)"
proof -
  have "ident_word ''number''" "ident_word ''datetime''" "ident_word ''boolean''" "ident_word ''text''" by code_simp+
  then show ?thesis by (simp add: mapDuckDBType_def Let_def)
qed

lemma column_lines_spaced: "(\<And>c. c \<in> set cs \<Longrightarrow> ident_word (col_Name c)) \<Longrightarrow> spaced (column_lines hasID cs)"
proof (induction cs arbitrary: hasID)
  case Nil
  then show ?case using literals_spaced(6) by (simp add: spaced_Nil)
next
  case (Cons c cs)
  have rest: "spaced (column_lines h cs)" for h using Cons by simp
  have "spaced (''  property '' @ (col_Name c @ CHR '' '' # ''type '') @ (mapDuckDBType (col_Type c) @ CHR '' '' # ''from '') @ (col_Name c @ [NL]) @ column_lines hasID cs)"
    using Cons.prems [of c] by (intro spaced_append rest spaced_line literals_spaced mapDuckDBType_word) simp_all
  moreover have "spaced ((''  id id'' @ [NL]) @ column_lines True cs)" by (intro spaced_append rest literals_spaced)
  ultimately show ?case by simp
qed

definition names_are_identifiers :: "tableSchema list \<Rightarrow> bool" where
  "names_are_identifiers schemas \<longleftrightarrow> list_all (\<lambda>s. ident_word (ts_Name s) \<and> list_all (\<lambda>c. ident_word (col_Name c)) (ts_Columns s)) schemas"

lemma object_text_spaced:
  assumes "names_are_identifiers schemas" "s \<in> set schemas"
  shows "spaced (object_text s)"
proof -
  have "ident_word (ts_Name s)" "\<And>c. c \<in> set (ts_Columns s) \<Longrightarrow> ident_word (col_Name c)"
    using assms by (auto simp: names_are_identifiers_def list_all_iff)
  then have "spaced (''object '' @ (ts_Name s @ [NL]) @ ''  from dataset '' @ (ts_Name s @ [NL]) @ column_lines False (ts_Columns s) @ [NL])"
    by (intro spaced_append literals_spaced spaced_line column_lines_spaced)
  then show ?thesis by (simp add: object_text_def)
qed

lemma ident_word_append: "ident_word a \<Longrightarrow> list_all ident_char b \<Longrightarrow> ident_word (a @ b)"
  by (cases a) (auto simp: ident_word_def)

text \<open>C39. An ontology that emerges from tables with a detected relationship is not a program of the language: the line of a relationship qualifies
  columns with a full stop, which no rule of the grammar has, so the parser rejects the whole text.\<close>

theorem emerged_relationship_does_not_parse:
  assumes "scanner_laws scan" "accepts_grammar scan parser" "names_are_identifiers schemas" "detectFKRelationships schemas \<noteq> []"
  shows "\<exists>e. Parse parser (buildAlephDefinition schemas (detectFKRelationships schemas)) = Inl e"
proof -
  obtain r rs where rels: "detectFKRelationships schemas = r # rs" using assms(4) by (meson neq_Nil_conv)
  then obtain s c s' where sc: "s \<in> set schemas" "c \<in> set (ts_Columns s)" "s' \<in> set schemas" "dr_FromObject r = ts_Name s"
    "dr_FromColumn r = col_Name c"
    "dr_Name r \<in> {ts_Name s @ ''_has_'' @ ts_Name s', ts_Name s @ ''_references_'' @ ts_Name s'}"
    using detected_relationship_connects [of r schemas] by (metis list.set_intros(1))
  have words: "ident_word (ts_Name s)" "ident_word (ts_Name s')" "ident_word (col_Name c)"
    using assms(3) sc by (auto simp: names_are_identifiers_def list_all_iff)
  have "list_all ident_char ''_has_''" "list_all ident_char ''_references_''" by code_simp+
  with words sc(6) have name: "ident_word (dr_Name r)" by (auto intro!: ident_word_append simp: ident_word_def)
  let ?p = "concat (map object_text schemas) @ ''relation '' @ (dr_Name r @ CHR '' '' # ''from '')"
  have "spaced ?p"
    using object_text_spaced [OF assms(3)] name by (intro spaced_append spaced_concat spaced_line literals_spaced) auto
  moreover obtain t where t: "buildAlephDefinition schemas (detectFKRelationships schemas) = ?p @ ts_Name s @ CHR ''.'' # col_Name c @ t"
    by (simp add: rels buildAlephDefinition_def relation_text_def sc)
  moreover have "CharTok (CHR ''.'') \<in> set (scan (ts_Name s @ CHR ''.'' # col_Name c @ t))"
  proof -
    obtain x y where "col_Name c = x # y" "\<not> is_digit x" using words(3) by (cases "col_Name c") (auto simp: ident_word_def)
    then show ?thesis using assms(1) words(1) by (simp add: scanner_laws_def)
  qed
  ultimately have "\<not> no_stop (scan (buildAlephDefinition schemas (detectFKRelationships schemas)))"
    using scan_spaced [OF assms(1)] unfolding no_stop_def t by blast
  then have "\<not> grammar_program (scan (buildAlephDefinition schemas (detectFKRelationships schemas)))" using grammar_program_no_stop by blast
  then have "\<nexists>prog. parser (buildAlephDefinition schemas (detectFKRelationships schemas)) = Inr prog"
    using assms(2) unfolding accepts_grammar_def by blast
  then show ?thesis by (cases "parser (buildAlephDefinition schemas (detectFKRelationships schemas))")
      (auto simp: Parse_def split: parse_failure.splits)
qed

text \<open>A lexer and a parser to which the laws apply.\<close>

function sample_scan :: "string \<Rightarrow> dsl_token list" where
  "sample_scan [] = []"
| "sample_scan (c # s) =
    (if blank c then sample_scan s
     else if ident_char c then Ident (takeWhile ident_char (c # s)) # sample_scan (dropWhile ident_char s)
     else CharTok c # sample_scan s)"
  by pat_completeness auto

termination
  by (relation "measure length") (auto simp: le_imp_less_Suc length_dropWhile_le)

lemma sample_scan_laws: "scanner_laws sample_scan"
proof -
  have stop: "\<not> ident_char (CHR ''.'')" "\<not> blank (CHR ''.'')" "\<And>c. blank c \<Longrightarrow> \<not> ident_char c"
    by (auto simp: ident_char_def blank_def is_alpha_def is_upper_def is_lower_def is_digit_def code_def)
  have "sample_scan (w @ c # s) = Ident w # sample_scan (c # s)" if "ident_word w" "blank c \<or> c = CHR ''.''" for w c s
  proof -
    from that have w: "w \<noteq> []" "\<And>x. x \<in> set w \<Longrightarrow> ident_char x" and c: "\<not> ident_char c" using stop by (auto simp: ident_word_def list_all_iff)
    obtain x y where x: "w = x # y" using w(1) by (cases w) auto
    have "takeWhile ident_char (w @ c # s) = w" "dropWhile ident_char (y @ c # s) = c # s"
      using w c x by (auto simp: takeWhile_append dropWhile_append)
    moreover have "ident_char x" "\<not> blank x" using w(2) x stop(3) by auto
    ultimately show ?thesis using x by simp
  qed
  moreover have "sample_scan (CHR ''.'' # c # s) = CharTok (CHR ''.'') # sample_scan (c # s)" for c s using stop by simp
  moreover have "sample_scan (c # s) = sample_scan s" if "blank c" for c s using that by simp
  ultimately show ?thesis unfolding scanner_laws_def by blast
qed

definition sample_parser :: "string \<Rightarrow> parse_failure + Program" where
  "sample_parser input = (if sample_scan input = [] then Inr [] else Inl (Unpositioned ''unexpected token''))"

definition sample_tables :: "tableSchema list" where
  "sample_tables = [\<lparr>ts_Name = ''orders'', ts_Columns = [\<lparr>col_Name = ''id'', col_Type = ''INTEGER''\<rparr>, \<lparr>col_Name = ''user_id'', col_Type = ''INTEGER''\<rparr>]\<rparr>,
     \<lparr>ts_Name = ''users'', ts_Columns = [\<lparr>col_Name = ''id'', col_Type = ''INTEGER''\<rparr>]\<rparr>]"

theorem emerged_relationship_does_not_parse_witness:
  "\<exists>e. Parse sample_parser (buildAlephDefinition sample_tables (detectFKRelationships sample_tables)) = Inl e"
proof (rule emerged_relationship_does_not_parse [OF sample_scan_laws])
  have "grammar_program []" unfolding grammar_program_def by (rule exI [of _ "[]"]) simp
  then show "accepts_grammar sample_scan sample_parser" by (simp add: accepts_grammar_def sample_parser_def)
  show "names_are_identifiers sample_tables" by code_simp
  show "detectFKRelationships sample_tables \<noteq> []" by code_simp
qed

end
