(* ===== verification/Handlers_Facts.thy ===== *)
theory Handlers_Facts
  imports Emergence Auth_Facts Ssrf
begin

text \<open>
  What the procedures do together: keys of agents and of callers, tools, the model service, the library of a project and its ontology
  file.
\<close>

section \<open>Keys of agents\<close>

lemma filter_key:
  assumes "distinct (map f xs)" "x \<in> set xs"
  shows "filter (\<lambda>y. f y = f x) xs = [x]"
proof -
  obtain us vs where xs: "xs = us @ x # vs" using assms(2) by (meson split_list)
  with assms(1) have "f x \<notin> f ` set us" "f x \<notin> f ` set vs" by auto
  then have "filter (\<lambda>y. f y = f x) us = []" "filter (\<lambda>y. f y = f x) vs = []" unfolding filter_empty_conv by (metis image_eqI)+
  then show ?thesis by (simp add: xs)
qed

lemma after_write_Ok:
  assumes "after_write res a = (Ok b, r')"
  shows "res = (None, r')" "b = a"
  using assms by (cases res, auto simp: after_write_def split: option.splits)+

text \<open>C35. Changing an agent destroys its key when the agent is taken from the listing, which masks keys: an update stores the masked key it is
  given, and the chat then uses the first eight characters of the key followed by four stars, or the stars alone.\<close>

theorem listed_agent_update_masks_key:
  assumes "gcm_law (re_Seal env) (re_Open env)" "re_rand env = Some nonce" "length nonce = NonceSize"
    "distinct (map ag_ID (system_agents (repo_db r)))"
    "rpc_ListAgents env ctx r p = Ok as" "a \<in> set as" "rpc_UpdateAgent env ctx r p (Some a) = (Ok a', r')"
  shows "\<exists>row b. row \<in> set (system_agents (repo_db r)) \<and> ag_ID row = va_Id a \<and>
    GetAgentForChat (re_Open env) None r' (va_Id a) = Inr b \<and> ag_ApiKey b = masked_key (ag_ApiKey (listed_agent (re_Open env) r row))"
proof -
  let ?d = "repo_db r" and ?pid = "project_of ctx p"
  let ?rec = "agent_record env ?pid a"
  obtain xs x where xs: "query_rows (re_fault env 0) ?d ''system_agents''
      (map (listed_agent (re_Open env) r) (filter (\<lambda>a. ag_ProjectID a = ?pid) (system_agents ?d))) = Inr xs" "x \<in> set xs" "a = agent_message env x"
    using assms(5,6) by (auto simp: rpc_ListAgents_def ListAgents_def Let_def split: sum.splits)
  then obtain row where row: "row \<in> set (system_agents ?d)" "ag_ProjectID row = ?pid" "a = agent_message env (listed_agent (re_Open env) r row)"
    using query_rows_subset [OF xs(1)] by auto
  have ids: "va_Id a = ag_ID row" "ag_ID ?rec = ag_ID row" "ag_ProjectID ?rec = ?pid"
    by (simp_all add: row(3) agent_message_def agent_record_def listed_agent_def split: sum.splits)
  have key: "ag_ApiKey ?rec = masked_key (ag_ApiKey (listed_agent (re_Open env) r row))"
    by (simp add: row(3) agent_message_def agent_record_def)
  have u: "UpdateAgent (re_Seal env) (Some nonce) (re_fault env 0) r ?rec = (None, r')"
    using after_write_Ok(1) assms(2,7) by (simp add: rpc_UpdateAgent_def)
  obtain c where c: "encrypted (re_Seal env) (Some nonce) r (ag_ApiKey ?rec) = Inr c"
    using u by (cases "encrypted (re_Seal env) (Some nonce) r (ag_ApiKey ?rec)") (auto simp: UpdateAgent_def)
  define upd where "upd = (\<lambda>x. if ag_ID x = ag_ID row \<and> ag_ProjectID x = ?pid then ?rec\<lparr>ag_ApiKey := c\<rparr> else x)"
  have same_id: "ag_ID (upd x) = ag_ID x" for x by (simp add: upd_def ids(2))
  have w: "written ''updateAgent'' r (execute_in (re_fault env 0) ?d ''system_agents'' None (?d\<lparr>system_agents := map upd (system_agents ?d)\<rparr>)) = (None, r')"
    using u c ids by (simp add: UpdateAgent_def Let_def upd_def)
  have r': "r' = r\<lparr>repo_db := ?d\<lparr>system_agents := map upd (system_agents ?d)\<rparr>\<rparr>" using written_None(1) [OF w] .
  have same_relations: "relations (repo_db r') = relations ?d" by (simp add: r')
  have "filter (\<lambda>x. ag_ID x = ag_ID row) (map upd (system_agents ?d)) = map upd (filter (\<lambda>x. ag_ID x = ag_ID row) (system_agents ?d))"
    by (simp add: filter_map comp_def same_id)
  also have "\<dots> = [?rec\<lparr>ag_ApiKey := c\<rparr>]" using filter_key [OF assms(4) row(1)] row(2) by (simp add: upd_def)
  finally have "filter (\<lambda>x. ag_ID x = ag_ID row) (system_agents (repo_db r')) = [?rec\<lparr>ag_ApiKey := c\<rparr>]" by (simp add: r')
  moreover have "statement None (repo_db r') ''system_agents'' = None"
    using written_None(3) [OF w] same_relations by (simp only: statement_def option.case if_True)
  moreover have "decrypted (re_Open env) r' c = Inr (ag_ApiKey ?rec)"
    using decrypted_encrypted [OF assms(1,3) c, of r'] by (simp add: r')
  ultimately have "GetAgentForChat (re_Open env) None r' (va_Id a) = Inr (?rec\<lparr>ag_ProjectID := [], ag_Name := []\<rparr>)"
    by (simp add: GetAgentForChat_def ids(1) first_row_def select_rows_def Let_def)
  then show ?thesis using row(1) ids(1) key by auto
qed

definition sample_rpc_env :: rpc_env where
  "sample_rpc_env = \<lparr>re_Seal = (\<lambda>key nonce plaintext. plaintext), re_Open = (\<lambda>key nonce ciphertext. Some ciphertext),
     re_rand = Some (replicate 12 (CHR ''n'')), re_now = 0, re_uuid = ''u'', re_Marshal = (\<lambda>ids. Join ids '',''),
     re_Unmarshal = (\<lambda>s. if s = [] then [] else Split s (CHR '','')), re_fault = (\<lambda>i. None)\<rparr>"

definition sample_ctx :: auth_ctx where
  "sample_ctx = \<lparr>ctx_projectID = Some ''p'', ctx_role = None\<rparr>"

definition sample_listed_agent :: v1_Agent where
  "sample_listed_agent = agent_message sample_rpc_env (listed_agent (re_Open sample_rpc_env) sample_complete sample_agent)"

theorem listed_agent_update_masks_key_witness:
  "\<exists>r' b. GetAgentForChat (re_Open sample_rpc_env) None r' ''a'' = Inr b \<and> ag_ApiKey b = ''sk-secre****'' \<and> ag_ApiKey sample_agent = ''sk-secret''"
proof -
  let ?update = "rpc_UpdateAgent sample_rpc_env sample_ctx sample_complete [] (Some sample_listed_agent)"
  have listed: "rpc_ListAgents sample_rpc_env sample_ctx sample_complete [] = Ok [sample_listed_agent]"
    unfolding sample_listed_agent_def by code_simp
  have "case fst ?update of Ok _ \<Rightarrow> True | _ \<Rightarrow> False" unfolding sample_listed_agent_def by code_simp
  then obtain a' r' where u: "?update = (Ok a', r')" by (cases ?update) (auto split: rpc_result.splits)
  have law: "gcm_law (re_Seal sample_rpc_env) (re_Open sample_rpc_env)" using gcm_law_example by (simp add: sample_rpc_env_def)
  have facts: "re_rand sample_rpc_env = Some (replicate 12 (CHR ''n''))" "length (replicate 12 (CHR ''n'')) = NonceSize"
    "distinct (map ag_ID (system_agents (repo_db sample_complete)))" "va_Id sample_listed_agent = ''a''"
    "system_agents (repo_db sample_complete) = [sample_agent]"
    "masked_key (ag_ApiKey (listed_agent (re_Open sample_rpc_env) sample_complete sample_agent)) = ''sk-secre****''"
    "ag_ApiKey sample_agent = ''sk-secret''"
    unfolding sample_listed_agent_def by code_simp+
  from listed_agent_update_masks_key [OF law facts(1-3) listed _ u] facts(4-7) show ?thesis by auto
qed

section \<open>Tools\<close>

text \<open>A tool that is changed over the procedure loses its category, version, health and source, which the message does not have.\<close>

theorem updated_tool_loses_metadata:
  assumes "rpc_UpdateTool env r (Some t) = (Ok t', r')" "x \<in> set (system_tools (repo_db r'))" "rec_tool_ID x = vt_Id t"
  shows "rec_Category x = [] \<and> rec_Version x = [] \<and> rec_HealthStatus x = [] \<and> rec_SourceType x = []"
proof -
  have "after_write (UpdateTool (re_fault env 0) r (tool_record t)) t = (Ok t', r')" using assms(1) by (auto simp: rpc_UpdateTool_def split: if_splits)
  then have w: "UpdateTool (re_fault env 0) r (tool_record t) = (None, r')" by (rule after_write_Ok(1))
  then have "system_tools (repo_db r') = map (\<lambda>y. if rec_tool_ID y = vt_Id t then tool_row_of (tool_record t) else y) (system_tools (repo_db r))"
    by (auto simp: UpdateTool_def set_tool_def drop_list_def write_tools_def execute_in_def update_tool_def tool_record_def split: option.splits)
  with assms(2,3) have "x = tool_row_of (tool_record t)" by auto
  then show ?thesis by (simp add: tool_row_of_def ToolRecord.extend_def tool_record_def)
qed

section \<open>Keys of callers\<close>

lemma hex_digit_not: "n < 16 \<Longrightarrow> hex_digit n \<noteq> CHR ''u'' \<and> hex_digit n \<noteq> CHR ''r''"
  using hex_digit_val [of n] by (auto simp: is_hex_def is_digit_def code_def)

lemma hex_start: "hex_EncodeToString b \<noteq> [] \<Longrightarrow> hd (hex_EncodeToString b) \<noteq> CHR ''u'' \<and> hd (hex_EncodeToString b) \<noteq> CHR ''r''"
proof (cases b)
  case (Cons c b')
  have "code c div 16 < 16" using code_less [of c] by linarith
  then show ?thesis using hex_digit_not by (simp add: Cons hex_EncodeToString_def)
qed (simp add: hex_EncodeToString_def)

lemma hex_take: "take (2 * n) (hex_EncodeToString b) = hex_EncodeToString (take n b)"
proof (induction n arbitrary: b)
  case (Suc n)
  then show ?case by (cases b) (simp_all add: hex_EncodeToString_def)
qed (simp add: hex_EncodeToString_def)

lemma verify_own_hash:
  assumes "HashAPIKey IDKey (Some salt) key = Inr enc"
  shows "VerifyAPIKey IDKey key enc = Inr True"
  using Split_hash [OF assms] by (auto simp: VerifyAPIKey_def std64.decode_encode Let_def numeral_eq_Suc)

text \<open>The lookup of the middleware is the repository's.\<close>

definition lookup_in :: "MetadataRepository \<Rightarrow> string \<Rightarrow> (string \<times> string \<times> string) option" where
  "lookup_in r keyID = (case GetAPIKeyByID None r keyID of Inr k \<Rightarrow> Some k | Inl _ \<Rightarrow> None)"

text \<open>C5. A key created by the procedure authenticates: the middleware finds its stored hash by the first eight characters, verifies it, and
  gives the caller the project of the key and the role of a user.\<close>

theorem created_key_authenticates:
  assumes "rpc_CreateApiKey (env_IDKey ae) (Some salt) env r projectID label = (Ok k, r')" "re_rand env = Some b" "length b = 16"
    "env_GetAPIKeyByID ae = lookup_in r'" "vk_Key k \<noteq> env_backendKey ae"
  shows "ValidateAPIKey ae (vk_Key k) = Inr (projectID, RoleUser)"
proof -
  let ?d = "repo_db r" and ?keyID = "hex_EncodeToString (take 4 b)"
  obtain enc where enc: "HashAPIKey (env_IDKey ae) (Some salt) (hex_EncodeToString b) = Inr enc" by (simp add: HashAPIKey_def Let_def)
  have aw: "after_write (CreateAPIKey (re_fault env 0) (re_now env) r ?keyID projectID label enc)
      \<lparr>vk_Id = ?keyID, vk_Label = label, vk_Key = hex_EncodeToString b, vk_CreatedAt = Unix (re_now env)\<rparr> = (Ok k, r')"
    using assms(1) by (simp add: rpc_CreateApiKey_def assms(2) Let_def enc)
  have k: "vk_Key k = hex_EncodeToString b" using after_write_Ok(2) [OF aw] by simp
  have c: "CreateAPIKey (re_fault env 0) (re_now env) r ?keyID projectID label enc = (None, r')" using after_write_Ok(1) [OF aw] .
  define row where "row = \<lparr>ak_ID = ?keyID, ak_ProjectID = projectID, ak_Label = label, ak_Key = enc, ak_CreatedAt = re_now env, ak_role = ''user''\<rparr>"
  have w: "written ''createAPIKey'' r (execute_in (re_fault env 0) ?d ''system_api_keys'' (unique_in ?keyID (map ak_ID (system_api_keys ?d)))
      (?d\<lparr>system_api_keys := system_api_keys ?d @ [row]\<rparr>)) = (None, r')"
    using c by (simp add: CreateAPIKey_def row_def Let_def)
  have "?keyID \<notin> set (map ak_ID (system_api_keys ?d))" using written_None(2) [OF w] by (auto simp: unique_in_def split: if_splits)
  then have "filter (\<lambda>x. ak_ID x = ?keyID) (system_api_keys ?d) = []" unfolding filter_empty_conv by (metis image_eqI list.set_map)
  then have f: "filter (\<lambda>x. ak_ID x = ?keyID) (system_api_keys (repo_db r')) = [row]" by (simp add: written_None(1) [OF w] row_def)
  have "relations (repo_db r') = relations ?d" by (simp add: written_None(1) [OF w])
  then have "statement None (repo_db r') ''system_api_keys'' = None" using written_None(3) [OF w] by (simp only: statement_def option.case if_True)
  then have "lookup_in r' ?keyID = Some (enc, projectID, ''user'')"
    by (simp add: lookup_in_def GetAPIKeyByID_def f first_row_def select_rows_def row_def)
  moreover have "take 8 (hex_EncodeToString b) = ?keyID" using hex_take [of 4 b] by simp
  moreover have "bootstrapRole (env_backendKey ae) (hex_EncodeToString b) = []"
  proof -
    obtain x y where xy: "hex_EncodeToString b = x # y" using assms(3) by (cases "hex_EncodeToString b") (auto dest: arg_cong [of _ _ length])
    then have "x \<noteq> CHR ''u''" "x \<noteq> CHR ''r''" using hex_start [of b] by auto
    then show ?thesis using assms(5) by (simp add: bootstrapRole_def k xy)
  qed
  ultimately show ?thesis
    using assms(3,4) verify_own_hash [OF enc] by (simp add: ValidateAPIKey_def k RoleUser_def)
qed

definition sample_key_result :: "v1_ApiKey rpc_result \<times> MetadataRepository" where
  "sample_key_result = rpc_CreateApiKey (\<lambda>k s _ _ _ _. k @ s) (Some ''salt'') (sample_rpc_env\<lparr>re_rand := Some (replicate 16 (CHR ''A''))\<rparr>) sample_complete ''p'' ''l''"

theorem created_key_authenticates_witness:
  "\<exists>ae k. env_GetAPIKeyByID ae = lookup_in (snd sample_key_result) \<and> fst sample_key_result = Ok k \<and> ValidateAPIKey ae (vk_Key k) = Inr (''p'', RoleUser)"
proof -
  let ?env = "sample_rpc_env\<lparr>re_rand := Some (replicate 16 (CHR ''A''))\<rparr>"
  define k where "k = \<lparr>vk_Id = hex_EncodeToString (take 4 (replicate 16 (CHR ''A''))), vk_Label = ''l'', vk_Key = hex_EncodeToString (replicate 16 (CHR ''A'')),
    vk_CreatedAt = Unix 0\<rparr>"
  define ae where "ae = \<lparr>env_backendKey = [], env_GetAPIKeyByID = lookup_in (snd sample_key_result), env_IDKey = (\<lambda>k s _ _ _ _. k @ s),
    env_ParseWithClaims = (\<lambda>_ _ _ _ _. None)\<rparr>"
  have k: "fst sample_key_result = Ok k"
    by (simp add: k_def sample_key_result_def rpc_CreateApiKey_def sample_rpc_env_def HashAPIKey_def Let_def after_write_def CreateAPIKey_def
        sample_complete_def NewMetadataRepository_def empty_database_def postgres_relations_def written_def execute_in_def statement_def unique_in_def named_def)
  then have c: "rpc_CreateApiKey (env_IDKey ae) (Some ''salt'') ?env sample_complete ''p'' ''l'' = (Ok k, snd sample_key_result)"
    unfolding ae_def sample_key_result_def by (simp add: prod_eq_iff)
  have "vk_Key k \<noteq> env_backendKey ae" by (simp add: k_def ae_def flip: length_0_conv)
  then have "ValidateAPIKey ae (vk_Key k) = Inr (''p'', RoleUser)"
    by (intro created_key_authenticates [OF c, where b = "replicate 16 (CHR ''A'')"]) (simp_all add: ae_def)
  then show ?thesis using k by (intro exI [of _ ae] exI [of _ k]) (simp add: ae_def)
qed

section \<open>Files of projects\<close>

lemma sanitizePath_absolute:
  assumes "list_all plain_comp rt" "rt \<noteq> []"
  shows "sanitizePath cwd (absolute rt) parts =
    (let v = clean_comps True (rev rt) (concat (map (\<lambda>e. Split e (CHR ''/'')) parts)) in
     if prefix rt v then Inr (absolute v) else Inl PathTraversal)"
proof -
  define v where "v = clean_comps True (rev rt) (concat (map (\<lambda>e. Split e (CHR ''/'')) parts))"
  have "list_all (\<lambda>w. CHR ''/'' \<notin> set w) (concat (map (\<lambda>e. Split e (CHR ''/'')) parts))" by (auto simp: list_all_iff dest: Split_no_sep)
  moreover have "clean_shape True (rev (rev rt))" using assms(1) by (auto simp: clean_shape_def)
  ultimately have "clean_shape True v" unfolding v_def by (rule clean_comps_shape [rotated])
  then have plain: "list_all plain_comp v" by (auto simp: clean_shape_def)
  have "filepath_Join (absolute rt # parts) = absolute v" unfolding v_def by (rule filepath_Join_absolute [OF assms(1)])
  then show ?thesis
    using assms plain HasPrefix_absolute [OF assms(1) plain] unfolding v_def [symmetric] by (auto simp: sanitizePath_def Let_def strict_prefix_def)
qed

text \<open>An uploaded asset is read back as it was uploaded, by the identifier the upload returned, whatever the name of the file was.\<close>

theorem uploaded_asset_is_read:
  assumes "rpc_UploadAsset now cwd projectsRoot d projectID filename content = (Ok a, d')"
  shows "rpc_GetAssetContent cwd projectsRoot d' projectID (as_Id a) = Ok content"
proof -
  let ?path = "sanitizePath cwd projectsRoot [projectID, ''library'', filepath_Base filename]"
  define d1 where "d1 = snd (os_MkdirAll (library_path cwd projectsRoot projectID) d)"
  obtain dest where dest: "?path = Inr dest" using assms by (cases ?path) (auto simp: rpc_UploadAsset_def Let_def split: if_splits)
  then have "os_WriteFile dest content d1 = (None, d')" "a = asset_message (Unix now) (filepath_Base filename)"
    using assms by (auto simp: rpc_UploadAsset_def Let_def d1_def split: if_splits prod.splits option.splits)
  then show ?thesis using os_WriteFile_ReadFile dest by (simp add: rpc_GetAssetContent_def asset_message_def)
qed

definition sample_disk :: disk where
  "sample_disk = \<lparr>nodes = [([''srv''], Folder)], refuses = (\<lambda>p. False)\<rparr>"

theorem uploaded_asset_is_read_witness:
  "\<exists>a d'. rpc_UploadAsset 0 ''/'' ''/srv'' sample_disk ''p'' ''notes.txt'' ''hi'' = (Ok a, d') \<and>
    rpc_GetAssetContent ''/'' ''/srv'' d' ''p'' (as_Id a) = Ok ''hi''"
proof -
  let ?u = "rpc_UploadAsset 0 ''/'' ''/srv'' sample_disk ''p'' ''notes.txt'' ''hi''"
  have "case fst ?u of Ok _ \<Rightarrow> True | _ \<Rightarrow> False" by code_simp
  then obtain a where "fst ?u = Ok a" by (auto split: rpc_result.splits)
  then have "?u = (Ok a, snd ?u)" by (simp add: prod_eq_iff)
  with uploaded_asset_is_read [OF this] show ?thesis by blast
qed

text \<open>C36. The library does not separate projects: by an identifier with parent directories an asset of any other project is read in the name
  of a project, because paths are confined to the directory of all projects only.\<close>

theorem asset_of_other_project:
  assumes "list_all plain_comp rt" "rt \<noteq> []" "plain_comp p" "plain_comp q" "plain_comp n"
  shows "rpc_GetAssetContent cwd (absolute rt) d p (''../../'' @ q @ ''/library/'' @ n) = rpc_GetAssetContent cwd (absolute rt) d q n"
proof -
  have slash: "CHR ''/'' \<notin> set p" "CHR ''/'' \<notin> set q" "CHR ''/'' \<notin> set n" using assms by (auto simp: plain_comp_def)
  have lib: "plain_comp ''library''" by code_simp
  have s1: "Split (q @ CHR ''/'' # ''library/'' @ n) (CHR ''/'') = [q, ''library'', n]"
    using slash Split_append_sep [of "CHR ''/''" q] Split_id [of "CHR ''/''" n] by simp
  have s2: "Split (''../../'' @ q @ ''/library/'' @ n) (CHR ''/'') = [''..'', ''..'', q, ''library'', n]" using s1 by simp
  have "clean_comps True (rev rt) (concat (map (\<lambda>e. Split e (CHR ''/'')) [p, ''library'', ''../../'' @ q @ ''/library/'' @ n])) = rt @ [q, ''library'', n]"
    using assms lib by (simp add: s1 [simplified] Split_id slash) (simp add: plain_comp_def)
  moreover have "clean_comps True (rev rt) (concat (map (\<lambda>e. Split e (CHR ''/'')) [q, ''library'', n])) = rt @ [q, ''library'', n]"
    using assms lib by (simp add: Split_id slash) (simp add: plain_comp_def)
  ultimately show ?thesis by (simp add: rpc_GetAssetContent_def sanitizePath_absolute [OF assms(1,2)] Let_def del: append.simps)
qed

definition two_libraries :: disk where
  "two_libraries = sample_disk\<lparr>nodes := ([''srv'', ''q'', ''library'', ''secret''], File ''of q'') # nodes sample_disk\<rparr>"

theorem asset_of_other_project_witness:
  "rpc_GetAssetContent ''/'' ''/srv'' two_libraries ''p'' ''../../q/library/secret'' = Ok ''of q''"
proof -
  have "list_all plain_comp [''srv'']" "plain_comp ''p''" "plain_comp ''q''" "plain_comp ''secret''" "absolute [''srv''] = ''/srv''"
    "rpc_GetAssetContent ''/'' ''/srv'' two_libraries ''q'' ''secret'' = Ok ''of q''" by code_simp+
  then show ?thesis using asset_of_other_project [of "[''srv'']" "''p''" "''q''" "''secret''" "''/''" two_libraries] by simp
qed

text \<open>C37. A saved ontology is read back, also over an older one, of which a copy is kept.\<close>

theorem saved_ontology_is_read:
  assumes "rpc_SaveOntology now cwd projectsRoot d projectID definition_text = (Ok (), d')"
  shows "\<exists>names. rpc_GetOntology parser tables cwd projectsRoot d' projectID = Ok (definition_text, names)"
proof -
  let ?path = "sanitizePath cwd projectsRoot [projectID, ''ontologies'', ''core.aleph'']"
  obtain ontPath where path: "?path = Inr ontPath" using assms by (cases ?path) (auto simp: rpc_SaveOntology_def)
  then obtain d1 d2 where d2: "os_WriteFile (ontPath @ ''.tmp'') definition_text d1 = (None, d2)"
    and d': "os_Rename (ontPath @ ''.tmp'') ontPath d2 = (None, d')"
    using assms by (auto simp: rpc_SaveOntology_def Let_def split: prod.splits option.splits)
  have "node_at d2 (place (ontPath @ ''.tmp'')) = Some (File definition_text)"
    using os_WriteFile_None [OF d2] by simp
  with d' have "os_ReadFile ontPath d' = Inr definition_text"
    by (cases "place ontPath = []") (auto simp: os_Rename_def os_ReadFile_def split: if_splits)
  then show ?thesis by (simp add: rpc_GetOntology_def path Let_def)
qed

definition with_ontology :: disk where
  "with_ontology = sample_disk\<lparr>nodes := [([''srv'', ''p'', ''ontologies'', ''core.aleph''], File ''old''), ([''srv'', ''p'', ''ontologies''], Folder)] @ nodes sample_disk\<rparr>"

theorem saved_ontology_is_read_witness:
  "\<exists>d' names. rpc_SaveOntology 0 ''/'' ''/srv'' with_ontology ''p'' ''new'' = (Ok (), d') \<and>
    rpc_GetOntology (\<lambda>_. Inr []) None ''/'' ''/srv'' d' ''p'' = Ok (''new'', names) \<and>
    os_ReadFile ''/srv/p/ontologies/core.aleph.0.bak'' d' = Inr ''old''"
proof -
  let ?s = "rpc_SaveOntology 0 ''/'' ''/srv'' with_ontology ''p'' ''new''"
  have "fst ?s = Ok ()" "os_ReadFile ''/srv/p/ontologies/core.aleph.0.bak'' (snd ?s) = Inr ''old''" by code_simp+
  then have "?s = (Ok (), snd ?s)" by (simp add: prod_eq_iff)
  with saved_ontology_is_read [OF this] \<open>os_ReadFile _ _ = _\<close> show ?thesis by blast
qed







section \<open>The model service\<close>

text \<open>The client of the request checks the address it dials, as modelled in \<open>Ssrf\<close>; \<open>answer\<close> is what the service would say.\<close>

definition guarded_fetch :: "resolver \<Rightarrow> nets_state \<Rightarrow> (string \<Rightarrow> string option) \<Rightarrow> string \<Rightarrow> string \<Rightarrow> string option" where
  "guarded_fetch resolve st answer addr url = (case fst (dialContext resolve 0 addr st) of Inl _ \<Rightarrow> None | Inr _ \<Rightarrow> answer url)"

text \<open>Without a configured address the models of the local service are asked for, and the guarded client never connects to it: the listing of models
  fails whenever the name resolves to a loopback address.\<close>

theorem default_model_service_refused:
  assumes "ah_ollamaBaseURL h = []" "nets_ready st" "resolve 0 ''localhost'' = Some ips" "ip \<in> set ips" "private_address ip"
  shows "rpc_ListModels (guarded_fetch resolve st answer ''localhost:11434'') names h = Err Unavailable (RpcText ''request failed'')"
proof -
  have host: "SplitHostPort ''localhost:11434'' = Some (''localhost'', ''11434'')" by code_simp
  have "\<not> isBypassHost ''localhost''" by code_simp
  moreover have "fst (check_ips ips st) \<noteq> None"
    using check_ips_ready [OF assms(2), of ips] assms(4,5) by (auto simp: find_None_iff)
  ultimately have "\<exists>e. fst (dialContext resolve 0 ''localhost:11434'' st) = Inl e"
    using assms(3) by (auto simp: dialContext_def host Let_def split: prod.splits option.splits)
  then show ?thesis using assms(1) by (auto simp: rpc_ListModels_def guarded_fetch_def)
qed

end
