(* ===== verification/Sessions.thy ===== *)
theory Sessions
  imports Handlers Auth_Facts
begin

text \<open>
  Sessions over HTTP, \<^verbatim>\<open>internal/api/handler/session.go\<close>: a key is exchanged for a session token in a cookie, a session is ended by revoking the
  token, and a session is validated. The request body is the key it holds, \<open>None\<close> when it does not decode; the cookie is the value
  that \<^verbatim>\<open>net/http\<close> finds under its name.
\<close>

section \<open>The handlers\<close>




record SessionHandler =
  sh_jwtSecret :: string
  sh_revocationStore :: "TokenRevocationStore option"

definition WithRevocationStore :: "SessionHandler \<Rightarrow> TokenRevocationStore \<Rightarrow> SessionHandler" where
  "WithRevocationStore h store = h\<lparr>sh_revocationStore := Some store\<rparr>"






section \<open>A session from its beginning to its end\<close>










end
