(* ===== verification/Spec2Isabelle.thy ===== *)
theory Spec2Isabelle
  imports Decision_Facts Breakers Rate_Limit_Facts Ssrf Auth_Facts Interceptors_Facts Cursor Sandbox_Facts Repair_Facts
    Workflow Suggestion Monitors Diagnostic Tool_Compiler_Facts Metadata_Facts
    Handlers_Facts Sessions
begin

text \<open>
  A verification of the server of \<^verbatim>\<open>noffolo/aleph\<close>, a Go program that answers questions over user data: programs in a small language are compiled to
  SQL for DuckDB, a decision engine plans and runs tools, tools are written and repaired by language models and run in a
  sandbox, and a chain of interceptors guards the procedures. Paths below are relative to \<^verbatim>\<open>src/internal\<close>.

  \<^bold>\<open>Conventions.\<close> A Go string is the list of its bytes, so upper and lower case are those of ASCII. Times and durations are integers in
  nanoseconds (\<open>nanos\<close>). An \<^verbatim>\<open>int\<close> is an integer or natural number; where the code can overflow, the wrap-around is written out (\<open>wrap32\<close> in
  \<open>Breakers\<close>, \<open>wrap64\<close> in \<open>Interceptors\<close>, \<open>Offset\<close> in \<open>Cursor\<close>). Floating point numbers are exact reals. A map is a partial function (\<open>gomap\<close>), or an association
  list where its size or its iteration matters. Errors are values of a sum or option type; a run-time panic is a value too. State is
  passed explicitly, and a mutex only makes an operation atomic, except the write lock of \<open>Storage\<close>, which is part of the state. Libraries, the database, the operating system, clocks and
  random numbers are parameters, with what is assumed of them stated in the theorem.

  \<^bold>\<open>Library.\<close> \<open>Aleph_Prelude\<close> (strings, decimal numbers, errors), \<open>Go_Strings\<close> (replacement), \<open>Go_Regexp\<close> (regular expressions: a relation, and a
  matcher proved equivalent to it), \<open>Go_Strconv\<close> (\<^verbatim>\<open>ParseFloat\<close>, \<^verbatim>\<open>Atoi\<close>), \<open>Go_Net\<close> and \<open>Go_Url\<close> (addresses, networks, URLs), \<open>Go_Base64\<close> (encoding and
  its inverse, over an alphabet given by the locale \<open>base64_alphabet\<close>), \<open>Sql_Lexer\<close> (a lexer for SQL and the locale \<open>sql_quoting\<close>).

  \<^bold>\<open>SQL.\<close> \<open>Safeident\<close> models \<^verbatim>\<open>safeident\<close>: validated names and quoted strings are single tokens, and accepted paths stay below their root. \<open>Dsl_Compiler\<close>
  models \<^verbatim>\<open>dsl\<close> (syntax tree, input filter, compiler): the generated statement is lexed to exactly the tokens of the intended one, so no
  input ends a string or a statement; when compilation succeeds; and where GROUP BY goes wrong.

  \<^bold>\<open>Decision engine.\<close> \<open>Decision\<close> models \<^verbatim>\<open>decision\<close> and the link prediction of \<^verbatim>\<open>gnn\<close>; \<open>Decision_Facts\<close> shows that ordering a plan permutes its steps and
  respects dependencies, that trust is the success rate, and what reflection concludes.

  \<^bold>\<open>Failure handling.\<close> \<open>Breakers\<close> models the circuit breakers of \<^verbatim>\<open>middleware\<close>, \<^verbatim>\<open>api/handler\<close> and \<^verbatim>\<open>llm\<close> behind the locale \<open>failure_counting\<close>, with the cache
  and the retries of the model provider. \<open>Interceptors\<close> models retries, bulkheads, annotations, CORS and CSRF, with the bound on concurrent calls in
  \<open>Interceptors_Facts\<close>. \<open>Rate_Limit\<close> models \<^verbatim>\<open>middleware/ratelimit.go\<close>; \<open>Rate_Limit_Facts\<close> has the locale \<open>rate_limit_store\<close>, the bound per window, what the
  announced waiting time is worth, and the way around the limit of the RPC limiter.

  \<^bold>\<open>Access.\<close> \<open>Ssrf\<close> models \<^verbatim>\<open>ssrf\<close>: which forms of host are refused, that accepted URLs resolve outside the ten listed networks, what those miss, and
  that the dialler resolves again. \<open>Auth\<close> models \<^verbatim>\<open>auth\<close> and the
  authentication of \<^verbatim>\<open>middleware\<close>; \<open>Auth_Facts\<close> has the round trips of hashes and tokens, revocation, and who reaches administrative procedures.
  \<open>Cursor\<close> models page cursors.

  \<^bold>\<open>Sandbox.\<close> \<open>Sandbox\<close> models the static guards of \<^verbatim>\<open>sandbox\<close> and \<open>Sandbox_Exec\<close> its executors; \<open>Sandbox_Facts\<close> characterises the accepted command lines, shows
  that only validated code is started, that the Python validator can be evaded, and that the system call filter, where the
  kernel takes it, stops the server from starting tools.

  \<^bold>\<open>Repair.\<close> \<open>Repair_Fixes\<close> has the code transformations of \<^verbatim>\<open>repair/repair.go\<close>, \<open>Repair\<close> the engine and its history over an explicit store of tool code;
  \<open>Repair_Facts\<close> shows that a plan made by the engine never changes a tool, and when it reports success.

  \<^bold>\<open>Generated tools.\<close> \<open>Tool_Templates\<close> and \<open>Tool_Compiler\<close> model \<^verbatim>\<open>dsl/compiler_tool.go\<close>: the templates, the texts made from them, validation, scan, test and
  registration. \<open>Tool_Compiler_Facts\<close> shows that a description can put lines of code into a tool, and that a generated Go tool is run as Python.

  \<^bold>\<open>Stores.\<close> \<open>Storage\<close> models the project schemas and the transactions of \<^verbatim>\<open>storage\<close> with begin, commit, rollback and the write lock as
  the code has them, each of which can fail (\<open>ExecTx\<close> ends, commits or leaves the data, and frees the lock unless the function panics). \<open>Key_Encryption\<close> models \<^verbatim>\<open>crypto\<close> over a cipher with
  one law; \<open>Tool_Cache\<close> the caches of \<^verbatim>\<open>repository/cache.go\<close> and \<^verbatim>\<open>api/handler/program_cache.go\<close>, again through \<open>lossy_store\<close>. \<open>Metadata\<close> models every operation of
  \<^verbatim>\<open>repository/metadata.go\<close> and \<^verbatim>\<open>repository/ontology.go\<close> on a record of tables with keys, where each statement can fail, a row of tools can have
  nulls and a list can break off; \<open>Migrate\<close> models \<^verbatim>\<open>migrate\<close>: the recorded versions are those whose files were executed. \<open>Metadata_Facts\<close> shows that
  every list of tools served while calls interleave at their statements was read from the table, and when it is the present one, that keys of agents come back, what a deleted project leaves, and that walking the pages of
  tools ends and sees each tool once if no row has nulls.

  \<^bold>\<open>Procedures.\<close> \<open>Files\<close> models paths, a tree of files and \<^verbatim>\<open>sanitizePath\<close>. \<open>Handlers\<close> models the procedures of agents, tools, skills, keys, tasks and channels over
  \<open>Metadata\<close>, \<open>Projects\<close> those of projects and libraries over \<open>Files\<close>, \<open>Storage\<close> and \<open>Metadata\<close>, \<open>Emergence\<close> the ontology made from tables, and \<open>Sessions\<close> the HTTP sessions over
  \<open>Auth\<close> (\<^verbatim>\<open>api/handler\<close>). \<open>Handlers_Facts\<close> composes them: a created key authenticates, a saved ontology is read back, an update of a listed agent
  destroys its key, an asset identifier reaches other projects, a refused project leaves folders. \<open>Emergence\<close> compares the generated
  text with the grammar in the tags of \<^verbatim>\<open>dsl/ast.go\<close>; \<open>Sessions\<close> shows that an ended session is still reported as valid.

  \<^bold>\<open>Services.\<close> \<open>Workflow\<close> models \<^verbatim>\<open>workflow\<close>; \<open>Tool_Registry\<close> models \<^verbatim>\<open>tools/registry.go\<close>; \<open>Suggestion\<close> models \<^verbatim>\<open>suggestion\<close>, whose engine uses its cache through
  the locale \<open>lossy_store\<close> over an embedder whose calls can fail or differ; \<open>Monitors\<close> models \<^verbatim>\<open>health\<close>, the subprocess monitor of \<^verbatim>\<open>mcp\<close> and the approvals of \<^verbatim>\<open>genesis\<close>; \<open>Diagnostic\<close> models \<^verbatim>\<open>diagnostic\<close>.

  \<^bold>\<open>Recursion and fuel.\<close> All functions are total. Loops over lists are structural. The depth-first search of \<open>Decision\<close> terminates because each call marks
  a step as visited. \<open>Count\<close> and the repetition of a regular expression take fuel equal to the length of the text, which is
  enough because each round consumes a byte; \<open>MatchString_iff\<close> and \<open>Count_single\<close> confirm it. The retry loops recurse on the attempts left.
  \<open>walk_pages\<close> takes the number of pages, and one more than the number of tools is enough by \<open>ListToolsCursor_walk\<close>.

  \<^bold>\<open>Not modelled.\<close> The handlers of chats, queries, streams and tool execution, generated message types (\<^verbatim>\<open>api/proto\<close>), ingestion and the clients of
  external services, the built-in tools, the audit log and the conversion of errors, wiring, configuration, telemetry, the web client and
  the Python service: they are input and output, generated, or calls of libraries whose results the models above take as
  parameters. Concurrency inside one operation is not modelled, except in the listing of tools, whose query, store and invalidation
  interleave in \<open>Metadata_Facts\<close>; interleavings of whole operations are (\<open>Breakers\<close>, \<open>Interceptors\<close>, \<open>Workflow\<close>, \<open>Storage\<close>).
\<close>

section \<open>Tables of the middleware\<close>

text \<open>The tables of the interceptors disagree on the sandbox. Of the procedures in the role table, exactly the two of the
  sandbox service get no subsystem annotation, because the annotation table lists the service
  under another package name.\<close>

theorem sandbox_procedures_unannotated:
  "{p \<in> fst ` set procedureRBAC. subsystem_annotation p = None} =
    {''/aleph.tool.v1.SandboxService/ExecuteTool'', ''/aleph.tool.v1.SandboxService/RunSkill''}"
proof -
  have "filter (\<lambda>p. subsystem_annotation p = None) (map fst procedureRBAC) =
    [''/aleph.tool.v1.SandboxService/ExecuteTool'', ''/aleph.tool.v1.SandboxService/RunSkill'']"
    by code_simp
  then have "set (filter (\<lambda>p. subsystem_annotation p = None) (map fst procedureRBAC)) =
    {''/aleph.tool.v1.SandboxService/ExecuteTool'', ''/aleph.tool.v1.SandboxService/RunSkill''}"
    by simp
  then show ?thesis by auto
qed

section \<open>Health and diagnosis\<close>

text \<open>
  The diagnostic monitor asks the health checker about a component: once the last check of a tool found it down or degraded, every
  error of that tool counts as correlated, whatever the alert count.
\<close>

theorem failed_check_correlates:
  assumes "hr_Status r = StatusDown \<or> hr_Status r = StatusDegraded" "ep_Component p \<noteq> []" "0 < hs_maxLen s"
  shows "CorrelateWithHealth (Some (\<lambda>i. (ConsecutiveFailures (Add s (ep_Component p) r) i, GetLatestStatus (Add s (ep_Component p) r) i))) dm p"
proof -
  let ?rs = "tool_records (Add s (ep_Component p) r) (ep_Component p)"
  have "?rs = drop (length (tool_records s (ep_Component p)) + 1 - hs_maxLen s) (tool_records s (ep_Component p)) @ [r\<lparr>hr_ToolID := ep_Component p\<rparr>]"
    using assms(3) by (simp add: tool_records_Add Let_def)
  then have "GetLatestStatus (Add s (ep_Component p) r) (ep_Component p) = hr_Status r"
    by (simp add: GetLatestStatus_def health_GetHistory_def)
  with assms(1,2) show ?thesis by (auto simp: CorrelateWithHealth_def health_status)
qed

end
